(* ===== verification/Go_Prelude.thy ===== *)
theory Go_Prelude
  imports Main "HOL-Library.Char_ord" "HOL-Library.List_Lexorder" "HOL-Library.AList"
    "HOL-Library.Sublist" "HOL-Library.Multiset"
begin

text \<open>
  Shared vocabulary of the development: what the Go sources of VEGM use of the language and
  of its standard library.
  A Go \<^verbatim>\<open>string\<close> is a byte sequence, hence a HOL \<open>string\<close> (a list of 8-bit characters);
  a Go \<^verbatim>\<open>int\<close> or \<^verbatim>\<open>int64\<close> is an \<open>int\<close> whose wrap-around is written out with \<open>wrap64\<close>
  where a computation can leave the 64-bit range; a \<^verbatim>\<open>time.Time\<close> is the number of
  nanoseconds since Go's zero time, so that \<^verbatim>\<open>IsZero\<close> is equality with 0; a Go map is an
  association list in the order in which a \<^verbatim>\<open>range\<close> loop meets its keys (Go leaves that
  order open, so a result that must not depend on it is proved invariant under it);
  a function that returns \<^verbatim>\<open>(T, error)\<close> returns \<open>error + T\<close>, with \<open>Inl\<close> the error message.
\<close>

named_theorems go_simps \<open>equations of the standard-library models\<close>
named_theorems err_simps \<open>when a validator reports no error\<close>
named_theorems frame_simps \<open>what an operation leaves unchanged\<close>
named_theorems core_simps \<open>operations that keep the part of the state an invariant is about\<close>

type_synonym error = string
type_synonym 'a result = "error + 'a"
type_synonym time = int
type_synonym duration = int
type_synonym 'v go_map = "(string \<times> 'v) list"

text \<open>
  The outcome of decoding a JSON body into a Go struct: the struct as the decoder left it
  (zero-valued or partly filled when it failed) and the decoder's error, if any.
\<close>

type_synonym 'r decoded = "'r \<times> error option"

text \<open>A JSON value, as \<^verbatim>\<open>any\<close> holds it; \<open>JInt\<close> is a number whose marshalled text is an
  integer literal, \<open>JNum\<close> any other number, given by the text \<^verbatim>\<open>fmt\<close> prints for it.\<close>

datatype json =
    JNull
  | JBool bool
  | JInt int
  | JNum string
  | JStr string
  | JArr "json list"
  | JObj "(string \<times> json) list"

section \<open>Integers and time\<close>

text \<open>Two's complement wrap-around of Go's 64-bit signed integers.\<close>

definition wrap64 :: "int \<Rightarrow> int" where
  "wrap64 n = (n + 2 ^ 63) mod 2 ^ 64 - 2 ^ 63"

definition int64_range :: "int \<Rightarrow> bool" where
  "int64_range n \<longleftrightarrow> - (2 ^ 63) \<le> n \<and> n < 2 ^ 63"

definition IsZero :: "time \<Rightarrow> bool" where
  "IsZero t \<longleftrightarrow> t = 0"

text \<open>\<^verbatim>\<open>t.Sub(u)\<close> saturates at the range of \<^verbatim>\<open>time.Duration\<close>.\<close>

definition time_Sub :: "time \<Rightarrow> time \<Rightarrow> duration" where
  "time_Sub t u = max (- (2 ^ 63)) (min (2 ^ 63 - 1) (t - u))"

text \<open>\<^verbatim>\<open>time.Duration(ms) * time.Millisecond\<close>, a 64-bit product.\<close>

definition Milliseconds_duration :: "int \<Rightarrow> duration" where
  "Milliseconds_duration ms = wrap64 (ms * 1000000)"

text \<open>\<^verbatim>\<open>t.UnixNano()\<close>: nanoseconds since 1970, in 64 bits.\<close>

definition UnixNano :: "time \<Rightarrow> int" where
  "UnixNano t = wrap64 (t - 62135596800 * 1000000000)"

lemma wrap64_id [simp]: "int64_range n \<Longrightarrow> wrap64 n = n"
  by (simp add: wrap64_def int64_range_def)

lemma wrap64_range: "int64_range (wrap64 n)"
  by (simp add: wrap64_def int64_range_def)

section \<open>Strings\<close>

fun firstNonEmpty :: "string list \<Rightarrow> string" where
  "firstNonEmpty [] = []"
| "firstNonEmpty (v # vs) = (if v \<noteq> [] then v else firstNonEmpty vs)"

definition digit_char :: "nat \<Rightarrow> char" where
  "digit_char n = char_of (48 + n)"

text \<open>Decimal output, \<^verbatim>\<open>%d\<close>.\<close>

fun show_nat :: "nat \<Rightarrow> string" where
  "show_nat n = (if n < 10 then [digit_char n] else show_nat (n div 10) @ [digit_char (n mod 10)])"

declare show_nat.simps [simp del]

definition show_int :: "int \<Rightarrow> string" where
  "show_int n = (if n < 0 then CHR ''-'' # show_nat (nat (- n)) else show_nat (nat n))"

text \<open>\<^verbatim>\<open>%q\<close> on ASCII text; bytes above 127 (parts of printable UTF-8 text) are kept.\<close>

definition hex_char :: "nat \<Rightarrow> char" where
  "hex_char n = (if n < 10 then char_of (48 + n) else char_of (87 + n))"

definition quote_char :: "char \<Rightarrow> string" where
  "quote_char c = (let n = of_char c :: nat in
     if c = CHR 0x22 then [CHR 0x5C, CHR 0x22]
     else if c = CHR 0x5C then [CHR 0x5C, CHR 0x5C]
     else if n = 7 then [CHR 0x5C, CHR ''a'']
     else if n = 8 then [CHR 0x5C, CHR ''b'']
     else if n = 9 then [CHR 0x5C, CHR ''t'']
     else if n = 10 then [CHR 0x5C, CHR ''n'']
     else if n = 11 then [CHR 0x5C, CHR ''v'']
     else if n = 12 then [CHR 0x5C, CHR ''f'']
     else if n = 13 then [CHR 0x5C, CHR ''r'']
     else if n < 32 \<or> n = 127 then [CHR 0x5C, CHR ''x'', hex_char (n div 16), hex_char (n mod 16)]
     else [c])"

definition go_quote :: "string \<Rightarrow> string" where
  "go_quote s = CHR 0x22 # concat (map quote_char s) @ [CHR 0x22]"

text \<open>
  \<^verbatim>\<open>strings.TrimSpace\<close>: the UTF-8 encodings of the code points \<^verbatim>\<open>unicode.IsSpace\<close> accepts.
  A code point is at the front (or at the back) of a byte string exactly when its encoding is a
  prefix (or a suffix), so trimming encodings is trimming code points.
\<close>

definition space_encodings :: "string list" where
  "space_encodings =
     [[CHR 0x09], [CHR 0x0A], [CHR 0x0B], [CHR 0x0C], [CHR 0x0D], [CHR 0x20],
      [CHR 0xC2, CHR 0x85], [CHR 0xC2, CHR 0xA0], [CHR 0xE1, CHR 0x9A, CHR 0x80]] @
     map (\<lambda>b. [CHR 0xE2, CHR 0x80, b])
       [CHR 0x80, CHR 0x81, CHR 0x82, CHR 0x83, CHR 0x84, CHR 0x85, CHR 0x86, CHR 0x87,
        CHR 0x88, CHR 0x89, CHR 0x8A, CHR 0xA8, CHR 0xA9, CHR 0xAF] @
     [[CHR 0xE2, CHR 0x81, CHR 0x9F], [CHR 0xE3, CHR 0x80, CHR 0x80]]"

function trim_left_with :: "string list \<Rightarrow> string \<Rightarrow> string" where
  "trim_left_with ws s =
     (case find (\<lambda>w. w \<noteq> [] \<and> prefix w s) ws of
        None \<Rightarrow> s
      | Some w \<Rightarrow> trim_left_with ws (drop (length w) s))"
  by pat_completeness auto
termination
proof (relation "measure (\<lambda>(ws, s). length s)")
  fix ws and s w :: string
  assume "find (\<lambda>w. w \<noteq> [] \<and> prefix w s) ws = Some w"
  then have "w \<noteq> []" "prefix w s"
    by (auto simp: find_Some_iff)
  then show "((ws, drop (length w) s), ws, s) \<in> measure (\<lambda>(ws, s). length s)"
    by (auto simp: prefix_def)
qed simp

declare trim_left_with.simps [simp del]

definition TrimSpace :: "string \<Rightarrow> string" where
  "TrimSpace s =
     rev (trim_left_with (map rev space_encodings) (rev (trim_left_with space_encodings s)))"

text \<open>
  \<^verbatim>\<open>strings.ToLower\<close> and the fold of \<^verbatim>\<open>strings.EqualFold\<close>. Both are exact when the text that the
  result is compared with is ASCII, as every literal of the sources is: beside the ASCII
  letters, the only code points whose lower case is ASCII are U+0130 and U+212A, and the only
  ones that fold to ASCII are U+017F and U+212A.
\<close>

definition ascii_lower :: "char \<Rightarrow> char" where
  "ascii_lower c =
     (let n = of_char c :: nat in if 65 \<le> n \<and> n \<le> 90 then char_of (n + 32) else c)"

fun ToLower :: "string \<Rightarrow> string" where
  "ToLower [] = []"
| "ToLower (a # s) =
     (if prefix [CHR 0xC4, CHR 0xB0] (a # s) then CHR ''i'' # ToLower (drop 1 s)
      else if prefix [CHR 0xE2, CHR 0x84, CHR 0xAA] (a # s) then CHR ''k'' # ToLower (drop 2 s)
      else ascii_lower a # ToLower s)"

fun fold_case :: "string \<Rightarrow> string" where
  "fold_case [] = []"
| "fold_case (a # s) =
     (if prefix [CHR 0xC5, CHR 0xBF] (a # s) then CHR ''s'' # fold_case (drop 1 s)
      else if prefix [CHR 0xE2, CHR 0x84, CHR 0xAA] (a # s) then CHR ''k'' # fold_case (drop 2 s)
      else ascii_lower a # fold_case s)"

definition EqualFold :: "string \<Rightarrow> string \<Rightarrow> bool" where
  "EqualFold s t \<longleftrightarrow> fold_case s = fold_case t"

abbreviation HasPrefix :: "string \<Rightarrow> string \<Rightarrow> bool" where
  "HasPrefix s p \<equiv> prefix p s"

abbreviation HasSuffix :: "string \<Rightarrow> string \<Rightarrow> bool" where
  "HasSuffix s p \<equiv> suffix p s"

definition TrimSuffix :: "string \<Rightarrow> string \<Rightarrow> string" where
  "TrimSuffix s p = (if HasSuffix s p then take (length s - length p) s else s)"

definition TrimPrefix :: "string \<Rightarrow> string \<Rightarrow> string" where
  "TrimPrefix s p = (if HasPrefix s p then drop (length p) s else s)"

text \<open>\<^verbatim>\<open>strings.Index\<close>: the first position at which \<open>sub\<close> occurs.\<close>

fun strings_Index :: "string \<Rightarrow> string \<Rightarrow> nat option" where
  "strings_Index [] sub = (if sub = [] then Some 0 else None)"
| "strings_Index (c # s) sub = (if prefix sub (c # s) then Some 0 else map_option Suc (strings_Index s sub))"

definition Contains :: "string \<Rightarrow> string \<Rightarrow> bool" where
  "Contains s sub \<longleftrightarrow> strings_Index s sub \<noteq> None"

text \<open>\<^verbatim>\<open>strings.ReplaceAll\<close> for a non-empty \<open>old\<close>, the only use in the sources: occurrences are
  replaced from left to right and the replacement is not scanned again.\<close>

function ReplaceAll :: "string \<Rightarrow> string \<Rightarrow> string \<Rightarrow> string" where
  "ReplaceAll [] old new = []"
| "ReplaceAll (c # s) old new =
     (if old \<noteq> [] \<and> prefix old (c # s)
      then new @ ReplaceAll (drop (length old - 1) s) old new
      else c # ReplaceAll s old new)"
  by pat_completeness auto
termination
  by (relation "measure (\<lambda>(s, old, new). length s)") auto

fun join_with :: "string \<Rightarrow> string list \<Rightarrow> string" where
  "join_with sep [] = []"
| "join_with sep [s] = s"
| "join_with sep (s # t # ss) = s @ sep @ join_with sep (t # ss)"

text \<open>The text before the first \<open>sep\<close>: \<^verbatim>\<open>strings.Split(s, sep)[0]\<close> for a one-byte separator.\<close>

abbreviation split_first :: "char \<Rightarrow> string \<Rightarrow> string" where
  "split_first sep s \<equiv> takeWhile (\<lambda>c. c \<noteq> sep) s"

section \<open>Maps\<close>

definition go_get :: "string go_map \<Rightarrow> string \<Rightarrow> string" where
  "go_get m k = (case map_of m k of None \<Rightarrow> [] | Some v \<Rightarrow> v)"

abbreviation go_set :: "string \<Rightarrow> 'v \<Rightarrow> 'v go_map \<Rightarrow> 'v go_map" where
  "go_set k v m \<equiv> AList.update k v m"

abbreviation go_delete :: "string \<Rightarrow> 'v go_map \<Rightarrow> 'v go_map" where
  "go_delete k m \<equiv> AList.delete k m"

text \<open>\<^verbatim>\<open>fmt.Sprintf("%s:%d", host, port)\<close>, the form of every bind address.\<close>

definition host_port :: "string \<Rightarrow> int \<Rightarrow> string" where
  "host_port h p = h @ CHR '':'' # show_int p"

text \<open>
  The common ending of the validators: the collected messages are sorted and joined into one
  error; no message means success.
\<close>

definition collect_errors :: "string \<Rightarrow> string list \<Rightarrow> unit result" where
  "collect_errors header errs =
     (if errs \<noteq> [] then Inl (header @ CHR 0x0A # ''- '' @ join_with (CHR 0x0A # ''- '') (sort errs))
      else Inr ())"

abbreviation err_if :: "bool \<Rightarrow> string \<Rightarrow> string list" where
  "err_if b msg \<equiv> (if b then [msg] else [])"

section \<open>Lemmas\<close>

subsection \<open>Layered defaults\<close>

lemma firstNonEmpty_append:
  "firstNonEmpty (xs @ ys) = (if firstNonEmpty xs \<noteq> [] then firstNonEmpty xs else firstNonEmpty ys)"
  by (induction xs) auto

lemma firstNonEmpty_eq_Nil [simp]: "firstNonEmpty vs = [] \<longleftrightarrow> (\<forall>v \<in> set vs. v = [])"
  by (induction vs) auto

lemma firstNonEmpty_mem: "firstNonEmpty vs \<noteq> [] \<Longrightarrow> firstNonEmpty vs \<in> set vs"
  by (induction vs) auto

subsection \<open>Decimal output\<close>

lemma digit_char_inj: "m < 10 \<Longrightarrow> n < 10 \<Longrightarrow> digit_char m = digit_char n \<Longrightarrow> m = n"
  by (simp add: digit_char_def)

lemma show_nat_nonempty [simp]: "show_nat n \<noteq> []"
  by (subst show_nat.simps) simp

lemma digit_char_code: "n < 10 \<Longrightarrow> (of_char (digit_char n) :: nat) = 48 + n"
  by (simp add: digit_char_def)

lemma show_nat_digits: "c \<in> set (show_nat n) \<Longrightarrow> 48 \<le> (of_char c :: nat) \<and> (of_char c :: nat) \<le> 57"
proof (induction n rule: show_nat.induct)
  case (1 n)
  show ?case
  proof (cases "n < 10")
    case True
    with "1.prems" show ?thesis by (simp add: show_nat.simps [of n] digit_char_code)
  next
    case False
    with "1.prems" have "c \<in> set (show_nat (n div 10)) \<or> c = digit_char (n mod 10)"
      by (auto simp: show_nat.simps [of n])
    with False "1.IH" show ?thesis by (auto simp: digit_char_code)
  qed
qed

lemma show_nat_inj: "show_nat m = show_nat n \<Longrightarrow> m = n"
proof (induction m arbitrary: n rule: show_nat.induct)
  case (1 m)
  consider "m < 10" "n < 10" | "m < 10" "\<not> n < 10" | "\<not> m < 10" "n < 10" | "\<not> m < 10" "\<not> n < 10"
    by blast
  then show ?case
  proof cases
    case 4
    with "1.prems" have "show_nat (m div 10) = show_nat (n div 10)"
      and "digit_char (m mod 10) = digit_char (n mod 10)"
      by (simp_all add: show_nat.simps [of m] show_nat.simps [of n])
    with 4 "1.IH" have "m div 10 = n div 10" "m mod 10 = n mod 10"
      by (auto intro: digit_char_inj)
    then show ?thesis by (metis div_mod_decomp)
  qed (use "1.prems" digit_char_inj in
      \<open>auto simp: show_nat.simps [of m] show_nat.simps [of n] append_eq_Cons_conv Cons_eq_append_conv\<close>)
qed

lemma minus_not_digit [simp]: "CHR ''-'' \<notin> set (show_nat n)"
  using show_nat_digits by fastforce

lemma colon_not_digit [simp]: "CHR '':'' \<notin> set (show_nat n)"
  using show_nat_digits by fastforce

lemma show_int_nonempty [simp]: "show_int n \<noteq> []"
  by (simp add: show_int_def)

lemma colon_not_in_show_int [simp]: "CHR '':'' \<notin> set (show_int n)"
  by (simp add: show_int_def)

lemma show_int_inj: "show_int m = show_int n \<Longrightarrow> m = n"
proof -
  assume eq: "show_int m = show_int n"
  have *: "CHR ''-'' # xs \<noteq> show_nat k" for xs k
    by (metis list.set_intros(1) minus_not_digit)
  show "m = n"
    using eq * * [symmetric]
    by (auto simp: show_int_def dest!: show_nat_inj split: if_splits)
qed

lemma split_at_last:
  assumes "xs @ c # ys = xs' @ c # ys'" "c \<notin> set ys" "c \<notin> set ys'"
  shows "xs = xs' \<and> ys = ys'"
proof -
  have "rev ys @ c # rev xs = rev ys' @ c # rev xs'"
    using arg_cong [OF assms(1), of rev] by simp
  moreover have "takeWhile (\<lambda>d. d \<noteq> c) (rev zs @ c # us) = rev zs" if "c \<notin> set zs" for zs us
    using that by (subst takeWhile_append2) auto
  ultimately have "rev ys = rev ys'"
    using assms(2,3) by metis
  with assms(1) show ?thesis by simp
qed

lemma host_port_inj: "host_port h p = host_port h' p' \<longleftrightarrow> h = h' \<and> p = p'"
  using split_at_last [of h "CHR '':''" "show_int p" h' "show_int p'"]
  by (auto simp: host_port_def dest: show_int_inj)

subsection \<open>Collected errors\<close>

lemma collect_errors_Inr [simp]: "collect_errors h es = Inr () \<longleftrightarrow> es = []"
  by (simp add: collect_errors_def)

lemma collect_errors_Inl: "(\<exists>m. collect_errors h es = Inl m) \<longleftrightarrow> es \<noteq> []"
  by (simp add: collect_errors_def)

lemma sort_mset_cong: "mset xs = mset ys \<Longrightarrow> sort xs = sort ys"
  by (metis sorted_list_of_multiset_mset)

lemma collect_errors_mset: "mset es = mset es' \<Longrightarrow> collect_errors h es = collect_errors h es'"
  by (auto simp: collect_errors_def dest: sort_mset_cong)

lemma err_if_Nil [err_simps]: "err_if b m = [] \<longleftrightarrow> \<not> b"
  by simp

lemma concat_map_Nil [err_simps]: "concat (map f xs) = [] \<longleftrightarrow> (\<forall>x \<in> set xs. f x = [])"
  by simp

lemma concat_enumerate_Nil:
  assumes "\<And>i x. f i x = [] \<longleftrightarrow> P x"
  shows "concat (map (\<lambda>(i, x). f i x) (enumerate n xs)) = [] \<longleftrightarrow> (\<forall>x \<in> set xs. P x)"
proof (induction xs arbitrary: n)
  case Nil
  show ?case by simp
next
  case (Cons x xs)
  have "concat (map (\<lambda>(i, x). f i x) (enumerate n (x # xs))) = [] \<longleftrightarrow>
    f n x = [] \<and> concat (map (\<lambda>(i, x). f i x) (enumerate (Suc n) xs)) = []"
    by (simp del: concat_eq_Nil_conv)
  also have "\<dots> \<longleftrightarrow> P x \<and> (\<forall>x \<in> set xs. P x)"
    by (simp only: assms Cons.IH)
  finally show ?case by simp
qed

lemma concat_pairs_Nil:
  assumes "\<And>k v. f k v = [] \<longleftrightarrow> P k v"
  shows "concat (map (\<lambda>(k, v). f k v) xs) = [] \<longleftrightarrow> (\<forall>(k, v) \<in> set xs. P k v)"
  by (induction xs) (auto simp: assms)

text \<open>
  The contract of the validators of packs, overlays and fleet manifests: a nil argument is an
  error, the messages are collected and sorted, and no message means well-formed.
\<close>

locale validator =
  fixes errs :: "'a \<Rightarrow> string list"
    and header :: string
    and validate :: "'a option \<Rightarrow> unit result"
    and wf :: "'a \<Rightarrow> bool"
  assumes validate_nil: "\<exists>m. validate None = Inl m"
    and validate_collects: "validate (Some x) = collect_errors header (errs x)"
    and errs_wf: "errs x = [] \<longleftrightarrow> wf x"
begin

lemma accepts_iff: "validate p = Inr u \<longleftrightarrow> (\<exists>x. p = Some x \<and> wf x)"
  using validate_nil by (cases p) (auto simp: validate_collects errs_wf)

lemma rejects_iff: "(\<exists>m. validate (Some x) = Inl m) \<longleftrightarrow> \<not> wf x"
  by (simp add: validate_collects collect_errors_Inl errs_wf)

lemma order_independent:
  "mset (errs x) = mset (errs y) \<Longrightarrow> validate (Some x) = validate (Some y)"
  unfolding validate_collects by (rule collect_errors_mset)

end

subsection \<open>Step systems\<close>

text \<open>A component whose states are reached by steps from its initial states, and a predicate
  that holds at the start and is kept by every step.\<close>

locale step_system =
  fixes init :: "'s \<Rightarrow> bool"
    and step :: "'s \<Rightarrow> 's \<Rightarrow> bool"
    and inv :: "'s \<Rightarrow> bool"
  assumes init_inv: "init s \<Longrightarrow> inv s"
    and step_inv: "step s s' \<Longrightarrow> inv s \<Longrightarrow> inv s'"
begin

lemma steps_inv: "step\<^sup>*\<^sup>* s s' \<Longrightarrow> inv s \<Longrightarrow> inv s'"
  by (induction rule: rtranclp_induct) (auto intro: step_inv)

lemma reachable_inv: "init s \<Longrightarrow> step\<^sup>*\<^sup>* s s' \<Longrightarrow> inv s'"
  by (blast intro: steps_inv init_inv)

end

subsection \<open>Searching and replacing\<close>

lemma strings_Index_Some_split:
  "strings_Index s sub = Some i \<Longrightarrow> \<exists>post. s = take i s @ sub @ post \<and> i + length sub \<le> length s"
proof (induction s arbitrary: i)
  case Nil
  then show ?case by (auto split: if_splits)
next
  case (Cons c s)
  show ?case
  proof (cases "prefix sub (c # s)")
    case True
    with Cons.prems show ?thesis using prefix_length_le [OF True] by (auto simp: prefix_def)
  next
    case False
    with Cons.prems obtain j where "i = Suc j" "strings_Index s sub = Some j" by auto
    with Cons.IH [of j] show ?thesis by auto
  qed
qed

lemma strings_Index_None: "strings_Index s sub = None \<longleftrightarrow> \<not> sublist sub s"
  by (induction s) (auto simp: sublist_Cons_right)

lemma Contains_sublist: "Contains s sub \<longleftrightarrow> sublist sub s"
  by (simp add: Contains_def strings_Index_None)

lemma ReplaceAll_absent: "\<not> sublist old s \<Longrightarrow> ReplaceAll s old new = s"
  by (induction s old new rule: ReplaceAll.induct) (auto simp: sublist_Cons_right)

subsection \<open>Trimming\<close>

lemma TrimSpace_Nil [simp]: "TrimSpace [] = []"
proof -
  have *: "trim_left_with ws [] = []" for ws
  proof -
    have "find (\<lambda>w. w \<noteq> [] \<and> prefix w []) ws = None"
      by (auto simp: find_None_iff)
    then show ?thesis by (simp add: trim_left_with.simps [of ws "[]"])
  qed
  show ?thesis by (simp add: TrimSpace_def *)
qed

end
