(* ===== verification/Config.thy ===== *)
theory Config
  imports Go_Prelude
begin

text \<open>
  The runtime configuration (\<^verbatim>\<open>src/runtime/config.go\<close>) and the process-wide registry of XML
  modes it feeds (\<^verbatim>\<open>xml_mode_registry.go\<close>). \<^verbatim>\<open>ValidateConfig\<close> fills in defaults as it checks,
  so it returns the completed configuration, together with the registry it may have written
  before a later check failed. \<open>parse_url\<close> stands for \<^verbatim>\<open>net/url.Parse\<close>; every statement about
  validation holds for any such parser.
\<close>

section \<open>Types\<close>

record EGMEndpointConfig =
  ee_Scheme :: string
  ee_BindIP :: string
  ee_Host :: string
  ee_Port :: int
  ee_Path :: string

record HostEndpointConfig =
  he_URL :: string

record G2SXMLConfig =
  gx_Mode :: string
  gx_Namespace :: string
  gx_EGMLocation :: string

record SessionEngineConfig =
  se_Enabled :: bool
  se_AutoStart :: bool
  se_CommsOnlineTimeoutMS :: int
  se_KeepAliveIntervalMS :: int
  se_ReconnectIntervalMS :: int
  se_AcceptWrappedG2SResponseAck :: bool

record ListenConfig =
  li_Host :: string
  li_Port :: int

record SecurityConfig =
  sc_TrustMode :: string
  sc_CertFile :: string
  sc_KeyFile :: string
  sc_CAFile :: string

record LoggingConfig =
  lo_Dir :: string
  lo_CaptureRawXML :: bool
  lo_CaptureRenderedXML :: bool

record StorageConfig =
  st_Backend :: string
  st_SQLitePath :: string

record ControlConfig =
  co_Bind :: string

record OutboundSchedulerConfig =
  os_Enabled :: bool
  os_AutoStart :: bool
  os_OpenSessionOnStart :: bool
  os_HeartbeatIntervalMS :: int
  os_OpenRetryIntervalMS :: int
  os_FailureThreshold :: int
  os_RunHeartbeatWhenIdle :: bool

record OutboundConfig =
  ob_DefaultTargetURL :: string
  ob_ServerName :: string
  ob_Path :: string
  ob_TimeoutMS :: int
  ob_UseRuntimeCerts :: bool
  ob_Scheduler :: OutboundSchedulerConfig

record Config =
  c_InstanceID :: string
  c_HostID :: string
  c_EGMID :: string
  c_EGMEndpoint :: EGMEndpointConfig
  c_HostEndpoint :: HostEndpointConfig
  c_G2SXML :: G2SXMLConfig
  c_SessionEngine :: SessionEngineConfig
  c_Listen :: ListenConfig
  c_Security :: SecurityConfig
  c_Logging :: LoggingConfig
  c_Storage :: StorageConfig
  c_Control :: ControlConfig
  c_Outbound :: OutboundConfig
  c_PackFile :: string
  c_Overlay :: "string list"
  c_Notes :: "string go_map"

text \<open>What \<^verbatim>\<open>url.Parse\<close> returns that the sources read.\<close>

record URL =
  u_Scheme :: string
  u_Host :: string
  u_Path :: string

type_synonym url_parser = "string \<Rightarrow> URL result"

section \<open>XML mode registry (xml_mode_registry.go)\<close>

record xmlModeInfo =
  xm_Mode :: string
  xm_Namespace :: string
  xm_EGMLocation :: string

type_synonym xml_registry = "string \<rightharpoonup> xmlModeInfo"

definition rememberXMLModeInfo :: "string \<Rightarrow> G2SXMLConfig \<Rightarrow> xml_registry \<Rightarrow> xml_registry" where
  "rememberXMLModeInfo instanceID info reg =
     (if instanceID = [] then reg
      else reg(instanceID \<mapsto>
        \<lparr>xm_Mode = gx_Mode info, xm_Namespace = gx_Namespace info,
         xm_EGMLocation = gx_EGMLocation info\<rparr>))"

definition xmlModeInfoForInstance :: "xml_registry \<Rightarrow> string \<Rightarrow> xmlModeInfo" where
  "xmlModeInfoForInstance reg instanceID =
     (case reg instanceID of
        None \<Rightarrow> \<lparr>xm_Mode = [], xm_Namespace = [], xm_EGMLocation = []\<rparr>
      | Some info \<Rightarrow> info)"

section \<open>Defaults and checks (config.go)\<close>

definition g2s_namespace :: string where
  "g2s_namespace = ''http://www.gamingstandards.com/g2s/schemas/v1.0.3''"

definition applyEndpointDefaults :: "Config \<Rightarrow> Config" where
  "applyEndpointDefaults cfg =
     (let ep = c_EGMEndpoint cfg;
          tm = sc_TrustMode (c_Security cfg);
          ep1 = (if ee_Scheme ep = []
                 then (if tm = ''plaintext_lab'' \<or> tm = [] then ep\<lparr>ee_Scheme := ''http''\<rparr>
                       else ep\<lparr>ee_Scheme := ''https''\<rparr>)
                 else ep);
          ep2 = (if ee_BindIP ep1 = []
                 then ep1\<lparr>ee_BindIP := firstNonEmpty [li_Host (c_Listen cfg), ''127.0.0.1'']\<rparr> else ep1);
          ep3 = (if ee_Host ep2 = [] then ep2\<lparr>ee_Host := ee_BindIP ep2\<rparr> else ep2);
          ep4 = (if ee_Port ep3 = 0 then ep3\<lparr>ee_Port := li_Port (c_Listen cfg)\<rparr> else ep3);
          ep5 = (if ee_Path ep4 = [] then ep4\<lparr>ee_Path := ''/g2s''\<rparr> else ep4);
          ob = c_Outbound cfg;
          ob1 = (if ob_DefaultTargetURL ob = [] \<and> he_URL (c_HostEndpoint cfg) \<noteq> []
                 then ob\<lparr>ob_DefaultTargetURL := he_URL (c_HostEndpoint cfg)\<rparr> else ob)
      in cfg\<lparr>c_EGMEndpoint := ep5, c_Outbound := ob1\<rparr>)"

definition applyG2SXMLDefaults :: "Config \<Rightarrow> Config" where
  "applyG2SXMLDefaults cfg =
     (let x = c_G2SXML cfg;
          ep = c_EGMEndpoint cfg;
          x1 = (if gx_Mode x = [] then x\<lparr>gx_Mode := ''lab_legacy_xml''\<rparr> else x);
          x2 = (if gx_Namespace x1 = [] then x1\<lparr>gx_Namespace := g2s_namespace\<rparr> else x1);
          x3 = (if gx_EGMLocation x2 = []
                then x2\<lparr>gx_EGMLocation := host_port (ee_Host ep) (ee_Port ep)\<rparr> else x2)
      in cfg\<lparr>c_G2SXML := x3\<rparr>)"

definition validateG2SXML :: "G2SXMLConfig \<Rightarrow> unit result" where
  "validateG2SXML x =
     (if gx_Mode x \<notin> {''lab_legacy_xml'', ''xsd_g2s_message''}
      then Inl (''unsupported g2s_xml.mode '' @ go_quote (gx_Mode x))
      else if gx_Namespace x = [] then Inl ''g2s_xml.namespace is required''
      else if gx_EGMLocation x = [] then Inl ''g2s_xml.egm_location is required''
      else Inr ())"

definition applySessionEngineDefaults :: "Config \<Rightarrow> Config" where
  "applySessionEngineDefaults cfg =
     (let s = c_SessionEngine cfg;
          s1 = (if se_CommsOnlineTimeoutMS s = 0 then s\<lparr>se_CommsOnlineTimeoutMS := 3000\<rparr> else s);
          s2 = (if se_KeepAliveIntervalMS s1 = 0 then s1\<lparr>se_KeepAliveIntervalMS := 5000\<rparr> else s1);
          s3 = (if se_ReconnectIntervalMS s2 = 0 then s2\<lparr>se_ReconnectIntervalMS := 5000\<rparr> else s2)
      in cfg\<lparr>c_SessionEngine := s3\<rparr>)"

definition validateEGMEndpoint :: "EGMEndpointConfig \<Rightarrow> unit result" where
  "validateEGMEndpoint ep =
     (if ee_Scheme ep \<noteq> ''http'' \<and> ee_Scheme ep \<noteq> ''https''
      then Inl ''egm_endpoint.scheme must be http or https''
      else if ee_BindIP ep = [] then Inl ''egm_endpoint.bind_ip is required''
      else if ee_Host ep = [] then Inl ''egm_endpoint.host is required''
      else if ee_Port ep \<le> 0 \<or> ee_Port ep > 65535
      then Inl ''egm_endpoint.port must be between 1 and 65535''
      else if ee_Path ep = [] \<or> hd (ee_Path ep) \<noteq> CHR ''/''
      then Inl ''egm_endpoint.path must start with /''
      else Inr ())"

definition validateHostEndpoint :: "url_parser \<Rightarrow> HostEndpointConfig \<Rightarrow> unit result" where
  "validateHostEndpoint parse_url ep =
     (if he_URL ep = [] then Inr ()
      else case parse_url (he_URL ep) of
        Inl e \<Rightarrow> Inl (''host_endpoint.url is invalid: '' @ e)
      | Inr u \<Rightarrow>
          if u_Scheme u \<noteq> ''http'' \<and> u_Scheme u \<noteq> ''https''
          then Inl ''host_endpoint.url scheme must be http or https''
          else if u_Host u = [] then Inl ''host_endpoint.url must include host''
          else if u_Path u = [] \<or> hd (u_Path u) \<noteq> CHR ''/''
          then Inl ''host_endpoint.url must include path''
          else Inr ())"

text \<open>The two \<^verbatim>\<open>switch\<close> statements that end \<^verbatim>\<open>ValidateConfig\<close>.\<close>

definition validateStorage :: "StorageConfig \<Rightarrow> unit result" where
  "validateStorage st =
     (if st_Backend st \<in> {[], ''noop''} then Inr ()
      else if st_Backend st = ''sqlite'' then
        (if st_SQLitePath st = []
         then Inl (''storage.sqlite_path is required when storage.backend is '' @ go_quote (st_Backend st))
         else Inr ())
      else Inl (''unsupported storage.backend '' @ go_quote (st_Backend st)))"

definition validateSecurity :: "SecurityConfig \<Rightarrow> unit result" where
  "validateSecurity sec =
     (let tm = sc_TrustMode sec in
      if tm = ''plaintext_lab'' then Inr ()
      else if tm \<in> {''tls_server_only'', ''strict_mtls'', ''mtls_no_revocation'', ''accept_all_lab''} then
        (if sc_CertFile sec = [] \<or> sc_KeyFile sec = []
         then Inl (''cert_file and key_file are required for trust mode '' @ go_quote tm)
         else if (tm = ''strict_mtls'' \<or> tm = ''mtls_no_revocation'') \<and> sc_CAFile sec = []
         then Inl (''ca_file is required for trust mode '' @ go_quote tm)
         else Inr ())
      else Inl (''unsupported trust_mode '' @ go_quote tm))"

definition validateOutbound :: "OutboundConfig \<Rightarrow> unit result" where
  "validateOutbound ob =
     (if ob_TimeoutMS ob < 0 then Inl ''outbound.timeout_ms must be >= 0''
      else if os_HeartbeatIntervalMS (ob_Scheduler ob) < 0
      then Inl ''outbound.scheduler.heartbeat_interval_ms must be >= 0''
      else if os_OpenRetryIntervalMS (ob_Scheduler ob) < 0
      then Inl ''outbound.scheduler.open_retry_interval_ms must be >= 0''
      else if os_FailureThreshold (ob_Scheduler ob) < 0
      then Inl ''outbound.scheduler.failure_threshold must be >= 0''
      else Inr ())"

definition applyListenDefaults :: "Config \<Rightarrow> Config" where
  "applyListenDefaults cfg =
     (let li = c_Listen cfg;
          li1 = (if li_Host li = [] then li\<lparr>li_Host := ee_BindIP (c_EGMEndpoint cfg)\<rparr> else li);
          li2 = (if li_Port li1 = 0 then li1\<lparr>li_Port := ee_Port (c_EGMEndpoint cfg)\<rparr> else li1)
      in cfg\<lparr>c_Listen := li2\<rparr>)"

definition ValidateConfig ::
    "url_parser \<Rightarrow> xml_registry \<Rightarrow> Config option \<Rightarrow> xml_registry \<times> Config result" where
  "ValidateConfig parse_url reg pc =
     (case pc of None \<Rightarrow> (reg, Inl ''config is nil'')
      | Some cfg0 \<Rightarrow>
        if c_InstanceID cfg0 = [] then (reg, Inl ''instance_id is required'')
        else let cfg1 = (if c_HostID cfg0 = []
              then cfg0\<lparr>c_HostID := firstNonEmpty [go_get (c_Notes cfg0) ''host_id'', ''HOST-001'']\<rparr>
              else cfg0) in
        if c_EGMID cfg1 = [] then (reg, Inl ''egm_id is required'')
        else let cfg2 = applySessionEngineDefaults (applyG2SXMLDefaults (applyEndpointDefaults cfg1)) in
        (case validateEGMEndpoint (c_EGMEndpoint cfg2) of Inl e \<Rightarrow> (reg, Inl e)
         | Inr _ \<Rightarrow>
        (case validateHostEndpoint parse_url (c_HostEndpoint cfg2) of Inl e \<Rightarrow> (reg, Inl e)
         | Inr _ \<Rightarrow>
        (case validateG2SXML (c_G2SXML cfg2) of Inl e \<Rightarrow> (reg, Inl e)
         | Inr _ \<Rightarrow>
         (rememberXMLModeInfo (c_InstanceID cfg2) (c_G2SXML cfg2) reg,
          if se_Enabled (c_SessionEngine cfg2) \<and> he_URL (c_HostEndpoint cfg2) = []
          then Inl ''host_endpoint.url is required when session_engine.enabled is true''
          else let cfg3 = applyListenDefaults cfg2 in
          if lo_Dir (c_Logging cfg3) = [] then Inl ''logging.dir is required''
          else let cfg4 = (if co_Bind (c_Control cfg3) = []
                then cfg3\<lparr>c_Control := (c_Control cfg3)\<lparr>co_Bind := ''127.0.0.1:0''\<rparr>\<rparr> else cfg3) in
          if c_PackFile cfg4 = [] then Inl ''pack_file is required''
          else case validateOutbound (c_Outbound cfg4) of Inl e \<Rightarrow> Inl e
          | Inr _ \<Rightarrow> (case validateStorage (c_Storage cfg4) of Inl e \<Rightarrow> Inl e
          | Inr _ \<Rightarrow> (case validateSecurity (c_Security cfg4) of Inl e \<Rightarrow> Inl e
          | Inr _ \<Rightarrow> Inr cfg4)))))))"

definition LoadConfig ::
    "(string \<Rightarrow> string result) \<Rightarrow> (string \<Rightarrow> Config result) \<Rightarrow> url_parser \<Rightarrow> xml_registry \<Rightarrow> string \<Rightarrow>
     xml_registry \<times> Config result" where
  "LoadConfig readFile unmarshal parse_url reg path =
     (case readFile path of
        Inl e \<Rightarrow> (reg, Inl (''read config '' @ go_quote path @ '': '' @ e))
      | Inr data \<Rightarrow>
        (case unmarshal data of
           Inl e \<Rightarrow> (reg, Inl (''decode config json: '' @ e))
         | Inr cfg \<Rightarrow> ValidateConfig parse_url reg (Some cfg)))"

section \<open>What validation establishes\<close>

definition endpoint_ok :: "EGMEndpointConfig \<Rightarrow> bool" where
  "endpoint_ok ep \<longleftrightarrow>
     ee_Scheme ep \<in> {''http'', ''https''} \<and> ee_BindIP ep \<noteq> [] \<and> ee_Host ep \<noteq> [] \<and>
     1 \<le> ee_Port ep \<and> ee_Port ep \<le> 65535 \<and> HasPrefix (ee_Path ep) ''/''"

definition host_url_ok :: "url_parser \<Rightarrow> HostEndpointConfig \<Rightarrow> bool" where
  "host_url_ok parse_url ep \<longleftrightarrow>
     he_URL ep = [] \<or>
     (\<exists>u. parse_url (he_URL ep) = Inr u \<and> u_Scheme u \<in> {''http'', ''https''} \<and> u_Host u \<noteq> [] \<and>
          HasPrefix (u_Path u) ''/'')"

definition security_ok :: "SecurityConfig \<Rightarrow> bool" where
  "security_ok sec \<longleftrightarrow>
     sc_TrustMode sec = ''plaintext_lab'' \<or>
     sc_CertFile sec \<noteq> [] \<and> sc_KeyFile sec \<noteq> [] \<and>
     (sc_TrustMode sec \<in> {''tls_server_only'', ''accept_all_lab''} \<or>
      sc_TrustMode sec \<in> {''strict_mtls'', ''mtls_no_revocation''} \<and> sc_CAFile sec \<noteq> [])"

definition config_ok :: "url_parser \<Rightarrow> Config \<Rightarrow> bool" where
  "config_ok parse_url cfg \<longleftrightarrow>
     c_InstanceID cfg \<noteq> [] \<and> c_HostID cfg \<noteq> [] \<and> c_EGMID cfg \<noteq> [] \<and>
     endpoint_ok (c_EGMEndpoint cfg) \<and>
     host_url_ok parse_url (c_HostEndpoint cfg) \<and>
     (ob_DefaultTargetURL (c_Outbound cfg) = [] \<longrightarrow> he_URL (c_HostEndpoint cfg) = []) \<and>
     gx_Mode (c_G2SXML cfg) \<in> {''lab_legacy_xml'', ''xsd_g2s_message''} \<and>
     gx_Namespace (c_G2SXML cfg) \<noteq> [] \<and> gx_EGMLocation (c_G2SXML cfg) \<noteq> [] \<and>
     se_CommsOnlineTimeoutMS (c_SessionEngine cfg) \<noteq> 0 \<and>
     se_KeepAliveIntervalMS (c_SessionEngine cfg) \<noteq> 0 \<and>
     se_ReconnectIntervalMS (c_SessionEngine cfg) \<noteq> 0 \<and>
     (se_Enabled (c_SessionEngine cfg) \<longrightarrow> he_URL (c_HostEndpoint cfg) \<noteq> []) \<and>
     li_Host (c_Listen cfg) \<noteq> [] \<and> li_Port (c_Listen cfg) \<noteq> 0 \<and>
     lo_Dir (c_Logging cfg) \<noteq> [] \<and> co_Bind (c_Control cfg) \<noteq> [] \<and> c_PackFile cfg \<noteq> [] \<and>
     0 \<le> ob_TimeoutMS (c_Outbound cfg) \<and>
     0 \<le> os_HeartbeatIntervalMS (ob_Scheduler (c_Outbound cfg)) \<and>
     0 \<le> os_OpenRetryIntervalMS (ob_Scheduler (c_Outbound cfg)) \<and>
     0 \<le> os_FailureThreshold (ob_Scheduler (c_Outbound cfg)) \<and>
     (st_Backend (c_Storage cfg) \<in> {[], ''noop''} \<or>
      st_Backend (c_Storage cfg) = ''sqlite'' \<and> st_SQLitePath (c_Storage cfg) \<noteq> []) \<and>
     security_ok (c_Security cfg)"

text \<open>All defaults applied, in the order of the code.\<close>

definition withHostID :: "Config \<Rightarrow> Config" where
  "withHostID cfg =
     (if c_HostID cfg = []
      then cfg\<lparr>c_HostID := firstNonEmpty [go_get (c_Notes cfg) ''host_id'', ''HOST-001'']\<rparr>
      else cfg)"

definition withControlBind :: "Config \<Rightarrow> Config" where
  "withControlBind cfg =
     (if co_Bind (c_Control cfg) = []
      then cfg\<lparr>c_Control := (c_Control cfg)\<lparr>co_Bind := ''127.0.0.1:0''\<rparr>\<rparr> else cfg)"

definition completed :: "Config \<Rightarrow> Config" where
  "completed cfg = withControlBind (applyListenDefaults (applySessionEngineDefaults
     (applyG2SXMLDefaults (applyEndpointDefaults (withHostID cfg)))))"

text \<open>The checks, as they apply to a completed configuration.\<close>

definition checks_ok :: "url_parser \<Rightarrow> Config \<Rightarrow> bool" where
  "checks_ok parse_url cfg \<longleftrightarrow>
     c_InstanceID cfg \<noteq> [] \<and> c_EGMID cfg \<noteq> [] \<and>
     validateEGMEndpoint (c_EGMEndpoint cfg) = Inr () \<and>
     validateHostEndpoint parse_url (c_HostEndpoint cfg) = Inr () \<and>
     validateG2SXML (c_G2SXML cfg) = Inr () \<and>
     (se_Enabled (c_SessionEngine cfg) \<longrightarrow> he_URL (c_HostEndpoint cfg) \<noteq> []) \<and>
     lo_Dir (c_Logging cfg) \<noteq> [] \<and> c_PackFile cfg \<noteq> [] \<and>
     validateOutbound (c_Outbound cfg) = Inr () \<and>
     validateStorage (c_Storage cfg) = Inr () \<and>
     validateSecurity (c_Security cfg) = Inr ()"

lemma withHostID_frame [frame_simps]:
  "c_InstanceID (withHostID cfg) = c_InstanceID cfg" "c_EGMID (withHostID cfg) = c_EGMID cfg"
  "c_HostEndpoint (withHostID cfg) = c_HostEndpoint cfg"
  by (simp_all add: withHostID_def)

lemma withControlBind_frame [frame_simps]:
  "c_InstanceID (withControlBind cfg) = c_InstanceID cfg"
  "c_EGMID (withControlBind cfg) = c_EGMID cfg"
  "c_EGMEndpoint (withControlBind cfg) = c_EGMEndpoint cfg"
  "c_HostEndpoint (withControlBind cfg) = c_HostEndpoint cfg"
  "c_G2SXML (withControlBind cfg) = c_G2SXML cfg"
  "c_SessionEngine (withControlBind cfg) = c_SessionEngine cfg"
  "c_Logging (withControlBind cfg) = c_Logging cfg"
  "c_HostID (withControlBind cfg) = c_HostID cfg"
  "c_Listen (withControlBind cfg) = c_Listen cfg"
  "c_Outbound (withControlBind cfg) = c_Outbound cfg"
  by (simp_all add: withControlBind_def)

lemma defaults_frame [frame_simps]:
  "c_InstanceID (applyEndpointDefaults cfg) = c_InstanceID cfg"
  "c_EGMID (applyEndpointDefaults cfg) = c_EGMID cfg"
  "c_HostEndpoint (applyEndpointDefaults cfg) = c_HostEndpoint cfg"
  "c_InstanceID (applyG2SXMLDefaults cfg) = c_InstanceID cfg"
  "c_EGMID (applyG2SXMLDefaults cfg) = c_EGMID cfg"
  "c_HostEndpoint (applyG2SXMLDefaults cfg) = c_HostEndpoint cfg"
  "c_InstanceID (applySessionEngineDefaults cfg) = c_InstanceID cfg"
  "c_EGMID (applySessionEngineDefaults cfg) = c_EGMID cfg"
  "c_HostEndpoint (applySessionEngineDefaults cfg) = c_HostEndpoint cfg"
  "c_InstanceID (applyListenDefaults cfg) = c_InstanceID cfg"
  "c_EGMID (applyListenDefaults cfg) = c_EGMID cfg"
  "c_EGMEndpoint (applyListenDefaults cfg) = c_EGMEndpoint cfg"
  "c_HostEndpoint (applyListenDefaults cfg) = c_HostEndpoint cfg"
  "c_G2SXML (applyListenDefaults cfg) = c_G2SXML cfg"
  "c_SessionEngine (applyListenDefaults cfg) = c_SessionEngine cfg"
  "c_HostID (applyEndpointDefaults cfg) = c_HostID cfg"
  "c_HostID (applyG2SXMLDefaults cfg) = c_HostID cfg"
  "c_HostID (applySessionEngineDefaults cfg) = c_HostID cfg"
  "c_HostID (applyListenDefaults cfg) = c_HostID cfg"
  "c_Outbound (applyG2SXMLDefaults cfg) = c_Outbound cfg"
  "c_Outbound (applySessionEngineDefaults cfg) = c_Outbound cfg"
  "c_Outbound (applyListenDefaults cfg) = c_Outbound cfg"
  by (simp_all add: applyEndpointDefaults_def applyG2SXMLDefaults_def
      applySessionEngineDefaults_def applyListenDefaults_def Let_def)

lemma ValidateConfig_accepts:
  "snd (ValidateConfig pu reg (Some cfg)) = Inr cfg' \<longleftrightarrow>
     checks_ok pu (completed cfg) \<and> cfg' = completed cfg"
  unfolding ValidateConfig_def checks_ok_def completed_def
  by (simp only: option.case Let_def withHostID_def [symmetric] withControlBind_def [symmetric]
      frame_simps) (auto split: sum.splits)

subsection \<open>The individual checks\<close>

lemma starts_with_slash: "s \<noteq> [] \<and> hd s = CHR ''/'' \<longleftrightarrow> HasPrefix s ''/''"
  by (cases s) auto

lemma validateEGMEndpoint_Inr: "validateEGMEndpoint ep = Inr () \<longleftrightarrow> endpoint_ok ep"
  using starts_with_slash [of "ee_Path ep"]
  by (auto simp: validateEGMEndpoint_def endpoint_ok_def)

lemma validateHostEndpoint_Inr: "validateHostEndpoint pu ep = Inr () \<longleftrightarrow> host_url_ok pu ep"
  by (auto simp: validateHostEndpoint_def host_url_ok_def simp flip: starts_with_slash
      split: sum.splits)

lemma validateG2SXML_Inr:
  "validateG2SXML x = Inr () \<longleftrightarrow>
     gx_Mode x \<in> {''lab_legacy_xml'', ''xsd_g2s_message''} \<and> gx_Namespace x \<noteq> [] \<and> gx_EGMLocation x \<noteq> []"
  by (auto simp: validateG2SXML_def)

lemma validateOutbound_Inr:
  "validateOutbound ob = Inr () \<longleftrightarrow>
     0 \<le> ob_TimeoutMS ob \<and> 0 \<le> os_HeartbeatIntervalMS (ob_Scheduler ob) \<and>
     0 \<le> os_OpenRetryIntervalMS (ob_Scheduler ob) \<and> 0 \<le> os_FailureThreshold (ob_Scheduler ob)"
  by (auto simp: validateOutbound_def)

lemma validateStorage_Inr:
  "validateStorage st = Inr () \<longleftrightarrow>
     st_Backend st \<in> {[], ''noop''} \<or> st_Backend st = ''sqlite'' \<and> st_SQLitePath st \<noteq> []"
  by (auto simp: validateStorage_def)

lemma validateSecurity_Inr: "validateSecurity sec = Inr () \<longleftrightarrow> security_ok sec"
  by (auto simp: validateSecurity_def security_ok_def Let_def)

lemmas check_iffs = validateEGMEndpoint_Inr validateHostEndpoint_Inr validateG2SXML_Inr
  validateOutbound_Inr validateStorage_Inr validateSecurity_Inr

subsection \<open>The defaults\<close>

definition defaults_filled :: "Config \<Rightarrow> bool" where
  "defaults_filled cfg \<longleftrightarrow>
     c_HostID cfg \<noteq> [] \<and>
     (ob_DefaultTargetURL (c_Outbound cfg) = [] \<longrightarrow> he_URL (c_HostEndpoint cfg) = []) \<and>
     se_CommsOnlineTimeoutMS (c_SessionEngine cfg) \<noteq> 0 \<and>
     se_KeepAliveIntervalMS (c_SessionEngine cfg) \<noteq> 0 \<and>
     se_ReconnectIntervalMS (c_SessionEngine cfg) \<noteq> 0 \<and>
     li_Host (c_Listen cfg) \<noteq> [] \<and> li_Port (c_Listen cfg) \<noteq> 0 \<and> co_Bind (c_Control cfg) \<noteq> []"

lemma config_ok_split: "config_ok pu cfg \<longleftrightarrow> checks_ok pu cfg \<and> defaults_filled cfg"
  unfolding config_ok_def checks_ok_def defaults_filled_def check_iffs by blast

lemma listen_filled:
  "endpoint_ok (c_EGMEndpoint cfg) \<Longrightarrow>
   li_Host (c_Listen (applyListenDefaults cfg)) \<noteq> [] \<and> li_Port (c_Listen (applyListenDefaults cfg)) \<noteq> 0"
  by (simp add: applyListenDefaults_def endpoint_ok_def Let_def)

lemma completed_defaults_filled:
  assumes "endpoint_ok (c_EGMEndpoint (completed cfg))"
  shows "defaults_filled (completed cfg)"
proof -
  have "c_HostID (completed cfg) \<noteq> []"
    by (simp add: completed_def frame_simps) (simp add: withHostID_def)
  moreover have "ob_DefaultTargetURL (c_Outbound (completed cfg)) = [] \<longrightarrow>
      he_URL (c_HostEndpoint (completed cfg)) = []"
    by (simp add: completed_def frame_simps) (simp add: applyEndpointDefaults_def frame_simps Let_def)
  moreover have "se_CommsOnlineTimeoutMS (c_SessionEngine (completed cfg)) \<noteq> 0 \<and>
      se_KeepAliveIntervalMS (c_SessionEngine (completed cfg)) \<noteq> 0 \<and>
      se_ReconnectIntervalMS (c_SessionEngine (completed cfg)) \<noteq> 0"
    by (simp add: completed_def frame_simps applySessionEngineDefaults_def Let_def)
  moreover have "li_Host (c_Listen (completed cfg)) \<noteq> [] \<and> li_Port (c_Listen (completed cfg)) \<noteq> 0"
    using assms by (simp add: completed_def frame_simps listen_filled)
  moreover have "co_Bind (c_Control (completed cfg)) \<noteq> []"
    by (simp add: completed_def withControlBind_def)
  ultimately show ?thesis by (simp add: defaults_filled_def)
qed

lemma endpoint_ok_filled:
  "endpoint_ok ep \<Longrightarrow>
   ee_Scheme ep \<noteq> [] \<and> ee_BindIP ep \<noteq> [] \<and> ee_Host ep \<noteq> [] \<and> ee_Port ep \<noteq> 0 \<and> ee_Path ep \<noteq> []"
  by (auto simp: endpoint_ok_def)

lemma validateG2SXML_filled:
  "validateG2SXML x = Inr () \<Longrightarrow> gx_Mode x \<noteq> [] \<and> gx_Namespace x \<noteq> [] \<and> gx_EGMLocation x \<noteq> []"
  by (auto simp: validateG2SXML_Inr)

lemma defaults_filled_id:
  assumes "defaults_filled cfg"
  shows "withHostID cfg = cfg" "withControlBind cfg = cfg" "applySessionEngineDefaults cfg = cfg"
    "applyListenDefaults cfg = cfg"
  using assms
  by (simp_all add: defaults_filled_def withHostID_def withControlBind_def
      applySessionEngineDefaults_def applyListenDefaults_def)

lemma endpoint_defaults_id:
  assumes "endpoint_ok (c_EGMEndpoint cfg)" "defaults_filled cfg"
  shows "applyEndpointDefaults cfg = cfg"
proof -
  have "\<not> (ob_DefaultTargetURL (c_Outbound cfg) = [] \<and> he_URL (c_HostEndpoint cfg) \<noteq> [])"
    using assms(2) by (simp add: defaults_filled_def)
  with endpoint_ok_filled [OF assms(1)] show ?thesis
    by (simp only: applyEndpointDefaults_def Let_def if_False) simp
qed

lemma config_ok_completed:
  assumes "config_ok pu cfg"
  shows "completed cfg = cfg"
proof -
  have checks: "checks_ok pu cfg" and filled: "defaults_filled cfg"
    using assms by (simp_all add: config_ok_split)
  have "applyEndpointDefaults cfg = cfg"
    using checks filled by (simp add: endpoint_defaults_id checks_ok_def validateEGMEndpoint_Inr)
  moreover have "applyG2SXMLDefaults cfg = cfg"
    using validateG2SXML_filled [of "c_G2SXML cfg"] checks
    by (simp add: checks_ok_def applyG2SXMLDefaults_def)
  ultimately show ?thesis
    by (simp add: completed_def defaults_filled_id [OF filled])
qed

definition sample_config :: Config where
  "sample_config =
     \<lparr>c_InstanceID = ''vegm-001'', c_HostID = ''HOST-001'', c_EGMID = ''EGM-001'',
      c_EGMEndpoint = \<lparr>ee_Scheme = ''http'', ee_BindIP = ''0.0.0.0'', ee_Host = ''127.0.0.1'',
        ee_Port = 8080, ee_Path = ''/g2s''\<rparr>,
      c_HostEndpoint = \<lparr>he_URL = ''http://host/g2s''\<rparr>,
      c_G2SXML = \<lparr>gx_Mode = ''xsd_g2s_message'', gx_Namespace = ''urn:g2s'', gx_EGMLocation = ''loc''\<rparr>,
      c_SessionEngine = \<lparr>se_Enabled = True, se_AutoStart = True, se_CommsOnlineTimeoutMS = 30000,
        se_KeepAliveIntervalMS = 30000, se_ReconnectIntervalMS = 5000,
        se_AcceptWrappedG2SResponseAck = True\<rparr>,
      c_Listen = \<lparr>li_Host = ''0.0.0.0'', li_Port = 8080\<rparr>,
      c_Security = \<lparr>sc_TrustMode = ''plaintext_lab'', sc_CertFile = [], sc_KeyFile = [], sc_CAFile = []\<rparr>,
      c_Logging = \<lparr>lo_Dir = ''logs'', lo_CaptureRawXML = False, lo_CaptureRenderedXML = False\<rparr>,
      c_Storage = \<lparr>st_Backend = ''noop'', st_SQLitePath = []\<rparr>, c_Control = \<lparr>co_Bind = ''127.0.0.1:0''\<rparr>,
      c_Outbound = \<lparr>ob_DefaultTargetURL = ''http://host/g2s'', ob_ServerName = [], ob_Path = [],
        ob_TimeoutMS = 5000, ob_UseRuntimeCerts = False,
        ob_Scheduler = \<lparr>os_Enabled = True, os_AutoStart = False, os_OpenSessionOnStart = True,
          os_HeartbeatIntervalMS = 15000, os_OpenRetryIntervalMS = 5000, os_FailureThreshold = 3,
          os_RunHeartbeatWhenIdle = False\<rparr>\<rparr>,
      c_PackFile = ''pack.json'', c_Overlay = [], c_Notes = []\<rparr>"

definition sample_url :: url_parser where
  "sample_url s = Inr \<lparr>u_Scheme = ''http'', u_Host = ''host'', u_Path = ''/g2s''\<rparr>"

lemma sample_config_ok: "config_ok sample_url sample_config"
  by (simp add: config_ok_def sample_config_def endpoint_ok_def host_url_ok_def sample_url_def
      security_ok_def)

lemma sample_config_validates:
  "snd (ValidateConfig sample_url Map.empty (Some sample_config)) = Inr sample_config"
  using sample_config_ok config_ok_completed [of sample_url sample_config]
  by (simp add: ValidateConfig_accepts config_ok_split)

text \<open>
  C25: a configuration that \<open>ValidateConfig\<close> accepts is complete and consistent: every default
  is filled in, scheme, port, path, XML mode, storage backend and intervals are in range, the
  trust mode has the certificate files it needs, and an enabled session engine has a host URL.
\<close>

theorem ValidateConfig_sound:
  assumes "snd (ValidateConfig pu reg (Some cfg)) = Inr cfg'"
  shows "config_ok pu cfg'"
  using assms completed_defaults_filled [of cfg]
  by (auto simp: ValidateConfig_accepts config_ok_split checks_ok_def validateEGMEndpoint_Inr)

theorem ValidateConfig_sound_witness:
  "snd (ValidateConfig sample_url Map.empty (Some sample_config)) = Inr sample_config \<and>
   config_ok sample_url sample_config"
  using ValidateConfig_sound [OF sample_config_validates] sample_config_validates by blast

text \<open>
  The configurations that \<open>ValidateConfig\<close> accepts and leaves as they are are exactly the
  complete and consistent ones; with the property above, validation is idempotent, so writing
  a validated configuration out and loading it again changes nothing.
\<close>

theorem ValidateConfig_fixpoints:
  "snd (ValidateConfig pu reg (Some cfg)) = Inr cfg \<longleftrightarrow> config_ok pu cfg"
proof
  assume "snd (ValidateConfig pu reg (Some cfg)) = Inr cfg"
  then show "config_ok pu cfg"
    using completed_defaults_filled [of cfg]
    by (auto simp: ValidateConfig_accepts config_ok_split checks_ok_def validateEGMEndpoint_Inr)
next
  assume "config_ok pu cfg"
  then show "snd (ValidateConfig pu reg (Some cfg)) = Inr cfg"
    using config_ok_completed [of pu cfg] by (simp add: ValidateConfig_accepts config_ok_split)
qed

end
