(* ===== verification/Soap.thy ===== *)
theory Soap
  imports Config
begin

text \<open>
  Reading G2S messages: \<^verbatim>\<open>src/runtime/soap_parser.go\<close> (the envelope parser),
  \<^verbatim>\<open>xmlutil.go\<close> (the lenient fallback parser and its regular expressions),
  \<^verbatim>\<open>firstNestedAckName\<close> of \<^verbatim>\<open>evidence_latest.go\<close> and the acknowledgement rule of
  \<^verbatim>\<open>ack_resolver.go\<close>.
  The XML decoder (\<^verbatim>\<open>encoding/xml\<close>) is a parameter: what the code sees of a document is its
  token stream, ended by end of file or by an error. The loops over tokens are recursions over
  that stream; the element stack keeps local names, innermost first.
\<close>

section \<open>Token streams\<close>

record xml_name =
  xn_Space :: string
  xn_Local :: string

type_synonym xml_attr = "xml_name \<times> string"

datatype xml_token =
    StartElement xml_name "xml_attr list"
  | EndElement
  | CharData string
  | OtherToken

text \<open>The tokens before the decoder stops, and its error (\<open>None\<close> is \<^verbatim>\<open>io.EOF\<close>).\<close>

type_synonym xml_stream = "xml_token list \<times> error option"
type_synonym xml_decoder = "string \<Rightarrow> xml_stream"

section \<open>The envelope parser (soap_parser.go)\<close>

definition SOAP11Namespace :: string where
  "SOAP11Namespace = ''http://schemas.xmlsoap.org/soap/envelope/''"

definition SOAP12Namespace :: string where
  "SOAP12Namespace = ''http://www.w3.org/2003/05/soap-envelope''"

record ParsedG2SMessage =
  pm_RootLocalName :: string
  pm_RootNamespace :: string
  pm_SOAPNamespace :: string
  pm_HasEnvelope :: bool
  pm_HasBody :: bool
  pm_Fields :: "string go_map"

record ParsedG2SEnvelope =
  pe_RootKind :: string
  pe_ClassName :: string
  pe_OperationName :: string
  pe_HostID :: string
  pe_EGMID :: string
  pe_DateTimeSent :: string
  pe_SessionID :: string
  pe_RawRoot :: string
  pe_RootNamespace :: string
  pe_SOAPNamespace :: string
  pe_HasEnvelope :: bool
  pe_HasBody :: bool
  pe_Fields :: "string go_map"

definition empty_envelope :: ParsedG2SEnvelope where
  "empty_envelope =
     \<lparr>pe_RootKind = [], pe_ClassName = [], pe_OperationName = [], pe_HostID = [], pe_EGMID = [],
      pe_DateTimeSent = [], pe_SessionID = [], pe_RawRoot = [], pe_RootNamespace = [],
      pe_SOAPNamespace = [], pe_HasEnvelope = False, pe_HasBody = False, pe_Fields = []\<rparr>"

definition isG2SClassContainer :: "string \<Rightarrow> bool" where
  "isG2SClassContainer parent \<longleftrightarrow> EqualFold parent ''g2sBody''"

definition g2s_class_names :: "string list" where
  "g2s_class_names =
     [''communications'', ''cabinet'', ''meters'', ''eventhandler'', ''deviceconfig'', ''commconfig'',
      ''optionconfig'', ''gameplay'', ''player'', ''printer'', ''voucher'', ''noteacceptor'',
      ''notedispenser'', ''coinacceptor'', ''hopper'', ''handpay'', ''bonus'', ''progressive'',
      ''download'', ''hardware'', ''idreader'', ''gat'', ''wat'', ''central'']"

definition isG2SClassName :: "string \<Rightarrow> bool" where
  "isG2SClassName local \<longleftrightarrow> ToLower local \<in> set g2s_class_names"

definition isLegacyOperationCandidate :: "string \<Rightarrow> string \<Rightarrow> bool \<Rightarrow> bool" where
  "isLegacyOperationCandidate local parent hasEnvelope =
     (if EqualFold local ''Envelope'' \<or> EqualFold local ''Body'' \<or> EqualFold local ''g2sMessage'' \<or>
         EqualFold local ''g2sBody''
      then False
      else hasEnvelope \<and> EqualFold parent ''Body'')"

definition copyAttrs :: "xml_attr list \<Rightarrow> string go_map \<Rightarrow> string go_map" where
  "copyAttrs attrs flds = fold (\<lambda>(n, v). go_set (xn_Local n) v) attrs flds"

fun attrValue :: "xml_attr list \<Rightarrow> string \<Rightarrow> string" where
  "attrValue [] name = []"
| "attrValue ((n, v) # attrs) name = (if xn_Local n = name then v else attrValue attrs name)"

text \<open>The assignments that the \<^verbatim>\<open>g2sBody\<close> and \<^verbatim>\<open>g2sAck\<close> branches share.\<close>

definition take_identity :: "xml_attr list \<Rightarrow> ParsedG2SEnvelope \<Rightarrow> ParsedG2SEnvelope" where
  "take_identity attrs parsed =
     parsed\<lparr>pe_Fields := copyAttrs attrs (pe_Fields parsed),
            pe_HostID := firstNonEmpty [pe_HostID parsed, attrValue attrs ''hostId''],
            pe_EGMID := firstNonEmpty [pe_EGMID parsed, attrValue attrs ''egmId''],
            pe_DateTimeSent := firstNonEmpty [pe_DateTimeSent parsed, attrValue attrs ''dateTimeSent'']\<rparr>"

text \<open>The first element of the document is recorded as the raw root.\<close>

definition note_root :: "xml_name \<Rightarrow> ParsedG2SEnvelope \<Rightarrow> ParsedG2SEnvelope" where
  "note_root name parsed =
     (if pe_RawRoot parsed = []
      then parsed\<lparr>pe_RawRoot := xn_Local name, pe_RootNamespace := xn_Space name\<rparr>
      else parsed)"

text \<open>The \<^verbatim>\<open>xml.StartElement\<close> case of the loop; \<open>parent\<close> is the local name of the enclosing
  element, or empty.\<close>

definition on_start :: "string \<Rightarrow> xml_name \<Rightarrow> xml_attr list \<Rightarrow> ParsedG2SEnvelope \<Rightarrow> ParsedG2SEnvelope result" where
  "on_start parent name attrs parsed0 =
     (let local = xn_Local name;
          parsed = note_root name parsed0
      in
      if EqualFold local ''Envelope'' then
        (if xn_Space name \<noteq> [] \<and> xn_Space name \<noteq> SOAP11Namespace \<and> xn_Space name \<noteq> SOAP12Namespace
         then Inl (''unsupported soap namespace '' @ go_quote (xn_Space name))
         else Inr (parsed\<lparr>pe_HasEnvelope := True, pe_SOAPNamespace := xn_Space name\<rparr>))
      else if EqualFold local ''Body'' \<and> pe_HasEnvelope parsed then Inr (parsed\<lparr>pe_HasBody := True\<rparr>)
      else if EqualFold local ''g2sMessage'' then
        Inr (parsed\<lparr>pe_RootKind := ''g2sMessage'', pe_RootNamespace := xn_Space name\<rparr>)
      else if EqualFold local ''g2sBody'' then
        Inr (take_identity attrs
          (if pe_RootKind parsed = [] then parsed\<lparr>pe_RootKind := ''g2sBody''\<rparr> else parsed))
      else if EqualFold local ''g2sAck'' then
        Inr (take_identity attrs
          (parsed\<lparr>pe_RootKind := ''g2sAck'', pe_OperationName := ''g2sAck''\<rparr>))
      else if EqualFold parent ''g2sBody'' \<and> pe_ClassName parsed = [] \<and> pe_OperationName parsed = [] then
        (let parsed1 =
           (if isG2SClassName local then parsed\<lparr>pe_ClassName := local\<rparr>
            else parsed\<lparr>pe_OperationName := local,
                        pe_SessionID := firstNonEmpty [pe_SessionID parsed, attrValue attrs ''sessionId'']\<rparr>)
         in Inr (parsed1\<lparr>pe_Fields := copyAttrs attrs (pe_Fields parsed1)\<rparr>))
      else if isG2SClassContainer parent \<and> pe_ClassName parsed = [] then
        Inr (parsed\<lparr>pe_ClassName := local, pe_Fields := copyAttrs attrs (pe_Fields parsed)\<rparr>)
      else if pe_ClassName parsed \<noteq> [] \<and> EqualFold parent (pe_ClassName parsed) \<and>
              pe_OperationName parsed = [] then
        Inr (parsed\<lparr>pe_OperationName := local, pe_Fields := copyAttrs attrs (pe_Fields parsed),
                    pe_SessionID := firstNonEmpty [pe_SessionID parsed, attrValue attrs ''sessionId'']\<rparr>)
      else if pe_OperationName parsed = [] \<and>
              isLegacyOperationCandidate local parent (pe_HasEnvelope parsed) then
        Inr (parsed\<lparr>pe_RootKind := ''legacy'', pe_OperationName := local,
                    pe_RootNamespace := xn_Space name,
                    pe_Fields := copyAttrs attrs (pe_Fields parsed),
                    pe_HostID := firstNonEmpty [pe_HostID parsed, attrValue attrs ''hostId''],
                    pe_EGMID := firstNonEmpty [pe_EGMID parsed, attrValue attrs ''egmId''],
                    pe_SessionID := firstNonEmpty [pe_SessionID parsed, attrValue attrs ''sessionId'']\<rparr>)
      else Inr parsed)"

text \<open>The \<^verbatim>\<open>xml.CharData\<close> case of the loop.\<close>

definition on_text :: "string list \<Rightarrow> string \<Rightarrow> ParsedG2SEnvelope \<Rightarrow> ParsedG2SEnvelope" where
  "on_text stack t parsed =
     (let txt = TrimSpace t in
      if txt = [] \<or> stack = [] then parsed
      else
        let cur = hd stack;
            parsed1 = parsed\<lparr>pe_Fields := go_set cur txt (pe_Fields parsed)\<rparr>
        in
        if cur \<in> {''hostId'', ''hostID'', ''host_id''}
        then parsed1\<lparr>pe_HostID := firstNonEmpty [pe_HostID parsed1, txt]\<rparr>
        else if cur \<in> {''egmId'', ''egmID'', ''egm_id''}
        then parsed1\<lparr>pe_EGMID := firstNonEmpty [pe_EGMID parsed1, txt]\<rparr>
        else if cur \<in> {''sessionId'', ''session_id''}
        then parsed1\<lparr>pe_SessionID := firstNonEmpty [pe_SessionID parsed1, txt]\<rparr>
        else if cur = ''dateTimeSent''
        then parsed1\<lparr>pe_DateTimeSent := firstNonEmpty [pe_DateTimeSent parsed1, txt]\<rparr>
        else parsed1)"

fun envelope_loop :: "xml_token list \<Rightarrow> error option \<Rightarrow> string list \<Rightarrow> ParsedG2SEnvelope \<Rightarrow>
    ParsedG2SEnvelope result" where
  "envelope_loop [] None stack parsed = Inr parsed"
| "envelope_loop [] (Some e) stack parsed = Inl e"
| "envelope_loop (StartElement name attrs # ts) e stack parsed =
     (case on_start (if stack = [] then [] else hd stack) name attrs parsed of
        Inl err \<Rightarrow> Inl err
      | Inr parsed' \<Rightarrow> envelope_loop ts e (xn_Local name # stack) parsed')"
| "envelope_loop (CharData t # ts) e stack parsed = envelope_loop ts e stack (on_text stack t parsed)"
| "envelope_loop (EndElement # ts) e stack parsed = envelope_loop ts e (tl stack) parsed"
| "envelope_loop (OtherToken # ts) e stack parsed = envelope_loop ts e stack parsed"

definition ParseG2SEnvelope :: "xml_decoder \<Rightarrow> string \<Rightarrow> ParsedG2SEnvelope result" where
  "ParseG2SEnvelope dec data =
     (case envelope_loop (fst (dec data)) (snd (dec data)) [] empty_envelope of
        Inl e \<Rightarrow> Inl e
      | Inr parsed \<Rightarrow>
          if pe_OperationName parsed = [] then Inl ''g2s operation is required''
          else Inr (if pe_RootKind parsed = [] then parsed\<lparr>pe_RootKind := ''legacy''\<rparr> else parsed))"

definition ParseG2SMessage :: "xml_decoder \<Rightarrow> string \<Rightarrow> ParsedG2SMessage result" where
  "ParseG2SMessage dec data =
     (case ParseG2SEnvelope dec data of
        Inl e \<Rightarrow> Inl e
      | Inr parsed \<Rightarrow>
          Inr \<lparr>pm_RootLocalName = firstNonEmpty [pe_OperationName parsed, pe_RawRoot parsed],
               pm_RootNamespace = pe_RootNamespace parsed,
               pm_SOAPNamespace = pe_SOAPNamespace parsed,
               pm_HasEnvelope = pe_HasEnvelope parsed,
               pm_HasBody = pe_HasBody parsed,
               pm_Fields = pe_Fields parsed\<rparr>)"

section \<open>The lenient parser (xmlutil.go)\<close>

record ParsedMessage =
  px_RootLocalName :: string
  px_Fields :: "string go_map"

definition isEnvelopeLocal :: "string \<Rightarrow> bool" where
  "isEnvelopeLocal local \<longleftrightarrow> EqualFold local ''Envelope''"

definition isBodyLocal :: "string \<Rightarrow> bool" where
  "isBodyLocal local \<longleftrightarrow> EqualFold local ''Body''"

text \<open>
  The regular expressions, as matchers that list every match (what is left of the input, and
  the captured text) in the order in which Go's leftmost-first semantics prefers them; a
  starred class prefers the longest run.
\<close>

definition re_lit :: "string \<Rightarrow> string \<Rightarrow> string list" where
  "re_lit l s = (if prefix l s then [drop (length l) s] else [])"

fun re_star :: "(char \<Rightarrow> bool) \<Rightarrow> string \<Rightarrow> (string \<times> string) list" where
  "re_star p [] = [([], [])]"
| "re_star p (c # s) =
     (if p c then map (\<lambda>(run, rest). (c # run, rest)) (re_star p s) @ [([], c # s)]
      else [([], c # s)])"

definition re_plus :: "(char \<Rightarrow> bool) \<Rightarrow> string \<Rightarrow> (string \<times> string) list" where
  "re_plus p s = filter (\<lambda>(run, rest). run \<noteq> []) (re_star p s)"

definition name_char :: "char \<Rightarrow> bool" where
  "name_char c \<longleftrightarrow> (let n = of_char c :: nat in
     65 \<le> n \<and> n \<le> 90 \<or> 97 \<le> n \<and> n \<le> 122 \<or> 48 \<le> n \<and> n \<le> 57 \<or> c = CHR ''_'' \<or> c = CHR ''-'')"

definition re_space :: "char \<Rightarrow> bool" where
  "re_space c \<longleftrightarrow> c \<in> {CHR 0x09, CHR 0x0A, CHR 0x0C, CHR 0x0D, CHR 0x20}"

text \<open>An optional name prefix with its colon, then the captured name.\<close>

definition re_qname :: "string \<Rightarrow> (string \<times> string) list" where
  "re_qname s =
     concat (map (\<lambda>(run, s1). concat (map (re_plus name_char) (re_lit '':'' s1))) (re_plus name_char s)) @
     re_plus name_char s"

definition re_body_child :: "string \<Rightarrow> string list" where
  "re_body_child s =
     [fst cap. s1 \<leftarrow> re_lit ''<'' s, (a, s2) \<leftarrow> re_star (\<lambda>c. c \<noteq> CHR ''>'') s1, s3 \<leftarrow> re_lit ''Body'' s2,
        (b, s4) \<leftarrow> re_star (\<lambda>c. c \<noteq> CHR ''>'') s3, s5 \<leftarrow> re_lit ''>'' s4, (d, s6) \<leftarrow> re_star re_space s5,
        s7 \<leftarrow> re_lit ''<'' s6, cap \<leftarrow> re_qname s7]"

definition re_first_tag :: "string \<Rightarrow> string list" where
  "re_first_tag s =
     [fst cap. s1 \<leftarrow> re_lit ''<'' s, cap \<leftarrow> re_qname s1,
        (a, s2) \<leftarrow> re_star (\<lambda>c. c \<noteq> CHR ''>'') (snd cap), s3 \<leftarrow> re_lit ''>'' s2]"

text \<open>The first capture of the leftmost match.\<close>

fun re_find :: "(string \<Rightarrow> string list) \<Rightarrow> string \<Rightarrow> string option" where
  "re_find m [] = (case m [] of [] \<Rightarrow> None | x # _ \<Rightarrow> Some x)"
| "re_find m (c # s) = (case m (c # s) of [] \<Rightarrow> re_find m s | x # _ \<Rightarrow> Some x)"

definition rootLocalNameFromRaw :: "string \<Rightarrow> string" where
  "rootLocalNameFromRaw raw =
     (case re_find re_body_child raw of
        Some n \<Rightarrow> n
      | None \<Rightarrow> (case re_find re_first_tag raw of Some n \<Rightarrow> n | None \<Rightarrow> []))"

fun message_loop :: "xml_token list \<Rightarrow> string list \<Rightarrow> string \<Rightarrow> string go_map \<Rightarrow> string \<times> string go_map" where
  "message_loop [] stack root flds = (root, flds)"
| "message_loop (StartElement name attrs # ts) stack root flds =
     message_loop ts (xn_Local name # stack)
       (if root = [] \<and> \<not> isEnvelopeLocal (xn_Local name) \<and> \<not> isBodyLocal (xn_Local name)
        then xn_Local name else root) flds"
| "message_loop (EndElement # ts) stack root flds = message_loop ts (tl stack) root flds"
| "message_loop (CharData t # ts) stack root flds =
     message_loop ts stack root
       (if TrimSpace t = [] \<or> stack = [] then flds else go_set (hd stack) (TrimSpace t) flds)"
| "message_loop (OtherToken # ts) stack root flds = message_loop ts stack root flds"

definition ParseMessage :: "xml_decoder \<Rightarrow> string \<Rightarrow> ParsedMessage" where
  "ParseMessage dec raw =
     (let (root, flds) = message_loop (fst (dec raw)) [] [] []
      in \<lparr>px_RootLocalName = (if root = [] then rootLocalNameFromRaw raw else root),
          px_Fields = flds\<rparr>)"

text \<open>The selector pattern \<^verbatim>\<open>local-name()='...'\<close>.\<close>

definition ExtractLocalName :: "string \<Rightarrow> string" where
  "ExtractLocalName selector =
     (case re_find (\<lambda>s. [run. s1 \<leftarrow> re_lit (''local-name()='' @ [CHR 0x27]) s,
                              (run, s2) \<leftarrow> re_plus (\<lambda>c. c \<noteq> CHR 0x27) s1, s3 \<leftarrow> re_lit [CHR 0x27] s2])
             selector of
        Some n \<Rightarrow> n | None \<Rightarrow> [])"

section \<open>Acknowledgements (evidence_latest.go, ack_resolver.go, outbound.go)\<close>

fun nested_ack_loop :: "xml_token list \<Rightarrow> nat \<Rightarrow> string" where
  "nested_ack_loop [] depth = []"
| "nested_ack_loop (StartElement name attrs # ts) depth =
     (if Suc depth > 1 \<and> HasSuffix (xn_Local name) ''Ack'' \<and> xn_Local name \<noteq> ''g2sAck''
      then xn_Local name else nested_ack_loop ts (Suc depth))"
| "nested_ack_loop (EndElement # ts) depth = nested_ack_loop ts (depth - 1)"
| "nested_ack_loop (CharData t # ts) depth = nested_ack_loop ts depth"
| "nested_ack_loop (OtherToken # ts) depth = nested_ack_loop ts depth"

definition firstNestedAckName :: "xml_decoder \<Rightarrow> string \<Rightarrow> string" where
  "firstNestedAckName dec data = nested_ack_loop (fst (dec data)) 0"

definition resolveAck :: "xml_decoder \<Rightarrow> string \<Rightarrow> string \<Rightarrow> string \<Rightarrow> SessionEngineConfig \<Rightarrow> string" where
  "resolveAck dec expected actual raw cfg =
     (if actual = expected then actual
      else if se_AcceptWrappedG2SResponseAck cfg \<and> actual = ''g2sResponse''
      then (if firstNestedAckName dec raw = expected then expected else expected)
      else actual)"

definition expectedAckRoot :: "string \<Rightarrow> string" where
  "expectedAckRoot messageType =
     (if messageType = ''commsOnLine'' then ''commsOnLineAck''
      else if messageType = ''keepAlive'' then ''keepAliveAck''
      else if messageType = ''setKeepAlive'' then ''setKeepAliveAck''
      else if messageType = ''commsClosing'' then ''commsClosingAck''
      else [])"

definition rootLocalNameFromResponse :: "xml_decoder \<Rightarrow> string \<Rightarrow> string" where
  "rootLocalNameFromResponse dec data =
     (case ParseG2SEnvelope dec data of
        Inr parsed \<Rightarrow> firstNonEmpty [pe_OperationName parsed, pe_RawRoot parsed]
      | Inl _ \<Rightarrow> px_RootLocalName (ParseMessage dec data))"

section \<open>What the parser guarantees\<close>

definition root_kinds :: "string set" where
  "root_kinds = {''g2sMessage'', ''g2sBody'', ''g2sAck'', ''legacy''}"

definition soap_namespace_ok :: "string \<Rightarrow> bool" where
  "soap_namespace_ok ns \<longleftrightarrow> ns \<in> {[], SOAP11Namespace, SOAP12Namespace}"

lemma note_root_frame [frame_simps]:
  "pe_RootKind (note_root n p) = pe_RootKind p"
  "pe_OperationName (note_root n p) = pe_OperationName p"
  "pe_ClassName (note_root n p) = pe_ClassName p"
  "pe_HasEnvelope (note_root n p) = pe_HasEnvelope p"
  by (simp_all add: note_root_def)

lemma take_identity_frame [frame_simps]:
  "pe_RootKind (take_identity attrs p) = pe_RootKind p"
  "pe_OperationName (take_identity attrs p) = pe_OperationName p"
  "pe_ClassName (take_identity attrs p) = pe_ClassName p"
  "pe_HasEnvelope (take_identity attrs p) = pe_HasEnvelope p"
  by (simp_all add: take_identity_def)

lemma on_start_namespace:
  assumes "on_start parent name attrs p = Inr p'" "EqualFold (xn_Local name) ''Envelope''"
  shows "soap_namespace_ok (xn_Space name)"
  using assms by (auto simp: on_start_def soap_namespace_ok_def Let_def split: if_split_asm)

lemma on_start_kind_case:
  "case on_start parent name attrs p of
     Inl e \<Rightarrow> True
   | Inr p' \<Rightarrow> pe_RootKind p' = pe_RootKind p \<or> pe_RootKind p' \<in> root_kinds"
  unfolding on_start_def Let_def root_kinds_def
  by (simp add: frame_simps)

lemma on_start_kind:
  assumes "on_start parent name attrs p = Inr p'"
  shows "pe_RootKind p' = pe_RootKind p \<or> pe_RootKind p' \<in> root_kinds"
  using on_start_kind_case [where parent = parent and name = name and attrs = attrs and p = p] by (simp add: assms)

lemma on_text_frame [frame_simps]:
  "pe_RootKind (on_text st t p) = pe_RootKind p"
  "pe_OperationName (on_text st t p) = pe_OperationName p"
  "pe_ClassName (on_text st t p) = pe_ClassName p"
  "pe_HasEnvelope (on_text st t p) = pe_HasEnvelope p"
  by (simp_all add: on_text_def Let_def)

lemma envelope_loop_kind:
  "envelope_loop ts e st p = Inr p' \<Longrightarrow> pe_RootKind p \<in> insert [] root_kinds \<Longrightarrow>
   pe_RootKind p' \<in> insert [] root_kinds"
proof (induction ts e st p rule: envelope_loop.induct)
  case (3 name attrs ts e stack parsed)
  then obtain q where q: "on_start (if stack = [] then [] else hd stack) name attrs parsed = Inr q"
    and "envelope_loop ts e (xn_Local name # stack) q = Inr p'"
    by (auto split: sum.splits)
  then show ?case using on_start_kind [OF q] "3.IH" [OF q] "3.prems" by auto
qed (auto simp: frame_simps)

lemma envelope_loop_namespace:
  "envelope_loop ts e st p = Inr p' \<Longrightarrow> StartElement name attrs \<in> set ts \<Longrightarrow>
   EqualFold (xn_Local name) ''Envelope'' \<Longrightarrow> soap_namespace_ok (xn_Space name)"
proof (induction ts e st p rule: envelope_loop.induct)
  case (3 name' attrs' ts e stack parsed)
  then obtain q where q: "on_start (if stack = [] then [] else hd stack) name' attrs' parsed = Inr q"
    by (auto split: sum.splits)
  then show ?case using on_start_namespace [OF q] 3 by auto
qed auto

lemma envelope_loop_error: "envelope_loop ts (Some e) st p \<noteq> Inr p'"
  by (induction ts "Some e" st p rule: envelope_loop.induct) (auto split: sum.splits)

text \<open>
  C31: a successful parse has read the whole document without a decoder error, found an
  operation, classified the root as one of the four known kinds, and seen no SOAP envelope in
  a namespace other than SOAP 1.1, SOAP 1.2 or none.
\<close>

theorem ParseG2SEnvelope_sound:
  assumes "ParseG2SEnvelope dec data = Inr p"
  shows "snd (dec data) = None \<and> pe_OperationName p \<noteq> [] \<and> pe_RootKind p \<in> root_kinds \<and>
    (\<forall>name attrs. StartElement name attrs \<in> set (fst (dec data)) \<and>
       EqualFold (xn_Local name) ''Envelope'' \<longrightarrow> soap_namespace_ok (xn_Space name))"
proof -
  from assms obtain q where q: "envelope_loop (fst (dec data)) (snd (dec data)) [] empty_envelope = Inr q"
    and p: "pe_OperationName q \<noteq> []" "p = (if pe_RootKind q = [] then q\<lparr>pe_RootKind := ''legacy''\<rparr> else q)"
    by (auto simp: ParseG2SEnvelope_def split: sum.splits if_splits)
  have "pe_RootKind q \<in> insert [] root_kinds"
    using envelope_loop_kind [OF q] by (simp add: empty_envelope_def)
  moreover have "snd (dec data) = None"
    using q envelope_loop_error by (cases "snd (dec data)") auto
  ultimately show ?thesis
    using p envelope_loop_namespace [OF q] by (auto simp: root_kinds_def)
qed

definition sample_decoder :: xml_decoder where
  "sample_decoder data =
     ([StartElement \<lparr>xn_Space = SOAP11Namespace, xn_Local = ''Envelope''\<rparr> [],
       StartElement \<lparr>xn_Space = SOAP11Namespace, xn_Local = ''Body''\<rparr> [],
       StartElement \<lparr>xn_Space = [], xn_Local = ''keepAlive''\<rparr> [(\<lparr>xn_Space = [], xn_Local = ''hostId''\<rparr>, ''H1'')],
       EndElement, EndElement, EndElement], None)"

theorem ParseG2SEnvelope_sound_witness:
  "\<exists>p. ParseG2SEnvelope sample_decoder ''<Envelope/>'' = Inr p \<and> pe_OperationName p \<noteq> [] \<and>
     pe_RootKind p \<in> root_kinds"
proof -
  obtain p where p: "ParseG2SEnvelope sample_decoder ''<Envelope/>'' = Inr p"
    by (simp add: ParseG2SEnvelope_def sample_decoder_def on_start_def note_root_def take_identity_def
        empty_envelope_def isLegacyOperationCandidate_def isG2SClassName_def isG2SClassContainer_def
        EqualFold_def ascii_lower_def SOAP11Namespace_def g2s_class_names_def Let_def)
  with ParseG2SEnvelope_sound [OF p] show ?thesis by blast
qed

text \<open>
  An acknowledgement counts as the expected one exactly when it is that element, or when
  wrapped responses are accepted and the response is a \<open>g2sResponse\<close>; what the wrapper contains
  does not matter.
\<close>

theorem resolveAck_exact:
  "resolveAck dec expected actual raw cfg = expected \<longleftrightarrow>
     actual = expected \<or> se_AcceptWrappedG2SResponseAck cfg \<and> actual = ''g2sResponse''"
  by (auto simp: resolveAck_def)

end
