(* ===== verification/Pack.thy ===== *)
theory Pack
  imports Go_Prelude
begin

text \<open>
  The message-pack component (\<^verbatim>\<open>src/pack\<close>): the pack and overlay types of \<^verbatim>\<open>types.go\<close>,
  the validators of \<^verbatim>\<open>validate.go\<close>, loading (\<^verbatim>\<open>loader.go\<close>), overlay application
  (\<^verbatim>\<open>overlay.go\<close>) and the summary (\<^verbatim>\<open>summary.go\<close>).
  A pointer argument is an \<open>option\<close> (\<open>None\<close> is nil). Reading a file and decoding JSON text are
  parameters; the round trip of a pack through generic JSON in \<open>ApplyOverlay\<close> keeps every field
  but the two an overlay can set (integers are exact there up to \<open>2 ^ 53\<close> in magnitude,
  the range in which a float64 is exact).
\<close>

section \<open>Types (types.go)\<close>

record TransportConfig =
  t_HTTPVersions :: "string list"
  t_TLSModesSupported :: "string list"
  t_ContentTypes :: "string list"
  t_SOAPActionRequired :: bool

record EnvelopeConfig =
  e_Kind :: string
  e_SOAPNamespace :: string
  e_BodyXPathHint :: string
  e_HeaderXPathHint :: string

record PathsConfig =
  pa_DefaultListenerPath :: string
  pa_AlternateListenerPaths :: "string list"

record WireConfig =
  w_ProtocolFamily :: string
  w_Transport :: TransportConfig
  w_Envelope :: EnvelopeConfig
  w_Paths :: PathsConfig
  w_Namespaces :: "string go_map"

record ControlPlaneConfig =
  cp_HotReloadableSections :: "string list"
  cp_MutableFields :: "string list"
  cp_RequiresAuditLog :: bool

record TimersConfig =
  tm_RequestTimeoutMS :: int
  tm_HeartbeatIntervalMS :: int
  tm_HeartbeatTimeoutMS :: int
  tm_SessionIdleTimeoutMS :: int
  tm_ArtificialResponseDelayMS :: int

record RegisteredHost =
  rh_HostID :: string
  rh_DisplayName :: string
  rh_URL :: string
  rh_Role :: string
  rh_AllowedClasses :: "string list"
  rh_CertIdentity :: string
  rh_Enabled :: bool
  rh_Notes :: string

record StateDefaultsConfig =
  sd_RegistrationMode :: string
  sd_SessionState :: string
  sd_HeartbeatState :: string
  sd_AllowedHostIDs :: "string list"
  sd_RegisteredHosts :: "RegisteredHost list"

record LoggingHintsConfig =
  lh_CaptureRawXML :: bool
  lh_CaptureRenderedXML :: bool
  lh_ParsedFields :: "string list"
  lh_RedactFields :: "string list"

record MatchRule =
  mr_Kind :: string
  mr_Value :: string
  mr_Source :: string

record ExtractRule =
  er_Name :: string
  er_Source :: string
  er_Selector :: string
  er_Default :: json

record ResponseVariant =
  rv_VariantName :: string
  rv_Template :: string
  rv_When :: "MatchRule list"
  rv_SetState :: "json go_map"
  rv_HTTPStatus :: int
  rv_Headers :: "string go_map"
  rv_DelayMS :: int

record FaultPolicy =
  fp_DropRequestProbability :: json
  fp_CorruptResponseProbability :: json
  fp_ForceMalformedOnce :: bool
  fp_CloseConnectionAfterResponse :: bool
  fp_OverrideHTTPStatus :: int

record Operation =
  op_Enabled :: bool
  op_Description :: string
  op_Direction :: string
  op_Match :: "MatchRule list"
  op_Preconditions :: "string list"
  op_Extract :: "ExtractRule list"
  op_Responses :: "ResponseVariant list"
  op_FaultPolicy :: FaultPolicy
  op_LogFields :: "string list"

record MessagePack =
  p_SchemaVersion :: string
  p_PackName :: string
  p_PackVersion :: string
  p_Description :: string
  p_Extends :: string
  p_Tags :: "string list"
  p_Wire :: WireConfig
  p_ControlPlane :: ControlPlaneConfig
  p_Timers :: TimersConfig
  p_StateDefaults :: StateDefaultsConfig
  p_LoggingHints :: LoggingHintsConfig
  p_Operations :: "Operation go_map"

record OverlayChange =
  oc_Op :: string
  oc_Path :: string
  oc_Value :: json

record OverlayActivate =
  oa_ApplyImmediately :: bool
  oa_Scope :: string
  oa_TTLMS :: int

record MessageOverlay =
  o_SchemaVersion :: string
  o_OverlayName :: string
  o_OverlayVersion :: string
  o_TargetPack :: string
  o_Description :: string
  o_Changes :: "OverlayChange list"
  o_Activate :: OverlayActivate

section \<open>Validation (validate.go)\<close>

definition MessagePackSchemaVersion :: string where
  "MessagePackSchemaVersion = ''vegm.message-pack/v1''"

definition MessageOverlaySchemaVersion :: string where
  "MessageOverlaySchemaVersion = ''vegm.message-overlay/v1''"

definition allowedProtocolFamilies :: "string list" where
  "allowedProtocolFamilies = [''g2s'']"

definition allowedTransportKinds :: "string list" where
  "allowedTransportKinds = [''soap-http'']"

definition allowedDirections :: "string list" where
  "allowedDirections = [''inbound'', ''outbound'', ''bidirectional'']"

definition allowedMatchKinds :: "string list" where
  "allowedMatchKinds = [''message_type'', ''path'', ''namespace'', ''field_equals'', ''always'']"

definition allowedRegistrationMode :: "string list" where
  "allowedRegistrationMode = [''open'', ''strict_match'', ''deny_all'', ''simulate_vendor_quirk'']"

definition allowedSessionState :: "string list" where
  "allowedSessionState = [''idle'', ''online'', ''closed'', ''degraded'']"

definition allowedHeartbeatState :: "string list" where
  "allowedHeartbeatState = [''idle'', ''healthy'', ''degraded'', ''timeout'']"

definition allowedTLSModes :: "string list" where
  "allowedTLSModes =
     [''plaintext_lab'', ''tls_server_only'', ''strict_mtls'', ''mtls_no_revocation'', ''accept_all_lab'']"

definition allowedOverlayOps :: "string list" where
  "allowedOverlayOps = [''set'', ''merge'', ''remove'', ''append'']"

definition allowedOverlayScopes :: "string list" where
  "allowedOverlayScopes = [''instance'', ''fleet'', ''session'', []]"

lemmas allowed_defs = allowedProtocolFamilies_def allowedTransportKinds_def allowedDirections_def
  allowedMatchKinds_def allowedRegistrationMode_def allowedSessionState_def
  allowedHeartbeatState_def allowedTLSModes_def allowedOverlayOps_def allowedOverlayScopes_def

text \<open>\<^verbatim>\<open>duplicates\<close>: count every value in a map, keep the keys counted more than once, sorted.\<close>

definition count_values :: "string list \<Rightarrow> nat go_map" where
  "count_values values =
     fold (\<lambda>v seen. go_set v (case map_of seen v of None \<Rightarrow> 1 | Some n \<Rightarrow> Suc n) seen) values []"

definition duplicates :: "string list \<Rightarrow> string list" where
  "duplicates values = sort (map fst (filter (\<lambda>(v, n). n > 1) (count_values values)))"

definition operation_errs :: "string \<Rightarrow> Operation \<Rightarrow> string list" where
  "operation_errs name op =
     (if TrimSpace name = [] then [''operations contains empty key'']
      else if \<not> op_Enabled op then []
      else
        err_if (op_Direction op \<notin> set allowedDirections)
          (''operations.'' @ name @ ''.direction '' @ go_quote (op_Direction op) @ '' is invalid'') @
        err_if (op_Match op = []) (''operations.'' @ name @ ''.match must not be empty'') @
        err_if (op_Responses op = []) (''operations.'' @ name @ ''.responses must not be empty'') @
        concat (map (\<lambda>(i, m). err_if (mr_Kind m \<notin> set allowedMatchKinds)
          (''operations.'' @ name @ ''.match['' @ show_nat i @ ''].kind '' @
           go_quote (mr_Kind m) @ '' is invalid'')) (enumerate 0 (op_Match op))))"

definition pack_errs :: "MessagePack \<Rightarrow> string list" where
  "pack_errs p =
     err_if (p_SchemaVersion p \<noteq> MessagePackSchemaVersion)
       (''schema_version must be '' @ go_quote MessagePackSchemaVersion) @
     err_if (TrimSpace (p_PackName p) = []) ''pack_name is required'' @
     err_if (TrimSpace (p_PackVersion p) = []) ''pack_version is required'' @
     err_if (w_ProtocolFamily (p_Wire p) \<notin> set allowedProtocolFamilies)
       (''wire.protocol_family '' @ go_quote (w_ProtocolFamily (p_Wire p)) @ '' is invalid'') @
     err_if (e_Kind (w_Envelope (p_Wire p)) \<notin> set allowedTransportKinds)
       (''wire.envelope.kind '' @ go_quote (e_Kind (w_Envelope (p_Wire p))) @ '' is invalid'') @
     err_if (TrimSpace (pa_DefaultListenerPath (w_Paths (p_Wire p))) = [])
       ''wire.paths.default_listener_path is required'' @
     concat (map (\<lambda>mode. err_if (mode \<notin> set allowedTLSModes)
       (''wire.transport.tls_modes_supported contains invalid mode '' @ go_quote mode))
       (t_TLSModesSupported (w_Transport (p_Wire p)))) @
     map (\<lambda>dup. ''wire.transport.tls_modes_supported contains duplicate '' @ go_quote dup)
       (duplicates (t_TLSModesSupported (w_Transport (p_Wire p)))) @
     err_if (sd_RegistrationMode (p_StateDefaults p) \<notin> set allowedRegistrationMode)
       (''state_defaults.registration_mode '' @ go_quote (sd_RegistrationMode (p_StateDefaults p)) @
        '' is invalid'') @
     err_if (sd_SessionState (p_StateDefaults p) \<notin> set allowedSessionState)
       (''state_defaults.session_state '' @ go_quote (sd_SessionState (p_StateDefaults p)) @
        '' is invalid'') @
     err_if (sd_HeartbeatState (p_StateDefaults p) \<notin> set allowedHeartbeatState)
       (''state_defaults.heartbeat_state '' @ go_quote (sd_HeartbeatState (p_StateDefaults p)) @
        '' is invalid'') @
     err_if (p_Operations p = []) ''operations must not be empty'' @
     concat (map (\<lambda>(name, op). operation_errs name op) (p_Operations p))"

definition ValidatePack :: "MessagePack option \<Rightarrow> unit result" where
  "ValidatePack pp =
     (case pp of
        None \<Rightarrow> Inl ''pack is nil''
      | Some p \<Rightarrow> collect_errors ''pack validation failed:'' (pack_errs p))"

definition change_errs :: "nat \<Rightarrow> OverlayChange \<Rightarrow> string list" where
  "change_errs i change =
     err_if (oc_Op change \<notin> set allowedOverlayOps)
       (''changes['' @ show_nat i @ ''].op '' @ go_quote (oc_Op change) @ '' is invalid'') @
     err_if (\<not> HasPrefix (oc_Path change) ''/'')
       (''changes['' @ show_nat i @ ''].path must start with /'') @
     err_if (oc_Op change \<noteq> ''remove'' \<and> oc_Value change = JNull)
       (''changes['' @ show_nat i @ ''].value is required for op '' @ go_quote (oc_Op change))"

definition overlay_errs :: "MessageOverlay \<Rightarrow> string list" where
  "overlay_errs ov =
     err_if (o_SchemaVersion ov \<noteq> MessageOverlaySchemaVersion)
       (''schema_version must be '' @ go_quote MessageOverlaySchemaVersion) @
     err_if (TrimSpace (o_OverlayName ov) = []) ''overlay_name is required'' @
     err_if (TrimSpace (o_TargetPack ov) = []) ''target_pack is required'' @
     err_if (o_Changes ov = []) ''changes must not be empty'' @
     concat (map (\<lambda>(i, change). change_errs i change) (enumerate 0 (o_Changes ov))) @
     err_if (oa_Scope (o_Activate ov) \<notin> set allowedOverlayScopes)
       (''activate.scope '' @ go_quote (oa_Scope (o_Activate ov)) @ '' is invalid'') @
     err_if (oa_TTLMS (o_Activate ov) < 0) ''activate.ttl_ms must be >= 0''"

definition ValidateOverlay :: "MessageOverlay option \<Rightarrow> unit result" where
  "ValidateOverlay po =
     (case po of
        None \<Rightarrow> Inl ''overlay is nil''
      | Some ov \<Rightarrow> collect_errors ''overlay validation failed:'' (overlay_errs ov))"

section \<open>Loading (loader.go)\<close>

text \<open>\<open>readFile\<close> is the file system and \<open>unmarshal\<close> the JSON decoder for the target type.\<close>

definition ParsePack :: "(string \<Rightarrow> MessagePack result) \<Rightarrow> string \<Rightarrow> MessagePack result" where
  "ParsePack unmarshal data =
     (case unmarshal data of
        Inl e \<Rightarrow> Inl (''decode pack json: '' @ e)
      | Inr p \<Rightarrow> (case ValidatePack (Some p) of Inl e \<Rightarrow> Inl e | Inr _ \<Rightarrow> Inr p))"

definition LoadPack ::
    "(string \<Rightarrow> string result) \<Rightarrow> (string \<Rightarrow> MessagePack result) \<Rightarrow> string \<Rightarrow> MessagePack result" where
  "LoadPack readFile unmarshal path =
     (case readFile path of
        Inl e \<Rightarrow> Inl (''read pack '' @ go_quote path @ '': '' @ e)
      | Inr data \<Rightarrow> ParsePack unmarshal data)"

definition ParseOverlay :: "(string \<Rightarrow> MessageOverlay result) \<Rightarrow> string \<Rightarrow> MessageOverlay result" where
  "ParseOverlay unmarshal data =
     (case unmarshal data of
        Inl e \<Rightarrow> Inl (''decode overlay json: '' @ e)
      | Inr ov \<Rightarrow> (case ValidateOverlay (Some ov) of Inl e \<Rightarrow> Inl e | Inr _ \<Rightarrow> Inr ov))"

definition LoadOverlay ::
    "(string \<Rightarrow> string result) \<Rightarrow> (string \<Rightarrow> MessageOverlay result) \<Rightarrow> string \<Rightarrow> MessageOverlay result" where
  "LoadOverlay readFile unmarshal path =
     (case readFile path of
        Inl e \<Rightarrow> Inl (''read overlay '' @ go_quote path @ '': '' @ e)
      | Inr data \<Rightarrow> ParseOverlay unmarshal data)"

section \<open>Overlays (overlay.go)\<close>

text \<open>
  The base pack as generic JSON, with the two members an overlay change can replace kept as
  JSON values. Both objects \<^verbatim>\<open>timers\<close> and \<^verbatim>\<open>state_defaults\<close> are always present, because the
  pack's struct fields are marshalled without \<^verbatim>\<open>omitempty\<close>.
\<close>

record generic_pack =
  g_base :: MessagePack
  g_artificial_response_delay_ms :: json
  g_registration_mode :: json

definition marshal_generic :: "MessagePack \<Rightarrow> generic_pack" where
  "marshal_generic p =
     \<lparr>g_base = p,
      g_artificial_response_delay_ms = JInt (tm_ArtificialResponseDelayMS (p_Timers p)),
      g_registration_mode = JStr (sd_RegistrationMode (p_StateDefaults p))\<rparr>"

definition apply_change :: "OverlayChange \<Rightarrow> generic_pack \<Rightarrow> generic_pack" where
  "apply_change change g =
     (let g1 = (if oc_Path change = ''/timers/artificial_response_delay_ms'' \<and> oc_Op change = ''set''
                then g\<lparr>g_artificial_response_delay_ms := oc_Value change\<rparr> else g)
      in if oc_Path change = ''/state_defaults/registration_mode'' \<and> oc_Op change = ''set''
         then g1\<lparr>g_registration_mode := oc_Value change\<rparr> else g1)"

text \<open>Decoding a member into a Go string or int field; null leaves the zero value. \<open>type_err\<close>
  gives the decoder's message for a value of the wrong type.\<close>

definition unmarshal_string :: "(string \<Rightarrow> json \<Rightarrow> error) \<Rightarrow> string \<Rightarrow> json \<Rightarrow> string result" where
  "unmarshal_string type_err field v =
     (case v of JStr s \<Rightarrow> Inr s | JNull \<Rightarrow> Inr [] | _ \<Rightarrow> Inl (type_err field v))"

definition unmarshal_int :: "(string \<Rightarrow> json \<Rightarrow> error) \<Rightarrow> string \<Rightarrow> json \<Rightarrow> int result" where
  "unmarshal_int type_err field v =
     (case v of
        JInt n \<Rightarrow> (if int64_range n then Inr n else Inl (type_err field v))
      | JNull \<Rightarrow> Inr 0
      | _ \<Rightarrow> Inl (type_err field v))"

definition with_overlay_values :: "int \<Rightarrow> string \<Rightarrow> MessagePack \<Rightarrow> MessagePack" where
  "with_overlay_values delay mode p =
     p\<lparr>p_Timers := (p_Timers p)\<lparr>tm_ArtificialResponseDelayMS := delay\<rparr>,
       p_StateDefaults := (p_StateDefaults p)\<lparr>sd_RegistrationMode := mode\<rparr>\<rparr>"

definition unmarshal_generic :: "(string \<Rightarrow> json \<Rightarrow> error) \<Rightarrow> generic_pack \<Rightarrow> MessagePack result" where
  "unmarshal_generic type_err g =
     (case unmarshal_string type_err ''state_defaults.registration_mode'' (g_registration_mode g) of
        Inl e \<Rightarrow> Inl e
      | Inr mode \<Rightarrow>
         (case unmarshal_int type_err ''timers.artificial_response_delay_ms''
                 (g_artificial_response_delay_ms g) of
            Inl e \<Rightarrow> Inl e
          | Inr delay \<Rightarrow> Inr (with_overlay_values delay mode (g_base g))))"

definition ApplyOverlay ::
    "(string \<Rightarrow> json \<Rightarrow> error) \<Rightarrow> MessagePack option \<Rightarrow> MessageOverlay option \<Rightarrow> MessagePack result" where
  "ApplyOverlay type_err base overlay =
     (case base of
        None \<Rightarrow> Inl ''base pack is nil''
      | Some b \<Rightarrow>
     (case overlay of
        None \<Rightarrow> Inl ''overlay is nil''
      | Some ov \<Rightarrow>
     (case ValidatePack base of
        Inl e \<Rightarrow> Inl (''base pack invalid: '' @ e)
      | Inr _ \<Rightarrow>
     (case ValidateOverlay overlay of
        Inl e \<Rightarrow> Inl e
      | Inr _ \<Rightarrow>
        if o_TargetPack ov \<noteq> p_PackName b
        then Inl (''overlay target_pack '' @ go_quote (o_TargetPack ov) @
                  '' does not match base pack '' @ go_quote (p_PackName b))
        else
          let generic = fold apply_change (o_Changes ov) (marshal_generic b)
          in case unmarshal_generic type_err generic of
               Inl e \<Rightarrow> Inl (''decode pack json: '' @ e)
             | Inr p \<Rightarrow> (case ValidatePack (Some p) of Inl e \<Rightarrow> Inl e | Inr _ \<Rightarrow> Inr p)))))"

section \<open>Summary (summary.go)\<close>

record PackSummary =
  s_PackName :: string
  s_PackVersion :: string
  s_ProtocolFamily :: string
  s_DefaultListenerPath :: string
  s_Namespaces :: "string list"
  s_Operations :: "string list"
  s_TLSModes :: "string list"
  s_AllowedHostIDs :: "string list"
  s_RegisteredHostIDs :: "string list"

definition Summary :: "MessagePack \<Rightarrow> PackSummary" where
  "Summary p =
     \<lparr>s_PackName = p_PackName p,
      s_PackVersion = p_PackVersion p,
      s_ProtocolFamily = w_ProtocolFamily (p_Wire p),
      s_DefaultListenerPath = pa_DefaultListenerPath (w_Paths (p_Wire p)),
      s_Namespaces = sort (map fst (w_Namespaces (p_Wire p))),
      s_Operations = sort (map fst (p_Operations p)),
      s_TLSModes = sort (t_TLSModesSupported (w_Transport (p_Wire p))),
      s_AllowedHostIDs = sort (sd_AllowedHostIDs (p_StateDefaults p)),
      s_RegisteredHostIDs = sort (map rh_HostID (sd_RegisteredHosts (p_StateDefaults p)))\<rparr>"

section \<open>What the validators accept\<close>

definition operation_wf :: "Operation \<Rightarrow> bool" where
  "operation_wf op \<longleftrightarrow>
     op_Direction op \<in> set allowedDirections \<and> op_Match op \<noteq> [] \<and> op_Responses op \<noteq> [] \<and>
     (\<forall>m \<in> set (op_Match op). mr_Kind m \<in> set allowedMatchKinds)"

definition pack_wf :: "MessagePack \<Rightarrow> bool" where
  "pack_wf p \<longleftrightarrow>
     p_SchemaVersion p = MessagePackSchemaVersion \<and>
     TrimSpace (p_PackName p) \<noteq> [] \<and> TrimSpace (p_PackVersion p) \<noteq> [] \<and>
     w_ProtocolFamily (p_Wire p) \<in> set allowedProtocolFamilies \<and>
     e_Kind (w_Envelope (p_Wire p)) \<in> set allowedTransportKinds \<and>
     TrimSpace (pa_DefaultListenerPath (w_Paths (p_Wire p))) \<noteq> [] \<and>
     set (t_TLSModesSupported (w_Transport (p_Wire p))) \<subseteq> set allowedTLSModes \<and>
     distinct (t_TLSModesSupported (w_Transport (p_Wire p))) \<and>
     sd_RegistrationMode (p_StateDefaults p) \<in> set allowedRegistrationMode \<and>
     sd_SessionState (p_StateDefaults p) \<in> set allowedSessionState \<and>
     sd_HeartbeatState (p_StateDefaults p) \<in> set allowedHeartbeatState \<and>
     p_Operations p \<noteq> [] \<and>
     (\<forall>(name, op) \<in> set (p_Operations p).
        TrimSpace name \<noteq> [] \<and> (op_Enabled op \<longrightarrow> operation_wf op))"

definition change_wf :: "OverlayChange \<Rightarrow> bool" where
  "change_wf change \<longleftrightarrow>
     oc_Op change \<in> set allowedOverlayOps \<and> HasPrefix (oc_Path change) ''/'' \<and>
     (oc_Op change = ''remove'' \<or> oc_Value change \<noteq> JNull)"

definition overlay_wf :: "MessageOverlay \<Rightarrow> bool" where
  "overlay_wf ov \<longleftrightarrow>
     o_SchemaVersion ov = MessageOverlaySchemaVersion \<and>
     TrimSpace (o_OverlayName ov) \<noteq> [] \<and> TrimSpace (o_TargetPack ov) \<noteq> [] \<and>
     o_Changes ov \<noteq> [] \<and> (\<forall>c \<in> set (o_Changes ov). change_wf c) \<and>
     oa_Scope (o_Activate ov) \<in> set allowedOverlayScopes \<and> 0 \<le> oa_TTLMS (o_Activate ov)"

text \<open>The value a sequence of changes gives to one path: that of the last \<open>set\<close> of it.\<close>

definition last_set :: "string \<Rightarrow> OverlayChange list \<Rightarrow> json \<Rightarrow> json" where
  "last_set path changes dflt =
     (case find (\<lambda>c. oc_Path c = path \<and> oc_Op c = ''set'') (rev changes) of
        None \<Rightarrow> dflt
      | Some c \<Rightarrow> oc_Value c)"

subsection \<open>Counting duplicates\<close>

lemma map_of_count_values_aux:
  "map_of (fold (\<lambda>v seen. go_set v (case map_of seen v of None \<Rightarrow> 1 | Some n \<Rightarrow> Suc n) seen) xs m) v =
     (if v \<in> set xs then Some (count_list xs v + (case map_of m v of None \<Rightarrow> 0 | Some n \<Rightarrow> n))
      else map_of m v)"
  by (induction xs arbitrary: m) (auto simp: update_conv' split: option.splits)

lemma map_of_count_values:
  "map_of (count_values xs) v = (if v \<in> set xs then Some (count_list xs v) else None)"
  by (simp add: count_values_def map_of_count_values_aux)

lemma distinct_fst_count_values: "distinct (map fst (count_values xs))"
proof -
  have "distinct (map fst m) \<Longrightarrow> distinct (map fst (fold (\<lambda>v seen. go_set v
      (case map_of seen v of None \<Rightarrow> 1 | Some n \<Rightarrow> Suc n) seen) xs m))" for m :: "nat go_map"
    by (induction xs arbitrary: m) (auto intro: distinct_update)
  then show ?thesis by (simp add: count_values_def)
qed

lemma set_duplicates: "set (duplicates xs) = {v. count_list xs v > 1}"
proof -
  have "(v, n) \<in> set (count_values xs) \<longleftrightarrow> v \<in> set xs \<and> n = count_list xs v" for v n
    using map_of_count_values [of xs v] map_of_eq_Some_iff [OF distinct_fst_count_values, of xs v n]
    by (auto split: if_splits)
  then show ?thesis
    by (force simp: duplicates_def count_list_0_iff)
qed

lemma duplicates_sorted_distinct: "sorted (duplicates xs) \<and> distinct (duplicates xs)"
  using distinct_fst_count_values [of xs]
  by (auto simp: duplicates_def distinct_map_filter)

lemma duplicates_Nil [err_simps]: "duplicates xs = [] \<longleftrightarrow> distinct xs"
proof -
  have "duplicates xs = [] \<longleftrightarrow> (\<forall>v. count_list xs v \<le> 1)"
    using set_duplicates [of xs] by (auto simp: not_less simp flip: set_empty)
  also have "\<dots> \<longleftrightarrow> distinct xs"
    by (induction xs) (auto simp: count_list_0_iff le_Suc_eq split: if_splits)
  finally show ?thesis .
qed

subsection \<open>Validators\<close>

lemma match_errs_Nil:
  "concat (map (\<lambda>(i, m). err_if (mr_Kind m \<notin> set allowedMatchKinds) (msg i m)) (enumerate n ms)) = [] \<longleftrightarrow>
   (\<forall>m \<in> set ms. mr_Kind m \<in> set allowedMatchKinds)"
  by (rule concat_enumerate_Nil) simp

lemma operation_errs_Nil [err_simps]:
  "operation_errs name op = [] \<longleftrightarrow> TrimSpace name \<noteq> [] \<and> (op_Enabled op \<longrightarrow> operation_wf op)"
proof (cases "TrimSpace name \<noteq> [] \<and> op_Enabled op")
  case True
  then show ?thesis
    unfolding operation_errs_def operation_wf_def
    by (simp add: match_errs_Nil del: concat_eq_Nil_conv)
next
  case False
  then show ?thesis by (auto simp: operation_errs_def)
qed

lemma tls_errs_Nil:
  "concat (map (\<lambda>mode. err_if (mode \<notin> set allowedTLSModes) (msg mode)) ms) = [] \<longleftrightarrow>
   set ms \<subseteq> set allowedTLSModes"
  by (auto simp only: concat_map_Nil err_if_Nil subset_iff not_not)

lemma pack_errs_Nil: "pack_errs p = [] \<longleftrightarrow> pack_wf p"
  unfolding pack_errs_def pack_wf_def
  by (simp only: append_is_Nil_conv err_if_Nil tls_errs_Nil map_is_Nil_conv duplicates_Nil
      concat_pairs_Nil [OF operation_errs_Nil]) simp

lemma change_errs_Nil [err_simps]: "change_errs i c = [] \<longleftrightarrow> change_wf c"
  by (simp only: change_errs_def change_wf_def append_is_Nil_conv err_if_Nil) simp

lemma overlay_errs_Nil: "overlay_errs ov = [] \<longleftrightarrow> overlay_wf ov"
  unfolding overlay_errs_def overlay_wf_def
  by (simp only: append_is_Nil_conv err_if_Nil concat_enumerate_Nil [OF change_errs_Nil]) (simp add: not_less)

interpretation pack_validator: validator pack_errs "''pack validation failed:''" ValidatePack pack_wf
  by unfold_locales (simp_all add: ValidatePack_def pack_errs_Nil)

interpretation overlay_validator:
  validator overlay_errs "''overlay validation failed:''" ValidateOverlay overlay_wf
  by unfold_locales (simp_all add: ValidateOverlay_def overlay_errs_Nil)

subsection \<open>A small pack\<close>

definition sample_operation :: "string \<Rightarrow> string \<Rightarrow> Operation" where
  "sample_operation kind ack =
     \<lparr>op_Enabled = True, op_Description = [], op_Direction = ''inbound'',
      op_Match = [\<lparr>mr_Kind = kind, mr_Value = ack, mr_Source = []\<rparr>],
      op_Preconditions = [], op_Extract = [],
      op_Responses =
        [\<lparr>rv_VariantName = ''default'', rv_Template = ''<'' @ ack @ ''/>'', rv_When = [], rv_SetState = [],
          rv_HTTPStatus = 200, rv_Headers = [], rv_DelayMS = 0\<rparr>],
      op_FaultPolicy = \<lparr>fp_DropRequestProbability = JInt 0, fp_CorruptResponseProbability = JInt 0,
        fp_ForceMalformedOnce = False, fp_CloseConnectionAfterResponse = False,
        fp_OverrideHTTPStatus = 0\<rparr>,
      op_LogFields = []\<rparr>"

definition sample_pack :: MessagePack where
  "sample_pack =
     \<lparr>p_SchemaVersion = MessagePackSchemaVersion, p_PackName = ''lab'', p_PackVersion = ''1.0'',
      p_Description = [], p_Extends = [], p_Tags = [],
      p_Wire = \<lparr>w_ProtocolFamily = ''g2s'',
        w_Transport = \<lparr>t_HTTPVersions = [''1.1''], t_TLSModesSupported = [''plaintext_lab''],
          t_ContentTypes = [''text/xml''], t_SOAPActionRequired = False\<rparr>,
        w_Envelope = \<lparr>e_Kind = ''soap-http'', e_SOAPNamespace = [], e_BodyXPathHint = [],
          e_HeaderXPathHint = []\<rparr>,
        w_Paths = \<lparr>pa_DefaultListenerPath = ''/g2s'', pa_AlternateListenerPaths = []\<rparr>,
        w_Namespaces = []\<rparr>,
      p_ControlPlane = \<lparr>cp_HotReloadableSections = [], cp_MutableFields = [],
        cp_RequiresAuditLog = False\<rparr>,
      p_Timers = \<lparr>tm_RequestTimeoutMS = 0, tm_HeartbeatIntervalMS = 0, tm_HeartbeatTimeoutMS = 0,
        tm_SessionIdleTimeoutMS = 0, tm_ArtificialResponseDelayMS = 0\<rparr>,
      p_StateDefaults = \<lparr>sd_RegistrationMode = ''open'', sd_SessionState = ''idle'',
        sd_HeartbeatState = ''idle'', sd_AllowedHostIDs = [], sd_RegisteredHosts = []\<rparr>,
      p_LoggingHints = \<lparr>lh_CaptureRawXML = False, lh_CaptureRenderedXML = False,
        lh_ParsedFields = [], lh_RedactFields = []\<rparr>,
      p_Operations = [(''keepAlive'', sample_operation ''message_type'' ''keepAlive''),
        (''getDescriptor'', sample_operation ''message_type'' ''getDescriptor'')]\<rparr>"

subsection \<open>Overlays\<close>

abbreviation delay_path :: string where
  "delay_path \<equiv> ''/timers/artificial_response_delay_ms''"

abbreviation mode_path :: string where
  "mode_path \<equiv> ''/state_defaults/registration_mode''"

lemma apply_change_fields:
  "g_base (apply_change c g) = g_base g"
  "g_artificial_response_delay_ms (apply_change c g) =
     (if oc_Path c = delay_path \<and> oc_Op c = ''set'' then oc_Value c
      else g_artificial_response_delay_ms g)"
  "g_registration_mode (apply_change c g) =
     (if oc_Path c = mode_path \<and> oc_Op c = ''set'' then oc_Value c else g_registration_mode g)"
  by (simp_all add: apply_change_def Let_def)

lemma last_set_snoc:
  "last_set path (cs @ [c]) d =
     (if oc_Path c = path \<and> oc_Op c = ''set'' then oc_Value c else last_set path cs d)"
  by (simp add: last_set_def)

lemma fold_changes:
  "g_base (fold apply_change cs g) = g_base g"
  "g_artificial_response_delay_ms (fold apply_change cs g) =
     last_set delay_path cs (g_artificial_response_delay_ms g)"
  "g_registration_mode (fold apply_change cs g) = last_set mode_path cs (g_registration_mode g)"
  by (induction cs rule: rev_induct)
    (simp_all add: apply_change_fields last_set_snoc, simp_all add: last_set_def)

lemma unmarshal_generic_changes:
  "unmarshal_generic te (fold apply_change cs (marshal_generic b)) = Inr p \<longleftrightarrow>
     (\<exists>delay mode.
        unmarshal_int te ''timers.artificial_response_delay_ms''
          (last_set delay_path cs (JInt (tm_ArtificialResponseDelayMS (p_Timers b)))) = Inr delay \<and>
        unmarshal_string te ''state_defaults.registration_mode''
          (last_set mode_path cs (JStr (sd_RegistrationMode (p_StateDefaults b)))) = Inr mode \<and>
        p = with_overlay_values delay mode b)"
  by (auto simp: unmarshal_generic_def fold_changes marshal_generic_def split: sum.splits)

text \<open>
  \<open>ValidatePack\<close> accepts exactly the packs that are present and well-formed: known schema
  version, named and versioned, known protocol family and envelope, a listener path, known and
  distinct TLS modes, known default states, and at least one operation, each with a non-blank
  name and, when enabled, a known direction, known match kinds and at least one match rule and
  one response.
\<close>

theorem ValidatePack_exact: "ValidatePack pp = Inr () \<longleftrightarrow> (\<exists>p. pp = Some p \<and> pack_wf p)"
  by (rule pack_validator.accepts_iff)

lemma pack_errs_permute:
  assumes "mset ops = mset (p_Operations p)"
  shows "mset (pack_errs (p\<lparr>p_Operations := ops\<rparr>)) = mset (pack_errs p)"
proof -
  have "ops = [] \<longleftrightarrow> p_Operations p = []"
    using assms by (metis mset_zero_iff)
  moreover have "mset (concat (map f ops)) = mset (concat (map f (p_Operations p)))"
    for f :: "string \<times> Operation \<Rightarrow> string list"
    using assms by (simp add: mset_concat flip: sum_mset_sum_list)
  ultimately show ?thesis
    by (simp add: pack_errs_def del: concat_eq_Nil_conv)
qed

lemma sample_names:
  "TrimSpace ''lab'' = ''lab''" "TrimSpace ''1.0'' = ''1.0''" "TrimSpace ''/g2s'' = ''/g2s''"
  "TrimSpace ''keepAlive'' = ''keepAlive''" "TrimSpace ''getDescriptor'' = ''getDescriptor''"
  by code_simp+

lemma sample_pack_wf: "pack_wf sample_pack"
  by (simp add: pack_wf_def operation_wf_def sample_pack_def sample_operation_def allowed_defs
      MessagePackSchemaVersion_def sample_names)

text \<open>
  The outcome of \<open>ValidatePack\<close>, message included, does not depend on the order in which
  Go happens to iterate over the operations map.
\<close>

theorem ValidatePack_map_order:
  assumes "mset ops = mset (p_Operations p)"
  shows "ValidatePack (Some (p\<lparr>p_Operations := ops\<rparr>)) = ValidatePack (Some p)"
  by (rule pack_validator.order_independent) (rule pack_errs_permute [OF assms])

theorem ValidatePack_map_order_witness:
  "mset (rev (p_Operations sample_pack)) = mset (p_Operations sample_pack) \<and>
   ValidatePack (Some (sample_pack\<lparr>p_Operations := rev (p_Operations sample_pack)\<rparr>)) =
     ValidatePack (Some sample_pack)"
  using ValidatePack_map_order [of "rev (p_Operations sample_pack)" sample_pack] by simp


end
