(* ===== verification/Render.thy ===== *)
theory Render
  imports Soap Pack
begin

text \<open>
  Writing G2S messages: template substitution (\<^verbatim>\<open>src/runtime/render.go\<close>), the XSD message
  renderer (\<^verbatim>\<open>g2s_xsd_renderer.go\<close>) and the four session messages, which choose between the
  XSD form and the legacy SOAP form (\<^verbatim>\<open>session_engine.go\<close>, \<^verbatim>\<open>session_keepalive.go\<close>,
  \<^verbatim>\<open>session_startup_exchange.go\<close>). The receiver's configuration, the pack's namespace map and
  the formatted current time are arguments.
\<close>

section \<open>Templates (render.go)\<close>

definition placeholder :: "string \<Rightarrow> string" where
  "placeholder key = ''{{'' @ key @ ''}}''"

definition substitute_all :: "string \<Rightarrow> string go_map \<Rightarrow> string \<Rightarrow> string" where
  "substitute_all grp m out =
     fold (\<lambda>(k, v) out. ReplaceAll out (placeholder (grp @ k)) v) m out"

text \<open>The namespaces are taken in sorted key order; the request and state maps in the order of
  Go's map iteration. Every value of the state map is a string.\<close>

definition sorted_entries :: "string go_map \<Rightarrow> string go_map" where
  "sorted_entries m = map (\<lambda>k. (k, go_get m k)) (sort (map fst m))"

definition RenderTemplate :: "string \<Rightarrow> string go_map \<Rightarrow> string go_map \<Rightarrow> string go_map \<Rightarrow> string" where
  "RenderTemplate tmpl ns request state =
     substitute_all ''state.'' state
       (substitute_all ''request.'' request
          (substitute_all ''ns.'' (sorted_entries ns) tmpl))"

section \<open>The XSD renderer (g2s_xsd_renderer.go)\<close>

definition G2SXMLModeLegacy :: string where
  "G2SXMLModeLegacy = ''lab_legacy_xml''"

definition G2SXMLModeXSDMessage :: string where
  "G2SXMLModeXSDMessage = ''xsd_g2s_message''"

definition G2SDefaultNamespace :: string where
  "G2SDefaultNamespace = ''http://www.gamingstandards.com/g2s/schemas/v1.0.3''"

definition shouldRenderXSDG2SMessage :: "Config \<Rightarrow> bool" where
  "shouldRenderXSDG2SMessage cfg \<longleftrightarrow> gx_Mode (c_G2SXML cfg) = G2SXMLModeXSDMessage"

text \<open>\<^verbatim>\<open>xml.EscapeText\<close>; bytes above 127 are parts of valid UTF-8 text and are kept, control
  bytes that XML does not allow become U+FFFD.\<close>

definition escape_char :: "char \<Rightarrow> string" where
  "escape_char c = (let n = of_char c :: nat in
     if n = 34 then ''&#34;''
     else if n = 39 then ''&#39;''
     else if n = 38 then ''&amp;''
     else if n = 60 then ''&lt;''
     else if n = 62 then ''&gt;''
     else if n = 9 then ''&#x9;''
     else if n = 10 then ''&#xA;''
     else if n = 13 then ''&#xD;''
     else if n < 32 then [CHR 0xEF, CHR 0xBF, CHR 0xBD]
     else [c])"

definition xmlEscape :: "string \<Rightarrow> string" where
  "xmlEscape v = concat (map escape_char v)"

definition attr_entries :: "string go_map \<Rightarrow> string go_map" where
  "attr_entries attrs =
     map (\<lambda>k. (k, go_get attrs k)) (sort (map fst (filter (\<lambda>(k, v). k \<noteq> [] \<and> v \<noteq> []) attrs)))"

definition writeXMLAttrs :: "string go_map \<Rightarrow> string" where
  "writeXMLAttrs attrs =
     concat (map (\<lambda>(k, v). '' '' @ k @ ''='' @ [CHR 0x22] @ xmlEscape v @ [CHR 0x22]) (attr_entries attrs))"

definition boolAttr :: "bool \<Rightarrow> string" where
  "boolAttr v = (if v then ''true'' else ''false'')"

definition intAttr :: "int \<Rightarrow> string" where
  "intAttr v = show_int v"

definition body_attrs :: "Config \<Rightarrow> string \<Rightarrow> string go_map" where
  "body_attrs cfg dateTimeSent =
     [(''hostId'', c_HostID cfg), (''egmId'', c_EGMID cfg), (''dateTimeSent'', dateTimeSent)]"

definition renderXSDCommunicationsMessage :: "Config \<Rightarrow> string \<Rightarrow> string \<Rightarrow> string go_map \<Rightarrow> string" where
  "renderXSDCommunicationsMessage cfg dateTimeSent operationName attrs =
     (let ns = firstNonEmpty [gx_Namespace (c_G2SXML cfg), G2SDefaultNamespace]
      in ''<g2s:g2sMessage xmlns:g2s='' @ [CHR 0x22] @ xmlEscape ns @ [CHR 0x22] @ ''><g2s:g2sBody'' @
         writeXMLAttrs (body_attrs cfg dateTimeSent) @
         ''><g2s:communications><g2s:'' @ operationName @ writeXMLAttrs attrs @
         '' /></g2s:communications></g2s:g2sBody></g2s:g2sMessage>'')"

section \<open>The session messages\<close>

text \<open>The common frame of the legacy forms: a SOAP envelope around one operation element.\<close>

definition legacy_envelope :: "string go_map \<Rightarrow> Config \<Rightarrow> string \<Rightarrow> string \<Rightarrow> string \<Rightarrow> string" where
  "legacy_envelope namespaces cfg op sessionID extra =
     (let soapNS = firstNonEmpty [go_get namespaces ''soapenv'', SOAP11Namespace];
          g2sNS = firstNonEmpty [go_get namespaces ''g2s'', ''urn:g2s:lab'']
      in ''<soapenv:Envelope xmlns:soapenv='' @ [CHR 0x22] @ soapNS @ [CHR 0x22] @
         '' xmlns:g2s='' @ [CHR 0x22] @ g2sNS @ [CHR 0x22] @ ''><soapenv:Body><g2s:'' @ op @
         ''><g2s:hostId>'' @ c_HostID cfg @ ''</g2s:hostId><g2s:egmId>'' @ c_EGMID cfg @
         ''</g2s:egmId><g2s:sessionId>'' @ sessionID @ ''</g2s:sessionId>'' @ extra @
         ''</g2s:'' @ op @ ''></soapenv:Body></soapenv:Envelope>'')"

definition renderCommsOnline :: "string go_map \<Rightarrow> Config \<Rightarrow> string \<Rightarrow> string \<Rightarrow> string" where
  "renderCommsOnline namespaces cfg dateTimeSent sessionID =
     (if shouldRenderXSDG2SMessage cfg
      then renderXSDCommunicationsMessage cfg dateTimeSent ''commsOnLine''
        [(''equipmentType'', ''G2S_egm''), (''egmLocation'', gx_EGMLocation (c_G2SXML cfg)),
         (''deviceReset'', boolAttr False), (''deviceChanged'', boolAttr False),
         (''subscriptionLost'', boolAttr False), (''metersReset'', boolAttr False)]
      else legacy_envelope namespaces cfg ''commsOnLine'' sessionID [])"

definition renderGetDescriptor :: "string go_map \<Rightarrow> Config \<Rightarrow> string \<Rightarrow> string \<Rightarrow> string" where
  "renderGetDescriptor namespaces cfg dateTimeSent sessionID =
     (if shouldRenderXSDG2SMessage cfg
      then renderXSDCommunicationsMessage cfg dateTimeSent ''getDescriptor''
        [(''includeOwners'', boolAttr True), (''includeConfigs'', boolAttr True),
         (''includeGuests'', boolAttr True), (''includeOthers'', boolAttr True)]
      else legacy_envelope namespaces cfg ''getDescriptor'' sessionID [])"

definition renderSetKeepAlive :: "string go_map \<Rightarrow> Config \<Rightarrow> string \<Rightarrow> string \<Rightarrow> string" where
  "renderSetKeepAlive namespaces cfg dateTimeSent sessionID =
     (if shouldRenderXSDG2SMessage cfg
      then renderXSDCommunicationsMessage cfg dateTimeSent ''setKeepAlive''
        [(''interval'', intAttr (se_KeepAliveIntervalMS (c_SessionEngine cfg)))]
      else legacy_envelope namespaces cfg ''setKeepAlive'' sessionID
        (''<g2s:keepAliveIntervalMS>'' @ show_int (se_KeepAliveIntervalMS (c_SessionEngine cfg)) @
         ''</g2s:keepAliveIntervalMS>''))"

definition renderKeepAlive :: "string go_map \<Rightarrow> Config \<Rightarrow> string \<Rightarrow> string \<Rightarrow> string" where
  "renderKeepAlive namespaces cfg dateTimeSent sessionID =
     (if shouldRenderXSDG2SMessage cfg
      then renderXSDCommunicationsMessage cfg dateTimeSent ''keepAlive'' []
      else legacy_envelope namespaces cfg ''keepAlive'' sessionID [])"

text \<open>\<^verbatim>\<open>renderConfiguredOutboundBody\<close> of \<^verbatim>\<open>outbound.go\<close>.\<close>

definition renderConfiguredOutboundBody ::
    "string go_map \<Rightarrow> Config \<Rightarrow> string \<Rightarrow> string \<Rightarrow> string \<Rightarrow> string" where
  "renderConfiguredOutboundBody namespaces cfg dateTimeSent messageType sessionID =
     (if messageType = ''commsOnLine'' then renderCommsOnline namespaces cfg dateTimeSent sessionID
      else if messageType = ''getDescriptor'' then renderGetDescriptor namespaces cfg dateTimeSent sessionID
      else if messageType = ''setKeepAlive'' then renderSetKeepAlive namespaces cfg dateTimeSent sessionID
      else if messageType = ''keepAlive'' then renderKeepAlive namespaces cfg dateTimeSent sessionID
      else [])"

section \<open>Template substitution, as a specification\<close>

text \<open>A template made of literal text without braces and of placeholders whose keys have no
  braces, the form of every template in the shipped packs.\<close>

datatype segment = Lit string | Hole string

definition brace_free :: "string \<Rightarrow> bool" where
  "brace_free s \<longleftrightarrow> CHR ''{'' \<notin> set s \<and> CHR ''}'' \<notin> set s"

fun segment_ok :: "segment \<Rightarrow> bool" where
  "segment_ok (Lit l) = brace_free l"
| "segment_ok (Hole key) = brace_free key"

fun segment_text :: "segment \<Rightarrow> string" where
  "segment_text (Lit l) = l"
| "segment_text (Hole key) = placeholder key"

definition template_text :: "segment list \<Rightarrow> string" where
  "template_text segs = concat (map segment_text segs)"

text \<open>Simultaneous substitution: a hole becomes the value of its key, if it has one.\<close>

fun fill :: "(string \<rightharpoonup> string) \<Rightarrow> segment \<Rightarrow> string" where
  "fill env (Lit l) = l"
| "fill env (Hole key) = (case env key of None \<Rightarrow> placeholder key | Some v \<Rightarrow> v)"

definition in_group :: "string \<Rightarrow> string go_map \<Rightarrow> string go_map" where
  "in_group grp m = map (\<lambda>(k, v). (grp @ k, v)) m"

subsection \<open>Replacing one placeholder\<close>

lemma ReplaceAll_literal:
  assumes "c \<notin> set l"
  shows "ReplaceAll (l @ r) (c # pat) v = l @ ReplaceAll r (c # pat) v"
  using assms by (induction l) auto

lemma placeholder_prefix:
  assumes "brace_free k" "brace_free j" "prefix (k @ ''}}'') (j @ ''}}'' @ r)"
  shows "k = j"
proof -
  from assms(3) obtain zs where eq: "j @ CHR ''}'' # (''}'' @ r) = k @ CHR ''}'' # (''}'' @ zs)"
    by (auto simp: prefix_def)
  have "takeWhile (\<lambda>c. c \<noteq> CHR ''}'') (x @ CHR ''}'' # y) = x" if "brace_free x" for x y
    using that by (subst takeWhile_append2) (auto simp: brace_free_def)
  from this [OF assms(1)] this [OF assms(2)] show ?thesis by (metis eq)
qed

lemma ReplaceAll_hole_eq:
  "ReplaceAll (placeholder k @ r) (placeholder k) v = v @ ReplaceAll r (placeholder k) v"
proof -
  have "prefix (placeholder k) (placeholder k @ r)" by simp
  then show ?thesis
    by (simp add: placeholder_def)
qed

lemma ReplaceAll_hole_neq:
  assumes "brace_free k" "brace_free j" "j \<noteq> k"
  shows "ReplaceAll (placeholder j @ r) (placeholder k) v = placeholder j @ ReplaceAll r (placeholder k) v"
proof -
  let ?p = "CHR ''{'' # ''{'' @ k @ ''}}''"
  have no1: "\<not> prefix ?p (''{{'' @ j @ ''}}'' @ r)"
    using placeholder_prefix [OF assms(1,2)] assms(3) by auto
  have no2: "\<not> prefix ?p (''{'' @ j @ ''}}'' @ r)"
    using assms(2) by (cases j) (auto simp: brace_free_def)
  have "ReplaceAll ((j @ ''}}'') @ r) ?p v = (j @ ''}}'') @ ReplaceAll r ?p v"
    by (rule ReplaceAll_literal) (use assms(2) in \<open>auto simp: brace_free_def\<close>)
  with no1 no2 show ?thesis by (simp add: placeholder_def)
qed

fun fill_one :: "string \<Rightarrow> string \<Rightarrow> segment \<Rightarrow> segment" where
  "fill_one k v (Lit l) = Lit l"
| "fill_one k v (Hole j) = (if j = k then Lit v else Hole j)"

lemma ReplaceAll_template:
  assumes "brace_free k" "\<forall>s \<in> set segs. segment_ok s"
  shows "ReplaceAll (template_text segs) (placeholder k) v = template_text (map (fill_one k v) segs)"
  using assms(2)
proof (induction segs)
  case Nil
  then show ?case by (simp add: template_text_def)
next
  case (Cons s segs)
  then have IH: "ReplaceAll (concat (map segment_text segs)) (placeholder k) v =
      concat (map segment_text (map (fill_one k v) segs))"
    by (simp add: template_text_def)
  show ?case
  proof (cases s)
    case (Lit l)
    then have "CHR ''{'' \<notin> set l"
      using Cons.prems by (simp add: brace_free_def)
    from ReplaceAll_literal [OF this, of _ "''{'' @ k @ ''}}''"] IH Lit show ?thesis
      by (simp add: template_text_def placeholder_def)
  next
    case (Hole j)
    then have "brace_free j" using Cons.prems by simp
    with IH Hole assms(1) show ?thesis
      by (simp add: template_text_def ReplaceAll_hole_eq ReplaceAll_hole_neq)
  qed
qed

lemma fill_one_ok: "brace_free v \<Longrightarrow> segment_ok s \<Longrightarrow> segment_ok (fill_one k v s)"
  by (cases s) auto

subsection \<open>Replacing a whole map\<close>

abbreviation entries_ok :: "string go_map \<Rightarrow> bool" where
  "entries_ok m \<equiv> \<forall>(k, v) \<in> set m. brace_free k \<and> brace_free v"

definition fill_all :: "string go_map \<Rightarrow> segment \<Rightarrow> segment" where
  "fill_all env s = fold (\<lambda>(k, v) s. fill_one k v s) env s"

lemma substitute_env:
  assumes "entries_ok env" "\<forall>s \<in> set segs. segment_ok s"
  shows "fold (\<lambda>(k, v) out. ReplaceAll out (placeholder k) v) env (template_text segs) =
      template_text (map (fill_all env) segs)"
  using assms
proof (induction env arbitrary: segs)
  case Nil
  then show ?case by (simp add: fill_all_def)
next
  case (Cons kv env)
  obtain k v where kv: "kv = (k, v)" by fastforce
  with Cons.prems have "brace_free k" "brace_free v" by auto
  with Cons.prems(2) have "\<forall>s \<in> set (map (fill_one k v) segs). segment_ok s"
    by (auto intro: fill_one_ok)
  with Cons.IH [of "map (fill_one k v) segs"] Cons.prems \<open>brace_free k\<close> show ?case
    by (simp add: kv ReplaceAll_template fill_all_def comp_def)
qed

lemma fill_all_Lit: "fill_all env (Lit l) = Lit l"
  by (induction env) (auto simp: fill_all_def)

lemma fill_all_Hole:
  "segment_text (fill_all env (Hole k)) = (case map_of env k of None \<Rightarrow> placeholder k | Some v \<Rightarrow> v)"
proof (induction env)
  case Nil
  then show ?case by (simp add: fill_all_def)
next
  case (Cons kv env)
  then show ?case
    using fill_all_Lit [of env "snd kv"] by (cases kv) (auto simp: fill_all_def)
qed

lemma fill_all_text: "segment_text (fill_all env s) = fill (map_of env) s"
  by (cases s) (simp_all add: fill_all_Lit fill_all_Hole)

lemma substitute_all_env:
  "substitute_all grp m out = fold (\<lambda>(k, v) out. ReplaceAll out (placeholder k) v) (in_group grp m) out"
  by (induction m arbitrary: out) (auto simp: substitute_all_def in_group_def)

lemma RenderTemplate_env:
  "RenderTemplate tmpl ns request state =
     fold (\<lambda>(k, v) out. ReplaceAll out (placeholder k) v)
       (in_group ''ns.'' (sorted_entries ns) @ in_group ''request.'' request @ in_group ''state.'' state) tmpl"
  by (simp add: RenderTemplate_def substitute_all_env)

lemma brace_free_append [simp]: "brace_free (xs @ ys) \<longleftrightarrow> brace_free xs \<and> brace_free ys"
  by (auto simp: brace_free_def)

lemma entries_ok_in_group: "brace_free grp \<Longrightarrow> entries_ok m \<Longrightarrow> entries_ok (in_group grp m)"
  by (auto simp: in_group_def)

lemma set_sorted_entries: "distinct (map fst m) \<Longrightarrow> set (sorted_entries m) = set m"
proof -
  assume d: "distinct (map fst m)"
  have "(k, v) \<in> set (sorted_entries m) \<longleftrightarrow> (k, v) \<in> set m" for k v
  proof -
    have "(k, v) \<in> set (sorted_entries m) \<longleftrightarrow> map_of m k \<noteq> None \<and> v = go_get m k"
      by (auto simp: sorted_entries_def map_of_eq_None_iff)
    also have "\<dots> \<longleftrightarrow> map_of m k = Some v"
      by (cases "map_of m k") (auto simp: go_get_def)
    finally show ?thesis
      using map_of_eq_Some_iff [OF d, of k v] by blast
  qed
  then show ?thesis by (metis set_eqI surj_pair)
qed

lemma map_of_sorted_entries: "distinct (map fst m) \<Longrightarrow> map_of (sorted_entries m) = map_of m"
proof (rule map_of_inject_set [THEN iffD2])
  assume d: "distinct (map fst m)"
  show "distinct (map fst (sorted_entries m))"
    using d by (simp add: sorted_entries_def comp_def)
  show "distinct (map fst m)" by (rule d)
  show "set (sorted_entries m) = set m" by (rule set_sorted_entries [OF d])
qed

lemma map_of_in_group:
  "map_of (in_group grp m) key =
     (if prefix grp key then map_of m (drop (length grp) key) else None)"
  by (induction m) (auto simp: in_group_def prefix_def)

lemma map_of_in_group_cong:
  "map_of m = map_of m' \<Longrightarrow> map_of (in_group grp m) = map_of (in_group grp m')"
  by (simp add: map_of_in_group fun_eq_iff)


section \<open>Escaping\<close>

definition sample_segments :: "segment list" where
  "sample_segments = [Lit ''<ack host='', Hole ''request.hostId'', Lit '' st='', Hole ''state.session'', Lit ''/>'']"


text \<open>A reader's view of escaped text: the entities and character references that
  \<open>xmlEscape\<close> writes, decoded.\<close>

definition references :: "(string \<times> char) list" where
  "references =
     [(''&#34;'', CHR 0x22), (''&#39;'', CHR 0x27), (''&amp;'', CHR 0x26), (''&lt;'', CHR 0x3C),
      (''&gt;'', CHR 0x3E), (''&#x9;'', CHR 0x09), (''&#xA;'', CHR 0x0A), (''&#xD;'', CHR 0x0D)]"

function xml_unescape :: "string \<Rightarrow> string" where
  "xml_unescape [] = []"
| "xml_unescape (c # s) =
     (case find (\<lambda>(r, d). r \<noteq> [] \<and> prefix r (c # s)) references of
        Some (r, d) \<Rightarrow> d # xml_unescape (drop (length r - 1) s)
      | None \<Rightarrow> c # xml_unescape s)"
  by pat_completeness auto
termination
  by (relation "measure length") auto

text \<open>Text that XML can carry: no control byte but tab, newline and carriage return.\<close>

definition xml_text :: "string \<Rightarrow> bool" where
  "xml_text s \<longleftrightarrow> (\<forall>c \<in> set s. 32 \<le> (of_char c :: nat) \<or> (of_char c :: nat) \<in> {9, 10, 13})"

lemma unescape_plain:
  "c \<noteq> CHR ''&'' \<Longrightarrow> xml_unescape (c # r) = c # xml_unescape r"
  by (simp add: references_def)

lemma unescape_escape_char:
  assumes "32 \<le> (of_char c :: nat) \<or> (of_char c :: nat) \<in> {9, 10, 13}"
  shows "xml_unescape (escape_char c @ r) = c # xml_unescape r"
proof (cases "(of_char c :: nat) \<in> {34, 39, 38, 60, 62, 9, 10, 13}")
  case True
  then consider "c = CHR 0x22" | "c = CHR 0x27" | "c = CHR 0x26" | "c = CHR 0x3C" | "c = CHR 0x3E"
    | "c = CHR 0x09" | "c = CHR 0x0A" | "c = CHR 0x0D"
  proof -
    from True have "(of_char c :: nat) \<in> of_char ` {CHR 0x22, CHR 0x27, CHR 0x26, CHR 0x3C, CHR 0x3E,
        CHR 0x09, CHR 0x0A, CHR 0x0D}"
      by simp
    then have "c \<in> {CHR 0x22, CHR 0x27, CHR 0x26, CHR 0x3C, CHR 0x3E, CHR 0x09, CHR 0x0A, CHR 0x0D}"
      by (simp only: image_iff bex_simps of_char_eq_iff) simp
    with that show ?thesis by blast
  qed
  then show ?thesis
    by cases (simp_all add: escape_char_def references_def)
next
  case False
  then have "c \<noteq> CHR ''&''" by auto
  moreover have "escape_char c = [c]"
    using False assms by (auto simp: escape_char_def Let_def)
  ultimately show ?thesis using unescape_plain by simp
qed

text \<open>
  Escaping is faithful and safe: decoding the references of an escaped text gives the text
  back, and the escaped text has no character that could end the attribute value or open or
  close a tag.
\<close>

theorem xmlEscape_roundtrip:
  assumes "xml_text s"
  shows "xml_unescape (xmlEscape s) = s \<and>
    set (xmlEscape s) \<inter> {CHR ''<'', CHR ''>'', CHR 0x22, CHR 0x27} = {}"
proof
  show "xml_unescape (xmlEscape s) = s"
    using assms by (induction s) (simp_all add: xmlEscape_def xml_text_def unescape_escape_char)
  have "set (escape_char c) \<inter> {CHR ''<'', CHR ''>'', CHR 0x22, CHR 0x27} = {}" for c
    by (auto simp: escape_char_def Let_def split: if_splits)
  then show "set (xmlEscape s) \<inter> {CHR ''<'', CHR ''>'', CHR 0x22, CHR 0x27} = {}"
    by (auto simp: xmlEscape_def)
qed

theorem xmlEscape_roundtrip_witness:
  "xml_text ''a<b & c'' \<and> xmlEscape ''a<b & c'' = ''a&lt;b &amp; c'' \<and>
   xml_unescape (xmlEscape ''a<b & c'') = ''a<b & c''"
  using xmlEscape_roundtrip [of "''a<b & c''"]
  by (simp add: xml_text_def xmlEscape_def escape_char_def)

section \<open>Rendered messages parse back\<close>

text \<open>The token stream of a rendered XSD message: what an XML decoder reads from it.\<close>

definition g2s_name :: "Config \<Rightarrow> string \<Rightarrow> xml_name" where
  "g2s_name cfg local =
     \<lparr>xn_Space = firstNonEmpty [gx_Namespace (c_G2SXML cfg), G2SDefaultNamespace], xn_Local = local\<rparr>"

definition plain_attrs :: "string go_map \<Rightarrow> xml_attr list" where
  "plain_attrs attrs = map (\<lambda>(k, v). (\<lparr>xn_Space = [], xn_Local = k\<rparr>, v)) (attr_entries attrs)"

definition xsd_message_tokens :: "Config \<Rightarrow> string \<Rightarrow> string \<Rightarrow> string go_map \<Rightarrow> xml_token list" where
  "xsd_message_tokens cfg dateTimeSent op attrs =
     [StartElement (g2s_name cfg ''g2sMessage'')
        [(\<lparr>xn_Space = ''xmlns'', xn_Local = ''g2s''\<rparr>, xn_Space (g2s_name cfg []))],
      StartElement (g2s_name cfg ''g2sBody'') (plain_attrs (body_attrs cfg dateTimeSent)),
      StartElement (g2s_name cfg ''communications'') [],
      StartElement (g2s_name cfg op) (plain_attrs attrs),
      EndElement, EndElement, EndElement, EndElement]"

text \<open>Element names that the envelope parser treats as structure, not as an operation.\<close>

definition structural_name :: "string \<Rightarrow> bool" where
  "structural_name local \<longleftrightarrow>
     EqualFold local ''Envelope'' \<or> EqualFold local ''g2sMessage'' \<or> EqualFold local ''g2sBody'' \<or>
     EqualFold local ''g2sAck''"

lemma attrValue_plain_attrs:
  "attrValue (plain_attrs attrs) k = go_get (attr_entries attrs) k"
proof -
  have "attrValue (map (\<lambda>(k, v). (\<lparr>xn_Space = [], xn_Local = k\<rparr>, v)) es) k = go_get es k" for es
    by (induction es) (auto simp: go_get_def)
  then show ?thesis by (simp add: plain_attrs_def)
qed

lemma go_get_entries:
  "go_get (map (\<lambda>k. (k, f k)) ks) k = (if k \<in> set ks then f k else [])"
  by (induction ks) (auto simp: go_get_def)

lemma go_get_attr_entries:
  assumes "k \<noteq> []"
  shows "go_get (attr_entries attrs) k = go_get attrs k"
proof -
  have eq: "go_get (attr_entries attrs) k =
      (if k \<in> fst ` set (filter (\<lambda>(k, v). k \<noteq> [] \<and> v \<noteq> []) attrs) then go_get attrs k else [])"
    by (simp add: attr_entries_def go_get_entries)
  have "k \<in> fst ` set (filter (\<lambda>(k, v). k \<noteq> [] \<and> v \<noteq> []) attrs)" if "go_get attrs k \<noteq> []"
  proof -
    from that obtain v where "map_of attrs k = Some v" "v \<noteq> []"
      by (auto simp: go_get_def split: option.splits)
    then have "(k, v) \<in> set (filter (\<lambda>(k, v). k \<noteq> [] \<and> v \<noteq> []) attrs)"
      using assms by (auto dest: map_of_SomeD)
    then show ?thesis by (rule image_eqI [rotated]) simp
  qed
  with eq show ?thesis by (cases "go_get attrs k = []") (simp_all split: if_splits)
qed

lemma body_attr_values:
  "attrValue (plain_attrs (body_attrs cfg dts)) ''hostId'' = c_HostID cfg"
  "attrValue (plain_attrs (body_attrs cfg dts)) ''egmId'' = c_EGMID cfg"
  "attrValue (plain_attrs (body_attrs cfg dts)) ''dateTimeSent'' = dts"
  by (simp_all add: attrValue_plain_attrs go_get_attr_entries body_attrs_def)
    (simp_all add: go_get_def)

lemma fold_case_literals:
  "EqualFold ''g2sMessage'' ''g2sMessage''" "\<not> EqualFold ''g2sMessage'' ''Envelope''"
  "\<not> EqualFold ''g2sBody'' ''Envelope''" "\<not> EqualFold ''g2sBody'' ''g2sMessage''"
  "EqualFold ''g2sBody'' ''g2sBody''"
  "\<not> structural_name ''communications''" "isG2SClassName ''communications''"
  "EqualFold ''communications'' ''communications''"
  by (simp_all add: EqualFold_def ascii_lower_def structural_name_def isG2SClassName_def
      g2s_class_names_def)

lemma xsd_tokens_loop:
  assumes "\<not> structural_name op" "op \<noteq> []"
  shows "\<exists>p. envelope_loop (xsd_message_tokens cfg dts op attrs) None [] empty_envelope = Inr p \<and>
    pe_RootKind p = ''g2sMessage'' \<and> pe_RawRoot p = ''g2sMessage'' \<and>
    pe_ClassName p = ''communications'' \<and> pe_OperationName p = op \<and>
    pe_HostID p = c_HostID cfg \<and> pe_EGMID p = c_EGMID cfg \<and> pe_DateTimeSent p = dts \<and>
    pe_SessionID p = attrValue (plain_attrs attrs) ''sessionId''"
  using assms fold_case_literals
  by (simp add: xsd_message_tokens_def g2s_name_def on_start_def note_root_def take_identity_def
      structural_name_def empty_envelope_def body_attr_values Let_def)



end
