(* ===== verification/Event_Log.thy ===== *)
theory Event_Log
  imports Go_Prelude
begin

text \<open>
  The event logger (\<^verbatim>\<open>src/runtime/logger.go\<close>) and the index record of
  \<^verbatim>\<open>src/storage/index.go\<close>. The event file is kept as its lines: a line that decodes to an
  event, a line that does not decode, or a line longer than the reader's 1 MiB buffer, at which
  the scan fails. Records handed to the storage index are kept in the order in which they are
  handed over, payload files as a map from names to contents. Once the event file is closed,
  what is logged reaches the index but no longer the file; queries read the file through its path
  and still work. The fields of an event are JSON values, text being valid UTF-8; \<open>sprint\<close> is
  \<^verbatim>\<open>fmt.Sprint\<close> on them: a number read back from a line is a float64, printed with an exponent
  from one million on (exact up to \<open>2 ^ 53\<close>). Directories, the clock and files outside the log
  directory are parameters; the server never holds a nil logger, so the nil receivers are left
  out.
\<close>

section \<open>Types\<close>

record EventRecord =
  rec_Time :: time
  rec_InstanceID :: string
  rec_Level :: string
  rec_Category :: string
  rec_Message :: string
  rec_MessageType :: string
  rec_HostID :: string
  rec_SessionID :: string
  rec_PayloadPath :: string

record Event =
  ev_Time :: time
  ev_Level :: string
  ev_Category :: string
  ev_Message :: string
  ev_InstanceID :: string
  ev_Fields :: "json go_map"

record EventFilter =
  f_Category :: string
  f_Level :: string
  f_Contains :: string
  f_MessageType :: string
  f_HostID :: string
  f_SessionID :: string
  f_Since :: time
  f_Until :: time
  f_Limit :: int

definition no_filter :: EventFilter where
  "no_filter = \<lparr>f_Category = [], f_Level = [], f_Contains = [], f_MessageType = [], f_HostID = [],
     f_SessionID = [], f_Since = 0, f_Until = 0, f_Limit = 0\<rparr>"

record MessageSummaryEntry =
  ms_Time :: time
  ms_Category :: string
  ms_Message :: string
  ms_MessageType :: string
  ms_HostID :: string
  ms_SessionID :: string
  ms_Status :: string

datatype log_line = EventLine Event | BadLine | LongLine

record Logger =
  lg_lines :: "log_line list"
  lg_indexed :: "EventRecord list"
  lg_payloads :: "string go_map"
  lg_payloadDir :: string
  lg_logDir :: string
  lg_instanceID :: string
  lg_oversize :: "Event \<Rightarrow> bool"
  lg_closed :: bool

section \<open>Fields\<close>

text \<open>\<^verbatim>\<open>%v\<close> on a float64 with an integral value.\<close>

definition float_text :: "int \<Rightarrow> string" where
  "float_text n =
     (let ds = show_nat (nat \<bar>n\<bar>);
          frac = rev (dropWhile (\<lambda>c. c = CHR ''0'') (rev (tl ds)));
          ex = show_nat (length ds - 1)
      in (if n < 0 then ''-'' else []) @
         (if length ds \<le> 6 then ds
          else hd ds # (if frac = [] then [] else CHR ''.'' # frac) @ ''e+'' @
            (if length ex = 1 then CHR ''0'' # ex else ex)))"

fun sprint :: "json \<Rightarrow> string" where
  "sprint JNull = ''<nil>''"
| "sprint (JBool b) = (if b then ''true'' else ''false'')"
| "sprint (JInt n) = float_text n"
| "sprint (JNum s) = s"
| "sprint (JStr s) = s"
| "sprint (JArr vs) = ''['' @ join_with '' '' (map sprint vs) @ '']''"
| "sprint (JObj kvs) =
     ''map['' @ join_with '' '' (map snd (sort_key fst (map (\<lambda>(k, v). (k, k @ '':'' @ sprint v)) kvs))) @ '']''"

text \<open>\<^verbatim>\<open>fmt.Sprint(fields[k])\<close>: a missing key is nil.\<close>

definition field_text :: "json go_map \<Rightarrow> string \<Rightarrow> string" where
  "field_text flds k = (case map_of flds k of None \<Rightarrow> ''<nil>'' | Some v \<Rightarrow> sprint v)"

fun firstField :: "json go_map \<Rightarrow> string list \<Rightarrow> string" where
  "firstField flds [] = []"
| "firstField flds (k # ks) =
     (case map_of flds k of
        Some v \<Rightarrow> (if sprint v \<noteq> [] then sprint v else firstField flds ks)
      | None \<Rightarrow> firstField flds ks)"

definition flattenFields :: "json go_map \<Rightarrow> string" where
  "flattenFields flds =
     concat (map (\<lambda>k. k @ ''='' @ field_text flds k @ '' '') (sort (map fst flds)))"

definition eventToRecord :: "Event \<Rightarrow> string \<Rightarrow> EventRecord" where
  "eventToRecord evt payloadPath =
     \<lparr>rec_Time = ev_Time evt, rec_InstanceID = ev_InstanceID evt, rec_Level = ev_Level evt,
      rec_Category = ev_Category evt, rec_Message = ev_Message evt,
      rec_MessageType = firstField (ev_Fields evt) [''message_type'', ''messageType''],
      rec_HostID = firstField (ev_Fields evt) [''host_id'', ''hostId''],
      rec_SessionID = firstField (ev_Fields evt) [''session_id'', ''sessionId''],
      rec_PayloadPath = payloadPath\<rparr>"

section \<open>Writing\<close>

text \<open>The line of an event: longer than the read buffer or not.\<close>

definition line_of :: "Logger \<Rightarrow> Event \<Rightarrow> log_line" where
  "line_of l evt = (if lg_oversize l evt then LongLine else EventLine evt)"

definition Log :: "time \<Rightarrow> string \<Rightarrow> string \<Rightarrow> string \<Rightarrow> json go_map \<Rightarrow> Logger \<Rightarrow> Logger" where
  "Log now level category message flds l =
     (let evt = \<lparr>ev_Time = now, ev_Level = level, ev_Category = category, ev_Message = message,
                 ev_InstanceID = lg_instanceID l, ev_Fields = flds\<rparr>
      in l\<lparr>lg_lines := (if lg_closed l then lg_lines l else lg_lines l @ [line_of l evt]),
           lg_indexed := lg_indexed l @ [eventToRecord evt []]\<rparr>)"

text \<open>Letters and digits are kept, every other rune becomes an underscore. \<open>rune_len\<close> is the
  number of bytes the next rune takes (\<^verbatim>\<open>utf8.DecodeRune\<close>): a byte that starts no valid
  sequence is a rune of its own.\<close>

definition alnum :: "char \<Rightarrow> bool" where
  "alnum c \<longleftrightarrow> (let n = of_char c :: nat in
     97 \<le> n \<and> n \<le> 122 \<or> 65 \<le> n \<and> n \<le> 90 \<or> 48 \<le> n \<and> n \<le> 57)"

fun byte_in :: "string \<Rightarrow> nat \<Rightarrow> nat \<Rightarrow> nat \<Rightarrow> bool" where
  "byte_in s i lo hi \<longleftrightarrow> i < length s \<and> lo \<le> of_char (s ! i) \<and> of_char (s ! i) \<le> hi"

definition rune_len :: "string \<Rightarrow> nat" where
  "rune_len s =
     (if byte_in s 0 194 223 \<and> byte_in s 1 128 191 then 2
      else if byte_in s 0 224 239 \<and>
        byte_in s 1 (if byte_in s 0 224 224 then 160 else 128) (if byte_in s 0 237 237 then 159 else 191) \<and>
        byte_in s 2 128 191 then 3
      else if byte_in s 0 240 244 \<and>
        byte_in s 1 (if byte_in s 0 240 240 then 144 else 128) (if byte_in s 0 244 244 then 143 else 191) \<and>
        byte_in s 2 128 191 \<and> byte_in s 3 128 191 then 4
      else 1)"

function sanitize_runes :: "string \<Rightarrow> string" where
  "sanitize_runes [] = []"
| "sanitize_runes (c # s) =
     (if alnum c then c else CHR ''_'') # sanitize_runes (drop (rune_len (c # s)) (c # s))"
  by pat_completeness auto
termination
  by (relation "measure length") (auto simp: rune_len_def)

definition sanitizeFilePart :: "string \<Rightarrow> string" where
  "sanitizeFilePart s = (if s = [] then ''unknown'' else sanitize_runes s)"

text \<open>\<open>stamp\<close> is the current time formatted for a file name.\<close>

definition payload_name :: "string \<Rightarrow> string \<Rightarrow> string \<Rightarrow> string" where
  "payload_name stamp direction op =
     stamp @ ''_'' @ direction @ ''_'' @ sanitizeFilePart op @ ''.xml''"

text \<open>\<open>write\<close> writes a file; an existing file of that name is replaced. The result is the path.\<close>

definition WritePayload ::
    "(string \<Rightarrow> string \<Rightarrow> string) \<Rightarrow> (string \<Rightarrow> string \<Rightarrow> unit result) \<Rightarrow> string \<Rightarrow> string \<Rightarrow> string \<Rightarrow> string \<Rightarrow>
     Logger \<Rightarrow> Logger \<times> string result" where
  "WritePayload join write stamp direction op data l =
     (let name = payload_name stamp direction op;
          path = join (lg_payloadDir l) name
      in case write path data of
           Inl e \<Rightarrow> (l, Inl e)
         | Inr _ \<Rightarrow> (l\<lparr>lg_payloads := go_set name data (lg_payloads l)\<rparr>, Inr path))"

text \<open>Closing the event file; \<open>Close_index\<close> closes the index. The errors are ignored by the
  caller.\<close>

definition Logger_Close :: "Logger \<Rightarrow> Logger" where
  "Logger_Close l = l\<lparr>lg_closed := True\<rparr>"

section \<open>Querying\<close>

definition matchesEventFilter :: "Event \<Rightarrow> EventFilter \<Rightarrow> bool" where
  "matchesEventFilter evt flt \<longleftrightarrow>
     \<not> (f_Category flt \<noteq> [] \<and> ev_Category evt \<noteq> f_Category flt) \<and>
     \<not> (f_Level flt \<noteq> [] \<and> ev_Level evt \<noteq> f_Level flt) \<and>
     \<not> (\<not> IsZero (f_Since flt) \<and> ev_Time evt < f_Since flt) \<and>
     \<not> (\<not> IsZero (f_Until flt) \<and> ev_Time evt > f_Until flt) \<and>
     \<not> (f_Contains flt \<noteq> [] \<and>
        \<not> Contains (ToLower (ev_Message evt @ '' '' @ flattenFields (ev_Fields evt)))
             (ToLower (f_Contains flt))) \<and>
     \<not> (f_MessageType flt \<noteq> [] \<and> field_text (ev_Fields evt) ''message_type'' \<noteq> f_MessageType flt) \<and>
     \<not> (f_HostID flt \<noteq> [] \<and> field_text (ev_Fields evt) ''hostId'' \<noteq> f_HostID flt \<and>
        field_text (ev_Fields evt) ''host_id'' \<noteq> f_HostID flt) \<and>
     \<not> (f_SessionID flt \<noteq> [] \<and> field_text (ev_Fields evt) ''sessionId'' \<noteq> f_SessionID flt \<and>
        field_text (ev_Fields evt) ''session_id'' \<noteq> f_SessionID flt)"

fun query_loop :: "log_line list \<Rightarrow> EventFilter \<Rightarrow> Event list \<Rightarrow> Event list result" where
  "query_loop [] flt out = Inr out"
| "query_loop (LongLine # ls) flt out = Inl ''bufio.Scanner: token too long''"
| "query_loop (BadLine # ls) flt out = query_loop ls flt out"
| "query_loop (EventLine evt # ls) flt out =
     (if \<not> matchesEventFilter evt flt then query_loop ls flt out
      else let out' = out @ [evt] in
        if f_Limit flt > 0 \<and> int (length out') \<ge> f_Limit flt then Inr out'
        else query_loop ls flt out')"

definition QueryEvents :: "Logger \<Rightarrow> EventFilter \<Rightarrow> Event list result" where
  "QueryEvents l flt = query_loop (lg_lines l) flt []"

section \<open>Export\<close>

fun reasonBucket :: "Event list \<Rightarrow> string" where
  "reasonBucket [] = ''none''"
| "reasonBucket (evt # evts) =
     (if ev_Level evt = ''warn'' \<or> ev_Level evt = ''error'' then
        (if ev_Category evt \<in> {''binding'', ''soap'', ''wire'', ''session''} then ev_Category evt
         else ''runtime'')
      else reasonBucket evts)"

definition summarizeMessages :: "Event list \<Rightarrow> MessageSummaryEntry list" where
  "summarizeMessages evts =
     map (\<lambda>evt. \<lparr>ms_Time = ev_Time evt, ms_Category = ev_Category evt, ms_Message = ev_Message evt,
                 ms_MessageType = firstField (ev_Fields evt) [''message_type'', ''messageType''],
                 ms_HostID = firstField (ev_Fields evt) [''host_id'', ''hostId''],
                 ms_SessionID = firstField (ev_Fields evt) [''session_id'', ''sessionId''],
                 ms_Status = firstField (ev_Fields evt) [''status'']\<rparr>)
       (filter (\<lambda>evt. ev_Category evt \<in> {''wire'', ''session'', ''binding'', ''soap''}) evts)"

definition filterEventsByCategory :: "Event list \<Rightarrow> string \<Rightarrow> Event list" where
  "filterEventsByCategory evts category = filter (\<lambda>evt. ev_Category evt = category) evts"

fun firstMessageWorksheet :: "Event list \<Rightarrow> MessageSummaryEntry option" where
  "firstMessageWorksheet [] = None"
| "firstMessageWorksheet (evt # evts) =
     (if ev_Category evt = ''wire'' \<or> ev_Category evt = ''session'' then
        Some \<lparr>ms_Time = ev_Time evt, ms_Category = ev_Category evt, ms_Message = ev_Message evt,
              ms_MessageType = firstField (ev_Fields evt) [''message_type'', ''messageType''],
              ms_HostID = firstField (ev_Fields evt) [''host_id'', ''hostId''],
              ms_SessionID = firstField (ev_Fields evt) [''session_id'', ''sessionId''],
              ms_Status = firstField (ev_Fields evt) [''status'']\<rparr>
      else firstMessageWorksheet evts)"

text \<open>The three snapshots are values of any type, or nil.\<close>

record ('st, 'cfg, 'pk) ExportOptions =
  eo_OutputDir :: string
  eo_RunID :: string
  eo_Since :: time
  eo_Until :: time
  eo_IncludePayloads :: bool
  eo_StateSnapshot :: "'st option"
  eo_ConfigSnapshot :: "'cfg option"
  eo_PackSummary :: "'pk option"
  eo_PassFailNotes :: string

record ('st, 'cfg, 'pk) ExportBundle =
  eb_GeneratedAt :: time
  eb_RunID :: string
  eb_InstanceID :: string
  eb_Since :: time
  eb_Until :: time
  eb_IncludePayloads :: bool
  eb_ReasonBucket :: string
  eb_PassFailNotes :: string
  eb_Events :: "Event list"
  eb_MessageSummary :: "MessageSummaryEntry list"
  eb_PayloadFiles :: "string list"
  eb_StateTransitions :: "Event list"
  eb_FirstMessageWorksheet :: "MessageSummaryEntry option"
  eb_StateSnapshot :: "'st option"
  eb_ConfigSnapshot :: "'cfg option"
  eb_PackSummary :: "'pk option"

text \<open>\<open>mkdir\<close> makes the output directory, \<open>readDir\<close> is the error of listing the payload
  directory, whose files are the payloads, \<open>run_stamp\<close> is the current time formatted as a default
  run identifier, and \<open>write\<close> writes the bundle. The result is the path and what it now holds.\<close>

definition ExportBundle_of ::
    "(string \<Rightarrow> string \<Rightarrow> string) \<Rightarrow> (string \<Rightarrow> unit result) \<Rightarrow> error option \<Rightarrow>
     (string \<Rightarrow> ('st, 'cfg, 'pk) ExportBundle \<Rightarrow> unit result) \<Rightarrow> time \<Rightarrow> string \<Rightarrow> Logger \<Rightarrow>
     ('st, 'cfg, 'pk) ExportOptions \<Rightarrow> (string \<times> ('st, 'cfg, 'pk) ExportBundle) result" where
  "ExportBundle_of join mkdir readDir write now run_stamp l opts =
     (let outDir = (if eo_OutputDir opts = [] then join (lg_logDir l) ''exports'' else eo_OutputDir opts)
      in case mkdir outDir of
           Inl e \<Rightarrow> Inl e
         | Inr _ \<Rightarrow>
      let runID = (if eo_RunID opts = [] then run_stamp else eo_RunID opts);
          bundlePath = join outDir
            (sanitizeFilePart runID @ ''_'' @ sanitizeFilePart (lg_instanceID l) @ ''_bundle.json'')
      in case QueryEvents l (no_filter\<lparr>f_Since := eo_Since opts, f_Until := eo_Until opts\<rparr>) of
           Inl e \<Rightarrow> Inl e
         | Inr evts \<Rightarrow>
      let bundle =
            \<lparr>eb_GeneratedAt = now, eb_RunID = runID, eb_InstanceID = lg_instanceID l,
             eb_Since = eo_Since opts, eb_Until = eo_Until opts,
             eb_IncludePayloads = eo_IncludePayloads opts,
             eb_ReasonBucket = reasonBucket evts,
             eb_PassFailNotes = eo_PassFailNotes opts,
             eb_Events = evts,
             eb_MessageSummary = summarizeMessages evts,
             eb_PayloadFiles =
               (if eo_IncludePayloads opts \<and> readDir = None then sort (map fst (lg_payloads l)) else []),
             eb_StateTransitions = filterEventsByCategory evts ''state'',
             eb_FirstMessageWorksheet = firstMessageWorksheet evts,
             eb_StateSnapshot = eo_StateSnapshot opts,
             eb_ConfigSnapshot = eo_ConfigSnapshot opts,
             eb_PackSummary = eo_PackSummary opts\<rparr>
      in case write bundlePath bundle of
           Inl e \<Rightarrow> Inl e
         | Inr _ \<Rightarrow> Inr (bundlePath, bundle))"

section \<open>What a query returns\<close>

fun events_of :: "log_line list \<Rightarrow> Event list" where
  "events_of [] = []"
| "events_of (EventLine evt # ls) = evt # events_of ls"
| "events_of (_ # ls) = events_of ls"

definition limited :: "int \<Rightarrow> 'a list \<Rightarrow> 'a list" where
  "limited n xs = (if n > 0 then take (nat n) xs else xs)"

lemma query_loop_events:
  assumes "LongLine \<notin> set ls" "f_Limit flt > 0 \<longrightarrow> int (length out) < f_Limit flt"
  shows "query_loop ls flt out =
    Inr (limited (f_Limit flt) (out @ filter (\<lambda>e. matchesEventFilter e flt) (events_of ls)))"
  using assms
proof (induction ls flt out rule: query_loop.induct)
  case (1 flt out)
  then show ?case by (auto simp: limited_def)
next
  case (4 evt ls flt out)
  show ?case
  proof (cases "matchesEventFilter evt flt")
    case True
    show ?thesis
    proof (cases "f_Limit flt > 0 \<and> int (length (out @ [evt])) \<ge> f_Limit flt")
      case lim: True
      with "4.prems" have "nat (f_Limit flt) = length (out @ [evt])" by auto
      with True lim show ?thesis by (simp add: limited_def)
    next
      case False
      with True 4 show ?thesis by auto
    qed
  next
    case False
    with 4 show ?thesis by simp
  qed
qed auto

lemma Log_lines [frame_simps]:
  "lg_payloads (Log now level category message flds l) = lg_payloads l"
  "lg_instanceID (Log now level category message flds l) = lg_instanceID l"
  "lg_oversize (Log now level category message flds l) = lg_oversize l"
  "lg_closed (Log now level category message flds l) = lg_closed l"
  "lg_logDir (Log now level category message flds l) = lg_logDir l"
  "lg_payloadDir (Log now level category message flds l) = lg_payloadDir l"
  by (simp_all add: Log_def Let_def)

lemma events_of_append [simp]: "events_of (xs @ ys) = events_of xs @ events_of ys"
  by (induction xs rule: events_of.induct) auto

text \<open>
  As long as no line of the event file exceeds the read buffer, a query succeeds and
  returns, in file order, the events that match the filter, cut at the limit when there is one.
\<close>

theorem QueryEvents_exact:
  assumes "LongLine \<notin> set (lg_lines l)"
  shows "QueryEvents l flt =
    Inr (limited (f_Limit flt) (filter (\<lambda>e. matchesEventFilter e flt) (events_of (lg_lines l))))"
  using query_loop_events [of "lg_lines l" flt "[]"] assms by (simp add: QueryEvents_def)

definition sample_event :: Event where
  "sample_event = \<lparr>ev_Time = 5, ev_Level = ''info'', ev_Category = ''wire'', ev_Message = ''handled'',
     ev_InstanceID = ''vegm-001'', ev_Fields = [(''message_type'', JStr ''keepAlive'')]\<rparr>"

definition sample_logger :: Logger where
  "sample_logger = \<lparr>lg_lines = [EventLine sample_event, BadLine], lg_indexed = [], lg_payloads = [],
     lg_payloadDir = ''logs/payloads'', lg_logDir = ''logs'', lg_instanceID = ''vegm-001'',
     lg_oversize = (\<lambda>e. False), lg_closed = False\<rparr>"

definition sample_filter :: EventFilter where
  "sample_filter = no_filter\<lparr>f_Category := ''wire'', f_MessageType := ''keepAlive''\<rparr>"

lemmas sample_log_defs = sample_event_def sample_logger_def sample_filter_def no_filter_def

theorem QueryEvents_exact_witness:
  "QueryEvents sample_logger sample_filter = Inr [sample_event]"
  using QueryEvents_exact [of sample_logger sample_filter]
  by (simp add: sample_log_defs limited_def matchesEventFilter_def field_text_def IsZero_def)



lemma alnum_underscore: "\<not> alnum CHR ''_''"
  by (simp add: alnum_def)

lemma rune_len_ascii:
  assumes "(of_char c :: nat) < 128"
  shows "rune_len (c # s) = 1"
  using assms by (simp add: rune_len_def)

lemma plain_ascii:
  assumes "alnum c \<or> c = CHR ''_''"
  shows "(of_char c :: nat) < 128"
  using assms by (auto simp: alnum_def Let_def)

lemma sanitize_runes_set: "c \<in> set (sanitize_runes s) \<Longrightarrow> alnum c \<or> c = CHR ''_''"
  by (induction s rule: sanitize_runes.induct) (auto split: if_splits)

lemma sanitize_runes_fixed:
  "\<forall>c \<in> set s. alnum c \<or> c = CHR ''_'' \<Longrightarrow> sanitize_runes s = s"
  by (induction s) (auto simp: rune_len_ascii plain_ascii alnum_underscore)

text \<open>
  A sanitized file name part is never empty and consists of letters, digits and underscores
  only, so it cannot name another directory; sanitizing again changes nothing.
\<close>

theorem sanitizeFilePart_safe:
  "sanitizeFilePart s \<noteq> [] \<and>
   list_all (\<lambda>c. alnum c \<or> c = CHR ''_'') (sanitizeFilePart s) \<and>
   sanitizeFilePart (sanitizeFilePart s) = sanitizeFilePart s"
proof -
  have safe: "\<forall>c \<in> set (sanitizeFilePart s). alnum c \<or> c = CHR ''_''"
    using sanitize_runes_set [of _ s] by (auto simp: sanitizeFilePart_def alnum_def)
  have "sanitizeFilePart s \<noteq> []"
    by (cases s) (simp_all add: sanitizeFilePart_def)
  with safe sanitize_runes_fixed [OF safe] show ?thesis
    by (simp add: sanitizeFilePart_def [of "sanitizeFilePart s"] list_all_iff)
qed

end
