(* ===== verification/Storage.thy ===== *)
theory Storage
  imports Event_Log
begin

text \<open>
  The event index (\<^verbatim>\<open>src/storage\<close>): the no-op index, the SQLite index with the statements it
  builds, and the factory. The SQL driver is a parameter (\<open>driver\<close>): opening a database,
  executing a statement with its arguments, and running a query, which returns rows of text and
  possibly an error at the end of the iteration. Calendar text is a parameter too: \<open>sec_text\<close>
  formats a number of seconds as date and time of day; the fraction that RFC 3339 with
  nanoseconds appends to it is written out. A closed database is a value of the driver's own;
  closing the result rows has no effect on the model.
\<close>

section \<open>Types (index.go)\<close>

record Query =
  q_Category :: string
  q_Level :: string
  q_MessageType :: string
  q_HostID :: string
  q_SessionID :: string
  q_Contains :: string
  q_Since :: time
  q_Until :: time
  q_Limit :: int

datatype 'db Index = NoopIndex | SQLiteIndex string "'db option"

type_synonym sql_rows = "(string list result) list \<times> error option"

record 'db driver =
  dr_Open :: "string \<Rightarrow> 'db result"
  dr_Exec :: "'db \<Rightarrow> string \<Rightarrow> string list \<Rightarrow> 'db result"
  dr_Query :: "'db \<Rightarrow> string \<Rightarrow> string list \<Rightarrow> sql_rows result"
  dr_Close :: "'db \<Rightarrow> 'db \<times> error option"

section \<open>Factory (factory.go)\<close>

definition NewSQLiteIndex :: "string \<Rightarrow> 'db Index" where
  "NewSQLiteIndex path = SQLiteIndex path None"

definition NewIndex :: "string \<Rightarrow> string \<Rightarrow> 'db Index result" where
  "NewIndex backend sqlitePath =
     (if backend \<in> {[], ''noop''} then Inr NoopIndex
      else if backend = ''sqlite'' then Inr (NewSQLiteIndex sqlitePath)
      else Inl (''unsupported storage backend '' @ go_quote backend))"

text \<open>\<^verbatim>\<open>filepath.Join\<close> is a parameter.\<close>

definition DefaultSQLitePath :: "(string \<Rightarrow> string \<Rightarrow> string) \<Rightarrow> string \<Rightarrow> string" where
  "DefaultSQLitePath join logDir = join logDir ''vegm-index.db''"

section \<open>Time text\<close>

definition pad9 :: "nat \<Rightarrow> string" where
  "pad9 n = replicate (9 - length (show_nat n)) CHR ''0'' @ show_nat n"

definition fraction_text :: "nat \<Rightarrow> string" where
  "fraction_text n =
     (if n = 0 then [] else ''.'' @ rev (dropWhile (\<lambda>c. c = CHR ''0'') (rev (pad9 n))))"

definition RFC3339Nano :: "(int \<Rightarrow> string) \<Rightarrow> time \<Rightarrow> string" where
  "RFC3339Nano sec_text t =
     sec_text (t div 1000000000) @ fraction_text (nat (t mod 1000000000)) @ ''Z''"

section \<open>SQLite index (sqlite.go)\<close>

definition pragma_stmt :: string where
  "pragma_stmt = ''PRAGMA journal_mode=WAL;''"

definition nl :: string where
  "nl = [CHR 0x0A]"

definition schema_stmt :: string where
  "schema_stmt =
     nl @ ''CREATE TABLE IF NOT EXISTS event_index ('' @
     nl @ ''  id INTEGER PRIMARY KEY AUTOINCREMENT,'' @
     nl @ ''  time_utc TEXT NOT NULL,'' @
     nl @ ''  instance_id TEXT NOT NULL,'' @
     nl @ ''  level TEXT,'' @ nl @ ''  category TEXT,'' @ nl @ ''  message TEXT,'' @
     nl @ ''  message_type TEXT,'' @ nl @ ''  host_id TEXT,'' @ nl @ ''  session_id TEXT,'' @
     nl @ ''  payload_path TEXT'' @ nl @ '');'' @
     concat (map (\<lambda>(ix, col). nl @ ''CREATE INDEX IF NOT EXISTS idx_event_index_'' @ ix @
       '' ON event_index('' @ col @ '');'')
       [(''time'', ''time_utc''), (''message_type'', ''message_type''), (''host_id'', ''host_id''),
        (''session_id'', ''session_id''), (''category'', ''category'')]) @ nl"

definition SQLite_Initialize :: "'db driver \<Rightarrow> string \<Rightarrow> 'db option \<Rightarrow> 'db Index result" where
  "SQLite_Initialize drv path db0 =
     (if path = [] then Inl ''sqlite path is required''
      else case dr_Open drv path of
        Inl e \<Rightarrow> Inl e
      | Inr db \<Rightarrow>
          (case dr_Exec drv db pragma_stmt [] of
             Inl e \<Rightarrow> Inl e
           | Inr db \<Rightarrow>
               (case dr_Exec drv db schema_stmt [] of
                  Inl e \<Rightarrow> Inl e
                | Inr db \<Rightarrow> Inr (SQLiteIndex path (Some db)))))"

definition insert_stmt :: string where
  "insert_stmt =
     nl @ ''INSERT INTO event_index ('' @
     nl @ ''  time_utc, instance_id, level, category, message, message_type, host_id, session_id, payload_path'' @
     nl @ '') VALUES (?, ?, ?, ?, ?, ?, ?, ?, ?)'' @ nl"

definition insert_args :: "(int \<Rightarrow> string) \<Rightarrow> EventRecord \<Rightarrow> string list" where
  "insert_args sec_text r =
     [RFC3339Nano sec_text (rec_Time r), rec_InstanceID r, rec_Level r, rec_Category r, rec_Message r,
      rec_MessageType r, rec_HostID r, rec_SessionID r, rec_PayloadPath r]"

definition query_conds :: "(int \<Rightarrow> string) \<Rightarrow> Query \<Rightarrow> (string \<times> string) list" where
  "query_conds sec_text q =
     (if q_Category q \<noteq> [] then [(''category = ?'', q_Category q)] else []) @
     (if q_Level q \<noteq> [] then [(''level = ?'', q_Level q)] else []) @
     (if q_MessageType q \<noteq> [] then [(''message_type = ?'', q_MessageType q)] else []) @
     (if q_HostID q \<noteq> [] then [(''host_id = ?'', q_HostID q)] else []) @
     (if q_SessionID q \<noteq> [] then [(''session_id = ?'', q_SessionID q)] else []) @
     (if q_Contains q \<noteq> []
      then [(''LOWER(message) LIKE ?'', ''%'' @ ToLower (q_Contains q) @ ''%'')] else []) @
     (if \<not> IsZero (q_Since q) then [(''time_utc >= ?'', RFC3339Nano sec_text (q_Since q))] else []) @
     (if \<not> IsZero (q_Until q) then [(''time_utc <= ?'', RFC3339Nano sec_text (q_Until q))] else [])"

definition query_stmt :: "(int \<Rightarrow> string) \<Rightarrow> Query \<Rightarrow> string" where
  "query_stmt sec_text q =
     ''SELECT time_utc, instance_id, level, category, message, message_type, host_id, session_id, payload_path FROM event_index WHERE '' @
     join_with '' AND '' (''1=1'' # map fst (query_conds sec_text q)) @
     '' ORDER BY time_utc DESC, id DESC'' @
     (if q_Limit q > 0 then '' LIMIT '' @ show_int (q_Limit q) else [])"

text \<open>One row: nine columns of text, the first of them the time, which must parse.\<close>

definition scan_row :: "(string \<Rightarrow> time result) \<Rightarrow> string list \<Rightarrow> EventRecord result" where
  "scan_row parse_time row =
     (case row of
        [ts, iid, lvl, cat, msg, mt, hid, sid, pp] \<Rightarrow>
          (case parse_time ts of
             Inl e \<Rightarrow> Inl e
           | Inr t \<Rightarrow> Inr \<lparr>rec_Time = t, rec_InstanceID = iid, rec_Level = lvl, rec_Category = cat,
               rec_Message = msg, rec_MessageType = mt, rec_HostID = hid, rec_SessionID = sid,
               rec_PayloadPath = pp\<rparr>)
      | _ \<Rightarrow> Inl ''sql: expected a different number of destination arguments in Scan'')"

fun scan_rows ::
    "(string \<Rightarrow> time result) \<Rightarrow> (string list result) list \<Rightarrow> error option \<Rightarrow> EventRecord list \<Rightarrow> EventRecord list result" where
  "scan_rows parse_time [] rows_err out = (case rows_err of Some e \<Rightarrow> Inl e | None \<Rightarrow> Inr out)"
| "scan_rows parse_time (Inl e # rows) rows_err out = Inl e"
| "scan_rows parse_time (Inr row # rows) rows_err out =
     (case scan_row parse_time row of
        Inl e \<Rightarrow> Inl e
      | Inr r \<Rightarrow> scan_rows parse_time rows rows_err (out @ [r]))"

section \<open>The index operations (noop.go, sqlite.go)\<close>

definition Initialize :: "'db driver \<Rightarrow> 'db Index \<Rightarrow> 'db Index result" where
  "Initialize drv idx =
     (case idx of
        NoopIndex \<Rightarrow> Inr NoopIndex
      | SQLiteIndex path db \<Rightarrow> SQLite_Initialize drv path db)"

definition WriteEvent :: "'db driver \<Rightarrow> (int \<Rightarrow> string) \<Rightarrow> EventRecord \<Rightarrow> 'db Index \<Rightarrow> 'db Index result" where
  "WriteEvent drv sec_text r idx =
     (case idx of
        NoopIndex \<Rightarrow> Inr NoopIndex
      | SQLiteIndex path None \<Rightarrow> Inl ''sqlite index is not initialized''
      | SQLiteIndex path (Some db) \<Rightarrow>
          (case dr_Exec drv db insert_stmt (insert_args sec_text r) of
             Inl e \<Rightarrow> Inl e
           | Inr db \<Rightarrow> Inr (SQLiteIndex path (Some db))))"

definition Query_index ::
    "'db driver \<Rightarrow> (int \<Rightarrow> string) \<Rightarrow> (string \<Rightarrow> time result) \<Rightarrow> Query \<Rightarrow> 'db Index \<Rightarrow> EventRecord list result" where
  "Query_index drv sec_text parse_time q idx =
     (case idx of
        NoopIndex \<Rightarrow> Inr []
      | SQLiteIndex path None \<Rightarrow> Inl ''sqlite index is not initialized''
      | SQLiteIndex path (Some db) \<Rightarrow>
          (case dr_Query drv db (query_stmt sec_text q) (map snd (query_conds sec_text q)) of
             Inl e \<Rightarrow> Inl e
           | Inr (rows, rows_err) \<Rightarrow> scan_rows parse_time rows rows_err []))"

definition Close_index :: "'db driver \<Rightarrow> 'db Index \<Rightarrow> 'db Index \<times> error option" where
  "Close_index drv idx =
     (case idx of
        NoopIndex \<Rightarrow> (NoopIndex, None)
      | SQLiteIndex path None \<Rightarrow> (SQLiteIndex path None, None)
      | SQLiteIndex path (Some db) \<Rightarrow>
          (case dr_Close drv db of (db', e) \<Rightarrow> (SQLiteIndex path (Some db'), e)))"

section \<open>The interface\<close>

definition index_ready :: "'db Index \<Rightarrow> bool" where
  "index_ready idx \<longleftrightarrow> (case idx of NoopIndex \<Rightarrow> True | SQLiteIndex path db \<Rightarrow> path \<noteq> [] \<and> db \<noteq> None)"

text \<open>What the logger relies on: an index that was initialised stays usable. The logger drops
  the errors of single writes, so the contract is about every sequence of them.\<close>

locale event_index =
  fixes initialize :: "'s \<Rightarrow> 's result"
    and write_event :: "EventRecord \<Rightarrow> 's \<Rightarrow> 's result"
    and ready :: "'s \<Rightarrow> bool"
  assumes initialize_ready: "initialize s = Inr s' \<Longrightarrow> ready s'"
    and write_ready: "ready s \<Longrightarrow> write_event r s = Inr s' \<Longrightarrow> ready s'"
begin

definition write_dropping :: "EventRecord \<Rightarrow> 's \<Rightarrow> 's" where
  "write_dropping r s = (case write_event r s of Inl e \<Rightarrow> s | Inr s' \<Rightarrow> s')"

lemma write_dropping_ready: "ready s \<Longrightarrow> ready (write_dropping r s)"
  by (auto simp: write_dropping_def write_ready split: sum.splits)

lemma writes_ready: "ready s \<Longrightarrow> ready (fold write_dropping rs s)"
  by (induction rs arbitrary: s) (simp_all add: write_dropping_ready)

lemma initialized_stays_ready: "initialize s = Inr s' \<Longrightarrow> ready (fold write_dropping rs s')"
  by (intro writes_ready initialize_ready)

end

lemma Initialize_ready: "Initialize drv idx = Inr idx' \<Longrightarrow> index_ready idx'"
  by (auto simp: Initialize_def SQLite_Initialize_def index_ready_def split: Index.splits sum.splits if_splits)

lemma WriteEvent_ready: "index_ready idx \<Longrightarrow> WriteEvent drv sec_text r idx = Inr idx' \<Longrightarrow> index_ready idx'"
  by (auto simp: WriteEvent_def index_ready_def split: Index.splits sum.splits option.splits)

interpretation ix: event_index "Initialize drv" "WriteEvent drv sec_text" index_ready for drv sec_text
  by unfold_locales (auto intro: Initialize_ready WriteEvent_ready)

definition write_all :: "'db driver \<Rightarrow> (int \<Rightarrow> string) \<Rightarrow> EventRecord list \<Rightarrow> 'db Index \<Rightarrow> 'db Index" where
  "write_all drv sec_text rs idx =
     fold (\<lambda>r idx. case WriteEvent drv sec_text r idx of Inl e \<Rightarrow> idx | Inr idx' \<Rightarrow> idx') rs idx"

lemma write_all_ready:
  "Initialize drv idx = Inr idx' \<Longrightarrow> index_ready (write_all drv sec_text rs idx')"
  using ix.initialized_stays_ready [of drv idx idx' sec_text rs]
  by (simp add: write_all_def ix.write_dropping_def [abs_def])

section \<open>Statements and their arguments\<close>

definition count_char :: "char \<Rightarrow> string \<Rightarrow> nat" where
  "count_char c s = length (filter (\<lambda>d. d = c) s)"

lemma count_char_append [simp]: "count_char c (s @ t) = count_char c s + count_char c t"
  by (simp add: count_char_def)

lemma count_char_absent: "c \<notin> set s \<Longrightarrow> count_char c s = 0"
  by (auto simp: count_char_def filter_empty_conv)

lemma count_char_join:
  "count_char c sep = 0 \<Longrightarrow> count_char c (join_with sep ss) = sum_list (map (count_char c) ss)"
  by (induction sep ss rule: join_with.induct) (simp_all add: count_char_def)

lemma query_conds_marks: "map (count_char CHR ''?'') (map fst (query_conds sec_text q)) =
    replicate (length (query_conds sec_text q)) 1"
  by (simp add: query_conds_def count_char_def)

lemma show_int_no_mark: "CHR ''?'' \<notin> set (show_int n)"
  using show_nat_digits [of "CHR ''?''"] by (auto simp: show_int_def)

text \<open>
  Every statement the index sends to the driver carries exactly as many arguments as it has
  placeholders, whatever filters a query combines and whatever text they hold.
\<close>

theorem statements_match_arguments:
  "count_char CHR ''?'' (query_stmt sec_text q) = length (map snd (query_conds sec_text q)) \<and>
   count_char CHR ''?'' insert_stmt = length (insert_args sec_text r)"
proof
  have "count_char CHR ''?'' (join_with '' AND '' (''1=1'' # map fst (query_conds sec_text q))) =
      sum_list (map (count_char CHR ''?'') (map fst (query_conds sec_text q)))"
    by (subst count_char_join) (simp_all add: count_char_def)
  also have "\<dots> = length (query_conds sec_text q)"
    by (simp only: query_conds_marks) (simp add: sum_list_replicate)
  finally show "count_char CHR ''?'' (query_stmt sec_text q) = length (map snd (query_conds sec_text q))"
    using count_char_absent [OF show_int_no_mark, of "q_Limit q"]
    by (simp add: query_stmt_def) (simp add: count_char_def)
  show "count_char CHR ''?'' insert_stmt = length (insert_args sec_text r)"
    by (simp add: insert_stmt_def insert_args_def nl_def count_char_def)
qed

text \<open>
  After a successful \<open>Initialize\<close> the index stays usable through any sequence of logged
  records, even when single writes fail: a query never answers that the index is not
  initialised, and a further write reaches the database.
\<close>

theorem index_stays_usable:
  assumes "Initialize drv idx = Inr idx'"
  shows "index_ready (write_all drv sec_text rs idx') \<and>
    (\<forall>path. write_all drv sec_text rs idx' \<noteq> SQLiteIndex path None)"
  using write_all_ready [OF assms, of sec_text rs] by (auto simp: index_ready_def split: Index.splits)

definition sample_driver :: "string list list driver" where
  "sample_driver = \<lparr>dr_Open = (\<lambda>path. Inr []),
     dr_Exec = (\<lambda>db stmt args. if stmt = insert_stmt then Inr (args # db) else Inr db),
     dr_Query = (\<lambda>db stmt args. Inr (map Inr db, None)), dr_Close = (\<lambda>db. (db, None))\<rparr>"

theorem index_stays_usable_witness:
  "index_ready (write_all sample_driver (\<lambda>s. ''t'') [eventToRecord sample_event []]
     (SQLiteIndex ''x.db'' (Some [])))"
proof -
  have "Initialize sample_driver (SQLiteIndex ''x.db'' None) = Inr (SQLiteIndex ''x.db'' (Some []))"
    by (simp add: Initialize_def SQLite_Initialize_def sample_driver_def pragma_stmt_def schema_stmt_def
        insert_stmt_def nl_def)
  from index_stays_usable [OF this] show ?thesis by blast
qed

text \<open>
  C36: the time column is compared as text, and the text drops a zero fraction, so it does not
  follow the order of time: an event half a second after a whole-second lower bound is stored
  with a text below the text the query passes for that bound, and the filter
  \<open>time_utc >= ?\<close> leaves it out.
\<close>

theorem since_filter_misses_later_event:
  assumes "q_Since q = k * 1000000000" "q_Since q \<noteq> 0" "rec_Time r = q_Since q + 500000000"
  shows "q_Since q < rec_Time r \<and>
    (\<exists>bound. (''time_utc >= ?'', bound) \<in> set (query_conds sec_text q) \<and>
       hd (insert_args sec_text r) < bound)"
proof -
  have bound: "RFC3339Nano sec_text (q_Since q) = sec_text k @ ''Z''"
    using assms(1) by (simp add: RFC3339Nano_def fraction_text_def)
  have "fraction_text 500000000 = ''.5''"
    by (simp add: fraction_text_def pad9_def show_nat.simps digit_char_def char_of_def bit_0)
  then have stored: "RFC3339Nano sec_text (rec_Time r) = sec_text k @ ''.5Z''"
    using assms(1,3) by (simp add: RFC3339Nano_def add.commute)
  have "p @ ''.5Z'' < p @ ''Z''" for p :: string
    by (induction p) (simp_all add: less_char_def)
  then show ?thesis
    using assms(2,3) bound stored by (auto simp: insert_args_def query_conds_def IsZero_def)
qed

theorem since_filter_misses_later_event_witness:
  "hd (insert_args (\<lambda>s. ''2024-01-01T00:00:00'') (eventToRecord (sample_event\<lparr>ev_Time := 1500000000\<rparr>) []))
     < ''2024-01-01T00:00:00Z''"
  using since_filter_misses_later_event
    [of "\<lparr>q_Category = [], q_Level = [], q_MessageType = [], q_HostID = [], q_SessionID = [],
         q_Contains = [], q_Since = 1000000000, q_Until = 0, q_Limit = 0\<rparr>" 1
      "eventToRecord (sample_event\<lparr>ev_Time := 1500000000\<rparr>) []" "\<lambda>s. ''2024-01-01T00:00:00''"]
  by (simp add: query_conds_def eventToRecord_def IsZero_def RFC3339Nano_def fraction_text_def)

end
