(* ===== verification/Server.thy ===== *)
theory Server
  imports Render Storage
begin

text \<open>
  The runtime server (\<^verbatim>\<open>src/runtime/server.go\<close>) and the state it owns: construction, the
  addresses and the wire listener with its TLS settings, the guarded state updates and the
  template view of the state (\<^verbatim>\<open>control_restore.go\<close>), host admission (\<^verbatim>\<open>wire_restore.go\<close>), and
  the per-process registries of session time stamps and parse evidence.

  Everything outside the program is in the record \<open>world\<close> or an argument: the XML decoder, the
  text of a time stamp, files, key pairs and request construction. A \<^verbatim>\<open>time.Now()\<close> is a
  reading of the argument \<open>clk\<close>, one index per call site. The registries are global maps of the
  process; a server keeps them with its state. \<open>sv_contexts\<close> has one entry per scheduler context
  ever made, true once it is cancelled; \<open>sv_schedulerCancel\<close> is the context the stored cancel
  function belongs to. The mutex is held for every update of the state, so each handler is one
  step, or a few steps where it releases the mutex in between.
\<close>

section \<open>The outside world\<close>

type_synonym clock = "nat \<Rightarrow> time"

record world =
  wd_decoder :: xml_decoder
  wd_payload_stamp :: "time \<Rightarrow> string"
  wd_rfc3339 :: "time \<Rightarrow> string"
  wd_join :: "string \<Rightarrow> string \<Rightarrow> string"
  wd_readFile :: "string \<Rightarrow> string result"
  wd_writeFile :: "string \<Rightarrow> string \<Rightarrow> unit result"
  wd_loadKeyPair :: "string \<Rightarrow> string \<Rightarrow> unit result"
  wd_newRequest :: "string \<Rightarrow> unit result"
  wd_typeErr :: "string \<Rightarrow> json \<Rightarrow> error"

datatype 'a http_response = HttpError int string | HttpReply int 'a | HttpRedirect int string | HttpPanic

section \<open>State\<close>

record OutboundSchedulerState =
  ss_Running :: bool
  ss_TargetURL :: string
  ss_LastAttemptAt :: time
  ss_LastTickAt :: time
  ss_LastSuccessAt :: time
  ss_LastError :: string
  ss_ConsecutiveFailures :: int
  ss_OpenAttempts :: int
  ss_HeartbeatAttempts :: int
  ss_LastOperation :: string

record RuntimeState =
  rs_InstanceID :: string
  rs_EGMID :: string
  rs_TrustMode :: string
  rs_ConnectionState :: string
  rs_RegistrationState :: string
  rs_SessionState :: string
  rs_HeartbeatState :: string
  rs_AudioState :: string
  rs_HoldState :: string
  rs_LockState :: string
  rs_MachineState :: string
  rs_AllowedHostIDs :: "string list"
  rs_RegisteredHosts :: "RegisteredHost list"
  rs_LastMessageType :: string
  rs_LastCommandType :: string
  rs_LastCommandAt :: time
  rs_LastCommandSource :: string
  rs_LastSessionID :: string
  rs_LastHostID :: string
  rs_LastAckStatus :: string
  rs_LastTransitionAt :: time
  rs_LastTransitionReason :: string
  rs_LastError :: string
  rs_StartedAt :: time
  rs_StorageBackend :: string
  rs_StorageSQLitePath :: string
  rs_OutboundScheduler :: OutboundSchedulerState

record sessionTimestampSet =
  ts_LastCommsOnlineAt :: time
  ts_LastKeepAliveAt :: time
  ts_LastAckAt :: time

record sessionParseEvidenceSet =
  pv_G2SXMLMode :: string
  pv_G2SXMLNamespace :: string
  pv_G2SXMLEGMLocation :: string
  pv_LastParsedRootKind :: string
  pv_LastParsedClass :: string
  pv_LastParsedOperation :: string
  pv_LastRawRoot :: string
  pv_LastExpectedAck :: string
  pv_LastActualAck :: string

record Server =
  sv_cfg :: Config
  sv_pack :: MessagePack
  sv_logger :: Logger
  sv_state :: RuntimeState
  sv_schedulerCancel :: "nat option"
  sv_contexts :: "bool list"
  sv_timestamps :: "string \<rightharpoonup> sessionTimestampSet"
  sv_evidence :: "string \<rightharpoonup> sessionParseEvidenceSet"
  sv_xml :: xml_registry

definition map_state :: "(RuntimeState \<Rightarrow> RuntimeState) \<Rightarrow> Server \<Rightarrow> Server" where
  "map_state f s = s\<lparr>sv_state := f (sv_state s)\<rparr>"

definition map_scheduler :: "(OutboundSchedulerState \<Rightarrow> OutboundSchedulerState) \<Rightarrow> Server \<Rightarrow> Server" where
  "map_scheduler f = map_state (\<lambda>st. st\<lparr>rs_OutboundScheduler := f (rs_OutboundScheduler st)\<rparr>)"

definition server_log :: "time \<Rightarrow> string \<Rightarrow> string \<Rightarrow> string \<Rightarrow> json go_map \<Rightarrow> Server \<Rightarrow> Server" where
  "server_log now level category message flds s =
     s\<lparr>sv_logger := Log now level category message flds (sv_logger s)\<rparr>"

definition server_payload :: "world \<Rightarrow> time \<Rightarrow> string \<Rightarrow> string \<Rightarrow> string \<Rightarrow> Server \<Rightarrow> Server" where
  "server_payload w now direction op data s =
     s\<lparr>sv_logger := fst (WritePayload (wd_join w) (wd_writeFile w) (wd_payload_stamp w now) direction op data
          (sv_logger s))\<rparr>"

section \<open>Construction (server.go)\<close>

text \<open>\<open>mkdir\<close> creates a directory and gives the files it already holds, \<open>open_events\<close> opens the
  event file, whose lines are what earlier runs wrote. A nil index is the no-op index.\<close>

definition NewLoggerWithIndex ::
    "(string \<Rightarrow> string \<Rightarrow> string) \<Rightarrow> (string \<Rightarrow> string go_map result) \<Rightarrow> (string \<Rightarrow> log_line list result) \<Rightarrow>
     (Event \<Rightarrow> bool) \<Rightarrow> 'db driver \<Rightarrow> string \<Rightarrow> string \<Rightarrow> 'db Index option \<Rightarrow> Logger result" where
  "NewLoggerWithIndex join mkdir open_events oversize drv dir instanceID idx =
     (case mkdir dir of
        Inl e \<Rightarrow> Inl (''mkdir log dir: '' @ e)
      | Inr _ \<Rightarrow>
     (case mkdir (join dir ''payloads'') of
        Inl e \<Rightarrow> Inl (''mkdir payload dir: '' @ e)
      | Inr payloads \<Rightarrow>
     (case open_events (join dir ''events.jsonl'') of
        Inl e \<Rightarrow> Inl (''open event log: '' @ e)
      | Inr ls \<Rightarrow>
     (case Initialize drv (case idx of None \<Rightarrow> NoopIndex | Some i \<Rightarrow> i) of
        Inl e \<Rightarrow> Inl (''initialize storage index: '' @ e)
      | Inr _ \<Rightarrow>
          Inr \<lparr>lg_lines = ls, lg_indexed = [], lg_payloads = payloads, lg_payloadDir = join dir ''payloads'',
               lg_logDir = dir, lg_instanceID = instanceID, lg_oversize = oversize, lg_closed = False\<rparr>))))"

definition NewLogger ::
    "(string \<Rightarrow> string \<Rightarrow> string) \<Rightarrow> (string \<Rightarrow> string go_map result) \<Rightarrow> (string \<Rightarrow> log_line list result) \<Rightarrow>
     (Event \<Rightarrow> bool) \<Rightarrow> 'db driver \<Rightarrow> string \<Rightarrow> string \<Rightarrow> Logger result" where
  "NewLogger join mkdir open_events oversize drv dir instanceID =
     NewLoggerWithIndex join mkdir open_events oversize drv dir instanceID (Some NoopIndex)"

fun load_overlays ::
    "world \<Rightarrow> (string \<Rightarrow> MessageOverlay result) \<Rightarrow> MessagePack \<Rightarrow> string list \<Rightarrow> MessagePack result" where
  "load_overlays w unmarshal pk [] = Inr pk"
| "load_overlays w unmarshal pk (path # paths) =
     (case LoadOverlay (wd_readFile w) unmarshal path of
        Inl e \<Rightarrow> Inl e
      | Inr overlay \<Rightarrow>
          (case ApplyOverlay (wd_typeErr w) (Some pk) (Some overlay) of
             Inl e \<Rightarrow> Inl e
           | Inr pk' \<Rightarrow> load_overlays w unmarshal pk' paths))"

definition registration_state :: "MessagePack \<Rightarrow> string" where
  "registration_state pk =
     (if sd_RegistrationMode (p_StateDefaults pk) = ''open'' then ''open'' else ''restricted'')"

definition initial_scheduler :: OutboundSchedulerState where
  "initial_scheduler = \<lparr>ss_Running = False, ss_TargetURL = [], ss_LastAttemptAt = 0, ss_LastTickAt = 0,
     ss_LastSuccessAt = 0, ss_LastError = [], ss_ConsecutiveFailures = 0, ss_OpenAttempts = 0,
     ss_HeartbeatAttempts = 0, ss_LastOperation = []\<rparr>"

definition initial_state :: "time \<Rightarrow> Config \<Rightarrow> MessagePack \<Rightarrow> string \<Rightarrow> string \<Rightarrow> RuntimeState" where
  "initial_state now cfg pk backend sqlitePath =
     \<lparr>rs_InstanceID = c_InstanceID cfg, rs_EGMID = c_EGMID cfg,
      rs_TrustMode = sc_TrustMode (c_Security cfg), rs_ConnectionState = ''listening'',
      rs_RegistrationState = registration_state pk,
      rs_SessionState = sd_SessionState (p_StateDefaults pk),
      rs_HeartbeatState = sd_HeartbeatState (p_StateDefaults pk),
      rs_AudioState = ''normal'', rs_HoldState = ''inactive'', rs_LockState = ''inactive'',
      rs_MachineState = ''available'',
      rs_AllowedHostIDs = sort (sd_AllowedHostIDs (p_StateDefaults pk)),
      rs_RegisteredHosts = sd_RegisteredHosts (p_StateDefaults pk),
      rs_LastMessageType = [], rs_LastCommandType = [], rs_LastCommandAt = 0, rs_LastCommandSource = [],
      rs_LastSessionID = [], rs_LastHostID = [], rs_LastAckStatus = [], rs_LastTransitionAt = 0,
      rs_LastTransitionReason = [], rs_LastError = [], rs_StartedAt = now,
      rs_StorageBackend = backend, rs_StorageSQLitePath = sqlitePath,
      rs_OutboundScheduler = initial_scheduler\<rparr>"

definition NewServer ::
    "world \<Rightarrow> (string \<Rightarrow> string go_map result) \<Rightarrow> (string \<Rightarrow> log_line list result) \<Rightarrow>
     (Event \<Rightarrow> bool) \<Rightarrow> 'db driver \<Rightarrow> (string \<Rightarrow> MessagePack result) \<Rightarrow> (string \<Rightarrow> MessageOverlay result) \<Rightarrow>
     time \<Rightarrow> xml_registry \<Rightarrow> Config \<Rightarrow> Server result" where
  "NewServer w mkdir open_events oversize drv unmarshal_pack unmarshal_overlay now reg cfg =
     (case LoadPack (wd_readFile w) unmarshal_pack (c_PackFile cfg) of
        Inl e \<Rightarrow> Inl e
      | Inr pk0 \<Rightarrow>
     (case load_overlays w unmarshal_overlay pk0 (c_Overlay cfg) of
        Inl e \<Rightarrow> Inl e
      | Inr pk \<Rightarrow>
          let backend = (if st_Backend (c_Storage cfg) = [] then ''noop'' else st_Backend (c_Storage cfg));
              sqlitePath =
                (if backend = ''sqlite'' \<and> st_SQLitePath (c_Storage cfg) = []
                 then DefaultSQLitePath (wd_join w) (lo_Dir (c_Logging cfg))
                 else st_SQLitePath (c_Storage cfg))
          in case NewIndex backend sqlitePath of
               Inl e \<Rightarrow> Inl e
             | Inr idx \<Rightarrow>
          (case NewLoggerWithIndex (wd_join w) mkdir open_events oversize drv (lo_Dir (c_Logging cfg))
                  (c_InstanceID cfg) (Some idx) of
             Inl e \<Rightarrow> Inl e
           | Inr logger \<Rightarrow>
               Inr \<lparr>sv_cfg = cfg, sv_pack = pk, sv_logger = logger,
                    sv_state = initial_state now cfg pk backend sqlitePath,
                    sv_schedulerCancel = None, sv_contexts = [],
                    sv_timestamps = Map.empty, sv_evidence = Map.empty, sv_xml = reg\<rparr>)))"

section \<open>Addresses and the wire listener (server.go)\<close>

definition JoinHostPort :: "string \<Rightarrow> string \<Rightarrow> string" where
  "JoinHostPort host port =
     (if Contains host '':'' \<or> Contains host ''%'' then ''['' @ host @ '']:'' @ port else host @ '':'' @ port)"

text \<open>The bound listener, when there is one, knows its own address.\<close>

definition WireAddr :: "string option \<Rightarrow> Server \<Rightarrow> string" where
  "WireAddr wireLn s =
     (case wireLn of
        Some addr \<Rightarrow> addr
      | None \<Rightarrow> JoinHostPort (li_Host (c_Listen (sv_cfg s))) (show_int (li_Port (c_Listen (sv_cfg s)))))"

definition ControlAddr :: "string option \<Rightarrow> Server \<Rightarrow> string" where
  "ControlAddr controlLn s =
     (case controlLn of Some addr \<Rightarrow> addr | None \<Rightarrow> co_Bind (c_Control (sv_cfg s)))"

record tls_config =
  tls_MinVersion :: nat
  tls_Certificate :: "string \<times> string"
  tls_ClientCAs :: "string option"
  tls_RequireClientCert :: bool

definition VersionTLS12 :: nat where
  "VersionTLS12 = 771"

definition makeWireTLSConfig :: "world \<Rightarrow> SecurityConfig \<Rightarrow> tls_config result" where
  "makeWireTLSConfig w sec =
     (case wd_loadKeyPair w (sc_CertFile sec) (sc_KeyFile sec) of
        Inl e \<Rightarrow> Inl e
      | Inr _ \<Rightarrow>
          let cfg = \<lparr>tls_MinVersion = VersionTLS12, tls_Certificate = (sc_CertFile sec, sc_KeyFile sec),
                tls_ClientCAs = None, tls_RequireClientCert = False\<rparr>
          in if sc_TrustMode sec \<in> {''tls_server_only'', ''accept_all_lab''} then Inr cfg
             else if sc_TrustMode sec \<in> {''strict_mtls'', ''mtls_no_revocation''} then
               (case wd_readFile w (sc_CAFile sec) of
                  Inl e \<Rightarrow> Inl e
                | Inr caPEM \<Rightarrow> Inr (cfg\<lparr>tls_ClientCAs := Some caPEM, tls_RequireClientCert := True\<rparr>))
             else Inl (''unsupported trust mode '' @ go_quote (sc_TrustMode sec)))"

text \<open>The patterns are plain paths, without wildcards or methods: registering one without a slash,
  or one twice, panics in the mux.\<close>

fun register_paths :: "string list \<Rightarrow> string list \<Rightarrow> string list option" where
  "register_paths registered [] = Some registered"
| "register_paths registered (p # ps) =
     (if CHR ''/'' \<notin> set p \<or> p \<in> set registered then None else register_paths (registered @ [p]) ps)"

definition wire_paths :: "Server \<Rightarrow> string list" where
  "wire_paths s =
     (let path = (if ee_Path (c_EGMEndpoint (sv_cfg s)) = []
                  then pa_DefaultListenerPath (w_Paths (p_Wire (sv_pack s)))
                  else ee_Path (c_EGMEndpoint (sv_cfg s)))
      in path # filter (\<lambda>p. p \<noteq> path) (pa_AlternateListenerPaths (w_Paths (p_Wire (sv_pack s)))))"

datatype wire_start = WirePanic | WireError error | WirePlain "string list" | WireTLS "string list" tls_config

definition startWire :: "world \<Rightarrow> (string \<Rightarrow> 'ln result) \<Rightarrow> Server \<Rightarrow> wire_start" where
  "startWire w listen s =
     (case register_paths [] (wire_paths s) of
        None \<Rightarrow> WirePanic
      | Some paths \<Rightarrow>
          (case listen (JoinHostPort (li_Host (c_Listen (sv_cfg s))) (show_int (li_Port (c_Listen (sv_cfg s))))) of
             Inl e \<Rightarrow> WireError e
           | Inr _ \<Rightarrow>
               if sc_TrustMode (c_Security (sv_cfg s)) = ''plaintext_lab'' then WirePlain paths
               else case makeWireTLSConfig w (c_Security (sv_cfg s)) of
                      Inl e \<Rightarrow> WireError e
                    | Inr tls \<Rightarrow> WireTLS paths tls))"

section \<open>State updates, views and host admission\<close>

definition string_update :: "json go_map \<Rightarrow> string \<Rightarrow> string \<Rightarrow> string" where
  "string_update updates key old = (case map_of updates key of Some (JStr v) \<Rightarrow> v | _ \<Rightarrow> old)"

definition update_states :: "json go_map \<Rightarrow> RuntimeState \<Rightarrow> RuntimeState" where
  "update_states updates st =
     st\<lparr>rs_AudioState := string_update updates ''audio_state'' (rs_AudioState st),
        rs_HoldState := string_update updates ''hold_state'' (rs_HoldState st),
        rs_LockState := string_update updates ''lock_state'' (rs_LockState st),
        rs_MachineState := string_update updates ''machine_state'' (rs_MachineState st),
        rs_SessionState := string_update updates ''session_state'' (rs_SessionState st),
        rs_HeartbeatState := string_update updates ''heartbeat_state'' (rs_HeartbeatState st),
        rs_ConnectionState := string_update updates ''connection_state'' (rs_ConnectionState st)\<rparr>"

definition applyStateUpdatesLocked :: "clock \<Rightarrow> json go_map \<Rightarrow> string \<Rightarrow> Server \<Rightarrow> Server" where
  "applyStateUpdatesLocked clk updates reason s =
     (if updates = [] then s
      else
        server_log (clk 1) ''info'' ''state'' ''state updated''
          [(''reason'', JStr reason), (''updates'', JObj updates)]
          (map_state (\<lambda>st. (update_states updates st)\<lparr>rs_LastTransitionAt := clk 0,
             rs_LastTransitionReason := reason\<rparr>) s))"

definition templateStateLocked :: "Server \<Rightarrow> string go_map" where
  "templateStateLocked s =
     (let st = sv_state s in
      [(''instanceId'', rs_InstanceID st), (''egmId'', rs_EGMID st), (''trustMode'', rs_TrustMode st),
       (''connectionState'', rs_ConnectionState st), (''sessionState'', rs_SessionState st),
       (''heartbeatState'', rs_HeartbeatState st), (''audioState'', rs_AudioState st),
       (''holdState'', rs_HoldState st), (''lockState'', rs_LockState st),
       (''machineState'', rs_MachineState st), (''lastMessageType'', rs_LastMessageType st),
       (''lastCommandType'', rs_LastCommandType st), (''lastCommandSource'', rs_LastCommandSource st),
       (''lastSessionId'', rs_LastSessionID st), (''lastHostId'', rs_LastHostID st),
       (''lastAckStatus'', rs_LastAckStatus st)])"

fun registered_host_enabled :: "RegisteredHost list \<Rightarrow> string \<Rightarrow> bool" where
  "registered_host_enabled [] hostID = False"
| "registered_host_enabled (host # hosts) hostID =
     (if rh_HostID host = hostID then rh_Enabled host else registered_host_enabled hosts hostID)"

definition hostAllowedLocked :: "Server \<Rightarrow> string \<Rightarrow> bool" where
  "hostAllowedLocked s hostID =
     (if sd_RegistrationMode (p_StateDefaults (sv_pack s)) = ''open'' \<or>
         rs_RegistrationState (sv_state s) = ''open'' then True
      else if rs_RegisteredHosts (sv_state s) \<noteq> []
      then registered_host_enabled (rs_RegisteredHosts (sv_state s)) hostID
      else hostID \<in> set (rs_AllowedHostIDs (sv_state s)))"

definition applyBuiltInOperationStateLocked :: "clock \<Rightarrow> string \<Rightarrow> Server \<Rightarrow> Server" where
  "applyBuiltInOperationStateLocked clk opName s =
     (if opName = ''commsOnLine''
      then applyStateUpdatesLocked clk
        [(''session_state'', JStr ''online''), (''heartbeat_state'', JStr ''healthy'')]
        ''wire commsOnLine'' s
      else if opName = ''keepAlive''
      then applyStateUpdatesLocked clk [(''heartbeat_state'', JStr ''healthy'')] ''wire keepAlive'' s
      else s)"

section \<open>Session registries\<close>

definition no_timestamps :: sessionTimestampSet where
  "no_timestamps = \<lparr>ts_LastCommsOnlineAt = 0, ts_LastKeepAliveAt = 0, ts_LastAckAt = 0\<rparr>"

definition timestampsForInstance :: "Server \<Rightarrow> string \<Rightarrow> sessionTimestampSet" where
  "timestampsForInstance s instanceID =
     (case sv_timestamps s instanceID of None \<Rightarrow> no_timestamps | Some tset \<Rightarrow> tset)"

definition recordSessionTimestamp :: "string \<Rightarrow> time \<Rightarrow> Server \<Rightarrow> Server" where
  "recordSessionTimestamp kind at s =
     (if IsZero at \<or> c_InstanceID (sv_cfg s) = [] then s
      else
        let tset = timestampsForInstance s (c_InstanceID (sv_cfg s));
            tset' = (if kind = ''commsOnLine'' then tset\<lparr>ts_LastCommsOnlineAt := at, ts_LastAckAt := at\<rparr>
                    else if kind = ''keepAlive'' then tset\<lparr>ts_LastKeepAliveAt := at, ts_LastAckAt := at\<rparr>
                    else if kind = ''ack'' then tset\<lparr>ts_LastAckAt := at\<rparr>
                    else tset)
        in s\<lparr>sv_timestamps := (sv_timestamps s)(c_InstanceID (sv_cfg s) \<mapsto> tset')\<rparr>)"

definition no_evidence :: sessionParseEvidenceSet where
  "no_evidence = \<lparr>pv_G2SXMLMode = [], pv_G2SXMLNamespace = [], pv_G2SXMLEGMLocation = [],
     pv_LastParsedRootKind = [], pv_LastParsedClass = [], pv_LastParsedOperation = [], pv_LastRawRoot = [],
     pv_LastExpectedAck = [], pv_LastActualAck = []\<rparr>"

definition parseEvidenceForInstance :: "Server \<Rightarrow> string \<Rightarrow> sessionParseEvidenceSet" where
  "parseEvidenceForInstance s instanceID =
     (case sv_evidence s instanceID of None \<Rightarrow> no_evidence | Some tset \<Rightarrow> tset)"

definition recordParsedResponseEvidence :: "string \<Rightarrow> ParsedG2SEnvelope \<Rightarrow> Server \<Rightarrow> Server" where
  "recordParsedResponseEvidence expectedAck parsed s =
     (if c_InstanceID (sv_cfg s) = [] then s
      else s\<lparr>sv_evidence := (sv_evidence s)(c_InstanceID (sv_cfg s) \<mapsto>
        \<lparr>pv_G2SXMLMode = gx_Mode (c_G2SXML (sv_cfg s)),
         pv_G2SXMLNamespace = gx_Namespace (c_G2SXML (sv_cfg s)),
         pv_G2SXMLEGMLocation = gx_EGMLocation (c_G2SXML (sv_cfg s)),
         pv_LastParsedRootKind = pe_RootKind parsed, pv_LastParsedClass = pe_ClassName parsed,
         pv_LastParsedOperation = pe_OperationName parsed, pv_LastRawRoot = pe_RawRoot parsed,
         pv_LastExpectedAck = expectedAck,
         pv_LastActualAck = firstNonEmpty [pe_OperationName parsed, pe_RawRoot parsed]\<rparr>)\<rparr>)"

text \<open>What \<^verbatim>\<open>MarshalJSON\<close> adds to the state.\<close>

record state_view =
  vw_State :: RuntimeState
  vw_LastCommsOnlineAt :: time
  vw_LastKeepAliveAt :: time
  vw_LastAckAt :: time
  vw_G2SXMLMode :: string
  vw_G2SXMLNamespace :: string
  vw_G2SXMLEGMLocation :: string
  vw_Evidence :: sessionParseEvidenceSet

definition MarshalJSON_view :: "Server \<Rightarrow> state_view" where
  "MarshalJSON_view s =
     (let r = sv_state s;
          tset = timestampsForInstance s (rs_InstanceID r);
          set1 = (if IsZero (ts_LastKeepAliveAt tset) \<and> rs_LastCommandType r = ''keepAlive''
                  then tset\<lparr>ts_LastKeepAliveAt := rs_LastCommandAt r\<rparr> else tset);
          set2 = (if IsZero (ts_LastAckAt set1) \<and> rs_LastAckStatus r \<noteq> []
                  then set1\<lparr>ts_LastAckAt := rs_LastCommandAt r\<rparr> else set1);
          evidence = parseEvidenceForInstance s (rs_InstanceID r);
          xmlInfo = xmlModeInfoForInstance (sv_xml s) (rs_InstanceID r)
      in \<lparr>vw_State = r, vw_LastCommsOnlineAt = ts_LastCommsOnlineAt set2,
          vw_LastKeepAliveAt = ts_LastKeepAliveAt set2, vw_LastAckAt = ts_LastAckAt set2,
          vw_G2SXMLMode = firstNonEmpty [pv_G2SXMLMode evidence, xm_Mode xmlInfo],
          vw_G2SXMLNamespace = firstNonEmpty [pv_G2SXMLNamespace evidence, xm_Namespace xmlInfo],
          vw_G2SXMLEGMLocation = firstNonEmpty [pv_G2SXMLEGMLocation evidence, xm_EGMLocation xmlInfo],
          vw_Evidence = evidence\<rparr>)"

section \<open>The server invariant\<close>

text \<open>
  The registration state and the registered hosts follow the pack, the identity and trust mode shown in the state are
  those of the configuration, the pack is well-formed, and the scheduler is shown as running
  exactly when a cancel function is stored, which belongs to the only context that is not
  cancelled: at most one scheduler is live.
\<close>

definition live_contexts :: "bool list \<Rightarrow> nat set" where
  "live_contexts ctxs = {i. i < length ctxs \<and> \<not> ctxs ! i}"

definition scheduler_inv :: "bool \<Rightarrow> nat option \<Rightarrow> bool list \<Rightarrow> bool" where
  "scheduler_inv running cancel ctxs \<longleftrightarrow>
     running = (cancel \<noteq> None) \<and> live_contexts ctxs = set_option cancel"

definition server_inv :: "Server \<Rightarrow> bool" where
  "server_inv s \<longleftrightarrow>
     pack_wf (sv_pack s) \<and>
     rs_RegistrationState (sv_state s) = registration_state (sv_pack s) \<and>
     rs_InstanceID (sv_state s) = c_InstanceID (sv_cfg s) \<and>
     rs_EGMID (sv_state s) = c_EGMID (sv_cfg s) \<and>
     rs_TrustMode (sv_state s) = sc_TrustMode (c_Security (sv_cfg s)) \<and>
     rs_RegisteredHosts (sv_state s) = sd_RegisteredHosts (p_StateDefaults (sv_pack s)) \<and>
     lg_instanceID (sv_logger s) = c_InstanceID (sv_cfg s) \<and>
     scheduler_inv (ss_Running (rs_OutboundScheduler (sv_state s))) (sv_schedulerCancel s) (sv_contexts s)"

text \<open>What the invariant and the admission of hosts read, with what is fixed at construction
  (\<open>stable\<close>), and the counters of the scheduler. An operation that keeps \<open>stable\<close> keeps the
  invariant; all but a few operations keep both.\<close>

definition stable ::
    "Server \<Rightarrow> (Config \<times> MessagePack \<times> string) \<times>
       (string \<times> string \<times> string \<times> string \<times> RegisteredHost list \<times> string list \<times> string \<times> time) \<times>
       bool \<times> nat option \<times> bool list" where
  "stable s =
     ((sv_cfg s, sv_pack s, lg_instanceID (sv_logger s)),
      (rs_RegistrationState (sv_state s), rs_InstanceID (sv_state s), rs_EGMID (sv_state s),
       rs_TrustMode (sv_state s), rs_RegisteredHosts (sv_state s), rs_AllowedHostIDs (sv_state s),
       rs_StorageBackend (sv_state s), rs_StartedAt (sv_state s)),
      ss_Running (rs_OutboundScheduler (sv_state s)), sv_schedulerCancel s, sv_contexts s)"

definition counters :: "RuntimeState \<Rightarrow> int \<times> int \<times> int" where
  "counters st =
     (ss_ConsecutiveFailures (rs_OutboundScheduler st), ss_OpenAttempts (rs_OutboundScheduler st),
      ss_HeartbeatAttempts (rs_OutboundScheduler st))"

definition core where
  "core s = (stable s, counters (sv_state s))"

lemma stable_inv: "stable s' = stable s \<Longrightarrow> server_inv s' \<longleftrightarrow> server_inv s"
  by (simp add: stable_def server_inv_def)

lemma core_inv: "core s' = core s \<Longrightarrow> server_inv s' \<longleftrightarrow> server_inv s"
  by (rule stable_inv) (simp add: core_def)

lemma server_inv_registration:
  "server_inv s \<Longrightarrow> hostAllowedLocked s h \<longleftrightarrow>
     sd_RegistrationMode (p_StateDefaults (sv_pack s)) = ''open'' \<or>
     (if rs_RegisteredHosts (sv_state s) \<noteq> []
      then registered_host_enabled (rs_RegisteredHosts (sv_state s)) h
      else h \<in> set (rs_AllowedHostIDs (sv_state s)))"
  by (auto simp: server_inv_def hostAllowedLocked_def registration_state_def)

lemma map_state_frame [frame_simps]:
  "sv_cfg (map_state f s) = sv_cfg s" "sv_pack (map_state f s) = sv_pack s"
  "sv_logger (map_state f s) = sv_logger s" "sv_state (map_state f s) = f (sv_state s)"
  "sv_schedulerCancel (map_state f s) = sv_schedulerCancel s" "sv_contexts (map_state f s) = sv_contexts s"
  "sv_timestamps (map_state f s) = sv_timestamps s" "sv_evidence (map_state f s) = sv_evidence s"
  "sv_xml (map_state f s) = sv_xml s"
  by (simp_all add: map_state_def)

lemma server_log_frame [frame_simps]:
  "sv_cfg (server_log t l c m fs s) = sv_cfg s" "sv_pack (server_log t l c m fs s) = sv_pack s"
  "sv_state (server_log t l c m fs s) = sv_state s"
  "sv_schedulerCancel (server_log t l c m fs s) = sv_schedulerCancel s"
  "sv_contexts (server_log t l c m fs s) = sv_contexts s"
  "sv_timestamps (server_log t l c m fs s) = sv_timestamps s"
  "sv_evidence (server_log t l c m fs s) = sv_evidence s"
  by (simp_all add: server_log_def)

lemma server_payload_frame [frame_simps]:
  "sv_cfg (server_payload w t d op x s) = sv_cfg s" "sv_pack (server_payload w t d op x s) = sv_pack s"
  "sv_state (server_payload w t d op x s) = sv_state s"
  "sv_schedulerCancel (server_payload w t d op x s) = sv_schedulerCancel s"
  "sv_contexts (server_payload w t d op x s) = sv_contexts s"
  "sv_timestamps (server_payload w t d op x s) = sv_timestamps s"
  "sv_evidence (server_payload w t d op x s) = sv_evidence s"
  by (simp_all add: server_payload_def)

lemma core_log [core_simps]:
  "core (server_log t l c m fs s) = core s" "core (server_payload w t d op x s) = core s"
  by (simp_all add: core_def stable_def server_log_def server_payload_def WritePayload_def Let_def frame_simps
      split: sum.split)

text \<open>State updates that leave these fields alone.\<close>

definition stable_update :: "(RuntimeState \<Rightarrow> RuntimeState) \<Rightarrow> bool" where
  "stable_update f \<longleftrightarrow> (\<forall>st.
     rs_RegistrationState (f st) = rs_RegistrationState st \<and> rs_InstanceID (f st) = rs_InstanceID st \<and>
     rs_EGMID (f st) = rs_EGMID st \<and> rs_TrustMode (f st) = rs_TrustMode st \<and>
     rs_RegisteredHosts (f st) = rs_RegisteredHosts st \<and> rs_AllowedHostIDs (f st) = rs_AllowedHostIDs st \<and>
     rs_StorageBackend (f st) = rs_StorageBackend st \<and> rs_StartedAt (f st) = rs_StartedAt st \<and>
     ss_Running (rs_OutboundScheduler (f st)) = ss_Running (rs_OutboundScheduler st))"

definition core_update :: "(RuntimeState \<Rightarrow> RuntimeState) \<Rightarrow> bool" where
  "core_update f \<longleftrightarrow> stable_update f \<and> (\<forall>st. counters (f st) = counters st)"

lemmas core_update_defs = core_update_def stable_update_def counters_def

lemma stable_map_state: "stable_update f \<Longrightarrow> stable (map_state f s) = stable s"
  by (simp add: stable_def stable_update_def map_state_def)

lemma core_map_state: "core_update f \<Longrightarrow> core (map_state f s) = core s"
  by (simp add: core_def core_update_def stable_map_state map_state_frame)

lemma update_states_frame [frame_simps]:
  "rs_RegistrationState (update_states u st) = rs_RegistrationState st"
  "rs_InstanceID (update_states u st) = rs_InstanceID st" "rs_EGMID (update_states u st) = rs_EGMID st"
  "rs_TrustMode (update_states u st) = rs_TrustMode st"
  "rs_AllowedHostIDs (update_states u st) = rs_AllowedHostIDs st"
  "rs_RegisteredHosts (update_states u st) = rs_RegisteredHosts st"
  "rs_LastError (update_states u st) = rs_LastError st"
  "rs_LastMessageType (update_states u st) = rs_LastMessageType st"
  "rs_LastCommandType (update_states u st) = rs_LastCommandType st"
  "rs_LastCommandSource (update_states u st) = rs_LastCommandSource st"
  "rs_LastSessionID (update_states u st) = rs_LastSessionID st"
  "rs_LastHostID (update_states u st) = rs_LastHostID st"
  "rs_OutboundScheduler (update_states u st) = rs_OutboundScheduler st"
  "rs_StorageBackend (update_states u st) = rs_StorageBackend st"
  "rs_StartedAt (update_states u st) = rs_StartedAt st"
  by (simp_all add: update_states_def)

lemma core_applyStateUpdates [core_simps]: "core (applyStateUpdatesLocked clk u r s) = core s"
  by (simp add: applyStateUpdatesLocked_def core_log core_map_state core_update_defs frame_simps)

lemma core_builtin [core_simps]: "core (applyBuiltInOperationStateLocked clk op s) = core s"
  by (simp add: applyBuiltInOperationStateLocked_def core_simps)

lemma core_registries [core_simps]:
  "core (recordSessionTimestamp k t s) = core s" "core (recordParsedResponseEvidence e p s) = core s"
  by (simp_all add: core_def stable_def recordSessionTimestamp_def recordParsedResponseEvidence_def Let_def)

lemma load_overlays_wf: "load_overlays w um pk paths = Inr pk' \<Longrightarrow> pack_wf pk \<Longrightarrow> pack_wf pk'"
proof (induction paths arbitrary: pk)
  case (Cons path paths)
  then obtain ov pk1 where "ApplyOverlay (wd_typeErr w) (Some pk) (Some ov) = Inr pk1"
    "load_overlays w um pk1 paths = Inr pk'"
    by (auto split: sum.splits)
  moreover from this(1) have "pack_wf pk1"
    by (auto simp: ApplyOverlay_def pack_validator.accepts_iff split: sum.splits if_splits)
  ultimately show ?case by (simp add: Cons.IH)
qed simp

lemma LoadPack_wf: "LoadPack rf um path = Inr pk \<Longrightarrow> pack_wf pk"
  by (auto simp: LoadPack_def ParsePack_def pack_validator.accepts_iff split: sum.splits)

lemma NewServer_inv:
  assumes "NewServer w mkdir oe os drv up uo now reg cfg = Inr s"
  shows "server_inv s"
proof -
  from assms obtain pk0 pk logger b p where pk0: "LoadPack (wd_readFile w) up (c_PackFile cfg) = Inr pk0"
    and pk: "load_overlays w uo pk0 (c_Overlay cfg) = Inr pk"
    and logger: "lg_instanceID logger = c_InstanceID cfg"
    and s: "s = \<lparr>sv_cfg = cfg, sv_pack = pk, sv_logger = logger, sv_state = initial_state now cfg pk b p,
      sv_schedulerCancel = None, sv_contexts = [], sv_timestamps = Map.empty, sv_evidence = Map.empty,
      sv_xml = reg\<rparr>"
    by (auto simp: NewServer_def NewLoggerWithIndex_def Let_def split: sum.splits)
  with load_overlays_wf [OF pk LoadPack_wf [OF pk0]] show ?thesis
    by (simp add: server_inv_def initial_state_def initial_scheduler_def scheduler_inv_def
        live_contexts_def)
qed

text \<open>
  C29: what the wire listener serves follows the trust mode: plaintext only in
  \<open>plaintext_lab\<close>; every other mode uses TLS 1.2 or later with the configured key pair, and client
  certificates are required and checked against the configured CA file exactly in the two
  mutual-TLS modes. A trust mode outside the known ones never starts a listener.
\<close>

theorem startWire_trust:
  "case startWire w listen s of
     WirePlain paths \<Rightarrow> sc_TrustMode (c_Security (sv_cfg s)) = ''plaintext_lab''
   | WireTLS paths tls \<Rightarrow>
       sc_TrustMode (c_Security (sv_cfg s)) \<in>
         {''tls_server_only'', ''accept_all_lab'', ''strict_mtls'', ''mtls_no_revocation''} \<and>
       VersionTLS12 \<le> tls_MinVersion tls \<and>
       tls_Certificate tls = (sc_CertFile (c_Security (sv_cfg s)), sc_KeyFile (c_Security (sv_cfg s))) \<and>
       tls_RequireClientCert tls =
         (sc_TrustMode (c_Security (sv_cfg s)) \<in> {''strict_mtls'', ''mtls_no_revocation''}) \<and>
       (case tls_ClientCAs tls of
          None \<Rightarrow> \<not> tls_RequireClientCert tls
        | Some ca \<Rightarrow> wd_readFile w (sc_CAFile (c_Security (sv_cfg s))) = Inr ca)
   | _ \<Rightarrow> True"
  by (auto simp: startWire_def makeWireTLSConfig_def Let_def split: option.split sum.split)

end
