(* ===== verification/Wire.thy ===== *)
theory Wire
  imports Server
begin

text \<open>
  The wire endpoint: inbound G2S messages (\<^verbatim>\<open>src/runtime/wire_restore.go\<close>), the binding check
  (\<^verbatim>\<open>binding.go\<close>) and the simulated inbound commands of the scenario runner
  (\<^verbatim>\<open>control_ui.go\<close>). A request is its method, its content type and its body, or the error of
  reading the body. A status outside 100..999 makes \<^verbatim>\<open>WriteHeader\<close> panic after the state has
  been updated; an informational status other than 101 is followed by a final 200, and 101, 204
  and 304 go out without the body.
\<close>

record wire_request =
  wq_Method :: string
  wq_ContentType :: string
  wq_Body :: "string result"

definition isXMLContentType :: "string \<Rightarrow> bool" where
  "isXMLContentType contentType \<longleftrightarrow>
     ToLower (TrimSpace (split_first CHR '';'' contentType)) \<in>
       {''text/xml'', ''application/xml'', ''application/soap+xml''}"

section \<open>Binding check (binding.go)\<close>

record bindingCheckResult =
  bc_OK :: bool
  bc_StatusCode :: int
  bc_Message :: string

definition validateG2SBindingRequest :: "wire_request \<Rightarrow> bindingCheckResult" where
  "validateG2SBindingRequest r =
     (if wq_Method r \<noteq> ''POST''
      then \<lparr>bc_OK = False, bc_StatusCode = 405, bc_Message = ''method not allowed''\<rparr>
      else
        let contentType = ToLower (TrimSpace (wq_ContentType r)) in
        if contentType = []
        then \<lparr>bc_OK = False, bc_StatusCode = 415, bc_Message = ''content-type is required''\<rparr>
        else
          let mediaType = TrimSpace (split_first CHR '';'' contentType) in
          if mediaType \<in> {''text/xml'', ''application/xml'', ''application/soap+xml''}
          then \<lparr>bc_OK = True, bc_StatusCode = 0, bc_Message = []\<rparr>
          else \<lparr>bc_OK = False, bc_StatusCode = 415,
                 bc_Message = ''unsupported content-type '' @ go_quote contentType\<rparr>)"

section \<open>Inbound messages (wire restore)\<close>

definition write_response :: "int \<Rightarrow> string \<Rightarrow> string http_response" where
  "write_response status body =
     (if status < 100 \<or> status > 999 then HttpPanic
      else if status < 200 \<and> status \<noteq> 101 then HttpReply 200 body
      else if status \<in> {101, 204, 304} then HttpReply status []
      else HttpReply status body)"

definition instance_session :: "Config \<Rightarrow> time \<Rightarrow> string" where
  "instance_session cfg now = c_InstanceID cfg @ ''-'' @ show_int (UnixNano now)"

definition inbound_host :: "string go_map \<Rightarrow> string" where
  "inbound_host flds =
     firstNonEmpty [go_get flds ''hostId'', go_get flds ''hostID'', go_get flds ''host_id'', ''HOST-001'']"

definition inbound_session :: "Config \<Rightarrow> time \<Rightarrow> string go_map \<Rightarrow> string" where
  "inbound_session cfg now flds =
     firstNonEmpty [go_get flds ''sessionId'', go_get flds ''session_id'', instance_session cfg now]"

definition inbound_egm :: "Config \<Rightarrow> string go_map \<Rightarrow> string" where
  "inbound_egm cfg flds =
     firstNonEmpty [go_get flds ''egmId'', go_get flds ''egmID'', go_get flds ''egm_id'', c_EGMID cfg]"

definition reply_status :: "ResponseVariant \<Rightarrow> int" where
  "reply_status variant = (if rv_HTTPStatus variant = 0 then 200 else rv_HTTPStatus variant)"

definition note_command :: "string \<Rightarrow> string \<Rightarrow> time \<Rightarrow> string \<Rightarrow> string \<Rightarrow> RuntimeState \<Rightarrow> RuntimeState" where
  "note_command connection opName now hostID sessionID st =
     st\<lparr>rs_ConnectionState := connection, rs_LastMessageType := opName, rs_LastCommandType := opName,
        rs_LastCommandAt := now, rs_LastCommandSource := hostID, rs_LastSessionID := sessionID,
        rs_LastHostID := hostID, rs_LastError := []\<rparr>"

text \<open>The part of the handler that runs under the mutex once host and operation are accepted:
  the new server, the rendered response and its status.\<close>

definition wire_accept ::
    "clock \<Rightarrow> string \<Rightarrow> string \<Rightarrow> string \<Rightarrow> string \<Rightarrow> ResponseVariant \<Rightarrow> Server \<Rightarrow> Server \<times> string \<times> int" where
  "wire_accept clk opName hostID sessionID egmID variant s =
     (let s1 = map_state (note_command ''controller_connected'' opName (clk 0) hostID sessionID) s;
          s2 = applyBuiltInOperationStateLocked (\<lambda>i. clk (1 + i)) opName s1;
          s3 = (if rv_SetState variant \<noteq> []
                then applyStateUpdatesLocked (\<lambda>i. clk (3 + i)) (rv_SetState variant) (''wire '' @ opName) s2
                else s2);
          requestFields = [(''hostId'', hostID), (''sessionId'', sessionID), (''egmId'', egmID)];
          responseXML = RenderTemplate (rv_Template variant) (w_Namespaces (p_Wire (sv_pack s3)))
            requestFields (templateStateLocked s3);
          status = reply_status variant
      in (map_state (\<lambda>st. st\<lparr>rs_LastAckStatus := ''http_'' @ show_int status\<rparr>) s3, responseXML, status))"

text \<open>The first response the pack defines for an operation, if there is one.\<close>

definition first_variant :: "Server \<Rightarrow> string \<Rightarrow> ResponseVariant option" where
  "first_variant s opName =
     (case map_of (p_Operations (sv_pack s)) opName of
        None \<Rightarrow> None
      | Some op \<Rightarrow> (case op_Responses op of [] \<Rightarrow> None | variant # _ \<Rightarrow> Some variant))"

text \<open>From the admission check on.\<close>

definition wire_dispatch ::
    "world \<Rightarrow> clock \<Rightarrow> string \<Rightarrow> string \<Rightarrow> string \<Rightarrow> string \<Rightarrow> Server \<Rightarrow> Server \<times> string http_response" where
  "wire_dispatch w clk opName hostID sessionID egmID s =
     (if \<not> hostAllowedLocked s hostID then
        let msg = ''host '' @ go_quote hostID @ '' is not registered or enabled''
        in (map_state (\<lambda>st. st\<lparr>rs_LastError := msg\<rparr>) s, HttpError 403 msg)
      else case first_variant s opName of
        None \<Rightarrow>
          let msg = ''operation '' @ go_quote opName @ '' is not defined''
          in (map_state (\<lambda>st. st\<lparr>rs_LastError := msg\<rparr>) s, HttpError 400 msg)
      | Some variant \<Rightarrow>
          let (s1, responseXML, status) =
                wire_accept (\<lambda>i. clk (2 + i)) opName hostID sessionID egmID variant s;
              s2 = (if lo_CaptureRenderedXML (c_Logging (sv_cfg s1))
                    then server_payload w (clk 7) ''inbound_response'' opName responseXML s1 else s1);
              s3 = server_log (clk 8) ''info'' ''wire'' ''inbound G2S message handled''
                [(''message_type'', JStr opName), (''host_id'', JStr hostID),
                 (''session_id'', JStr sessionID), (''status'', JInt status)] s2
          in (s3, write_response status responseXML))"

definition handleWire :: "world \<Rightarrow> clock \<Rightarrow> wire_request \<Rightarrow> Server \<Rightarrow> Server \<times> string http_response" where
  "handleWire w clk r s =
     (if wq_Method r \<noteq> ''POST'' then (s, HttpError 405 ''method not allowed'')
      else if \<not> isXMLContentType (wq_ContentType r) then (s, HttpError 415 ''unsupported content type'')
      else case wq_Body r of
        Inl e \<Rightarrow> (s, HttpError 400 e)
      | Inr body \<Rightarrow>
     (case ParseG2SMessage (wd_decoder w) body of
        Inl e \<Rightarrow>
          (server_log (clk 0) ''warn'' ''wire'' ''failed to parse inbound G2S message'' [(''error'', JStr e)] s,
           HttpError 400 e)
      | Inr parsed \<Rightarrow>
          let opName = pm_RootLocalName parsed;
              s0 = (if lo_CaptureRawXML (c_Logging (sv_cfg s))
                    then server_payload w (clk 0) ''inbound_request'' opName body s else s)
          in wire_dispatch w clk opName (inbound_host (pm_Fields parsed))
               (inbound_session (sv_cfg s) (clk 1) (pm_Fields parsed))
               (inbound_egm (sv_cfg s) (pm_Fields parsed)) s0))"

section \<open>Simulated commands (control UI)\<close>

record logicalCommandRequest =
  lc_LogicalCommand :: string
  lc_HostID :: string
  lc_SessionID :: string

definition logicalCommandToOperation :: "string \<Rightarrow> string result" where
  "logicalCommandToOperation logical =
     (let l = TrimSpace logical in
      if l \<in> {''audio_mute_on'', ''audioMuteOn''} then Inr ''audioMuteOn''
      else if l \<in> {''audio_mute_off'', ''audioMuteOff''} then Inr ''audioMuteOff''
      else if l \<in> {''hold_on'', ''holdOn''} then Inr ''holdOn''
      else if l \<in> {''hold_off'', ''holdOff''} then Inr ''holdOff''
      else if l \<in> {''lock_on'', ''lockOn''} then Inr ''lockOn''
      else if l \<in> {''lock_off'', ''lockOff''} then Inr ''lockOff''
      else if l \<in> {''comms_online'', ''commsOnLine''} then Inr ''commsOnLine''
      else if l \<in> {''keep_alive'', ''keepAlive''} then Inr ''keepAlive''
      else Inl (''unsupported logical command '' @ go_quote logical))"

definition processSimulatedInbound ::
    "world \<Rightarrow> clock \<Rightarrow> string \<Rightarrow> string \<Rightarrow> string \<Rightarrow> Server \<Rightarrow> Server \<times> (string \<times> int) result" where
  "processSimulatedInbound w clk opName hostID sessionID s =
     (case first_variant s opName of
        None \<Rightarrow> (s, Inl (''operation '' @ go_quote opName @ '' is not defined''))
      | Some variant \<Rightarrow>
          let s1 = map_state (note_command ''controller_simulated'' opName (clk 0) hostID sessionID) s;
              s2 = (if opName = ''commsOnLine''
                    then applyStateUpdatesLocked (\<lambda>i. clk (1 + i))
                      [(''session_state'', JStr ''online''), (''heartbeat_state'', JStr ''healthy'')]
                      ''scenario commsOnLine'' s1 else s1);
              s3 = (if opName = ''keepAlive''
                    then applyStateUpdatesLocked (\<lambda>i. clk (1 + i)) [(''heartbeat_state'', JStr ''healthy'')]
                      ''scenario keepAlive'' s2 else s2);
              s4 = (if rv_SetState variant \<noteq> []
                    then applyStateUpdatesLocked (\<lambda>i. clk (3 + i)) (rv_SetState variant) (''scenario '' @ opName) s3
                    else s3);
              requestFields = [(''hostId'', hostID), (''sessionId'', sessionID), (''egmId'', c_EGMID (sv_cfg s4))];
              responseXML = RenderTemplate (rv_Template variant) (w_Namespaces (p_Wire (sv_pack s4)))
                requestFields (templateStateLocked s4);
              status = reply_status variant;
              s5 = map_state (\<lambda>st. st\<lparr>rs_LastAckStatus := ''http_'' @ show_int status\<rparr>) s4;
              s6 = (if lo_CaptureRenderedXML (c_Logging (sv_cfg s5))
                    then server_payload w (clk 5) ''scenario_response'' opName responseXML s5 else s5);
              s7 = server_log (clk 6) ''info'' ''scenario'' ''logical command injected''
                [(''logical_command'', JStr opName), (''host_id'', JStr hostID),
                 (''session_id'', JStr sessionID), (''status'', JInt status)] s6
          in (s7, Inr (responseXML, status)))"

record injected =
  in_operation :: string
  in_status :: int
  in_response_xml :: string
  in_state :: state_view

definition handleControlInjectLogicalCommand ::
    "world \<Rightarrow> clock \<Rightarrow> string \<Rightarrow> logicalCommandRequest decoded \<Rightarrow> Server \<Rightarrow> Server \<times> injected http_response" where
  "handleControlInjectLogicalCommand w clk method body s =
     (if method \<noteq> ''POST'' then (s, HttpError 405 ''method not allowed'')
      else case snd body of
        Some e \<Rightarrow> (s, HttpError 400 e)
      | None \<Rightarrow>
     (case logicalCommandToOperation (lc_LogicalCommand (fst body)) of
        Inl e \<Rightarrow> (s, HttpError 400 e)
      | Inr opName \<Rightarrow>
          (case processSimulatedInbound w clk opName
                  (firstNonEmpty [lc_HostID (fst body), ''HOST-001''])
                  (firstNonEmpty [lc_SessionID (fst body), ''SCENARIO'']) s of
             (s', Inl e) \<Rightarrow> (s', HttpError 400 e)
           | (s', Inr (responseXML, status)) \<Rightarrow>
               (s', HttpReply 200 \<lparr>in_operation = opName, in_status = status,
                 in_response_xml = responseXML, in_state = MarshalJSON_view s'\<rparr>))))"

section \<open>What the endpoint does with a message\<close>

text \<open>The message a request carries, when method, content type and body are in order.\<close>

definition wire_message :: "world \<Rightarrow> wire_request \<Rightarrow> ParsedG2SMessage option" where
  "wire_message w r =
     (if wq_Method r = ''POST'' \<and> isXMLContentType (wq_ContentType r) then
        (case wq_Body r of
           Inl e \<Rightarrow> None
         | Inr body \<Rightarrow> (case ParseG2SMessage (wd_decoder w) body of Inl e \<Rightarrow> None | Inr p \<Rightarrow> Some p))
      else None)"

lemma hostAllowed_frame [frame_simps]:
  "hostAllowedLocked (server_payload w t d op x s) h = hostAllowedLocked s h"
  "hostAllowedLocked (server_log t l c m fs s) h = hostAllowedLocked s h"
  by (simp_all add: hostAllowedLocked_def frame_simps)

lemma handleWire_unparsed:
  assumes "wire_message w r = None"
  shows "\<exists>code msg. snd (handleWire w clk r s) = HttpError code msg \<and> code \<in> {400, 405, 415} \<and>
    sv_state (fst (handleWire w clk r s)) = sv_state s"
  using assms by (auto simp: handleWire_def wire_message_def frame_simps split: sum.splits if_splits)

lemma handleWire_parsed:
  assumes "wire_message w r = Some p"
  obtains s0 where "sv_state s0 = sv_state s" "sv_cfg s0 = sv_cfg s" "sv_pack s0 = sv_pack s" "core s0 = core s"
    "handleWire w clk r s = wire_dispatch w clk (pm_RootLocalName p) (inbound_host (pm_Fields p))
       (inbound_session (sv_cfg s) (clk 1) (pm_Fields p)) (inbound_egm (sv_cfg s) (pm_Fields p)) s0"
proof -
  from assms obtain body where "wq_Method r = ''POST''" "isXMLContentType (wq_ContentType r)"
    "wq_Body r = Inr body" "ParseG2SMessage (wd_decoder w) body = Inr p"
    by (auto simp: wire_message_def split: if_splits sum.splits)
  then have "handleWire w clk r s = wire_dispatch w clk (pm_RootLocalName p) (inbound_host (pm_Fields p))
       (inbound_session (sv_cfg s) (clk 1) (pm_Fields p)) (inbound_egm (sv_cfg s) (pm_Fields p))
       (if lo_CaptureRawXML (c_Logging (sv_cfg s))
        then server_payload w (clk 0) ''inbound_request'' (pm_RootLocalName p) body s else s)"
    by (simp add: handleWire_def Let_def)
  then show ?thesis by (rule that [rotated -1]) (simp_all add: frame_simps core_simps)
qed

lemma wire_dispatch_denied:
  "\<not> hostAllowedLocked s h \<Longrightarrow> \<exists>msg. wire_dispatch w clk op h sid egm s =
     (map_state (\<lambda>st. st\<lparr>rs_LastError := msg\<rparr>) s, HttpError 403 msg)"
  by (simp add: wire_dispatch_def Let_def)

lemma wire_dispatch_undefined:
  "hostAllowedLocked s h \<Longrightarrow> first_variant s op = None \<Longrightarrow> \<exists>msg. wire_dispatch w clk op h sid egm s =
     (map_state (\<lambda>st. st\<lparr>rs_LastError := msg\<rparr>) s, HttpError 400 msg)"
  by (simp add: wire_dispatch_def Let_def)

lemma same_admission:
  "sv_state s0 = sv_state s \<Longrightarrow> sv_pack s0 = sv_pack s \<Longrightarrow>
   hostAllowedLocked s0 h = hostAllowedLocked s h \<and> first_variant s0 op = first_variant s op"
  by (simp add: hostAllowedLocked_def first_variant_def)

definition builtin_update :: "string \<Rightarrow> json go_map" where
  "builtin_update opName =
     (if opName = ''commsOnLine'' then [(''session_state'', JStr ''online''), (''heartbeat_state'', JStr ''healthy'')]
      else if opName = ''keepAlive'' then [(''heartbeat_state'', JStr ''healthy'')] else [])"

text \<open>Two states that agree on everything but when and why the last transition happened.\<close>

definition same_but_transition :: "RuntimeState \<Rightarrow> RuntimeState \<Rightarrow> bool" where
  "same_but_transition st st' \<longleftrightarrow>
     st\<lparr>rs_LastTransitionAt := 0, rs_LastTransitionReason := []\<rparr> =
     st'\<lparr>rs_LastTransitionAt := 0, rs_LastTransitionReason := []\<rparr>"

lemma update_states_Nil [simp]: "update_states [] st = st"
  by (simp add: update_states_def string_update_def)

lemma applyStateUpdates_state:
  "same_but_transition (sv_state (applyStateUpdatesLocked clk u reason s)) (update_states u (sv_state s))"
  by (simp add: applyStateUpdatesLocked_def same_but_transition_def frame_simps)

lemma same_but_transition_trans:
  "same_but_transition a b \<Longrightarrow> same_but_transition b c \<Longrightarrow> same_but_transition a c"
  by (simp add: same_but_transition_def)

lemma same_but_transition_refl [simp]: "same_but_transition a a"
  by (simp add: same_but_transition_def)

lemma same_but_transition_fields:
  "same_but_transition a b \<longleftrightarrow>
     rs_InstanceID a = rs_InstanceID b \<and> rs_EGMID a = rs_EGMID b \<and> rs_TrustMode a = rs_TrustMode b \<and>
     rs_ConnectionState a = rs_ConnectionState b \<and> rs_RegistrationState a = rs_RegistrationState b \<and>
     rs_SessionState a = rs_SessionState b \<and> rs_HeartbeatState a = rs_HeartbeatState b \<and>
     rs_AudioState a = rs_AudioState b \<and> rs_HoldState a = rs_HoldState b \<and>
     rs_LockState a = rs_LockState b \<and> rs_MachineState a = rs_MachineState b \<and>
     rs_AllowedHostIDs a = rs_AllowedHostIDs b \<and> rs_RegisteredHosts a = rs_RegisteredHosts b \<and>
     rs_LastMessageType a = rs_LastMessageType b \<and> rs_LastCommandType a = rs_LastCommandType b \<and>
     rs_LastCommandAt a = rs_LastCommandAt b \<and> rs_LastCommandSource a = rs_LastCommandSource b \<and>
     rs_LastSessionID a = rs_LastSessionID b \<and> rs_LastHostID a = rs_LastHostID b \<and>
     rs_LastAckStatus a = rs_LastAckStatus b \<and> rs_LastError a = rs_LastError b \<and>
     rs_StartedAt a = rs_StartedAt b \<and> rs_StorageBackend a = rs_StorageBackend b \<and>
     rs_StorageSQLitePath a = rs_StorageSQLitePath b \<and> rs_OutboundScheduler a = rs_OutboundScheduler b"
  by (cases a; cases b) (simp add: same_but_transition_def conj_ac)

lemma update_states_cong:
  "same_but_transition a b \<Longrightarrow> same_but_transition (update_states u a) (update_states u b)"
  by (simp add: same_but_transition_fields update_states_def)

lemma builtin_state:
  "same_but_transition (sv_state (applyBuiltInOperationStateLocked clk op s))
     (update_states (builtin_update op) (sv_state s))"
  using applyStateUpdates_state by (simp add: applyBuiltInOperationStateLocked_def builtin_update_def)

lemma wire_accept_state:
  "same_but_transition (sv_state (fst (wire_accept clk op h sid egm v s)))
     ((update_states (rv_SetState v) (update_states (builtin_update op)
        (note_command ''controller_connected'' op (clk 0) h sid (sv_state s))))
      \<lparr>rs_LastAckStatus := ''http_'' @ show_int (reply_status v)\<rparr>)"
proof -
  let ?s1 = "map_state (note_command ''controller_connected'' op (clk 0) h sid) s"
  let ?s2 = "applyBuiltInOperationStateLocked (\<lambda>i. clk (1 + i)) op ?s1"
  let ?s3 = "if rv_SetState v \<noteq> []
    then applyStateUpdatesLocked (\<lambda>i. clk (3 + i)) (rv_SetState v) (''wire '' @ op) ?s2 else ?s2"
  have "same_but_transition (sv_state ?s3) (update_states (rv_SetState v) (sv_state ?s2))"
    using applyStateUpdates_state by simp
  moreover have "same_but_transition (sv_state ?s2)
      (update_states (builtin_update op) (note_command ''controller_connected'' op (clk 0) h sid (sv_state s)))"
    using builtin_state [of "\<lambda>i. clk (1 + i)" op ?s1] by (simp add: frame_simps)
  ultimately have *: "same_but_transition (sv_state ?s3) (update_states (rv_SetState v)
      (update_states (builtin_update op) (note_command ''controller_connected'' op (clk 0) h sid (sv_state s))))"
    by (blast intro: same_but_transition_trans update_states_cong)
  have "sv_state (fst (wire_accept clk op h sid egm v s)) =
      (sv_state ?s3)\<lparr>rs_LastAckStatus := ''http_'' @ show_int (reply_status v)\<rparr>"
    by (simp add: wire_accept_def Let_def frame_simps)
  with * show ?thesis by (simp add: same_but_transition_fields)
qed

lemma wire_accept_results:
  "snd (snd (wire_accept clk op h sid egm v s)) = reply_status v"
  by (simp add: wire_accept_def Let_def)

lemma wire_dispatch_accepted:
  assumes "hostAllowedLocked s h" "first_variant s op = Some v"
  shows "same_but_transition (sv_state (fst (wire_dispatch w clk op h sid egm s)))
      ((update_states (rv_SetState v) (update_states (builtin_update op)
        (note_command ''controller_connected'' op (clk 2) h sid (sv_state s))))
        \<lparr>rs_LastAckStatus := ''http_'' @ show_int (reply_status v)\<rparr>) \<and>
    (\<exists>xml. snd (wire_dispatch w clk op h sid egm s) = write_response (reply_status v) xml)"
proof -
  let ?acc = "wire_accept (\<lambda>i. clk (2 + i)) op h sid egm v s"
  have "sv_state (fst (wire_dispatch w clk op h sid egm s)) = sv_state (fst ?acc) \<and>
      snd (wire_dispatch w clk op h sid egm s) = write_response (snd (snd ?acc)) (fst (snd ?acc))"
    using assms by (simp add: wire_dispatch_def Let_def case_prod_beta frame_simps)
  with wire_accept_state [of "\<lambda>i. clk (2 + i)" op h sid egm v s] show ?thesis
    by (auto simp: wire_accept_results)
qed

lemma core_note_command: "core_update (note_command c op t h sid)"
  by (simp add: core_update_defs note_command_def)

lemma core_small_updates [core_simps]:
  "core (map_state (\<lambda>st. st\<lparr>rs_LastError := m\<rparr>) s) = core s"
  "core (map_state (\<lambda>st. st\<lparr>rs_LastAckStatus := a\<rparr>) s) = core s"
  "core (map_state (note_command c op t h sid) s) = core s"
  using core_note_command by (simp_all add: core_map_state core_update_defs)

lemma core_wire_accept [core_simps]: "core (fst (wire_accept clk op h sid egm v s)) = core s"
  by (simp add: wire_accept_def Let_def core_simps)

lemma core_wire_dispatch [core_simps]: "core (fst (wire_dispatch w clk op h sid egm s)) = core s"
  by (auto simp: wire_dispatch_def Let_def case_prod_beta core_simps split: option.split)

lemma core_handleWire [core_simps]: "core (fst (handleWire w clk r s)) = core s"
  by (auto simp: handleWire_def Let_def core_simps split: sum.split)

lemma core_processSimulatedInbound [core_simps]:
  "core (fst (processSimulatedInbound w clk op h sid s)) = core s"
  by (auto simp: processSimulatedInbound_def Let_def core_simps split: option.split)

lemma core_inject [core_simps]: "core (fst (handleControlInjectLogicalCommand w clk m b s)) = core s"
  using core_processSimulatedInbound [of w clk _ _ _ s]
  by (auto simp: handleControlInjectLogicalCommand_def case_prod_beta split: option.split sum.split)


end
