(* ===== verification/Outbound.thy ===== *)
theory Outbound
  imports Wire
begin

text \<open>
  Messages the machine sends (\<^verbatim>\<open>src/runtime/outbound.go\<close>): target and body selection, the TLS
  transport, the evaluation of the response, and the control handlers that send on request. The
  HTTP client is the argument \<open>net\<close>: it answers a request with a status and a body, or fails. A
  failed read of the response body leaves what was read, so \<open>net\<close> returns the bytes the code
  goes on with.
\<close>

section \<open>Types\<close>

record outboundRequest =
  oq_MessageType :: string
  oq_HostID :: string
  oq_SessionID :: string
  oq_TargetURL :: string
  oq_AllowGenericAck :: bool

record outboundResult =
  or_OK :: bool
  or_HTTPStatus :: int
  or_ResponseRoot :: string
  or_Error :: string

record outbound_tls =
  ot_MinVersion :: nat
  ot_InsecureSkipVerify :: bool
  ot_Certificate :: "(string \<times> string) option"
  ot_RootCAs :: "string option"
  ot_ServerName :: string

record client_request =
  cl_URL :: string
  cl_ContentType :: string
  cl_Body :: string
  cl_Transport :: "outbound_tls option"
  cl_Timeout :: duration

type_synonym network = "client_request \<Rightarrow> (int \<times> string) result"

section \<open>Transport\<close>

definition with_runtime_cert :: "world \<Rightarrow> SecurityConfig \<Rightarrow> OutboundConfig \<Rightarrow> outbound_tls \<Rightarrow> outbound_tls result" where
  "with_runtime_cert w sec cfg tls =
     (if ob_UseRuntimeCerts cfg \<and> sc_CertFile sec \<noteq> [] \<and> sc_KeyFile sec \<noteq> [] then
        (case wd_loadKeyPair w (sc_CertFile sec) (sc_KeyFile sec) of
           Inl e \<Rightarrow> Inl e
         | Inr _ \<Rightarrow> Inr (tls\<lparr>ot_Certificate := Some (sc_CertFile sec, sc_KeyFile sec)\<rparr>))
      else Inr tls)"

definition with_root_cas :: "world \<Rightarrow> SecurityConfig \<Rightarrow> outbound_tls \<Rightarrow> outbound_tls result" where
  "with_root_cas w sec tls =
     (if sc_CAFile sec \<noteq> [] then
        (case wd_readFile w (sc_CAFile sec) of
           Inl e \<Rightarrow> Inl e
         | Inr caPEM \<Rightarrow> Inr (tls\<lparr>ot_RootCAs := Some caPEM\<rparr>))
      else Inr tls)"

definition outboundTransport ::
    "world \<Rightarrow> SecurityConfig \<Rightarrow> string \<Rightarrow> OutboundConfig \<Rightarrow> outbound_tls option result" where
  "outboundTransport w sec trustMode cfg =
     (let tls0 = \<lparr>ot_MinVersion = VersionTLS12, ot_InsecureSkipVerify = False, ot_Certificate = None,
            ot_RootCAs = None, ot_ServerName = []\<rparr>
      in if trustMode = ''plaintext_lab'' then Inr None
         else if trustMode = ''accept_all_lab'' then Inr (Some (tls0\<lparr>ot_InsecureSkipVerify := True\<rparr>))
         else if trustMode \<in> {''tls_server_only'', ''strict_mtls'', ''mtls_no_revocation''} then
           (case with_runtime_cert w sec cfg tls0 of
              Inl e \<Rightarrow> Inl e
            | Inr tls1 \<Rightarrow>
                (case with_root_cas w sec tls1 of
                   Inl e \<Rightarrow> Inl e
                 | Inr tls2 \<Rightarrow>
                     Inr (Some (if ob_ServerName cfg \<noteq> [] then tls2\<lparr>ot_ServerName := ob_ServerName cfg\<rparr>
                                else tls2))))
         else Inl (''unsupported outbound trust mode '' @ go_quote trustMode))"

definition maxInt :: "int \<Rightarrow> int \<Rightarrow> int" where
  "maxInt v fallback = (if v > 0 then v else fallback)"

definition firstContentType :: string where
  "firstContentType = ''text/xml; charset=utf-8''"

section \<open>Sending\<close>

definition outbound_target :: "Config \<Rightarrow> outboundRequest \<Rightarrow> string" where
  "outbound_target cfg req =
     (let t0 = oq_TargetURL req;
          t1 = (if t0 = [] then ob_DefaultTargetURL (c_Outbound cfg) else t0)
      in if t1 = [] then he_URL (c_HostEndpoint cfg) else t1)"

definition outbound_body ::
    "world \<Rightarrow> time \<Rightarrow> string \<Rightarrow> outboundRequest \<Rightarrow> Server \<Rightarrow> string result" where
  "outbound_body w now sessionID req s =
     (let body = renderConfiguredOutboundBody (w_Namespaces (p_Wire (sv_pack s))) (sv_cfg s)
            (wd_rfc3339 w now) (oq_MessageType req) sessionID
      in if body \<noteq> [] then Inr body
         else case first_variant s (oq_MessageType req) of
           None \<Rightarrow> Inl (''operation '' @ go_quote (oq_MessageType req) @ '' is not defined for outbound use'')
         | Some variant \<Rightarrow>
             Inr (RenderTemplate (rv_Template variant) (w_Namespaces (p_Wire (sv_pack s)))
               [(''hostId'', firstNonEmpty [oq_HostID req, c_HostID (sv_cfg s), c_InstanceID (sv_cfg s)]),
                (''sessionId'', sessionID), (''egmId'', c_EGMID (sv_cfg s))]
               (templateStateLocked s)))"

definition ack_accepted :: "outboundRequest \<Rightarrow> string \<Rightarrow> bool" where
  "ack_accepted req parsedRoot \<longleftrightarrow>
     (let ackExpected = expectedAckRoot (oq_MessageType req);
          strictAckOK = (ackExpected = [] \<or> EqualFold parsedRoot ackExpected);
          genericAckOK = (oq_AllowGenericAck req \<and> EqualFold parsedRoot ''g2sResponse'')
      in strictAckOK \<or> genericAckOK)"

definition evaluate_response :: "xml_decoder \<Rightarrow> outboundRequest \<Rightarrow> int \<Rightarrow> string \<Rightarrow> outboundResult" where
  "evaluate_response dec req status respBody =
     (let parsedRoot = rootLocalNameFromResponse dec respBody;
          ok = (status \<ge> 200 \<and> status < 300 \<and> ack_accepted req parsedRoot)
      in \<lparr>or_OK = ok, or_HTTPStatus = status, or_ResponseRoot = parsedRoot,
          or_Error = (if ok then [] else ''unexpected http_status='' @ show_int status @
            '' response_root='' @ parsedRoot)\<rparr>)"

text \<open>From the construction of the request on; \<open>s\<close> is the server once the request payload is
  captured.\<close>

definition exchange_outbound ::
    "world \<Rightarrow> clock \<Rightarrow> network \<Rightarrow> outboundRequest \<Rightarrow> string \<Rightarrow> string \<Rightarrow> Server \<Rightarrow> Server \<times> outboundResult result" where
  "exchange_outbound w clk net req targetURL body s =
     (case wd_newRequest w targetURL of
        Inl e \<Rightarrow> (s, Inl e)
      | Inr _ \<Rightarrow>
     (case outboundTransport w (c_Security (sv_cfg s)) (sc_TrustMode (c_Security (sv_cfg s)))
             (c_Outbound (sv_cfg s)) of
        Inl e \<Rightarrow> (s, Inl e)
      | Inr transport \<Rightarrow>
     (case net \<lparr>cl_URL = targetURL, cl_ContentType = firstContentType, cl_Body = body,
             cl_Transport = transport,
             cl_Timeout = Milliseconds_duration (maxInt (ob_TimeoutMS (c_Outbound (sv_cfg s))) 3000)\<rparr> of
        Inl e \<Rightarrow>
          (server_log (clk 3) ''warn'' ''outbound'' ''outbound request failed''
             [(''message_type'', JStr (oq_MessageType req)), (''target_url'', JStr targetURL),
              (''error'', JStr e)] s, Inl e)
      | Inr (status, respBody) \<Rightarrow>
          let s2 = (if lo_CaptureRawXML (c_Logging (sv_cfg s))
                    then server_payload w (clk 4) ''outbound_response'' (oq_MessageType req) respBody s
                    else s);
              result = evaluate_response (wd_decoder w) req status respBody;
              s3 = server_log (clk 5) ''info'' ''outbound'' ''outbound request complete''
                [(''message_type'', JStr (oq_MessageType req)), (''target_url'', JStr targetURL),
                 (''http_status'', JInt status), (''response_root'', JStr (or_ResponseRoot result)),
                 (''ok'', JBool (or_OK result)), (''allow_generic_ack'', JBool (oq_AllowGenericAck req)),
                 (''xml_mode'', JStr (gx_Mode (c_G2SXML (sv_cfg s))))] s2
          in (s3, Inr result))))"

definition SendOutbound ::
    "world \<Rightarrow> clock \<Rightarrow> network \<Rightarrow> outboundRequest \<Rightarrow> Server \<Rightarrow> Server \<times> outboundResult result" where
  "SendOutbound w clk net req s =
     (if oq_MessageType req = [] then (s, Inl ''message_type is required'')
      else if outbound_target (sv_cfg s) req = [] then (s, Inl ''target url is required'')
      else
        let sessionID = firstNonEmpty [oq_SessionID req, instance_session (sv_cfg s) (clk 0)]
        in case outbound_body w (clk 1) sessionID req s of
             Inl e \<Rightarrow> (s, Inl e)
           | Inr body \<Rightarrow>
               let s1 = (if lo_CaptureRenderedXML (c_Logging (sv_cfg s))
                         then server_payload w (clk 2) ''outbound_request'' (oq_MessageType req) body s else s)
               in exchange_outbound w clk net req (outbound_target (sv_cfg s) req) body s1)"

section \<open>Control handlers\<close>

definition note_outbound :: "string \<Rightarrow> outboundResult \<Rightarrow> Server \<Rightarrow> Server" where
  "note_outbound msgType res s =
     (if or_OK res then
        map_state (\<lambda>st.
          let st1 = (if msgType = ''commsOnLine'' then st\<lparr>rs_SessionState := ''online''\<rparr> else st)
          in if msgType = ''keepAlive'' then st1\<lparr>rs_HeartbeatState := ''healthy''\<rparr> else st1) s
      else s)"

definition handleControlOutboundSend ::
    "world \<Rightarrow> clock \<Rightarrow> network \<Rightarrow> string \<Rightarrow> outboundRequest decoded \<Rightarrow> Server \<Rightarrow>
     Server \<times> outboundResult http_response" where
  "handleControlOutboundSend w clk net method body s =
     (if method \<noteq> ''POST'' then (s, HttpError 405 ''method not allowed'')
      else case snd body of
        Some e \<Rightarrow> (s, HttpError 400 e)
      | None \<Rightarrow>
          (case SendOutbound w clk net (fst body) s of
             (s1, Inl e) \<Rightarrow> (s1, HttpError 400 e)
           | (s1, Inr res) \<Rightarrow> (note_outbound (oq_MessageType (fst body)) res s1, HttpReply 200 res)))"

text \<open>The body of this request is decoded without looking at the error.\<close>

definition handleOutboundSendLike ::
    "world \<Rightarrow> clock \<Rightarrow> network \<Rightarrow> string \<Rightarrow> outboundRequest decoded \<Rightarrow> string \<Rightarrow> Server \<Rightarrow>
     Server \<times> outboundResult http_response" where
  "handleOutboundSendLike w clk net method body msgType s =
     (if method \<noteq> ''POST'' then (s, HttpError 405 ''method not allowed'')
      else
        let req0 = (fst body)\<lparr>oq_MessageType := msgType\<rparr>;
            req = (if msgType = ''keepAlive'' then req0\<lparr>oq_AllowGenericAck := True\<rparr> else req0)
        in case SendOutbound w clk net req s of
             (s1, Inl e) \<Rightarrow> (s1, HttpError 400 e)
           | (s1, Inr res) \<Rightarrow> (note_outbound msgType res s1, HttpReply 200 res))"

definition handleControlOutboundSessionOpen ::
    "world \<Rightarrow> clock \<Rightarrow> network \<Rightarrow> string \<Rightarrow> outboundRequest decoded \<Rightarrow> Server \<Rightarrow> Server \<times> outboundResult http_response" where
  "handleControlOutboundSessionOpen w clk net method body s =
     handleOutboundSendLike w clk net method body ''commsOnLine'' s"

definition handleControlOutboundHeartbeat ::
    "world \<Rightarrow> clock \<Rightarrow> network \<Rightarrow> string \<Rightarrow> outboundRequest decoded \<Rightarrow> Server \<Rightarrow> Server \<times> outboundResult http_response" where
  "handleControlOutboundHeartbeat w clk net method body s =
     handleOutboundSendLike w clk net method body ''keepAlive'' s"

section \<open>Properties\<close>

text \<open>
  The outbound transport follows the trust mode: no TLS exactly in \<open>plaintext_lab\<close>, and the
  peer's certificate goes unchecked exactly in \<open>accept_all_lab\<close>; the machine's own certificate is
  presented only when that is configured, and a configured CA file is the root of trust in every
  checking mode.
\<close>

theorem outboundTransport_trust:
  "case outboundTransport w sec mode cfg of
     Inl e \<Rightarrow> mode \<notin> {''plaintext_lab'', ''accept_all_lab''}
   | Inr None \<Rightarrow> mode = ''plaintext_lab''
   | Inr (Some tls) \<Rightarrow>
       mode \<in> {''accept_all_lab'', ''tls_server_only'', ''strict_mtls'', ''mtls_no_revocation''} \<and>
       VersionTLS12 \<le> ot_MinVersion tls \<and>
       ot_InsecureSkipVerify tls = (mode = ''accept_all_lab'') \<and>
       (ot_Certificate tls = None \<or> ob_UseRuntimeCerts cfg) \<and>
       (ot_InsecureSkipVerify tls \<or>
        (case ot_RootCAs tls of
           None \<Rightarrow> sc_CAFile sec = []
         | Some ca \<Rightarrow> wd_readFile w (sc_CAFile sec) = Inr ca))"
  by (auto simp: outboundTransport_def with_runtime_cert_def with_root_cas_def Let_def split: sum.split option.split)

lemma exchange_outbound_frame:
  "core (fst (exchange_outbound w clk net req url body s)) = core s \<and>
   sv_state (fst (exchange_outbound w clk net req url body s)) = sv_state s"
  by (simp add: exchange_outbound_def Let_def core_simps frame_simps split: sum.split prod.split)

lemma SendOutbound_frame:
  "core (fst (SendOutbound w clk net req s)) = core s \<and> sv_state (fst (SendOutbound w clk net req s)) = sv_state s"
  by (simp add: SendOutbound_def Let_def exchange_outbound_frame core_simps frame_simps split: sum.split)

lemmas SendOutbound_core [core_simps] = SendOutbound_frame [THEN conjunct1]
lemmas SendOutbound_state [frame_simps] = SendOutbound_frame [THEN conjunct2]

lemma evaluate_response_ok:
  "or_OK (evaluate_response dec req status data) \<longleftrightarrow>
     200 \<le> status \<and> status < 300 \<and> ack_accepted req (or_ResponseRoot (evaluate_response dec req status data))"
  "or_Error (evaluate_response dec req status data) = [] \<longleftrightarrow> or_OK (evaluate_response dec req status data)"
  by (simp_all add: evaluate_response_def Let_def)

lemma exchange_outbound_sent:
  "case snd (exchange_outbound w clk net req url body s) of
     Inl e \<Rightarrow> True
   | Inr res \<Rightarrow> \<exists>sent status data. net sent = Inr (status, data) \<and> cl_URL sent = url \<and>
       outboundTransport w (c_Security (sv_cfg s)) (sc_TrustMode (c_Security (sv_cfg s)))
         (c_Outbound (sv_cfg s)) = Inr (cl_Transport sent) \<and>
       res = evaluate_response (wd_decoder w) req status data"
  by (auto simp: exchange_outbound_def Let_def split: sum.split) (metis client_request.select_convs(1,4))

lemma evaluate_response_parts:
  "or_HTTPStatus (evaluate_response dec req status data) = status"
  "or_ResponseRoot (evaluate_response dec req status data) = rootLocalNameFromResponse dec data"
  by (simp_all add: evaluate_response_def Let_def)

lemma SendOutbound_exchanged:
  assumes "snd (SendOutbound w clk net req s) = Inr res"
  shows "oq_MessageType req \<noteq> [] \<and> outbound_target (sv_cfg s) req \<noteq> [] \<and>
    (\<exists>body s1. sv_cfg s1 = sv_cfg s \<and>
       snd (exchange_outbound w clk net req (outbound_target (sv_cfg s) req) body s1) = Inr res)"
  using assms
  by (auto simp: SendOutbound_def Let_def split: if_split_asm sum.splits intro: server_payload_frame(1))


lemma core_note_outbound [core_simps]: "core (note_outbound m res s) = core s"
  by (simp add: note_outbound_def core_map_state core_update_defs Let_def)

lemma core_outbound_handlers [core_simps]:
  "core (fst (handleControlOutboundSend w clk net m b s)) = core s"
  "core (fst (handleOutboundSendLike w clk net m b mt s)) = core s"
  using SendOutbound_core [of w clk net _ s]
  by (auto simp: handleControlOutboundSend_def handleOutboundSendLike_def Let_def case_prod_beta core_simps
      split: option.split sum.split)

end
