(* ===== verification/Scheduler.thy ===== *)
theory Scheduler
  imports Outbound
begin

text \<open>
  The outbound scheduler (\<^verbatim>\<open>src/runtime/scheduler.go\<close>): effective settings, start and stop, the
  decision and the bookkeeping of one tick. A tick reads the state, sends without holding the
  mutex and then records the result, so it is two steps, \<open>tick_operation\<close> and
  \<open>updateSchedulerAfterResult\<close>, with the sending in between.
\<close>

section \<open>Settings, start and stop\<close>

definition schedulerConfig :: "Config \<Rightarrow> OutboundSchedulerConfig" where
  "schedulerConfig c =
     (let cfg = ob_Scheduler (c_Outbound c);
          cfg1 = (if os_HeartbeatIntervalMS cfg \<le> 0 then cfg\<lparr>os_HeartbeatIntervalMS := 5000\<rparr> else cfg);
          cfg2 = (if os_OpenRetryIntervalMS cfg1 \<le> 0 then cfg1\<lparr>os_OpenRetryIntervalMS := 2000\<rparr> else cfg1);
          cfg3 = (if os_FailureThreshold cfg2 \<le> 0 then cfg2\<lparr>os_FailureThreshold := 2\<rparr> else cfg2)
      in if \<not> os_RunHeartbeatWhenIdle cfg3 then cfg3\<lparr>os_OpenSessionOnStart := True\<rparr> else cfg3)"

definition StartOutboundScheduler :: "clock \<Rightarrow> Server \<Rightarrow> Server \<times> unit result" where
  "StartOutboundScheduler clk s =
     (if \<not> os_Enabled (ob_Scheduler (c_Outbound (sv_cfg s)))
      then (s, Inl ''outbound scheduler is not enabled in config'')
      else if ob_DefaultTargetURL (c_Outbound (sv_cfg s)) = []
      then (s, Inl ''outbound.default_target_url is required for scheduler'')
      else if sv_schedulerCancel s \<noteq> None then (s, Inr ())
      else
        let s1 = s\<lparr>sv_contexts := sv_contexts s @ [False], sv_schedulerCancel := Some (length (sv_contexts s))\<rparr>;
            s2 = map_scheduler (\<lambda>st. st\<lparr>ss_Running := True,
                   ss_TargetURL := ob_DefaultTargetURL (c_Outbound (sv_cfg s)), ss_LastError := []\<rparr>) s1
        in (server_log (clk 0) ''info'' ''scheduler'' ''outbound scheduler started''
              [(''target_url'', JStr (ob_DefaultTargetURL (c_Outbound (sv_cfg s))))] s2, Inr ()))"

definition StopOutboundScheduler :: "clock \<Rightarrow> Server \<Rightarrow> Server" where
  "StopOutboundScheduler clk s =
     (case sv_schedulerCancel s of
        None \<Rightarrow> s
      | Some ctx \<Rightarrow>
          let s1 = map_scheduler (\<lambda>st. st\<lparr>ss_Running := False\<rparr>) (s\<lparr>sv_schedulerCancel := None\<rparr>);
              s2 = server_log (clk 0) ''info'' ''scheduler'' ''outbound scheduler stopped'' [] s1
          in s2\<lparr>sv_contexts := (sv_contexts s2)[ctx := True]\<rparr>)"

section \<open>Ticks\<close>

text \<open>The interval of the ticker; \<^verbatim>\<open>time.NewTicker\<close> panics unless it is positive.\<close>

definition tick_interval :: "Config \<Rightarrow> duration" where
  "tick_interval c = Milliseconds_duration (os_HeartbeatIntervalMS (schedulerConfig c))"

text \<open>The operation a tick sends, if any.\<close>

definition tick_operation :: "time \<Rightarrow> OutboundSchedulerConfig \<Rightarrow> RuntimeState \<Rightarrow> string option" where
  "tick_operation now cfg st =
     (let sched = rs_OutboundScheduler st in
      if \<not> ss_Running sched then None
      else if rs_SessionState st \<noteq> ''online'' then
        (if \<not> os_OpenSessionOnStart cfg \<and> \<not> os_RunHeartbeatWhenIdle cfg then None
         else if \<not> IsZero (ss_LastAttemptAt sched) \<and>
           time_Sub now (ss_LastAttemptAt sched) < Milliseconds_duration (os_OpenRetryIntervalMS cfg) then None
         else if os_RunHeartbeatWhenIdle cfg then Some ''keepAlive''
         else Some ''commsOnLine'')
      else Some ''keepAlive'')"

definition note_attempt :: "time \<Rightarrow> string \<Rightarrow> OutboundSchedulerState \<Rightarrow> OutboundSchedulerState" where
  "note_attempt now operation st =
     (let st1 = st\<lparr>ss_LastTickAt := now, ss_LastAttemptAt := now, ss_LastOperation := operation\<rparr>
      in if operation = ''commsOnLine'' then st1\<lparr>ss_OpenAttempts := wrap64 (ss_OpenAttempts st1 + 1)\<rparr>
         else if operation = ''keepAlive'' then st1\<lparr>ss_HeartbeatAttempts := wrap64 (ss_HeartbeatAttempts st1 + 1)\<rparr>
         else st1)"

definition failure_text :: "outboundResult result \<Rightarrow> string" where
  "failure_text answer =
     (case answer of
        Inl e \<Rightarrow> e
      | Inr res \<Rightarrow>
          if or_Error res \<noteq> [] then or_Error res
          else ''http_status='' @ show_int (or_HTTPStatus res) @ '' response_root='' @ or_ResponseRoot res)"

definition answer_ok :: "outboundResult result \<Rightarrow> bool" where
  "answer_ok answer = (case answer of Inl e \<Rightarrow> False | Inr res \<Rightarrow> or_OK res)"

definition note_success :: "time \<Rightarrow> string \<Rightarrow> RuntimeState \<Rightarrow> RuntimeState" where
  "note_success now operation st =
     (let st1 = st\<lparr>rs_OutboundScheduler := (rs_OutboundScheduler st)\<lparr>ss_LastSuccessAt := now,
            ss_ConsecutiveFailures := 0, ss_LastError := []\<rparr>\<rparr>;
          st2 = (if operation = ''commsOnLine''
                 then st1\<lparr>rs_SessionState := ''online'', rs_HeartbeatState := ''healthy''\<rparr> else st1)
      in if operation = ''keepAlive'' then st2\<lparr>rs_HeartbeatState := ''healthy''\<rparr> else st2)"

definition note_failure :: "string \<Rightarrow> OutboundSchedulerState \<Rightarrow> OutboundSchedulerState" where
  "note_failure text st =
     st\<lparr>ss_ConsecutiveFailures := wrap64 (ss_ConsecutiveFailures st + 1), ss_LastError := text\<rparr>"

definition updateSchedulerAfterResult ::
    "clock \<Rightarrow> string \<Rightarrow> outboundResult result \<Rightarrow> OutboundSchedulerConfig \<Rightarrow> Server \<Rightarrow> Server" where
  "updateSchedulerAfterResult clk operation answer cfg s =
     (let s1 = map_scheduler (note_attempt (clk 0) operation) s in
      if answer_ok answer then map_state (note_success (clk 0) operation) s1
      else
        let s2 = map_scheduler (note_failure (failure_text answer)) s1;
            st = rs_OutboundScheduler (sv_state s2);
            flds = [(''operation'', JStr operation), (''error'', JStr (ss_LastError st)),
              (''consecutive_failures'', JInt (ss_ConsecutiveFailures st)),
              (''failure_threshold'', JInt (os_FailureThreshold cfg)), (''target_url'', JStr (ss_TargetURL st))]
        in if ss_ConsecutiveFailures st \<ge> os_FailureThreshold cfg then
             server_log (clk 1) ''warn'' ''scheduler'' ''outbound scheduler failure threshold reached'' flds
               (map_state (\<lambda>rs. (if operation = ''commsOnLine'' then rs\<lparr>rs_SessionState := ''idle''\<rparr> else rs)
                  \<lparr>rs_HeartbeatState := ''degraded''\<rparr>) s2)
           else server_log (clk 1) ''warn'' ''scheduler'' ''outbound scheduler tick failed'' flds s2)"

text \<open>One undisturbed tick.\<close>

definition runOutboundSchedulerTick ::
    "world \<Rightarrow> clock \<Rightarrow> network \<Rightarrow> OutboundSchedulerConfig \<Rightarrow> Server \<Rightarrow> Server" where
  "runOutboundSchedulerTick w clk net cfg s =
     (case tick_operation (clk 0) cfg (sv_state s) of
        None \<Rightarrow> s
      | Some operation \<Rightarrow>
          let (s1, answer) = SendOutbound w (\<lambda>i. clk (1 + i)) net
                \<lparr>oq_MessageType = operation, oq_HostID = [], oq_SessionID = [], oq_TargetURL = [],
                 oq_AllowGenericAck = False\<rparr> s
          in updateSchedulerAfterResult (\<lambda>i. clk (7 + i)) operation answer cfg s1)"

section \<open>Control handlers\<close>

definition handleControlOutboundSchedulerStart ::
    "clock \<Rightarrow> string \<Rightarrow> Server \<Rightarrow> Server \<times> OutboundSchedulerState http_response" where
  "handleControlOutboundSchedulerStart clk method s =
     (if method \<noteq> ''POST'' then (s, HttpError 405 ''method not allowed'')
      else case StartOutboundScheduler clk s of
        (s1, Inl e) \<Rightarrow> (s1, HttpError 400 e)
      | (s1, Inr _) \<Rightarrow> (s1, HttpReply 200 (rs_OutboundScheduler (sv_state s1))))"

definition handleControlOutboundSchedulerStop ::
    "clock \<Rightarrow> string \<Rightarrow> Server \<Rightarrow> Server \<times> OutboundSchedulerState http_response" where
  "handleControlOutboundSchedulerStop clk method s =
     (if method \<noteq> ''POST'' then (s, HttpError 405 ''method not allowed'')
      else let s1 = StopOutboundScheduler clk s
           in (s1, HttpReply 200 (rs_OutboundScheduler (sv_state s1))))"

section \<open>Invariant\<close>

lemma map_scheduler_frame [frame_simps]:
  "sv_cfg (map_scheduler f s) = sv_cfg s" "sv_pack (map_scheduler f s) = sv_pack s"
  "sv_logger (map_scheduler f s) = sv_logger s"
  "sv_schedulerCancel (map_scheduler f s) = sv_schedulerCancel s"
  "sv_contexts (map_scheduler f s) = sv_contexts s"
  "sv_state (map_scheduler f s) =
     (sv_state s)\<lparr>rs_OutboundScheduler := f (rs_OutboundScheduler (sv_state s))\<rparr>"
  by (simp_all add: map_scheduler_def frame_simps)

lemma live_contexts_simps [simp]:
  "live_contexts (ctxs @ [False]) = insert (length ctxs) (live_contexts ctxs)"
  "live_contexts (ctxs[i := True]) = live_contexts ctxs - {i}"
  by (auto simp: live_contexts_def nth_append less_Suc_eq) (cases "i < length ctxs"; auto simp: nth_list_update split: if_splits)+

lemma scheduler_inv_start:
  "scheduler_inv r None ctxs \<Longrightarrow> scheduler_inv True (Some (length ctxs)) (ctxs @ [False])"
  by (simp add: scheduler_inv_def)

lemma scheduler_inv_stop:
  "scheduler_inv r (Some i) ctxs \<Longrightarrow> scheduler_inv False None (ctxs[i := True])"
  by (simp add: scheduler_inv_def)

lemma StartOutboundScheduler_inv:
  assumes "server_inv s"
  shows "server_inv (fst (StartOutboundScheduler clk s))"
proof (cases "sv_schedulerCancel s")
  case None
  with assms scheduler_inv_start show ?thesis
    by (auto simp: StartOutboundScheduler_def Let_def server_inv_def frame_simps server_log_def)
next
  case (Some i)
  with assms show ?thesis by (simp add: StartOutboundScheduler_def)
qed

lemma StopOutboundScheduler_inv:
  assumes "server_inv s"
  shows "server_inv (StopOutboundScheduler clk s)"
  using assms scheduler_inv_stop
  by (auto simp: StopOutboundScheduler_def Let_def server_inv_def frame_simps server_log_def
      split: option.split)

text \<open>A tick changes the counters, but nothing else that matters to the invariant.\<close>

lemma stable_log [core_simps]: "stable (server_log t l c m fs s) = stable s"
  using core_log(1) [of t l c m fs s] by (simp add: core_def)

lemma stable_scheduler_updates:
  "(\<And>st. ss_Running (f st) = ss_Running st) \<Longrightarrow> stable (map_scheduler f s) = stable s"
  by (simp add: map_scheduler_def stable_map_state stable_update_def)

lemma stable_note_scheduler [core_simps]:
  "stable (map_scheduler (note_attempt t op) s) = stable s" "stable (map_scheduler (note_failure e) s) = stable s"
  "stable (map_state (note_success t op) s) = stable s"
  by (simp_all add: stable_scheduler_updates stable_map_state stable_update_def note_attempt_def note_failure_def
      note_success_def Let_def)

lemma stable_updateScheduler [core_simps]: "stable (updateSchedulerAfterResult clk op answer cfg s) = stable s"
  by (simp add: updateSchedulerAfterResult_def Let_def core_simps stable_map_state stable_update_def)

section \<open>Ticks and failures\<close>

lemma schedulerConfig_frame:
  "os_RunHeartbeatWhenIdle (schedulerConfig c) = os_RunHeartbeatWhenIdle (ob_Scheduler (c_Outbound c))"
  "os_OpenSessionOnStart (schedulerConfig c) \<or> os_RunHeartbeatWhenIdle (schedulerConfig c)"
  "0 < os_FailureThreshold (schedulerConfig c)" "0 < os_OpenRetryIntervalMS (schedulerConfig c)"
  "os_HeartbeatIntervalMS (schedulerConfig c) =
     (if os_HeartbeatIntervalMS (ob_Scheduler (c_Outbound c)) \<le> 0 then 5000
      else os_HeartbeatIntervalMS (ob_Scheduler (c_Outbound c)))"
  by (simp_all add: schedulerConfig_def Let_def)

text \<open>
  With the effective settings, a tick of a running scheduler always sends, except while the
  session is not online and the last attempt lies less than the retry interval back; it sends a
  \<open>keepAlive\<close> when the session is online or heartbeats run while idle, and a \<open>commsOnLine\<close>
  otherwise.
\<close>

theorem tick_operation_exact:
  "tick_operation now (schedulerConfig c) st =
     (if ss_Running (rs_OutboundScheduler st) \<and>
         (rs_SessionState st = ''online'' \<or> ss_LastAttemptAt (rs_OutboundScheduler st) = 0 \<or>
          Milliseconds_duration (os_OpenRetryIntervalMS (schedulerConfig c)) \<le>
            time_Sub now (ss_LastAttemptAt (rs_OutboundScheduler st)))
      then (if rs_SessionState st = ''online'' \<or> os_RunHeartbeatWhenIdle (ob_Scheduler (c_Outbound c))
            then Some ''keepAlive'' else Some ''commsOnLine'')
      else None)"
  using schedulerConfig_frame(1,2) [of c] by (auto simp: tick_operation_def IsZero_def Let_def)

text \<open>
  The ticker gets a positive interval for every heartbeat interval up to 9223372036854 ms,
  the largest whose product with a million fits 64 bits.
\<close>

theorem tick_interval_positive:
  assumes "os_HeartbeatIntervalMS (ob_Scheduler (c_Outbound c)) \<le> 9223372036854"
  shows "0 < tick_interval c"
  using assms
  by (simp add: tick_interval_def Milliseconds_duration_def schedulerConfig_frame int64_range_def)

theorem tick_interval_positive_witness: "0 < tick_interval sample_config"
  by (rule tick_interval_positive) (simp add: sample_config_def)


definition failures :: "Server \<Rightarrow> int" where
  "failures s = ss_ConsecutiveFailures (rs_OutboundScheduler (sv_state s))"

lemma note_attempt_frame [frame_simps]:
  "ss_ConsecutiveFailures (note_attempt t op st) = ss_ConsecutiveFailures st"
  "ss_TargetURL (note_attempt t op st) = ss_TargetURL st" "ss_Running (note_attempt t op st) = ss_Running st"
  by (simp_all add: note_attempt_def Let_def)

lemma update_after_failure:
  assumes "\<not> answer_ok answer"
  shows "failures (updateSchedulerAfterResult clk op answer cfg s) = wrap64 (failures s + 1)"
    "rs_HeartbeatState (sv_state (updateSchedulerAfterResult clk op answer cfg s)) =
      (if os_FailureThreshold cfg \<le> wrap64 (failures s + 1) then ''degraded''
       else rs_HeartbeatState (sv_state s))"
  using assms
  by (simp_all add: updateSchedulerAfterResult_def failures_def Let_def frame_simps note_failure_def)

lemma update_after_success:
  assumes "answer_ok answer"
  shows "failures (updateSchedulerAfterResult clk op answer cfg s) = 0"
  using assms
  by (simp add: updateSchedulerAfterResult_def failures_def Let_def frame_simps note_success_def)

text \<open>The results of a sequence of ticks, recorded one after the other.\<close>

definition record_results ::
    "clock \<Rightarrow> OutboundSchedulerConfig \<Rightarrow> (string \<times> outboundResult result) list \<Rightarrow> Server \<Rightarrow> Server" where
  "record_results clk cfg rs s =
     fold (\<lambda>(op, answer) s. updateSchedulerAfterResult clk op answer cfg s) rs s"

lemma record_results_snoc:
  "record_results clk cfg (rs @ [(op, answer)]) s =
     updateSchedulerAfterResult clk op answer cfg (record_results clk cfg rs s)"
  by (simp add: record_results_def)

text \<open>
  C10: consecutive failures are counted exactly and degrade the heartbeat exactly at the
  threshold: after a success, a run of n failed ticks leaves the count at n, and the heartbeat is
  \<open>degraded\<close> once n has reached the threshold and unchanged before.
\<close>

theorem failure_threshold_exact:
  assumes "failures s = 0" "list_all (\<lambda>(op, answer). \<not> answer_ok answer) rs" "length rs < 2 ^ 63"
    and "0 < os_FailureThreshold cfg"
  shows "failures (record_results clk cfg rs s) = int (length rs) \<and>
    rs_HeartbeatState (sv_state (record_results clk cfg rs s)) =
      (if os_FailureThreshold cfg \<le> int (length rs) then ''degraded'' else rs_HeartbeatState (sv_state s))"
  using assms(2,3)
proof (induction rs rule: rev_induct)
  case Nil
  then show ?case using assms(1,4) by (simp add: record_results_def)
next
  case (snoc r rs)
  obtain op answer where r: "r = (op, answer)" by (cases r)
  with snoc have IH: "failures (record_results clk cfg rs s) = int (length rs)"
      "rs_HeartbeatState (sv_state (record_results clk cfg rs s)) =
        (if os_FailureThreshold cfg \<le> int (length rs) then ''degraded'' else rs_HeartbeatState (sv_state s))"
    and bad: "\<not> answer_ok answer"
    by auto
  have "wrap64 (int (length rs) + 1) = int (length (rs @ [r]))"
    using snoc.prems(2) by (simp add: int64_range_def)
  with IH show ?case
    unfolding r record_results_snoc update_after_failure [OF bad] by auto
qed

definition failed_ticks :: "(string \<times> outboundResult result) list" where
  "failed_ticks = [(''keepAlive'', Inl ''timeout''), (''keepAlive'', Inl ''timeout''), (''keepAlive'', Inl ''timeout'')]"

definition sample_server :: Server where
  "sample_server = \<lparr>sv_cfg = sample_config, sv_pack = sample_pack, sv_logger = sample_logger,
     sv_state = initial_state 1 sample_config sample_pack ''noop'' [], sv_schedulerCancel = None,
     sv_contexts = [], sv_timestamps = Map.empty, sv_evidence = Map.empty, sv_xml = Map.empty\<rparr>"

theorem failure_threshold_exact_witness:
  "rs_HeartbeatState (sv_state (record_results (\<lambda>i. 5) (schedulerConfig sample_config) failed_ticks sample_server))
     = ''degraded''"
  using failure_threshold_exact [of sample_server failed_ticks "schedulerConfig sample_config" "\<lambda>i. 5"]
  by (simp add: failed_ticks_def sample_server_def failures_def initial_state_def initial_scheduler_def
      answer_ok_def schedulerConfig_def sample_config_def)

end
