(* ===== verification/Control.thy ===== *)
theory Control
  imports Scheduler
begin

text \<open>
  The control plane (\<^verbatim>\<open>src/runtime/control_restore.go\<close>, \<^verbatim>\<open>cert_status.go\<close>, and the CORS wrapper of
  \<^verbatim>\<open>control_ui.go\<close>). A handler takes the request method and, where it reads one, the decoded
  body, and returns the new server and the response. X.509 parsing and PEM decoding are
  parameters. The admission list is kept as a value here; \<open>Host_Slices\<close> relates it to
  the slice the code updates in place.
\<close>

section \<open>Certificate status (cert\_status.go)\<close>

record x509_certificate =
  xc_Subject :: string
  xc_Issuer :: string
  xc_DNSNames :: "string list"
  xc_IPAddresses :: "string list"
  xc_NotBefore :: time
  xc_NotAfter :: time

record CertificateStatus =
  ct_TrustMode :: string
  ct_CertFile :: string
  ct_KeyFile :: string
  ct_CAFile :: string
  ct_OK :: bool
  ct_Mode :: string
  ct_Subject :: string
  ct_Issuer :: string
  ct_DNSNames :: "string list"
  ct_IPAddresses :: "string list"
  ct_NotBefore :: time
  ct_NotAfter :: time
  ct_CAReadable :: bool
  ct_Error :: string
  ct_OpenSSLHint :: string

text \<open>\<open>load_chain\<close> gives the certificates of a loaded key pair, \<open>parse_cert\<close> parses one, and
  \<open>has_pem\<close> says whether a file holds a PEM block.\<close>

definition BuildCertificateStatus ::
    "(string \<Rightarrow> string \<Rightarrow> string list result) \<Rightarrow> (string \<Rightarrow> x509_certificate result) \<Rightarrow>
     (string \<Rightarrow> string result) \<Rightarrow> (string \<Rightarrow> bool) \<Rightarrow> SecurityConfig \<Rightarrow> CertificateStatus" where
  "BuildCertificateStatus load_chain parse_cert readFile has_pem sec =
     (let st = \<lparr>ct_TrustMode = sc_TrustMode sec, ct_CertFile = sc_CertFile sec, ct_KeyFile = sc_KeyFile sec,
            ct_CAFile = sc_CAFile sec, ct_OK = False, ct_Mode = sc_TrustMode sec, ct_Subject = [],
            ct_Issuer = [], ct_DNSNames = [], ct_IPAddresses = [], ct_NotBefore = 0, ct_NotAfter = 0,
            ct_CAReadable = False, ct_Error = [], ct_OpenSSLHint = []\<rparr>
      in if sc_TrustMode sec = ''plaintext_lab'' \<or> sc_TrustMode sec = []
         then st\<lparr>ct_OK := True, ct_Mode := ''plaintext_lab''\<rparr>
         else case load_chain (sc_CertFile sec) (sc_KeyFile sec) of
           Inl e \<Rightarrow> st\<lparr>ct_Error := ''cert/key load failed: '' @ e\<rparr>
         | Inr [] \<Rightarrow> st\<lparr>ct_Error := ''cert/key load returned no certificates''\<rparr>
         | Inr (leaf # _) \<Rightarrow>
        (case parse_cert leaf of
           Inl e \<Rightarrow> st\<lparr>ct_Error := ''certificate parse failed: '' @ e\<rparr>
         | Inr parsed \<Rightarrow>
             let st1 = st\<lparr>ct_Subject := xc_Subject parsed, ct_Issuer := xc_Issuer parsed,
                   ct_DNSNames := xc_DNSNames parsed, ct_IPAddresses := xc_IPAddresses parsed,
                   ct_NotBefore := xc_NotBefore parsed, ct_NotAfter := xc_NotAfter parsed\<rparr>;
                 ca = (if sc_CAFile sec \<noteq> [] then
                         (case readFile (sc_CAFile sec) of
                            Inl e \<Rightarrow> Inl (''ca_file unreadable: '' @ e)
                          | Inr caBytes \<Rightarrow>
                              if has_pem caBytes then Inr (st1\<lparr>ct_CAReadable := True\<rparr>)
                              else Inl ''ca_file does not contain PEM data'')
                       else Inr st1)
             in case ca of
                  Inl e \<Rightarrow> st1\<lparr>ct_Error := e\<rparr>
                | Inr st2 \<Rightarrow>
                    if sc_TrustMode sec \<in> {''strict_mtls'', ''mtls_no_revocation''} \<and> sc_CAFile sec = []
                    then st2\<lparr>ct_Error := ''ca_file is required for mutual TLS''\<rparr>
                    else st2\<lparr>ct_OK := True,
                      ct_OpenSSLHint := ''openssl x509 -in '' @ sc_CertFile sec @
                        '' -noout -subject -issuer -dates -ext subjectAltName''\<rparr>))"

section \<open>Handlers\<close>

definition withControlCORS :: "string \<Rightarrow> (Server \<Rightarrow> Server \<times> 'a http_response) \<Rightarrow> Server \<Rightarrow> Server \<times> 'a option http_response" where
  "withControlCORS method next s =
     (if method = ''OPTIONS'' then (s, HttpReply 204 None)
      else case next s of
        (s', HttpError code msg) \<Rightarrow> (s', HttpError code msg)
      | (s', HttpReply code x) \<Rightarrow> (s', HttpReply code (Some x))
      | (s', HttpRedirect code url) \<Rightarrow> (s', HttpRedirect code url)
      | (s', HttpPanic) \<Rightarrow> (s', HttpPanic))"

definition handleHealthz :: "Server \<Rightarrow> Server \<times> string http_response" where
  "handleHealthz s = (s, HttpReply 200 (c_InstanceID (sv_cfg s)))"

definition handleControlState :: "string \<Rightarrow> Server \<Rightarrow> Server \<times> state_view http_response" where
  "handleControlState method s =
     (if method \<noteq> ''GET'' then (s, HttpError 405 ''method not allowed'')
      else (s, HttpReply 200 (MarshalJSON_view s)))"

definition query_reply :: "EventFilter \<Rightarrow> Server \<Rightarrow> Server \<times> Event list http_response" where
  "query_reply flt s =
     (case QueryEvents (sv_logger s) flt of
        Inl e \<Rightarrow> (s, HttpError 500 e)
      | Inr events \<Rightarrow> (s, HttpReply 200 events))"

definition handleControlStateHistory :: "Server \<Rightarrow> Server \<times> Event list http_response" where
  "handleControlStateHistory s = query_reply (no_filter\<lparr>f_Category := ''state'', f_Limit := 100\<rparr>) s"

definition handleControlLogs :: "Server \<Rightarrow> Server \<times> Event list http_response" where
  "handleControlLogs s = query_reply (no_filter\<lparr>f_Limit := 200\<rparr>) s"

definition handleControlMachineStatus :: "string \<Rightarrow> Server \<Rightarrow> Server \<times> state_view http_response" where
  "handleControlMachineStatus method s = handleControlState method s"

record audioControlRequest =
  ac_Muted :: bool

text \<open>The body is decoded without looking at the error.\<close>

definition handleControlAudio ::
    "clock \<Rightarrow> string \<Rightarrow> audioControlRequest decoded \<Rightarrow> Server \<Rightarrow> Server \<times> state_view http_response" where
  "handleControlAudio clk method body s =
     (if method \<noteq> ''POST'' then (s, HttpError 405 ''method not allowed'')
      else
        let s1 = (if ac_Muted (fst body)
                  then applyStateUpdatesLocked clk [(''audio_state'', JStr ''muted'')] ''control audio muted'' s
                  else applyStateUpdatesLocked clk [(''audio_state'', JStr ''normal'')] ''control audio normal'' s)
        in (s1, HttpReply 200 (MarshalJSON_view s1)))"

text \<open>The reply is the path of the bundle; the second component is the bundle now stored there.\<close>

definition handleControlExport ::
    "world \<Rightarrow> (string \<Rightarrow> unit result) \<Rightarrow> error option \<Rightarrow>
     (string \<Rightarrow> (state_view, Config, unit) ExportBundle \<Rightarrow> unit result) \<Rightarrow> time \<Rightarrow> string \<Rightarrow> Server \<Rightarrow>
     Server \<times> (string \<times> (state_view, Config, unit) ExportBundle) http_response" where
  "handleControlExport w mkdir readDir write now run_stamp s =
     (case ExportBundle_of (wd_join w) mkdir readDir write now run_stamp (sv_logger s)
             \<lparr>eo_OutputDir = [], eo_RunID = [], eo_Since = 0, eo_Until = 0, eo_IncludePayloads = True,
              eo_StateSnapshot = Some (MarshalJSON_view s), eo_ConfigSnapshot = Some (sv_cfg s),
              eo_PackSummary = None, eo_PassFailNotes = []\<rparr> of
        Inl e \<Rightarrow> (s, HttpError 500 e)
      | Inr bundle \<Rightarrow> (s, HttpReply 200 bundle))"

definition handleControlOverlay ::
    "world \<Rightarrow> clock \<Rightarrow> string \<Rightarrow> MessageOverlay decoded \<Rightarrow> Server \<Rightarrow> Server \<times> (string \<times> string) http_response" where
  "handleControlOverlay w clk method body s =
     (if method \<noteq> ''POST'' then (s, HttpError 405 ''method not allowed'')
      else case snd body of
        Some e \<Rightarrow> (s, HttpError 400 e)
      | None \<Rightarrow>
     (case ApplyOverlay (wd_typeErr w) (Some (sv_pack s)) (Some (fst body)) of
        Inl e \<Rightarrow> (s, HttpError 400 e)
      | Inr updated \<Rightarrow>
          let s1 = map_state (\<lambda>st. st\<lparr>rs_RegistrationState := registration_state updated\<rparr>)
                (s\<lparr>sv_pack := updated\<rparr>);
              s2 = server_log (clk 0) ''info'' ''control'' ''overlay applied''
                [(''overlay_name'', JStr (o_OverlayName (fst body))),
                 (''target_pack'', JStr (o_TargetPack (fst body)))] s1
          in (s2, HttpReply 200 (p_PackName updated, rs_RegistrationState (sv_state s2)))))"

record hostControlRequest =
  hc_HostID :: string

definition handleControlHostsAdd ::
    "string \<Rightarrow> hostControlRequest decoded \<Rightarrow> Server \<Rightarrow> Server \<times> state_view http_response" where
  "handleControlHostsAdd method body s =
     (if method \<noteq> ''POST'' then (s, HttpError 405 ''method not allowed'')
      else if snd body \<noteq> None \<or> hc_HostID (fst body) = [] then (s, HttpError 400 ''host_id is required'')
      else
        let s1 = map_state (\<lambda>st. st\<lparr>rs_AllowedHostIDs := rs_AllowedHostIDs st @ [hc_HostID (fst body)]\<rparr>) s
        in (s1, HttpReply 200 (MarshalJSON_view s1)))"

definition handleControlHostsRemove ::
    "string \<Rightarrow> hostControlRequest decoded \<Rightarrow> Server \<Rightarrow> Server \<times> state_view http_response" where
  "handleControlHostsRemove method body s =
     (if method \<noteq> ''POST'' then (s, HttpError 405 ''method not allowed'')
      else if snd body \<noteq> None \<or> hc_HostID (fst body) = [] then (s, HttpError 400 ''host_id is required'')
      else
        let s1 = map_state (\<lambda>st. st\<lparr>rs_AllowedHostIDs :=
              filter (\<lambda>id. id \<noteq> hc_HostID (fst body)) (rs_AllowedHostIDs st)\<rparr>) s
        in (s1, HttpReply 200 (MarshalJSON_view s1)))"

record securityModeRequest =
  sm_TrustMode :: string

definition handleControlSecurityMode ::
    "string \<Rightarrow> securityModeRequest decoded \<Rightarrow> Server \<Rightarrow> Server \<times> state_view http_response" where
  "handleControlSecurityMode method body s =
     (if method \<noteq> ''POST'' then (s, HttpError 405 ''method not allowed'')
      else if snd body \<noteq> None \<or> sm_TrustMode (fst body) = [] then (s, HttpError 400 ''trust_mode is required'')
      else
        let mode = sm_TrustMode (fst body);
            s1 = s\<lparr>sv_cfg := (sv_cfg s)\<lparr>c_Security := (c_Security (sv_cfg s))\<lparr>sc_TrustMode := mode\<rparr>\<rparr>\<rparr>;
            s2 = map_state (\<lambda>st. st\<lparr>rs_TrustMode := mode\<rparr>) s1
        in (s2, HttpReply 200 (MarshalJSON_view s2)))"

definition handleControlSecurityReload ::
    "(string \<Rightarrow> string \<Rightarrow> string list result) \<Rightarrow> (string \<Rightarrow> x509_certificate result) \<Rightarrow>
     (string \<Rightarrow> string result) \<Rightarrow> (string \<Rightarrow> bool) \<Rightarrow> Server \<Rightarrow> Server \<times> CertificateStatus http_response" where
  "handleControlSecurityReload load_chain parse_cert readFile has_pem s =
     (s, HttpReply 200 (BuildCertificateStatus load_chain parse_cert readFile has_pem (c_Security (sv_cfg s))))"

definition handleControlPackSummary :: "Server \<Rightarrow> Server \<times> (string \<times> string \<times> nat) http_response" where
  "handleControlPackSummary s =
     (s, HttpReply 200 (p_PackName (sv_pack s), p_PackVersion (sv_pack s), length (p_Operations (sv_pack s))))"

definition handleControlPackOperations :: "Server \<Rightarrow> Server \<times> Operation go_map http_response" where
  "handleControlPackOperations s = (s, HttpReply 200 (p_Operations (sv_pack s)))"

section \<open>Properties\<close>

lemma ApplyOverlay_keeps:
  assumes "ApplyOverlay te (Some b) (Some ov) = Inr p"
  shows "pack_wf p \<and> sd_RegisteredHosts (p_StateDefaults p) = sd_RegisteredHosts (p_StateDefaults b)"
proof -
  from assms have "unmarshal_generic te (fold apply_change (o_Changes ov) (marshal_generic b)) = Inr p" "pack_wf p"
    by (auto simp: ApplyOverlay_def pack_validator.accepts_iff Let_def split: sum.splits if_splits)
  then show ?thesis by (auto simp: unmarshal_generic_changes with_overlay_values_def)
qed

lemma handleControlOverlay_inv:
  assumes "server_inv s"
  shows "server_inv (fst (handleControlOverlay w clk m b s))"
proof (cases "ApplyOverlay (wd_typeErr w) (Some (sv_pack s)) (Some (fst b))")
  case (Inr p)
  with ApplyOverlay_keeps [OF Inr] assms show ?thesis
    by (auto simp: handleControlOverlay_def Let_def server_inv_def frame_simps server_log_def split: option.split)
qed (use assms in \<open>auto simp: handleControlOverlay_def split: option.split\<close>)

lemma handleControlSecurityMode_inv:
  "server_inv s \<Longrightarrow> server_inv (fst (handleControlSecurityMode m b s))"
  by (simp add: handleControlSecurityMode_def Let_def server_inv_def frame_simps)

lemma handleControlHosts_inv:
  "server_inv (fst (handleControlHostsAdd m h s)) = server_inv s"
  "server_inv (fst (handleControlHostsRemove m h s)) = server_inv s"
  by (simp_all add: handleControlHostsAdd_def handleControlHostsRemove_def Let_def server_inv_def frame_simps)

lemma core_handleControlAudio [core_simps]: "core (fst (handleControlAudio clk m a s)) = core s"
  by (simp add: handleControlAudio_def Let_def core_simps)

text \<open>
  The certificate check reports success exactly when the trust mode needs no certificate,
  or the key pair loads, its leaf parses, a configured CA file holds a PEM block, and mutual TLS
  has a CA file; otherwise it reports an error text, and never both.
\<close>

theorem BuildCertificateStatus_exact:
  "ct_OK (BuildCertificateStatus load_chain parse_cert readFile has_pem sec) =
     (sc_TrustMode sec \<in> {''plaintext_lab'', []} \<or>
      (\<exists>leaf rest parsed. load_chain (sc_CertFile sec) (sc_KeyFile sec) = Inr (leaf # rest) \<and>
         parse_cert leaf = Inr parsed) \<and>
      (if sc_CAFile sec = [] then sc_TrustMode sec \<notin> {''strict_mtls'', ''mtls_no_revocation''}
       else \<exists>data. readFile (sc_CAFile sec) = Inr data \<and> has_pem data)) \<and>
   (ct_Error (BuildCertificateStatus load_chain parse_cert readFile has_pem sec) = []) =
     ct_OK (BuildCertificateStatus load_chain parse_cert readFile has_pem sec)"
  by (auto simp: BuildCertificateStatus_def Let_def split: sum.split list.split)

text \<open>
  The admission list works as a set of host identifiers when the pack names no registered
  hosts: after a successful add the host is admitted, after a successful remove, in a restricted
  mode, it is not, and no other host's admission changes.
\<close>

theorem host_list_admission:
  assumes "server_inv s" "sd_RegistrationMode (p_StateDefaults (sv_pack s)) \<noteq> ''open''"
    and "rs_RegisteredHosts (sv_state s) = []" "h \<noteq> []"
  shows "hostAllowedLocked (fst (handleControlHostsAdd ''POST'' (\<lparr>hc_HostID = h\<rparr>, None) s)) g =
      (g = h \<or> hostAllowedLocked s g) \<and>
    hostAllowedLocked (fst (handleControlHostsRemove ''POST'' (\<lparr>hc_HostID = h\<rparr>, None) s)) g =
      (g \<noteq> h \<and> hostAllowedLocked s g)"
proof -
  have "rs_RegistrationState (sv_state s) \<noteq> ''open''"
    using assms(1,2) by (simp add: server_inv_def registration_state_def)
  with assms(2-4) show ?thesis
    by (auto simp: hostAllowedLocked_def handleControlHostsAdd_def handleControlHostsRemove_def Let_def frame_simps)
qed

definition restricted_server :: Server where
  "restricted_server =
     (let pk = sample_pack\<lparr>p_StateDefaults := (p_StateDefaults sample_pack)\<lparr>sd_RegistrationMode := ''strict_match''\<rparr>\<rparr>
      in sample_server\<lparr>sv_pack := pk, sv_state := initial_state 1 sample_config pk ''noop'' []\<rparr>)"

lemma restricted_server_inv: "server_inv restricted_server"
proof -
  have "pack_wf (sv_pack restricted_server)"
    using sample_pack_wf by (simp add: restricted_server_def pack_wf_def allowed_defs sample_server_def Let_def)
  then show ?thesis
    by (simp add: server_inv_def restricted_server_def sample_server_def initial_state_def
        initial_scheduler_def sample_logger_def sample_config_def scheduler_inv_def live_contexts_def Let_def)
qed

theorem host_list_admission_witness:
  "hostAllowedLocked (fst (handleControlHostsAdd ''POST'' (\<lparr>hc_HostID = ''H1''\<rparr>, None) restricted_server)) ''H1'' \<and>
   \<not> hostAllowedLocked (fst (handleControlHostsRemove ''POST'' (\<lparr>hc_HostID = ''H1''\<rparr>, None) restricted_server)) ''H1''"
  using host_list_admission [OF restricted_server_inv, of "''H1''" "''H1''"]
  by (simp add: restricted_server_def sample_server_def initial_state_def sample_pack_def Let_def)

end
