(* ===== verification/Session_Engine.thy ===== *)
theory Session_Engine
  imports Control
begin

text \<open>
  The session engine (\<^verbatim>\<open>src/runtime/session_engine.go\<close>, \<^verbatim>\<open>session_startup_exchange.go\<close>,
  \<^verbatim>\<open>session_keepalive.go\<close>): it brings the session online with \<open>commsOnLine\<close>, exchanges
  \<open>getDescriptor\<close> and \<open>setKeepAlive\<close>, and then sends \<open>keepAlive\<close> periodically. The four exchanges share
  \<open>exchange_once\<close>, the part of each function up to the state update. The loop is a state machine
  over the phases of its control flow; one step takes what the outside world provides at that
  point: whether the context is done when the loop looks, the clock and the network. Timers only
  decide when a step happens.
\<close>

section \<open>One exchange\<close>

record exchanged =
  ex_Status :: int
  ex_Parsed :: ParsedG2SEnvelope
  ex_Actual :: string

definition exchange_once ::
    "world \<Rightarrow> clock \<Rightarrow> network \<Rightarrow> string \<Rightarrow> string \<Rightarrow> string \<Rightarrow> Server \<Rightarrow> Server \<times> exchanged result" where
  "exchange_once w clk net op ack body s =
     (let s1 = (if lo_CaptureRenderedXML (c_Logging (sv_cfg s))
                then server_payload w (clk 0) ''outbound_request'' op body s else s)
      in case wd_newRequest w (he_URL (c_HostEndpoint (sv_cfg s))) of
           Inl e \<Rightarrow> (s1, Inl e)
         | Inr _ \<Rightarrow>
        (case net \<lparr>cl_URL = he_URL (c_HostEndpoint (sv_cfg s)), cl_ContentType = ''text/xml; charset=utf-8'',
                cl_Body = body, cl_Transport = None,
                cl_Timeout = Milliseconds_duration (se_CommsOnlineTimeoutMS (c_SessionEngine (sv_cfg s)))\<rparr> of
           Inl e \<Rightarrow> (s1, Inl e)
         | Inr (status, data) \<Rightarrow>
             let s2 = (if lo_CaptureRawXML (c_Logging (sv_cfg s))
                       then server_payload w (clk 1) ''inbound_response'' ack data s1 else s1)
             in if status < 200 \<or> status \<ge> 300 then (s2, Inl (op @ '' status '' @ show_int status))
                else case ParseG2SEnvelope (wd_decoder w) data of
                  Inl e \<Rightarrow> (s2, Inl (''parse '' @ ack @ '': '' @ e))
                | Inr parsed \<Rightarrow>
                    let s3 = recordParsedResponseEvidence ack parsed s2;
                        actual = resolveAck (wd_decoder w) ack
                          (firstNonEmpty [pe_OperationName parsed, pe_RawRoot parsed]) data
                          (c_SessionEngine (sv_cfg s))
                    in if actual \<noteq> ack then (s3, Inl (''expected '' @ ack @ '', got '' @ actual))
                       else (s3, Inr \<lparr>ex_Status = status, ex_Parsed = parsed, ex_Actual = actual\<rparr>)))"

definition ack_log_fields :: "Config \<Rightarrow> string \<Rightarrow> string \<Rightarrow> exchanged \<Rightarrow> json go_map" where
  "ack_log_fields cfg sessionID ack ex =
     [(''host_id'', JStr (c_HostID cfg)), (''egm_id'', JStr (c_EGMID cfg)), (''session_id'', JStr sessionID),
      (''status'', JInt (ex_Status ex)), (''message_type'', JStr ack),
      (''parsed_root_kind'', JStr (pe_RootKind (ex_Parsed ex))),
      (''parsed_class'', JStr (pe_ClassName (ex_Parsed ex))),
      (''parsed_operation'', JStr (pe_OperationName (ex_Parsed ex))),
      (''raw_root'', JStr (pe_RawRoot (ex_Parsed ex))), (''expected_ack'', JStr ack),
      (''actual_ack'', JStr (ex_Actual ex))]"

definition note_ack :: "Config \<Rightarrow> string \<Rightarrow> string \<Rightarrow> time \<Rightarrow> string \<Rightarrow> int \<Rightarrow> RuntimeState \<Rightarrow> RuntimeState" where
  "note_ack cfg op ack now sessionID status st =
     st\<lparr>rs_LastMessageType := ack, rs_LastCommandType := op, rs_LastCommandAt := now,
        rs_LastSessionID := sessionID, rs_LastHostID := c_HostID cfg,
        rs_LastAckStatus := ''http_'' @ show_int status, rs_LastError := []\<rparr>"

section \<open>The four exchanges\<close>

definition runCommsOnlineOnce :: "world \<Rightarrow> clock \<Rightarrow> network \<Rightarrow> Server \<Rightarrow> Server \<times> string result" where
  "runCommsOnlineOnce w clk net s =
     (if he_URL (c_HostEndpoint (sv_cfg s)) = [] then (s, Inl ''host endpoint url is empty'')
      else
        let sessionID = instance_session (sv_cfg s) (clk 0);
            body = renderCommsOnline (w_Namespaces (p_Wire (sv_pack s))) (sv_cfg s) (wd_rfc3339 w (clk 1)) sessionID
        in case exchange_once w (\<lambda>i. clk (2 + i)) net ''commsOnLine'' ''commsOnLineAck'' body s of
             (s1, Inl e) \<Rightarrow> (s1, Inl e)
           | (s1, Inr ex) \<Rightarrow>
               let now = clk 4;
                   s2 = map_state (\<lambda>st. (note_ack (sv_cfg s) ''commsOnLine'' ''commsOnLineAck'' now sessionID
                          (ex_Status ex) st)
                          \<lparr>rs_SessionState := ''online'', rs_ConnectionState := ''host_connected'',
                           rs_HeartbeatState := ''idle''\<rparr>) s1;
                   s3 = recordSessionTimestamp ''commsOnLine'' now s2;
                   s4 = server_log (clk 5) ''info'' ''session'' ''commsOnLine acknowledged''
                     (ack_log_fields (sv_cfg s) sessionID ''commsOnLineAck'' ex) s3
               in (s4, Inr sessionID))"

definition runGetDescriptorOnce :: "world \<Rightarrow> clock \<Rightarrow> network \<Rightarrow> string \<Rightarrow> Server \<Rightarrow> Server \<times> unit result" where
  "runGetDescriptorOnce w clk net sessionID s =
     (let body = renderGetDescriptor (w_Namespaces (p_Wire (sv_pack s))) (sv_cfg s) (wd_rfc3339 w (clk 0)) sessionID
      in case exchange_once w (\<lambda>i. clk (1 + i)) net ''getDescriptor'' ''descriptorList'' body s of
           (s1, Inl e) \<Rightarrow> (s1, Inl e)
         | (s1, Inr ex) \<Rightarrow>
             let s2 = map_state (note_ack (sv_cfg s) ''getDescriptor'' ''descriptorList'' (clk 3) sessionID
                   (ex_Status ex)) s1
             in (server_log (clk 4) ''info'' ''session'' ''descriptorList received''
                   (ack_log_fields (sv_cfg s) sessionID ''descriptorList'' ex) s2, Inr ()))"

definition runSetKeepAliveOnce :: "world \<Rightarrow> clock \<Rightarrow> network \<Rightarrow> string \<Rightarrow> Server \<Rightarrow> Server \<times> unit result" where
  "runSetKeepAliveOnce w clk net sessionID s =
     (let body = renderSetKeepAlive (w_Namespaces (p_Wire (sv_pack s))) (sv_cfg s) (wd_rfc3339 w (clk 0)) sessionID
      in case exchange_once w (\<lambda>i. clk (1 + i)) net ''setKeepAlive'' ''setKeepAliveAck'' body s of
           (s1, Inl e) \<Rightarrow> (s1, Inl e)
         | (s1, Inr ex) \<Rightarrow>
             let s2 = map_state (note_ack (sv_cfg s) ''setKeepAlive'' ''setKeepAliveAck'' (clk 3) sessionID
                   (ex_Status ex)) s1
             in (server_log (clk 4) ''info'' ''session'' ''setKeepAlive acknowledged''
                   (ack_log_fields (sv_cfg s) sessionID ''setKeepAliveAck'' ex) s2, Inr ()))"

definition runStartupExchange ::
    "world \<Rightarrow> clock \<Rightarrow> network \<Rightarrow> network \<Rightarrow> string \<Rightarrow> Server \<Rightarrow> Server \<times> unit result" where
  "runStartupExchange w clk net1 net2 sessionID s =
     (case runGetDescriptorOnce w clk net1 sessionID s of
        (s1, Inl e) \<Rightarrow> (s1, Inl e)
      | (s1, Inr _) \<Rightarrow> runSetKeepAliveOnce w (\<lambda>i. clk (5 + i)) net2 sessionID s1)"

definition runKeepAliveOnce :: "world \<Rightarrow> clock \<Rightarrow> network \<Rightarrow> string \<Rightarrow> Server \<Rightarrow> Server \<times> unit result" where
  "runKeepAliveOnce w clk net sessionID s =
     (let body = renderKeepAlive (w_Namespaces (p_Wire (sv_pack s))) (sv_cfg s) (wd_rfc3339 w (clk 0)) sessionID
      in case exchange_once w (\<lambda>i. clk (1 + i)) net ''keepAlive'' ''keepAliveAck'' body s of
           (s1, Inl e) \<Rightarrow> (s1, Inl e)
         | (s1, Inr ex) \<Rightarrow>
             let now = clk 3;
                 s2 = map_state (\<lambda>st. (note_ack (sv_cfg s) ''keepAlive'' ''keepAliveAck'' now sessionID
                        (ex_Status ex) st)
                        \<lparr>rs_HeartbeatState := ''healthy'', rs_ConnectionState := ''host_connected''\<rparr>) s1;
                 s3 = recordSessionTimestamp ''keepAlive'' now s2
             in (server_log (clk 4) ''info'' ''session'' ''keepAlive acknowledged''
                   (ack_log_fields (sv_cfg s) sessionID ''keepAliveAck'' ex) s3, Inr ()))"

definition recordKeepAliveFailure :: "clock \<Rightarrow> string \<Rightarrow> error \<Rightarrow> Server \<Rightarrow> Server" where
  "recordKeepAliveFailure clk sessionID err s =
     server_log (clk 0) ''warn'' ''session'' ''keepAlive failed''
       [(''error'', JStr err), (''host_endpoint'', JStr (he_URL (c_HostEndpoint (sv_cfg s)))),
        (''session_id'', JStr sessionID), (''message_type'', JStr ''keepAlive'')]
       (map_state (\<lambda>st. st\<lparr>rs_HeartbeatState := ''failed'', rs_ConnectionState := ''host_unreachable'',
          rs_LastError := err\<rparr>) s)"

section \<open>The loop\<close>

datatype phase = Connecting | Starting string | First_keepalive string | Ticking string | Waiting | Stopped

record engine_input =
  ei_done :: bool
  ei_clk :: clock
  ei_net :: network
  ei_net2 :: network

definition connect_failed :: "clock \<Rightarrow> error \<Rightarrow> Server \<Rightarrow> Server" where
  "connect_failed clk err s =
     server_log (clk 0) ''warn'' ''session'' ''commsOnLine failed; auto-start single-shot will not retry''
       [(''error'', JStr err), (''host_endpoint'', JStr (he_URL (c_HostEndpoint (sv_cfg s)))),
        (''message_type'', JStr ''commsOnLine''), (''auto_start_single_shot'', JBool True)]
       (map_state (\<lambda>st. st\<lparr>rs_SessionState := ''connect_failed'', rs_ConnectionState := ''host_unreachable'',
          rs_HeartbeatState := ''failed'', rs_LastError := err\<rparr>) s)"

definition startup_failed :: "clock \<Rightarrow> string \<Rightarrow> error \<Rightarrow> Server \<Rightarrow> Server" where
  "startup_failed clk sessionID err s =
     server_log (clk 0) ''warn'' ''session'' ''startup exchange failed; auto-start single-shot will not retry''
       [(''error'', JStr err), (''host_endpoint'', JStr (he_URL (c_HostEndpoint (sv_cfg s)))),
        (''session_id'', JStr sessionID), (''auto_start_single_shot'', JBool True)]
       (map_state (\<lambda>st. st\<lparr>rs_SessionState := ''startup_failed'', rs_ConnectionState := ''host_connected'',
          rs_HeartbeatState := ''failed'', rs_LastError := err\<rparr>) s)"

definition keepalive_step :: "world \<Rightarrow> engine_input \<Rightarrow> string \<Rightarrow> Server \<Rightarrow> phase \<times> Server" where
  "keepalive_step w i sessionID s =
     (case runKeepAliveOnce w (ei_clk i) (ei_net i) sessionID s of
        (s1, Inl e) \<Rightarrow> (Waiting, recordKeepAliveFailure (\<lambda>k. ei_clk i (5 + k)) sessionID e s1)
      | (s1, Inr _) \<Rightarrow> (Ticking sessionID, s1))"

fun sessionEngineLoop_step :: "world \<Rightarrow> engine_input \<Rightarrow> phase \<times> Server \<Rightarrow> phase \<times> Server" where
  "sessionEngineLoop_step w i (Connecting, s) =
     (if ei_done i then (Stopped, s)
      else case runCommsOnlineOnce w (ei_clk i) (ei_net i) s of
        (s1, Inl e) \<Rightarrow> (Stopped, connect_failed (\<lambda>k. ei_clk i (6 + k)) e s1)
      | (s1, Inr sessionID) \<Rightarrow> (Starting sessionID, s1))"
| "sessionEngineLoop_step w i (Starting sessionID, s) =
     (case runStartupExchange w (ei_clk i) (ei_net i) (ei_net2 i) sessionID s of
        (s1, Inl e) \<Rightarrow> (Stopped, startup_failed (\<lambda>k. ei_clk i (10 + k)) sessionID e s1)
      | (s1, Inr _) \<Rightarrow> (First_keepalive sessionID, s1))"
| "sessionEngineLoop_step w i (First_keepalive sessionID, s) = keepalive_step w i sessionID s"
| "sessionEngineLoop_step w i (Ticking sessionID, s) =
     (if ei_done i then (Stopped, s) else keepalive_step w i sessionID s)"
| "sessionEngineLoop_step w i (Waiting, s) = (if ei_done i then (Stopped, s) else (Connecting, s))"
| "sessionEngineLoop_step w i (Stopped, s) = (Stopped, s)"

definition sessionEngineLoop :: "world \<Rightarrow> engine_input list \<Rightarrow> phase \<times> Server \<Rightarrow> phase \<times> Server" where
  "sessionEngineLoop w inputs = fold (sessionEngineLoop_step w) inputs"

definition StartSessionEngine :: "Server \<Rightarrow> phase" where
  "StartSessionEngine s =
     (if \<not> se_Enabled (c_SessionEngine (sv_cfg s)) \<or> \<not> se_AutoStart (c_SessionEngine (sv_cfg s))
      then Stopped else Connecting)"

text \<open>The waits of the loop; a non-positive duration, wrapped or configured, counts as five
  seconds, so neither the ticker nor the sleep gets a non-positive one.\<close>

definition positive_duration :: "duration \<Rightarrow> duration" where
  "positive_duration d = (if d \<le> 0 then 5 * 1000000000 else d)"

definition keepalive_wait :: "Config \<Rightarrow> duration" where
  "keepalive_wait cfg = positive_duration (Milliseconds_duration (se_KeepAliveIntervalMS (c_SessionEngine cfg)))"

definition reconnect_wait :: "Config \<Rightarrow> duration" where
  "reconnect_wait cfg = positive_duration (Milliseconds_duration (se_ReconnectIntervalMS (c_SessionEngine cfg)))"

lemma waits_positive: "0 < keepalive_wait cfg" "0 < reconnect_wait cfg"
  by (simp_all add: keepalive_wait_def reconnect_wait_def positive_duration_def)

section \<open>What an exchange leaves alone\<close>

lemma registry_frame [frame_simps]:
  "sv_state (recordParsedResponseEvidence a p s) = sv_state s"
  "sv_cfg (recordParsedResponseEvidence a p s) = sv_cfg s"
  "sv_state (recordSessionTimestamp k t s) = sv_state s"
  "sv_cfg (recordSessionTimestamp k t s) = sv_cfg s"
  by (simp_all add: recordParsedResponseEvidence_def recordSessionTimestamp_def Let_def)

lemma exchange_once_frame:
  "core (fst (exchange_once w clk net op ack body s)) = core s \<and>
   sv_state (fst (exchange_once w clk net op ack body s)) = sv_state s"
  by (simp add: exchange_once_def Let_def core_simps frame_simps split: sum.split prod.split)

lemmas exchange_once_core [core_simps] = exchange_once_frame [THEN conjunct1]
lemmas exchange_once_state [frame_simps] = exchange_once_frame [THEN conjunct2]

lemma core_note_ack: "core_update (note_ack cfg op ack t sid st)"
  by (simp add: core_update_defs note_ack_def)

lemma core_session_updates [core_simps]:
  "core (map_state (note_ack cfg op ack t sid st) s) = core s"
  "core (map_state (\<lambda>rs. (note_ack cfg op ack t sid st rs)\<lparr>rs_SessionState := a, rs_ConnectionState := b,
     rs_HeartbeatState := c\<rparr>) s) = core s"
  "core (map_state (\<lambda>rs. (note_ack cfg op ack t sid st rs)\<lparr>rs_HeartbeatState := c, rs_ConnectionState := b\<rparr>) s) = core s"
  using core_note_ack by (simp_all add: core_map_state core_update_defs)

lemma core_session_exchanges [core_simps]:
  "core (fst (runCommsOnlineOnce w clk net s)) = core s"
  "core (fst (runGetDescriptorOnce w clk net sid s)) = core s"
  "core (fst (runSetKeepAliveOnce w clk net sid s)) = core s"
  "core (fst (runKeepAliveOnce w clk net sid s)) = core s"
  by (simp_all add: runCommsOnlineOnce_def runGetDescriptorOnce_def runSetKeepAliveOnce_def
      runKeepAliveOnce_def Let_def case_prod_beta core_simps split: sum.split)

lemma core_startup [core_simps]: "core (fst (runStartupExchange w clk n1 n2 sid s)) = core s"
  by (simp add: runStartupExchange_def case_prod_beta core_simps split: sum.split)

lemma core_session_failures [core_simps]:
  "core (recordKeepAliveFailure clk sid e s) = core s" "core (connect_failed clk e s) = core s"
  "core (startup_failed clk sid e s) = core s"
  by (simp_all add: recordKeepAliveFailure_def connect_failed_def startup_failed_def core_simps
      core_map_state core_update_defs)

lemma core_engine_step [core_simps]: "core (snd (sessionEngineLoop_step w i (ph, s))) = core s"
  by (cases ph) (simp_all add: keepalive_step_def case_prod_beta core_simps split: sum.split)

section \<open>When an exchange succeeds\<close>

lemma resolveAck_iff:
  "resolveAck dec expected actual raw cfg = expected \<longleftrightarrow>
     actual = expected \<or> se_AcceptWrappedG2SResponseAck cfg \<and> actual = ''g2sResponse''"
  by (auto simp: resolveAck_def)

definition host_request :: "Config \<Rightarrow> string \<Rightarrow> client_request" where
  "host_request cfg body =
     \<lparr>cl_URL = he_URL (c_HostEndpoint cfg), cl_ContentType = ''text/xml; charset=utf-8'', cl_Body = body,
      cl_Transport = None,
      cl_Timeout = Milliseconds_duration (se_CommsOnlineTimeoutMS (c_SessionEngine cfg))\<rparr>"

definition acknowledged :: "SessionEngineConfig \<Rightarrow> string \<Rightarrow> ParsedG2SEnvelope \<Rightarrow> bool" where
  "acknowledged cfg ack parsed \<longleftrightarrow>
     (let name = firstNonEmpty [pe_OperationName parsed, pe_RawRoot parsed]
      in name = ack \<or> se_AcceptWrappedG2SResponseAck cfg \<and> name = ''g2sResponse'')"

text \<open>
  An exchange of the session engine succeeds exactly when the request can be built, the host
  answers with a 2xx status, the body parses and its operation is the expected acknowledgement
  (or a wrapped response where these are accepted); whatever the outcome, the exchange itself
  leaves the runtime state alone.
\<close>

theorem exchange_once_exact:
  "(case snd (exchange_once w clk net op ack body s) of
      Inr ex \<Rightarrow>
        (\<exists>data. net (host_request (sv_cfg s) body) = Inr (ex_Status ex, data) \<and>
           ParseG2SEnvelope (wd_decoder w) data = Inr (ex_Parsed ex)) \<and>
        wd_newRequest w (he_URL (c_HostEndpoint (sv_cfg s))) = Inr () \<and>
        200 \<le> ex_Status ex \<and> ex_Status ex < 300 \<and> acknowledged (c_SessionEngine (sv_cfg s)) ack (ex_Parsed ex)
    | Inl e \<Rightarrow>
        \<not> (\<exists>status data parsed. wd_newRequest w (he_URL (c_HostEndpoint (sv_cfg s))) = Inr () \<and>
             net (host_request (sv_cfg s) body) = Inr (status, data) \<and> 200 \<le> status \<and> status < 300 \<and>
             ParseG2SEnvelope (wd_decoder w) data = Inr parsed \<and>
             acknowledged (c_SessionEngine (sv_cfg s)) ack parsed)) \<and>
   sv_state (fst (exchange_once w clk net op ack body s)) = sv_state s"
proof -
  have ack: "resolveAck dec ack (firstNonEmpty [pe_OperationName p, pe_RawRoot p]) data (c_SessionEngine (sv_cfg s)) = ack
      \<longleftrightarrow> acknowledged (c_SessionEngine (sv_cfg s)) ack p" for dec p data
    by (simp add: resolveAck_iff acknowledged_def Let_def)
  show ?thesis
    unfolding exchange_once_def host_request_def [symmetric] Let_def ack
    by (simp add: frame_simps split: sum.split prod.split)
qed

section \<open>The life of a session\<close>

definition session_shown :: "string \<Rightarrow> string \<Rightarrow> string \<Rightarrow> string \<Rightarrow> Server \<Rightarrow> bool" where
  "session_shown connection heartbeat sessionID message s \<longleftrightarrow>
     rs_SessionState (sv_state s) = ''online'' \<and> rs_ConnectionState (sv_state s) = connection \<and>
     rs_HeartbeatState (sv_state s) = heartbeat \<and> rs_LastSessionID (sv_state s) = sessionID \<and>
     rs_LastMessageType (sv_state s) = message \<and> rs_LastError (sv_state s) = []"

text \<open>What the runtime state shows in each phase.\<close>

fun engine_inv :: "phase \<times> Server \<Rightarrow> bool" where
  "engine_inv (Connecting, s) = True"
| "engine_inv (Starting sid, s) = session_shown ''host_connected'' ''idle'' sid ''commsOnLineAck'' s"
| "engine_inv (First_keepalive sid, s) = session_shown ''host_connected'' ''idle'' sid ''setKeepAliveAck'' s"
| "engine_inv (Ticking sid, s) = session_shown ''host_connected'' ''healthy'' sid ''keepAliveAck'' s"
| "engine_inv (Waiting, s) = (rs_ConnectionState (sv_state s) = ''host_unreachable'' \<and>
     rs_HeartbeatState (sv_state s) = ''failed'')"
| "engine_inv (Stopped, s) = True"

lemma runCommsOnlineOnce_shown:
  "snd (runCommsOnlineOnce w clk net s) = Inr sid \<Longrightarrow>
   session_shown ''host_connected'' ''idle'' sid ''commsOnLineAck'' (fst (runCommsOnlineOnce w clk net s))"
  by (auto simp: runCommsOnlineOnce_def Let_def case_prod_beta session_shown_def note_ack_def frame_simps
      split: if_splits sum.splits)

lemma run_startup_steps_shown:
  "snd (runGetDescriptorOnce w clk net sid s) = Inr () \<Longrightarrow> session_shown c h sid m s \<Longrightarrow>
     session_shown c h sid ''descriptorList'' (fst (runGetDescriptorOnce w clk net sid s))"
  "snd (runSetKeepAliveOnce w clk net sid s) = Inr () \<Longrightarrow> session_shown c h sid m s \<Longrightarrow>
     session_shown c h sid ''setKeepAliveAck'' (fst (runSetKeepAliveOnce w clk net sid s))"
  by (auto simp: runGetDescriptorOnce_def runSetKeepAliveOnce_def Let_def case_prod_beta session_shown_def
      note_ack_def frame_simps split: sum.splits)

lemma runStartupExchange_shown:
  assumes "snd (runStartupExchange w clk n1 n2 sid s) = Inr ()" "session_shown c h sid m s"
  shows "session_shown c h sid ''setKeepAliveAck'' (fst (runStartupExchange w clk n1 n2 sid s))"
  using assms run_startup_steps_shown(1) [of w clk n1 sid s c h m]
    run_startup_steps_shown(2) [of w "\<lambda>i. clk (5 + i)" n2 sid "fst (runGetDescriptorOnce w clk n1 sid s)" c h]
  by (auto simp: runStartupExchange_def case_prod_beta split: sum.splits)

lemma runKeepAliveOnce_shown:
  "snd (runKeepAliveOnce w clk net sid s) = Inr () \<Longrightarrow> rs_SessionState (sv_state s) = ''online'' \<Longrightarrow>
   session_shown ''host_connected'' ''healthy'' sid ''keepAliveAck'' (fst (runKeepAliveOnce w clk net sid s))"
  by (auto simp: runKeepAliveOnce_def Let_def case_prod_beta session_shown_def note_ack_def frame_simps
      split: sum.splits)

lemma keepalive_step_inv:
  "rs_SessionState (sv_state s) = ''online'' \<Longrightarrow> engine_inv (keepalive_step w i sid s)"
  using runKeepAliveOnce_shown [of w "ei_clk i" "ei_net i" sid s]
  by (auto simp: keepalive_step_def case_prod_beta recordKeepAliveFailure_def frame_simps split: sum.splits)

lemma engine_step_inv: "engine_inv x \<Longrightarrow> engine_inv (sessionEngineLoop_step w i x)"
proof (induction w i x rule: sessionEngineLoop_step.induct)
  case (1 w i s)
  then show ?case
    using runCommsOnlineOnce_shown [of w "ei_clk i" "ei_net i" s]
    by (auto simp: case_prod_beta split: sum.splits)
next
  case (2 w i sid s)
  then show ?case
    using runStartupExchange_shown [of w "ei_clk i" "ei_net i" "ei_net2 i" sid s]
    by (auto simp: case_prod_beta split: sum.splits)
next
  case (3 w i sid s)
  then show ?case using keepalive_step_inv [of s w i sid] by (simp add: session_shown_def)
next
  case (4 w i sid s)
  then show ?case using keepalive_step_inv [of s w i sid] by (simp add: session_shown_def)
qed simp_all

interpretation engine: step_system "\<lambda>(ph, s). ph = StartSessionEngine s"
  "\<lambda>x y. \<exists>i. y = sessionEngineLoop_step w i x" engine_inv for w
  by unfold_locales (auto simp: StartSessionEngine_def engine_step_inv)

lemma engine_run_steps:
  "(\<lambda>x y. \<exists>i. y = sessionEngineLoop_step w i x)\<^sup>*\<^sup>* x (sessionEngineLoop w inputs x)"
  unfolding sessionEngineLoop_def
  by (induction inputs rule: rev_induct) (auto intro: rtranclp.rtrancl_into_rtrancl)


lemma stopped_run: "sessionEngineLoop w inputs (Stopped, s) = (Stopped, s)"
  unfolding sessionEngineLoop_def by (induction inputs) simp_all

text \<open>
  C26: the engine is single-shot: when the first \<open>commsOnLine\<close> or the startup exchange fails, it
  stops, and however long it goes on nothing more is sent or changed; the state shows the failure
  and its error.
\<close>

theorem engine_single_shot:
  assumes "\<not> ei_done i"
  shows "(case runCommsOnlineOnce w (ei_clk i) (ei_net i) s of
      (s1, Inl e) \<Rightarrow> sessionEngineLoop w (i # rest) (Connecting, s) =
        (Stopped, connect_failed (\<lambda>k. ei_clk i (6 + k)) e s1)
    | (s1, Inr sid) \<Rightarrow>
        (case runStartupExchange w (ei_clk j) (ei_net j) (ei_net2 j) sid s1 of
           (s2, Inl e) \<Rightarrow> sessionEngineLoop w (i # j # rest) (Connecting, s) =
             (Stopped, startup_failed (\<lambda>k. ei_clk j (10 + k)) sid e s2)
         | (s2, Inr _) \<Rightarrow> sessionEngineLoop w [i, j] (Connecting, s) = (First_keepalive sid, s2))) \<and>
    rs_SessionState (sv_state (connect_failed clk e s)) = ''connect_failed'' \<and>
    rs_SessionState (sv_state (startup_failed clk sid e s)) = ''startup_failed'' \<and>
    rs_LastError (sv_state (connect_failed clk e s)) = e \<and>
    rs_LastError (sv_state (startup_failed clk sid e s)) = e"
proof -
  have run: "sessionEngineLoop w (i # is) x = sessionEngineLoop w is (sessionEngineLoop_step w i x)" for i "is" x
    by (simp add: sessionEngineLoop_def)
  show ?thesis
    using assms
    by (simp add: run stopped_run connect_failed_def startup_failed_def frame_simps sessionEngineLoop_def [of w "[]"]
        split: prod.split sum.split)
qed

definition refusing_input :: engine_input where
  "refusing_input = \<lparr>ei_done = False, ei_clk = (\<lambda>k. 7), ei_net = (\<lambda>r. Inl ''connection refused''),
     ei_net2 = (\<lambda>r. Inl ''connection refused'')\<rparr>"

definition sample_world :: world where
  "sample_world = \<lparr>wd_decoder = sample_decoder, wd_payload_stamp = (\<lambda>t. ''stamp''), wd_rfc3339 = (\<lambda>t. ''now''),
     wd_join = (\<lambda>a b. a @ ''/'' @ b), wd_readFile = (\<lambda>p. Inl ''no such file''),
     wd_writeFile = (\<lambda>p d. Inr ()), wd_loadKeyPair = (\<lambda>c k. Inl ''no such file''),
     wd_newRequest = (\<lambda>u. Inr ()), wd_typeErr = (\<lambda>f v. ''type error'')\<rparr>"

lemma refused_exchange:
  "snd (exchange_once sample_world clk (\<lambda>r. Inl e) op ack body s) = Inl e"
  by (simp add: exchange_once_def sample_world_def Let_def)

theorem engine_single_shot_witness:
  "fst (sessionEngineLoop sample_world [refusing_input, refusing_input] (Connecting, sample_server)) = Stopped"
proof -
  have "snd (runCommsOnlineOnce sample_world (ei_clk refusing_input) (ei_net refusing_input) sample_server) =
      Inl ''connection refused''"
    using refused_exchange [of "\<lambda>i. ei_clk refusing_input (2 + i)" "''connection refused''"]
    by (simp add: runCommsOnlineOnce_def Let_def case_prod_beta refusing_input_def sample_server_def
        sample_config_def)
  then obtain s1 where "runCommsOnlineOnce sample_world (ei_clk refusing_input) (ei_net refusing_input) sample_server
      = (s1, Inl ''connection refused'')"
    by (metis prod.collapse)
  with engine_single_shot [where i = refusing_input and w = sample_world and s = sample_server
      and rest = "[refusing_input]"]
  show ?thesis by (simp add: refusing_input_def)
qed

section \<open>A responsive host\<close>

text \<open>A host that answers every request with the acknowledgement \<open>ack\<close>.\<close>

definition responsive :: "world \<Rightarrow> Config \<Rightarrow> string \<Rightarrow> network \<Rightarrow> bool" where
  "responsive w cfg ack net \<longleftrightarrow>
     (\<forall>body. \<exists>status data parsed. net (host_request cfg body) = Inr (status, data) \<and> 200 \<le> status \<and> status < 300 \<and>
        ParseG2SEnvelope (wd_decoder w) data = Inr parsed \<and> acknowledged (c_SessionEngine cfg) ack parsed)"

definition reachable_host :: "world \<Rightarrow> Config \<Rightarrow> bool" where
  "reachable_host w cfg \<longleftrightarrow>
     he_URL (c_HostEndpoint cfg) \<noteq> [] \<and> wd_newRequest w (he_URL (c_HostEndpoint cfg)) = Inr ()"

lemma exchange_answered:
  assumes "reachable_host w (sv_cfg s)" "responsive w (sv_cfg s) ack net"
  shows "\<exists>ex. snd (exchange_once w clk net op ack body s) = Inr ex"
proof -
  obtain status data parsed where "net (host_request (sv_cfg s) body) = Inr (status, data)" "200 \<le> status" "status < 300"
      "ParseG2SEnvelope (wd_decoder w) data = Inr parsed" "acknowledged (c_SessionEngine (sv_cfg s)) ack parsed"
    using assms(2) [unfolded responsive_def, THEN spec, of body] by blast
  with assms(1) show ?thesis
    unfolding exchange_once_def host_request_def [symmetric] Let_def
    by (simp add: reachable_host_def resolveAck_iff acknowledged_def Let_def)
qed

lemma sv_cfg_core: "core s' = core s \<Longrightarrow> sv_cfg s' = sv_cfg s"
  by (simp add: core_def stable_def)

lemma exchanges_answered:
  assumes "reachable_host w (sv_cfg s)"
  shows "responsive w (sv_cfg s) ''commsOnLineAck'' net \<Longrightarrow> \<exists>sid. snd (runCommsOnlineOnce w clk net s) = Inr sid"
    and "responsive w (sv_cfg s) ''descriptorList'' net \<Longrightarrow> snd (runGetDescriptorOnce w clk net sid s) = Inr ()"
    and "responsive w (sv_cfg s) ''setKeepAliveAck'' net \<Longrightarrow> snd (runSetKeepAliveOnce w clk net sid s) = Inr ()"
    and "responsive w (sv_cfg s) ''keepAliveAck'' net \<Longrightarrow> snd (runKeepAliveOnce w clk net sid s) = Inr ()"
proof -
  have url: "he_URL (c_HostEndpoint (sv_cfg s)) \<noteq> []" using assms by (simp add: reachable_host_def)
  show "\<exists>sid. snd (runCommsOnlineOnce w clk net s) = Inr sid" if "responsive w (sv_cfg s) ''commsOnLineAck'' net"
    using exchange_answered [OF assms that, of "\<lambda>i. clk (2 + i)" "''commsOnLine''"] url
    by (simp add: runCommsOnlineOnce_def Let_def case_prod_beta) (metis sum.case(2) snd_conv)
  show "snd (runGetDescriptorOnce w clk net sid s) = Inr ()" if "responsive w (sv_cfg s) ''descriptorList'' net"
    using exchange_answered [OF assms that, of "\<lambda>i. clk (1 + i)" "''getDescriptor''"]
    by (simp add: runGetDescriptorOnce_def Let_def case_prod_beta) (metis sum.case(2) snd_conv)
  show "snd (runSetKeepAliveOnce w clk net sid s) = Inr ()" if "responsive w (sv_cfg s) ''setKeepAliveAck'' net"
    using exchange_answered [OF assms that, of "\<lambda>i. clk (1 + i)" "''setKeepAlive''"]
    by (simp add: runSetKeepAliveOnce_def Let_def case_prod_beta) (metis sum.case(2) snd_conv)
  show "snd (runKeepAliveOnce w clk net sid s) = Inr ()" if "responsive w (sv_cfg s) ''keepAliveAck'' net"
    using exchange_answered [OF assms that, of "\<lambda>i. clk (1 + i)" "''keepAlive''"]
    by (simp add: runKeepAliveOnce_def Let_def case_prod_beta) (metis sum.case(2) snd_conv)
qed

lemma keepalives_answered:
  assumes "reachable_host w (sv_cfg s)" "\<forall>i \<in> set inputs. \<not> ei_done i \<and> responsive w (sv_cfg s) ''keepAliveAck'' (ei_net i)"
  shows "\<exists>s'. sessionEngineLoop w inputs (Ticking sid, s) = (Ticking sid, s')"
  using assms
proof (induction inputs arbitrary: s)
  case (Cons i inputs)
  let ?s = "fst (runKeepAliveOnce w (ei_clk i) (ei_net i) sid s)"
  have "snd (runKeepAliveOnce w (ei_clk i) (ei_net i) sid s) = Inr ()" using Cons.prems exchanges_answered(4) by simp
  then have "sessionEngineLoop_step w i (Ticking sid, s) = (Ticking sid, ?s)"
    using Cons.prems(2) by (simp add: keepalive_step_def case_prod_beta)
  moreover have "sv_cfg ?s = sv_cfg s" by (rule sv_cfg_core) (simp add: core_simps)
  ultimately show ?case using Cons by (simp add: sessionEngineLoop_def)
qed (simp add: sessionEngineLoop_def)

text \<open>
  C9: with a responsive host the session comes up and stays up: an auto-started engine reaches its
  keep-alive phase in three rounds and is still there after any number of answered keep-alives,
  showing an online session, a connected host and a healthy heartbeat.
\<close>

theorem engine_goes_online:
  assumes "StartSessionEngine s = Connecting" "reachable_host w (sv_cfg s)"
    and "\<not> ei_done i" "responsive w (sv_cfg s) ''commsOnLineAck'' (ei_net i)"
    and "responsive w (sv_cfg s) ''descriptorList'' (ei_net j)" "responsive w (sv_cfg s) ''setKeepAliveAck'' (ei_net2 j)"
    and "\<forall>k \<in> set (first # ks). \<not> ei_done k \<and> responsive w (sv_cfg s) ''keepAliveAck'' (ei_net k)"
  shows "\<exists>sid s'. sessionEngineLoop w (i # j # first # ks) (StartSessionEngine s, s) = (Ticking sid, s') \<and>
    session_shown ''host_connected'' ''healthy'' sid ''keepAliveAck'' s'"
proof -
  obtain sid where 1: "snd (runCommsOnlineOnce w (ei_clk i) (ei_net i) s) = Inr sid"
    using exchanges_answered(1) [OF assms(2,4)] by blast
  let ?s1 = "fst (runCommsOnlineOnce w (ei_clk i) (ei_net i) s)"
  let ?s2 = "fst (runStartupExchange w (ei_clk j) (ei_net j) (ei_net2 j) sid ?s1)"
  let ?s3 = "fst (runKeepAliveOnce w (ei_clk first) (ei_net first) sid ?s2)"
  have cfg: "sv_cfg ?s1 = sv_cfg s" "sv_cfg ?s2 = sv_cfg s" "sv_cfg ?s3 = sv_cfg s"
    "sv_cfg (fst (runGetDescriptorOnce w (ei_clk j) (ei_net j) sid ?s1)) = sv_cfg s"
    by (rule sv_cfg_core, simp add: core_simps)+
  have 2: "snd (runStartupExchange w (ei_clk j) (ei_net j) (ei_net2 j) sid ?s1) = Inr ()"
    using assms(2,5,6) exchanges_answered(2,3) cfg by (simp add: runStartupExchange_def case_prod_beta)
  have 3: "snd (runKeepAliveOnce w (ei_clk first) (ei_net first) sid ?s2) = Inr ()"
    using assms(2,7) exchanges_answered(4) cfg by simp
  have "sessionEngineLoop w [i, j, first] (StartSessionEngine s, s) = (Ticking sid, ?s3)"
    using assms(1,3) 1 2 3 by (simp add: sessionEngineLoop_def keepalive_step_def case_prod_beta)
  moreover obtain s' where "sessionEngineLoop w ks (Ticking sid, ?s3) = (Ticking sid, s')"
    using keepalives_answered [of w ?s3 ks sid] assms(2,7) cfg by auto
  ultimately have "sessionEngineLoop w (i # j # first # ks) (StartSessionEngine s, s) = (Ticking sid, s')"
    by (simp add: sessionEngineLoop_def)
  moreover have "engine_inv (sessionEngineLoop w (i # j # first # ks) (StartSessionEngine s, s))"
    by (rule engine.reachable_inv [OF _ engine_run_steps]) simp
  ultimately show ?thesis by simp
qed

definition answering_world :: world where
  "answering_world = sample_world\<lparr>wd_decoder := (\<lambda>data. (xsd_message_tokens sample_config ''now'' data [], None))\<rparr>"

definition answering_input :: "string \<Rightarrow> string \<Rightarrow> engine_input" where
  "answering_input ack ack2 = \<lparr>ei_done = False, ei_clk = (\<lambda>k. 7), ei_net = (\<lambda>r. Inr (200, ack)), ei_net2 = (\<lambda>r. Inr (200, ack2))\<rparr>"

lemma answering_responsive:
  assumes "\<not> structural_name ack" "ack \<noteq> []"
  shows "responsive answering_world cfg ack (\<lambda>r. Inr (200, ack))"
proof -
  obtain p where "envelope_loop (xsd_message_tokens sample_config ''now'' ack []) None [] empty_envelope = Inr p"
      "pe_OperationName p = ack" "pe_RootKind p = ''g2sMessage''"
    using xsd_tokens_loop [OF assms] by blast
  with assms(2) show ?thesis
    by (simp add: responsive_def ParseG2SEnvelope_def answering_world_def acknowledged_def)
qed

definition engine_server :: Server where
  "engine_server = sample_server\<lparr>sv_cfg := sample_config\<lparr>c_HostEndpoint := \<lparr>he_URL = ''http://host/g2s''\<rparr>,
     c_SessionEngine := (c_SessionEngine sample_config)\<lparr>se_Enabled := True, se_AutoStart := True\<rparr>\<rparr>\<rparr>"

theorem engine_goes_online_witness:
  "\<exists>sid s'. sessionEngineLoop answering_world
     [answering_input ''commsOnLineAck'' [], answering_input ''descriptorList'' ''setKeepAliveAck'',
      answering_input ''keepAliveAck'' [], answering_input ''keepAliveAck'' []] (Connecting, engine_server) = (Ticking sid, s') \<and>
     rs_HeartbeatState (sv_state s') = ''healthy''"
proof -
  have names: "\<not> structural_name ''commsOnLineAck''" "\<not> structural_name ''descriptorList''"
    "\<not> structural_name ''setKeepAliveAck''" "\<not> structural_name ''keepAliveAck''"
    by (simp_all add: structural_name_def EqualFold_def ascii_lower_def)
  have start: "StartSessionEngine engine_server = Connecting"
    by (simp add: StartSessionEngine_def engine_server_def)
  have "reachable_host answering_world (sv_cfg engine_server)"
    by (simp add: reachable_host_def engine_server_def answering_world_def sample_world_def)
  then have "\<exists>sid s'. sessionEngineLoop answering_world
      [answering_input ''commsOnLineAck'' [], answering_input ''descriptorList'' ''setKeepAliveAck'',
       answering_input ''keepAliveAck'' [], answering_input ''keepAliveAck'' []] (StartSessionEngine engine_server, engine_server) =
      (Ticking sid, s') \<and> session_shown ''host_connected'' ''healthy'' sid ''keepAliveAck'' s'"
    by (rule engine_goes_online [OF start]) (simp_all add: answering_input_def answering_responsive names)
  then show ?thesis by (auto simp: start session_shown_def)
qed

end
