(* ===== verification/Runtime.thy ===== *)
theory Runtime
  imports Session_Engine
begin

text \<open>
  The running instance: every operation of the preceding theories that can change the server, as
  one step relation. Requests of the wire and control listeners, the two halves of a scheduler
  tick and the phases of the session engine interleave in any order, with any clock, network and
  request; the steps are as large as the code holds its mutex or changes fields nobody else
  writes.
\<close>

section \<open>Steps\<close>

definition close_log :: "Server \<Rightarrow> Server" where
  "close_log s = s\<lparr>sv_logger := Logger_Close (sv_logger s)\<rparr>"

lemma core_close_log [core_simps]: "core (close_log s) = core s"
  by (simp add: close_log_def Logger_Close_def core_def stable_def)

inductive server_step :: "world \<Rightarrow> Server \<Rightarrow> Server \<Rightarrow> bool" for w where
  wire: "server_step w s (fst (handleWire w clk r s))"
| inject: "server_step w s (fst (handleControlInjectLogicalCommand w clk m lc s))"
| audio: "server_step w s (fst (handleControlAudio clk m ac s))"
| overlay: "server_step w s (fst (handleControlOverlay w clk m ov s))"
| hosts_add: "server_step w s (fst (handleControlHostsAdd m hc s))"
| hosts_remove: "server_step w s (fst (handleControlHostsRemove m hc s))"
| security_mode: "server_step w s (fst (handleControlSecurityMode m sm s))"
| outbound_send: "server_step w s (fst (handleControlOutboundSend w clk net m oq s))"
| outbound_open: "server_step w s (fst (handleControlOutboundSessionOpen w clk net m oq s))"
| outbound_heartbeat: "server_step w s (fst (handleControlOutboundHeartbeat w clk net m oq s))"
| scheduler_start: "server_step w s (fst (handleControlOutboundSchedulerStart clk m s))"
| scheduler_stop: "server_step w s (fst (handleControlOutboundSchedulerStop clk m s))"
| tick_send: "server_step w s (fst (SendOutbound w clk net oq s))"
| tick_record: "server_step w s (updateSchedulerAfterResult clk op answer cfg s)"
| engine: "server_step w s (snd (sessionEngineLoop_step w i (ph, s)))"
| auto_start: "server_step w s (fst (StartOutboundScheduler clk s))"
| shutdown: "server_step w s (close_log (StopOutboundScheduler clk s))"

inductive_cases server_stepE: "server_step w s s'"

text \<open>An undisturbed tick is two steps.\<close>

lemma tick_steps: "(server_step w)\<^sup>*\<^sup>* s (runOutboundSchedulerTick w clk net cfg s)"
proof (cases "tick_operation (clk 0) cfg (sv_state s)")
  case None
  then show ?thesis by (simp add: runOutboundSchedulerTick_def)
next
  case (Some operation)
  let ?req = "\<lparr>oq_MessageType = operation, oq_HostID = [], oq_SessionID = [], oq_TargetURL = [],
    oq_AllowGenericAck = False\<rparr>"
  let ?send = "SendOutbound w (\<lambda>i. clk (1 + i)) net ?req s"
  have "runOutboundSchedulerTick w clk net cfg s =
      updateSchedulerAfterResult (\<lambda>i. clk (7 + i)) operation (snd ?send) cfg (fst ?send)"
    by (simp add: runOutboundSchedulerTick_def Some case_prod_beta)
  moreover have "server_step w s (fst ?send)" by (rule tick_send)
  moreover have "server_step w (fst ?send)
      (updateSchedulerAfterResult (\<lambda>i. clk (7 + i)) operation (snd ?send) cfg (fst ?send))"
    by (rule tick_record)
  ultimately show ?thesis by (metis converse_rtranclp_into_rtranclp r_into_rtranclp)
qed

section \<open>The invariant\<close>

lemma scheduler_handlers_inv:
  assumes "server_inv s"
  shows "server_inv (fst (handleControlOutboundSchedulerStart clk m s))"
    "server_inv (fst (handleControlOutboundSchedulerStop clk m s))"
  using assms StartOutboundScheduler_inv [OF assms, of clk] StopOutboundScheduler_inv [OF assms, of clk]
  by (auto simp: handleControlOutboundSchedulerStart_def handleControlOutboundSchedulerStop_def
      case_prod_beta Let_def split: sum.split)

lemma core_outbound_wrappers [core_simps]:
  "core (fst (handleControlOutboundSessionOpen w clk net m oq s)) = core s"
  "core (fst (handleControlOutboundHeartbeat w clk net m oq s)) = core s"
  by (simp_all add: handleControlOutboundSessionOpen_def handleControlOutboundHeartbeat_def core_simps)

lemma server_step_inv: "server_step w s s' \<Longrightarrow> server_inv s \<Longrightarrow> server_inv s'"
proof (induction rule: server_step.induct)
  case overlay
  then show ?case by (rule handleControlOverlay_inv)
next
  case security_mode
  then show ?case by (rule handleControlSecurityMode_inv)
next
  case scheduler_start
  then show ?case by (rule scheduler_handlers_inv)
next
  case scheduler_stop
  then show ?case by (rule scheduler_handlers_inv)
next
  case auto_start
  then show ?case by (rule StartOutboundScheduler_inv)
next
  case shutdown
  then show ?case by (simp add: StopOutboundScheduler_inv core_inv [OF core_close_log])
qed (simp_all only: core_inv [OF core_handleWire] core_inv [OF core_inject] core_inv [OF core_handleControlAudio]
    handleControlHosts_inv core_inv [OF core_outbound_handlers(1)]
    core_inv [OF core_outbound_wrappers(1)] core_inv [OF core_outbound_wrappers(2)]
    core_inv [OF SendOutbound_core] stable_inv [OF stable_updateScheduler] core_inv [OF core_engine_step])

definition started ::
    "world \<Rightarrow> 'db driver \<Rightarrow> (string \<Rightarrow> MessagePack result) \<Rightarrow> (string \<Rightarrow> MessageOverlay result) \<Rightarrow> Server \<Rightarrow> bool" where
  "started w drv up uo s \<longleftrightarrow>
     (\<exists>mkdir open_events oversize now reg cfg.
        NewServer w mkdir open_events oversize drv up uo now reg cfg = Inr s)"

interpretation runtime: step_system "started w drv up uo" "server_step w" server_inv for w drv up uo
  by unfold_locales (auto simp: started_def intro: NewServer_inv server_step_inv)

lemma reachable_server_inv:
  assumes "NewServer w mkdir open_events oversize drv up uo now reg cfg = Inr s0" "(server_step w)\<^sup>*\<^sup>* s0 s"
  shows "server_inv s"
proof -
  have "started w drv up uo s0"
    unfolding started_def using assms(1) by blast
  then show ?thesis using assms(2) by (rule runtime.reachable_inv)
qed

lemma scheduler_inv_live:
  "scheduler_inv r c ctxs \<Longrightarrow> r = (live_contexts ctxs \<noteq> {}) \<and> card (live_contexts ctxs) \<le> 1"
  by (cases c) (simp_all add: scheduler_inv_def)


text \<open>
  In every reachable state, a host is admitted exactly when the pack's registration mode is
  open, or it is the first registered host of that identifier in the pack and enabled, or, for a
  pack without registered hosts, it is on the admission list.
\<close>

theorem reachable_admission:
  assumes "NewServer w mkdir open_events oversize drv up uo now reg cfg = Inr s0" "(server_step w)\<^sup>*\<^sup>* s0 s"
  shows "hostAllowedLocked s h \<longleftrightarrow>
    sd_RegistrationMode (p_StateDefaults (sv_pack s)) = ''open'' \<or>
    (case find (\<lambda>host. rh_HostID host = h) (sd_RegisteredHosts (p_StateDefaults (sv_pack s))) of
       Some host \<Rightarrow> rh_Enabled host
     | None \<Rightarrow> sd_RegisteredHosts (p_StateDefaults (sv_pack s)) = [] \<and> h \<in> set (rs_AllowedHostIDs (sv_state s)))"
proof -
  have find: "registered_host_enabled hosts h = (case find (\<lambda>host. rh_HostID host = h) hosts of
      Some host \<Rightarrow> rh_Enabled host | None \<Rightarrow> False)" for hosts
    by (induction hosts) simp_all
  show ?thesis
    using server_inv_registration [OF reachable_server_inv [OF assms], of h] reachable_server_inv [OF assms]
    by (auto simp: server_inv_def find split: option.split)
qed

section \<open>A concrete run\<close>

definition file_world :: world where
  "file_world = sample_world\<lparr>wd_readFile := (\<lambda>p. Inr ''{}'')\<rparr>"

definition started_server :: "Server result" where
  "started_server =
     NewServer file_world (\<lambda>d. Inr []) (\<lambda>p. Inr []) (\<lambda>e. False) sample_driver
       (\<lambda>d. Inr sample_pack) (\<lambda>d. Inl ''none'') 1 Map.empty sample_config"

definition running_server :: Server where
  "running_server = fst (StartOutboundScheduler (\<lambda>i. 2)
     (case started_server of Inr s \<Rightarrow> s | Inl e \<Rightarrow> sample_server))"

lemma started_server_ok: "\<exists>s. started_server = Inr s \<and> sv_cfg s = sample_config \<and> sv_pack s = sample_pack \<and>
    sv_schedulerCancel s = None \<and> sv_contexts s = []"
proof -
  have "LoadPack (wd_readFile file_world) (\<lambda>d. Inr sample_pack) (c_PackFile sample_config) = Inr sample_pack"
    using sample_pack_wf pack_validator.accepts_iff [of "Some sample_pack" "()"]
    by (simp add: LoadPack_def ParsePack_def file_world_def sample_world_def)
  moreover have "c_Overlay sample_config = []" "st_Backend (c_Storage sample_config) = ''noop''"
    by (simp_all add: sample_config_def)
  ultimately show ?thesis
    by (simp add: started_server_def NewServer_def NewIndex_def NewLoggerWithIndex_def Initialize_def Let_def)
qed

lemma running_server_eq:
  assumes "started_server = Inr s"
  shows "running_server = fst (StartOutboundScheduler (\<lambda>i. 2) s)"
  unfolding running_server_def assms by simp

lemma running_server_reachable:
  obtains s0 where "started_server = Inr s0" "(server_step file_world)\<^sup>*\<^sup>* s0 running_server"
    "live_contexts (sv_contexts running_server) = {0}"
proof -
  obtain s0 where s0: "started_server = Inr s0" "sv_cfg s0 = sample_config" "sv_schedulerCancel s0 = None"
      "sv_contexts s0 = []"
    using started_server_ok by blast
  have "(server_step file_world)\<^sup>*\<^sup>* s0 running_server"
    unfolding running_server_eq [OF s0(1)] by (rule r_into_rtranclp) (rule auto_start)
  moreover have "sv_contexts running_server = [False]"
    unfolding running_server_eq [OF s0(1)]
    by (simp add: s0(2-4) StartOutboundScheduler_def Let_def frame_simps) (simp add: sample_config_def)
  then have "live_contexts (sv_contexts running_server) = {0}"
    by (auto simp: live_contexts_def)
  ultimately show ?thesis using s0(1) that by blast
qed


theorem reachable_admission_witness: "hostAllowedLocked running_server ''H1''"
proof (rule running_server_reachable)
  fix s0
  assume s0: "started_server = Inr s0" "(server_step file_world)\<^sup>*\<^sup>* s0 running_server"
  obtain s1 where s1: "started_server = Inr s1" "sv_pack s1 = sample_pack"
    using started_server_ok by blast
  then have "sv_pack running_server = sample_pack"
    unfolding running_server_eq [OF s1(1)] by (simp add: StartOutboundScheduler_def Let_def frame_simps)
  then show ?thesis
    using reachable_admission [OF s0(1) [unfolded started_server_def] s0(2), of "''H1''"]
    by (simp add: sample_pack_def)
qed

end
