(* ===== verification/Evidence.thy ===== *)
theory Evidence
  imports Control "HOL-Library.Multiset"
begin

text \<open>
  The evidence view of the control API (\<^verbatim>\<open>src/runtime/evidence_latest.go\<close>): the latest captured
  outbound request, the response paired with it, and a transcript. The payload directory is what
  \<open>readDir\<close> returns for it: the entries with their modification time, size and content. \<open>srt\<close> is
  \<^verbatim>\<open>sort.Slice\<close> with the source's comparison, which may leave entries of equal time in any order;
  what is used of it is \<open>newest_first\<close>.
\<close>

section \<open>Payload files\<close>

record dir_entry =
  de_Name :: string
  de_IsDir :: bool
  de_ModTime :: time
  de_Size :: int
  de_Data :: "string result"

definition newest_first :: "(dir_entry list \<Rightarrow> dir_entry list) \<Rightarrow> bool" where
  "newest_first srt \<longleftrightarrow>
     (\<forall>es. mset (srt es) = mset es \<and> sorted_wrt (\<lambda>a b. de_ModTime b \<le> de_ModTime a) (srt es))"

record latestEvidencePayload =
  lp_Path :: string
  lp_Name :: string
  lp_Direction :: string
  lp_MessageType :: string
  lp_ModifiedAt :: time
  lp_SizeBytes :: int
  lp_Content :: string
  lp_ParsedRoot :: string
  lp_ParsedClass :: string
  lp_ParsedOp :: string
  lp_NestedAck :: string
  lp_ParseError :: string

definition no_payload :: latestEvidencePayload where
  "no_payload = \<lparr>lp_Path = [], lp_Name = [], lp_Direction = [], lp_MessageType = [], lp_ModifiedAt = 0,
     lp_SizeBytes = 0, lp_Content = [], lp_ParsedRoot = [], lp_ParsedClass = [], lp_ParsedOp = [],
     lp_NestedAck = [], lp_ParseError = []\<rparr>"

definition messageTypeFromPayloadName :: "string \<Rightarrow> string \<Rightarrow> string" where
  "messageTypeFromPayloadName name direction =
     (let marker = ''_'' @ direction @ ''_''
      in case strings_Index name marker of
           None \<Rightarrow> []
         | Some idx \<Rightarrow> TrimSuffix (drop (idx + length marker) name) ''.xml'')"

definition candidate :: "string \<Rightarrow> string \<Rightarrow> dir_entry \<Rightarrow> bool" where
  "candidate direction messageType entry \<longleftrightarrow>
     (if de_IsDir entry then False
      else if \<not> (Contains (de_Name entry) (''_'' @ direction @ ''_'') \<and> HasSuffix (de_Name entry) ''.xml'') then False
      else if messageType \<noteq> [] \<and> messageTypeFromPayloadName (de_Name entry) direction \<noteq> messageType then False
      else True)"

definition with_content :: "xml_decoder \<Rightarrow> string \<Rightarrow> latestEvidencePayload \<Rightarrow> latestEvidencePayload" where
  "with_content dec data out =
     (let out1 = out\<lparr>lp_Content := data, lp_NestedAck := firstNestedAckName dec data\<rparr>
      in case ParseG2SEnvelope dec data of
           Inr parsed \<Rightarrow> out1\<lparr>lp_ParsedRoot := firstNonEmpty [pe_OperationName parsed, pe_RawRoot parsed],
             lp_ParsedClass := pe_ClassName parsed, lp_ParsedOp := pe_OperationName parsed\<rparr>
         | Inl e \<Rightarrow> out1\<lparr>lp_ParsedRoot := px_RootLocalName (ParseMessage dec data), lp_ParseError := e\<rparr>)"

definition latestPayloadForMessageType ::
    "xml_decoder \<Rightarrow> (string \<Rightarrow> string \<Rightarrow> string) \<Rightarrow> (dir_entry list \<Rightarrow> dir_entry list) \<Rightarrow>
     (string \<Rightarrow> dir_entry list result) \<Rightarrow> string \<Rightarrow> string \<Rightarrow> string \<Rightarrow> latestEvidencePayload" where
  "latestPayloadForMessageType dec join srt readDir payloadDir direction messageType =
     (if payloadDir = [] then no_payload
      else case readDir payloadDir of
        Inl e \<Rightarrow> no_payload\<lparr>lp_ParseError := e\<rparr>
      | Inr entries \<Rightarrow>
          (case srt (filter (candidate direction messageType) entries) of
             [] \<Rightarrow> no_payload
           | entry # _ \<Rightarrow>
               let out = no_payload\<lparr>lp_Path := join payloadDir (de_Name entry), lp_Name := de_Name entry,
                     lp_Direction := direction,
                     lp_MessageType := messageTypeFromPayloadName (de_Name entry) direction,
                     lp_ModifiedAt := de_ModTime entry, lp_SizeBytes := de_Size entry\<rparr>
               in case de_Data entry of
                    Inl e \<Rightarrow> out\<lparr>lp_ParseError := e\<rparr>
                  | Inr data \<Rightarrow> with_content dec data out))"

definition latestPayload ::
    "xml_decoder \<Rightarrow> (string \<Rightarrow> string \<Rightarrow> string) \<Rightarrow> (dir_entry list \<Rightarrow> dir_entry list) \<Rightarrow>
     (string \<Rightarrow> dir_entry list result) \<Rightarrow> string \<Rightarrow> string \<Rightarrow> latestEvidencePayload" where
  "latestPayload dec join srt readDir payloadDir direction =
     latestPayloadForMessageType dec join srt readDir payloadDir direction []"

section \<open>Pairing\<close>

record evidencePairing =
  ep_Strategy :: string
  ep_RequestMessageType :: string
  ep_ResponseMessageType :: string
  ep_MatchedMessageType :: bool
  ep_ResponseOlderThanRequest :: bool
  ep_ResponseAgeDeltaMS :: int
  ep_Warning :: string

definition joinEvidenceWarnings :: "string \<Rightarrow> string \<Rightarrow> string" where
  "joinEvidenceWarnings existing new =
     (if existing = [] then new else if new = [] then existing else existing @ ''; '' @ new)"

text \<open>\<^verbatim>\<open>Duration.Milliseconds\<close>, which rounds towards zero.\<close>

definition duration_ms :: "duration \<Rightarrow> int" where
  "duration_ms d = (if 0 \<le> d then d div 1000000 else - ((- d) div 1000000))"

definition annotatePairingAge ::
    "evidencePairing \<Rightarrow> latestEvidencePayload \<Rightarrow> latestEvidencePayload \<Rightarrow> evidencePairing" where
  "annotatePairingAge pairing request response =
     (if lp_Path request = [] \<or> lp_Path response = [] \<or> IsZero (lp_ModifiedAt request) \<or> IsZero (lp_ModifiedAt response)
      then pairing
      else
        let delta = time_Sub (lp_ModifiedAt response) (lp_ModifiedAt request);
            p1 = pairing\<lparr>ep_ResponseAgeDeltaMS := duration_ms delta\<rparr>
        in if delta < 0
           then p1\<lparr>ep_ResponseOlderThanRequest := True,
                   ep_Warning := joinEvidenceWarnings (ep_Warning p1) ''matched response is older than latest request''\<rparr>
           else p1)"

definition new_pairing :: "string \<Rightarrow> evidencePairing" where
  "new_pairing requestType = \<lparr>ep_Strategy = [], ep_RequestMessageType = requestType, ep_ResponseMessageType = [],
     ep_MatchedMessageType = False, ep_ResponseOlderThanRequest = False, ep_ResponseAgeDeltaMS = 0, ep_Warning = []\<rparr>"

definition matched :: "string \<Rightarrow> latestEvidencePayload \<Rightarrow> latestEvidencePayload \<Rightarrow> evidencePairing" where
  "matched strategy request response =
     annotatePairingAge ((new_pairing (lp_MessageType request))\<lparr>ep_Strategy := strategy,
       ep_ResponseMessageType := lp_MessageType response, ep_MatchedMessageType := True\<rparr>) request response"

definition fallback_pairing :: "latestEvidencePayload \<Rightarrow> latestEvidencePayload \<Rightarrow> evidencePairing" where
  "fallback_pairing request response =
     (let pairing = annotatePairingAge ((new_pairing (lp_MessageType request))\<lparr>ep_Strategy := ''fallback_latest_response'',
            ep_ResponseMessageType := lp_MessageType response,
            ep_MatchedMessageType := (lp_MessageType request \<noteq> [] \<and> lp_MessageType request = lp_MessageType response)\<rparr>)
          request response
      in if lp_Path request \<noteq> [] \<and> lp_Path response \<noteq> [] \<and> \<not> ep_MatchedMessageType pairing
         then pairing\<lparr>ep_Warning := joinEvidenceWarnings (ep_Warning pairing)
                ''latest response does not match latest request message_type''\<rparr>
         else pairing)"

text \<open>\<open>latest\<close> is \<open>latestPayloadForMessageType\<close> on the payload directory.\<close>

definition pairedLatestResponse ::
    "(string \<Rightarrow> string \<Rightarrow> latestEvidencePayload) \<Rightarrow> latestEvidencePayload \<Rightarrow> latestEvidencePayload \<times> evidencePairing" where
  "pairedLatestResponse latest request =
     (let mt = lp_MessageType request; fallback =
        (let response0 = latest ''outbound_response'' [];
             response = (if lp_Path response0 = [] then latest ''inbound_response'' [] else response0)
         in (response, fallback_pairing request response))
      in if mt \<noteq> [] then
           (let outbound = latest ''outbound_response'' mt
            in if lp_Path outbound \<noteq> [] then (outbound, matched ''matched_outbound_response'' request outbound)
               else
                 (let inbound = latest ''inbound_response'' mt
                  in if lp_Path inbound \<noteq> [] then (inbound, matched ''matched_inbound_response'' request inbound)
                     else fallback))
         else fallback)"

section \<open>The view\<close>

record latestEvidenceResponse =
  le_InstanceID :: string
  le_XMLMode :: string
  le_XMLNamespace :: string
  le_XMLEGMLocation :: string
  le_ExpectedAck :: string
  le_ActualAck :: string
  le_ParsedRootKind :: string
  le_ParsedClass :: string
  le_ParsedOperation :: string
  le_RawRoot :: string
  le_Pairing :: evidencePairing
  le_Transcript :: string
  le_Request :: latestEvidencePayload
  le_Response :: latestEvidencePayload
  le_State :: "string go_map"

definition show_bool :: "bool \<Rightarrow> string" where
  "show_bool b = (if b then ''true'' else ''false'')"

definition evidenceTranscript :: "latestEvidenceResponse \<Rightarrow> string" where
  "evidenceTranscript out =
     (let rq = le_Request out; rp = le_Response out; pr = le_Pairing out; st = go_get (le_State out)
      in ''instance='' @ le_InstanceID out @ '' xml_mode='' @ le_XMLMode out @ [CHR 0x0A] @
         ''request='' @ lp_MessageType rq @ '' parsed='' @ firstNonEmpty [lp_ParsedOp rq, lp_ParsedRoot rq] @
         '' file='' @ lp_Name rq @ [CHR 0x0A] @
         ''response='' @ lp_MessageType rp @ '' parsed='' @ firstNonEmpty [lp_ParsedOp rp, lp_ParsedRoot rp] @
         '' nested_ack='' @ lp_NestedAck rp @ '' file='' @ lp_Name rp @ [CHR 0x0A] @
         ''pairing='' @ ep_Strategy pr @ '' matched='' @ show_bool (ep_MatchedMessageType pr) @
         '' delta_ms='' @ show_int (ep_ResponseAgeDeltaMS pr) @ '' stale='' @
         show_bool (ep_ResponseOlderThanRequest pr) @
         (if ep_Warning pr \<noteq> [] then '' warning='' @ ep_Warning pr else []) @ [CHR 0x0A] @
         ''expected_ack='' @ le_ExpectedAck out @ '' actual_ack='' @ le_ActualAck out @ [CHR 0x0A] @
         ''state session='' @ st ''session_state'' @ '' connection='' @ st ''connection_state'' @
         '' heartbeat='' @ st ''heartbeat_state'' @ '' error='' @ st ''last_error'' @ [CHR 0x0A])"

definition state_snapshot :: "RuntimeState \<Rightarrow> string go_map" where
  "state_snapshot st =
     [(''session_state'', rs_SessionState st), (''heartbeat_state'', rs_HeartbeatState st),
      (''connection_state'', rs_ConnectionState st), (''last_error'', rs_LastError st),
      (''last_message_type'', rs_LastMessageType st), (''last_command_type'', rs_LastCommandType st),
      (''last_ack_status'', rs_LastAckStatus st)]"

definition handleControlEvidenceLatest ::
    "world \<Rightarrow> (dir_entry list \<Rightarrow> dir_entry list) \<Rightarrow> (string \<Rightarrow> dir_entry list result) \<Rightarrow> string \<Rightarrow> Server \<Rightarrow> Server \<times> latestEvidenceResponse http_response" where
  "handleControlEvidenceLatest w srt readDir method s =
     (if method \<noteq> ''GET'' then (s, HttpError 405 ''method not allowed'')
      else
        let cfg = sv_cfg s;
            evidence = parseEvidenceForInstance s (c_InstanceID cfg);
            xmlInfo = xmlModeInfoForInstance (sv_xml s) (c_InstanceID cfg);
            payloadDir = lg_payloadDir (sv_logger s);
            latest = latestPayloadForMessageType (wd_decoder w) (wd_join w) srt readDir payloadDir;
            request = latestPayload (wd_decoder w) (wd_join w) srt readDir payloadDir ''outbound_request'';
            (response, pairing) = pairedLatestResponse latest request;
            out = \<lparr>le_InstanceID = c_InstanceID cfg,
              le_XMLMode = firstNonEmpty [pv_G2SXMLMode evidence, xm_Mode xmlInfo, gx_Mode (c_G2SXML cfg)],
              le_XMLNamespace = firstNonEmpty [pv_G2SXMLNamespace evidence, xm_Namespace xmlInfo,
                gx_Namespace (c_G2SXML cfg)],
              le_XMLEGMLocation = firstNonEmpty [pv_G2SXMLEGMLocation evidence, xm_EGMLocation xmlInfo,
                gx_EGMLocation (c_G2SXML cfg)],
              le_ExpectedAck = pv_LastExpectedAck evidence, le_ActualAck = pv_LastActualAck evidence,
              le_ParsedRootKind = pv_LastParsedRootKind evidence, le_ParsedClass = pv_LastParsedClass evidence,
              le_ParsedOperation = pv_LastParsedOperation evidence, le_RawRoot = pv_LastRawRoot evidence,
              le_Pairing = pairing, le_Transcript = [], le_Request = request, le_Response = response,
              le_State = state_snapshot (sv_state s)\<rparr>
        in (s, HttpReply 200 (out\<lparr>le_Transcript := evidenceTranscript out\<rparr>)))"

section \<open>Properties\<close>

lemma Index_after_clean:
  assumes "CHR ''_'' \<notin> set stamp" "prefix sub rest"
  shows "strings_Index (stamp @ CHR ''_'' # rest) (CHR ''_'' # sub) = Some (length stamp)"
  using assms by (induction stamp) auto

lemma TrimSuffix_append [simp]: "TrimSuffix (s @ p) p = s"
  by (simp add: TrimSuffix_def suffixI)

lemma payload_name_suffix: "HasSuffix (payload_name stamp direction op) ''.xml''"
  unfolding payload_name_def
  by (rule suffixI [where zs = "stamp @ ''_'' @ direction @ ''_'' @ sanitizeFilePart op"]) simp

text \<open>
  The message type read back from a payload file name is the sanitized operation name the
  payload was written under, and the file is a candidate for its own direction.
\<close>

theorem payload_name_roundtrip:
  assumes "CHR ''_'' \<notin> set stamp"
  shows "messageTypeFromPayloadName (payload_name stamp direction op) direction = sanitizeFilePart op \<and>
    candidate direction (sanitizeFilePart op)
      \<lparr>de_Name = payload_name stamp direction op, de_IsDir = False, de_ModTime = t, de_Size = n, de_Data = d\<rparr>"
proof -
  have idx: "strings_Index (payload_name stamp direction op) (CHR ''_'' # direction @ ''_'') = Some (length stamp)"
    using Index_after_clean [OF assms, of "direction @ ''_''" "direction @ ''_'' @ sanitizeFilePart op @ ''.xml''"]
    by (simp add: payload_name_def)
  then have rt: "messageTypeFromPayloadName (payload_name stamp direction op) direction = sanitizeFilePart op"
    by (simp add: messageTypeFromPayloadName_def Let_def) (simp add: payload_name_def)
  with idx payload_name_suffix show ?thesis by (simp add: candidate_def Contains_def)
qed

theorem payload_name_roundtrip_witness:
  "messageTypeFromPayloadName (payload_name ''20260101T000000.000000000Z'' ''outbound_request'' ''keepAlive'')
     ''outbound_request'' = sanitizeFilePart ''keepAlive''"
  by (rule payload_name_roundtrip [THEN conjunct1]) simp

lemma latest_name [frame_simps]:
  "lp_Path (with_content dec data p) = lp_Path p" "lp_Name (with_content dec data p) = lp_Name p"
  "lp_MessageType (with_content dec data p) = lp_MessageType p"
  "lp_ModifiedAt (with_content dec data p) = lp_ModifiedAt p"
  by (simp_all add: with_content_def Let_def split: sum.split)

lemma newest_first_hd:
  assumes "newest_first srt"
  shows "case srt es of [] \<Rightarrow> es = [] | e # _ \<Rightarrow> e \<in> set es \<and> (\<forall>e' \<in> set es. de_ModTime e' \<le> de_ModTime e)"
proof -
  have m: "mset (srt es) = mset es" and "sorted_wrt (\<lambda>a b. de_ModTime b \<le> de_ModTime a) (srt es)"
    using assms by (auto simp: newest_first_def)
  moreover have "set es = set (srt es)" using m by (metis set_mset_mset)
  ultimately show ?thesis by (auto split: list.split)
qed

lemma latest_cases:
  fixes dec join srt readDir dir direction mt
  defines "p \<equiv> latestPayloadForMessageType dec join srt readDir dir direction mt"
  assumes "newest_first srt" "dir \<noteq> []" "readDir dir = Inr entries"
  shows "if \<exists>e \<in> set entries. candidate direction mt e
    then \<exists>e \<in> set entries. candidate direction mt e \<and> lp_Name p = de_Name e \<and>
      lp_Path p = join dir (de_Name e) \<and> lp_ModifiedAt p = de_ModTime e \<and>
      lp_MessageType p = messageTypeFromPayloadName (de_Name e) direction \<and>
      (\<forall>e' \<in> set entries. candidate direction mt e' \<longrightarrow> de_ModTime e' \<le> de_ModTime e)
    else p = no_payload"
proof (cases "srt (filter (candidate direction mt) entries)")
  case Nil
  then have "filter (candidate direction mt) entries = []"
    using newest_first_hd [OF assms(2), of "filter (candidate direction mt) entries"] by simp
  then show ?thesis using assms(3,4) Nil
    by (simp add: p_def latestPayloadForMessageType_def filter_empty_conv)
next
  case (Cons e es)
  then have e: "e \<in> set entries" "candidate direction mt e"
    "\<forall>e' \<in> set entries. candidate direction mt e' \<longrightarrow> de_ModTime e' \<le> de_ModTime e"
    using newest_first_hd [OF assms(2), of "filter (candidate direction mt) entries"] by simp_all
  have "lp_Name p = de_Name e \<and> lp_Path p = join dir (de_Name e) \<and> lp_ModifiedAt p = de_ModTime e \<and>
      lp_MessageType p = messageTypeFromPayloadName (de_Name e) direction"
    using assms(3,4) Cons
    by (simp add: p_def latestPayloadForMessageType_def Let_def frame_simps split: sum.split)
  with e show ?thesis by auto
qed

lemma candidate_type: "candidate direction mt e \<Longrightarrow> mt \<noteq> [] \<Longrightarrow> messageTypeFromPayloadName (de_Name e) direction = mt"
  by (auto simp: candidate_def split: if_splits)

lemma candidate_any: "candidate direction mt e \<Longrightarrow> candidate direction [] e"
  by (auto simp: candidate_def split: if_splits)

lemma annotate_frame [frame_simps]:
  "ep_Strategy (annotatePairingAge pr rq rp) = ep_Strategy pr"
  "ep_MatchedMessageType (annotatePairingAge pr rq rp) = ep_MatchedMessageType pr"
  "ep_ResponseMessageType (annotatePairingAge pr rq rp) = ep_ResponseMessageType pr"
  by (simp_all add: annotatePairingAge_def Let_def)

definition both_dated :: "latestEvidencePayload \<Rightarrow> latestEvidencePayload \<Rightarrow> bool" where
  "both_dated rq rp \<longleftrightarrow>
     lp_Path rq \<noteq> [] \<and> lp_Path rp \<noteq> [] \<and> lp_ModifiedAt rq \<noteq> 0 \<and> lp_ModifiedAt rp \<noteq> 0"

definition stale :: "latestEvidencePayload \<Rightarrow> latestEvidencePayload \<Rightarrow> bool" where
  "stale rq rp \<longleftrightarrow> both_dated rq rp \<and> lp_ModifiedAt rp < lp_ModifiedAt rq"

lemma annotate_stale:
  assumes "\<not> ep_ResponseOlderThanRequest pr" "ep_Warning pr = []"
  shows "ep_ResponseOlderThanRequest (annotatePairingAge pr rq rp) = stale rq rp"
    "(ep_Warning (annotatePairingAge pr rq rp) = []) = (\<not> stale rq rp)"
  using assms
  by (auto simp: annotatePairingAge_def stale_def both_dated_def Let_def IsZero_def time_Sub_def joinEvidenceWarnings_def)

lemma warnings_Nil [simp]: "joinEvidenceWarnings a b = [] \<longleftrightarrow> a = [] \<and> b = []"
  by (simp add: joinEvidenceWarnings_def)

lemma matched_facts:
  "ep_Strategy (matched st rq rp) = st" "ep_MatchedMessageType (matched st rq rp)"
  "ep_ResponseOlderThanRequest (matched st rq rp) = stale rq rp"
  "(ep_Warning (matched st rq rp) = []) = (\<not> stale rq rp)"
  by (simp_all add: matched_def frame_simps annotate_stale new_pairing_def)

lemma fallback_facts:
  "ep_Strategy (fallback_pairing rq rp) = ''fallback_latest_response''"
  "ep_MatchedMessageType (fallback_pairing rq rp) = (lp_MessageType rq \<noteq> [] \<and> lp_MessageType rp = lp_MessageType rq)"
  "ep_ResponseOlderThanRequest (fallback_pairing rq rp) = stale rq rp"
  "(ep_Warning (fallback_pairing rq rp) = []) = (\<not> (stale rq rp \<or>
     lp_Path rq \<noteq> [] \<and> lp_Path rp \<noteq> [] \<and> \<not> ep_MatchedMessageType (fallback_pairing rq rp)))"
  by (auto simp: fallback_pairing_def frame_simps annotate_stale new_pairing_def Let_def)


section \<open>A concrete directory\<close>

definition sample_entry :: "string \<Rightarrow> string \<Rightarrow> time \<Rightarrow> dir_entry" where
  "sample_entry direction op t =
     \<lparr>de_Name = payload_name ''20260101T000000.000000000Z'' direction op, de_IsDir = False, de_ModTime = t, de_Size = 0,
      de_Data = Inl ''unreadable''\<rparr>"

text \<open>The two payloads the session engine captures for a successful keep-alive.\<close>

definition engine_dir :: "dir_entry list" where
  "engine_dir = [sample_entry ''outbound_request'' ''keepAlive'' 10, sample_entry ''inbound_response'' ''keepAliveAck'' 20]"

definition newest_sort :: "dir_entry list \<Rightarrow> dir_entry list" where
  "newest_sort = sort_key (\<lambda>e. - de_ModTime e)"

lemma newest_sort: "newest_first newest_sort"
  using sorted_sort_key [of "\<lambda>e. - de_ModTime e"]
  by (auto simp: newest_first_def newest_sort_def sorted_map)

lemma engine_names:
  "\<not> Contains (payload_name ''20260101T000000.000000000Z'' ''outbound_request'' ''keepAlive'') ''_inbound_response_''"
  "\<not> Contains (payload_name ''20260101T000000.000000000Z'' ''outbound_request'' ''keepAlive'') ''_outbound_response_''"
  "\<not> Contains (payload_name ''20260101T000000.000000000Z'' ''inbound_response'' ''keepAliveAck'') ''_outbound_response_''"
  "\<not> Contains (payload_name ''20260101T000000.000000000Z'' ''inbound_response'' ''keepAliveAck'') ''_outbound_request_''"
  by code_simp+

lemma engine_types:
  "messageTypeFromPayloadName (payload_name ''20260101T000000.000000000Z'' ''outbound_request'' ''keepAlive'')
     ''outbound_request'' = ''keepAlive''"
  "messageTypeFromPayloadName (payload_name ''20260101T000000.000000000Z'' ''inbound_response'' ''keepAliveAck'')
     ''inbound_response'' = ''keepAliveAck''"
  "Contains (payload_name ''20260101T000000.000000000Z'' ''outbound_request'' ''keepAlive'') ''_outbound_request_''"
  "Contains (payload_name ''20260101T000000.000000000Z'' ''inbound_response'' ''keepAliveAck'') ''_inbound_response_''"
  "HasSuffix (payload_name ''20260101T000000.000000000Z'' direction op) ''.xml''"
  by (code_simp, code_simp, code_simp, code_simp, simp add: payload_name_suffix)

lemma engine_dir_candidates:
  "filter (candidate ''outbound_request'' []) engine_dir = [sample_entry ''outbound_request'' ''keepAlive'' 10]"
  "filter (candidate ''outbound_response'' mt) engine_dir = []"
  "filter (candidate ''inbound_response'' ''keepAlive'') engine_dir = []"
  "filter (candidate ''inbound_response'' []) engine_dir = [sample_entry ''inbound_response'' ''keepAliveAck'' 20]"
  by (simp_all add: engine_dir_def sample_entry_def candidate_def engine_names engine_types)

definition slash_join :: "string \<Rightarrow> string \<Rightarrow> string" where
  "slash_join a b = a @ ''/'' @ b"

abbreviation engine_find :: "xml_decoder \<Rightarrow> string \<Rightarrow> string \<Rightarrow> latestEvidencePayload" where
  "engine_find dec \<equiv> latestPayloadForMessageType dec slash_join newest_sort (\<lambda>_. Inr engine_dir) ''payloads''"

lemma engine_found:
  "lp_MessageType (engine_find dec ''outbound_request'' []) = ''keepAlive''"
  "lp_Path (engine_find dec ''outbound_request'' []) \<noteq> []"
  "lp_Path (engine_find dec ''outbound_response'' mt) = []"
  "lp_Path (engine_find dec ''inbound_response'' ''keepAlive'') = []"
  "lp_MessageType (engine_find dec ''inbound_response'' []) = ''keepAliveAck''"
  "lp_Path (engine_find dec ''inbound_response'' []) \<noteq> []"
  by (simp_all add: latestPayloadForMessageType_def engine_dir_candidates newest_sort_def no_payload_def
      sample_entry_def engine_types slash_join_def)


text \<open>
  The responses the session engine captures are not paired by type: it files the response to
  a keep-alive under its acknowledgement, so the view of a successful exchange falls back to
  the newest response, says that the types do not match and warns.
\<close>

theorem engine_evidence_unmatched:
  "case pairedLatestResponse (engine_find dec) (engine_find dec ''outbound_request'' []) of (response, pairing) \<Rightarrow>
     lp_MessageType response = ''keepAliveAck'' \<and> ep_Strategy pairing = ''fallback_latest_response'' \<and>
     \<not> ep_MatchedMessageType pairing \<and> ep_Warning pairing \<noteq> []"
  by (simp add: pairedLatestResponse_def Let_def engine_found fallback_facts)

end
