(* ===== verification/Http_Mux.thy ===== *)
theory Http_Mux
  imports Server
begin

text \<open>
  What the two HTTP servers of the program use of \<^verbatim>\<open>net/http\<close>: cleaning a request path, the choice of
  a handler by \<^verbatim>\<open>http.ServeMux\<close> with its redirects, \<^verbatim>\<open>http.StripPrefix\<close>, and the embedded web UI
  behind it (\<^verbatim>\<open>scenarioUIHandler\<close> of \<^verbatim>\<open>src/runtime/control_ui.go\<close>, \<^verbatim>\<open>uiHandler\<close> of
  \<^verbatim>\<open>src/cmd/vegm-supervisor/server.go\<close>). Patterns are plain paths without methods, hosts or wildcards,
  and request paths have no percent escapes; queries are left out of the redirect target. The
  embedded files and the file server are parameters.
\<close>

section \<open>Paths\<close>

fun split_slash :: "string \<Rightarrow> string list" where
  "split_slash [] = [[]]"
| "split_slash (c # s) =
     (case split_slash s of
        [] \<Rightarrow> [[c]]
      | part # parts \<Rightarrow> if c = CHR ''/'' then [] # part # parts else (c # part) # parts)"

text \<open>The elements of a rooted path without empty ones and dots, each dot-dot taking back the
  element before it; the accumulator is reversed.\<close>

fun clean_parts :: "string list \<Rightarrow> string list \<Rightarrow> string list" where
  "clean_parts acc [] = rev acc"
| "clean_parts acc (p # ps) =
     (if p = [] \<or> p = ''.'' then clean_parts acc ps
      else if p = ''..'' then clean_parts (tl acc) ps
      else clean_parts (p # acc) ps)"

definition rooted :: "string list \<Rightarrow> string" where
  "rooted parts = (if parts = [] then ''/'' else concat (map (\<lambda>p. CHR ''/'' # p) parts))"

definition cleanPath :: "string \<Rightarrow> string" where
  "cleanPath p =
     (if p = [] then ''/''
      else
        let p1 = (if hd p \<noteq> CHR ''/'' then CHR ''/'' # p else p);
            np = rooted (clean_parts [] (split_slash p1))
        in if last p1 = CHR ''/'' \<and> np \<noteq> ''/'' then np @ ''/'' else np)"

section \<open>The mux\<close>

text \<open>A pattern that ends in a slash matches the paths it is a prefix of, any other pattern itself
  only; the longest pattern that matches wins.\<close>

definition mux_matches :: "string \<Rightarrow> string \<Rightarrow> bool" where
  "mux_matches pat path \<longleftrightarrow> pat = path \<or> HasSuffix pat ''/'' \<and> HasPrefix path pat"

fun mux_find :: "(string \<times> 'h) list \<Rightarrow> string \<Rightarrow> (string \<times> 'h) option" where
  "mux_find [] path = None"
| "mux_find (r # rs) path =
     (case mux_find rs path of
        None \<Rightarrow> if mux_matches (fst r) path then Some r else None
      | Some best \<Rightarrow> if mux_matches (fst r) path \<and> length (fst best) < length (fst r) then Some r else Some best)"

datatype 'h mux_result = MuxHandler 'h | MuxRedirect string | MuxNotFound

text \<open>A path for which only the pattern with a slash appended is registered, and a path that is
  not clean, are redirected. \<^verbatim>\<open>CONNECT\<close> requests are matched as they are.\<close>

definition needs_slash :: "(string \<times> 'h) list \<Rightarrow> string \<Rightarrow> bool" where
  "needs_slash routes p \<longleftrightarrow>
     p \<notin> set (map fst routes) \<and> \<not> HasSuffix p ''/'' \<and> p @ ''/'' \<in> set (map fst routes)"

definition mux_route :: "(string \<times> 'h) list \<Rightarrow> string \<Rightarrow> string \<Rightarrow> 'h mux_result" where
  "mux_route routes method path =
     (let p = (if method = ''CONNECT'' then path else cleanPath path)
      in if needs_slash routes p then MuxRedirect (cleanPath path @ ''/'')
         else if p \<noteq> path then MuxRedirect p
         else case mux_find routes p of
           None \<Rightarrow> MuxNotFound
         | Some r \<Rightarrow> MuxHandler (snd r))"

section \<open>The embedded web UI\<close>

definition NotFound :: "'a http_response" where
  "NotFound = HttpError 404 ''404 page not found''"

definition StripPrefix :: "string \<Rightarrow> (string \<Rightarrow> 'a http_response) \<Rightarrow> string \<Rightarrow> 'a http_response" where
  "StripPrefix pre next path =
     (let p = TrimPrefix path pre in if length p < length path then next p else NotFound)"

text \<open>\<open>sub\<close> selects a directory of the embedded files, \<open>fileServer\<close> serves a path from it.\<close>

definition ui_files ::
    "(string \<Rightarrow> 'fs result) \<Rightarrow> ('fs \<Rightarrow> string \<Rightarrow> 'a http_response) \<Rightarrow> string \<Rightarrow> 'a http_response" where
  "ui_files sub fileServer path =
     (case sub ''static'' of
        Inl e \<Rightarrow> NotFound
      | Inr fs \<Rightarrow> StripPrefix ''/ui/'' (fileServer fs) path)"

section \<open>Choice of the handler\<close>

lemma mux_find_Some:
  assumes "mux_find rs path = Some r"
  shows "r \<in> set rs \<and> mux_matches (fst r) path"
  using assms by (induction rs arbitrary: r) (auto split: option.splits if_splits)

lemma mux_find_longest:
  assumes "r \<in> set rs" "mux_matches (fst r) path"
  shows "\<exists>best. mux_find rs path = Some best \<and> length (fst r) \<le> length (fst best)"
  using assms by (induction rs) (fastforce split: option.splits)+

lemma split_slash_nonempty [simp]: "split_slash s \<noteq> []"
  by (cases s) (auto split: list.split)

lemma split_slash_cons: "split_slash (CHR ''/'' # s) = [] # split_slash s"
  by (cases "split_slash s") auto

lemma split_slash_plain: "CHR ''/'' \<notin> set s \<Longrightarrow> split_slash s = [s]"
  by (induction s) auto

lemma split_slash_append: "CHR ''/'' \<notin> set a \<Longrightarrow> split_slash (a @ CHR ''/'' # s) = a # split_slash s"
proof (induction a)
  case Nil
  then show ?case using split_slash_cons by simp
qed (auto split: list.splits)

section \<open>Cleaning is idempotent\<close>

text \<open>The elements that survive cleaning.\<close>

definition path_part :: "string \<Rightarrow> bool" where
  "path_part p \<longleftrightarrow> p \<noteq> [] \<and> p \<noteq> ''.'' \<and> p \<noteq> ''..'' \<and> CHR ''/'' \<notin> set p"

lemma split_slash_no_slash: "p \<in> set (split_slash s) \<Longrightarrow> CHR ''/'' \<notin> set p"
  by (induction s arbitrary: p) (auto split: list.splits if_splits)

lemma clean_parts_path:
  assumes "list_all (\<lambda>p. CHR ''/'' \<notin> set p) ps" "list_all path_part acc"
  shows "list_all path_part (clean_parts acc ps)"
  using assms
proof (induction acc ps rule: clean_parts.induct)
  case (2 acc p ps)
  moreover have "list_all path_part (tl acc)" using "2.prems"(2) by (cases acc) auto
  moreover have "path_part p" if "p \<noteq> []" "p \<noteq> ''.''" "p \<noteq> ''..''"
    using that "2.prems"(1) by (simp add: path_part_def)
  ultimately show ?case by simp
qed (simp add: list_all_iff)

lemma clean_parts_append: "list_all path_part ps \<Longrightarrow> clean_parts acc (ps @ qs) = clean_parts (rev ps @ acc) qs"
  by (induction ps arbitrary: acc) (simp_all add: path_part_def)

lemma split_slash_concat:
  "list_all (\<lambda>p. CHR ''/'' \<notin> set p) ps \<Longrightarrow> split_slash (concat (map (\<lambda>p. CHR ''/'' # p) ps)) = [] # ps"
proof (induction ps)
  case (Cons p ps)
  then have IH: "split_slash (concat (map (\<lambda>p. CHR ''/'' # p) ps)) = [] # ps" by simp
  have "split_slash (p @ concat (map (\<lambda>p. CHR ''/'' # p) ps)) = p # ps"
  proof (cases ps)
    case Nil
    with Cons.prems show ?thesis by (simp add: split_slash_plain)
  next
    case (Cons q qs)
    then have "concat (map (\<lambda>p. CHR ''/'' # p) ps) = CHR ''/'' # q @ concat (map (\<lambda>p. CHR ''/'' # p) qs)" by simp
    with IH split_slash_append [of p] Cons.prems split_slash_cons show ?thesis by simp
  qed
  then show ?case by (simp add: split_slash_cons del: split_slash.simps)
qed simp

text \<open>Every clean path is one of these two forms, which cleaning leaves alone.\<close>

lemma cleanPath_fixed:
  assumes "list_all path_part ps"
  shows "cleanPath (rooted ps) = rooted ps" "ps \<noteq> [] \<Longrightarrow> cleanPath (rooted ps @ ''/'') = rooted ps @ ''/''"
proof -
  let ?r = "concat (map (\<lambda>p. CHR ''/'' # p) ps)"
  have plain: "list_all (\<lambda>p. CHR ''/'' \<notin> set p) ps" using assms by (auto simp: list_all_iff path_part_def)
  have last: "last (concat (map (\<lambda>p. CHR ''/'' # p) qs)) \<noteq> CHR ''/''" if "qs \<noteq> []" "list_all path_part qs" for qs
    using that by (induction qs rule: rev_induct) (auto simp: path_part_def last_append dest: last_in_set)
  show "cleanPath (rooted ps) = rooted ps"
  proof (cases "ps = []")
    case False
    then have "?r \<noteq> []" "hd ?r = CHR ''/''" by (cases ps; simp)+
    then show ?thesis
      using False last [OF False assms] split_slash_concat [OF plain] clean_parts_append [OF assms, of "[]" "[]"]
      by (simp add: cleanPath_def rooted_def Let_def)
  qed (simp add: cleanPath_def rooted_def Let_def)
  assume ne: "ps \<noteq> []"
  then have r: "?r \<noteq> []" "hd ?r = CHR ''/''" "?r \<noteq> ''/''"
    using assms by (cases ps; auto simp: path_part_def)+
  have "split_slash (?r @ ''/'') = [] # ps @ [[]]"
    using split_slash_concat [of "ps @ [[]]"] plain by simp
  then show "cleanPath (rooted ps @ ''/'') = rooted ps @ ''/''"
    using ne r clean_parts_append [OF assms, of "[]" "[[]]"]
    by (simp add: cleanPath_def rooted_def Let_def hd_append)
qed

lemma cleanPath_form:
  obtains ps where "list_all path_part ps" "cleanPath p = rooted ps"
  | ps where "list_all path_part ps" "ps \<noteq> []" "cleanPath p = rooted ps @ ''/''"
proof -
  let ?p1 = "if hd p \<noteq> CHR ''/'' then CHR ''/'' # p else p"
  let ?ps = "clean_parts [] (split_slash ?p1)"
  have "list_all (\<lambda>p. CHR ''/'' \<notin> set p) (split_slash ?p1)"
    by (simp only: list_all_iff) (blast dest: split_slash_no_slash)
  then have ps: "list_all path_part ?ps" by (rule clean_parts_path) simp
  show ?thesis
  proof (cases "p = []")
    case True
    then show ?thesis using that(1) [of "[]"] by (simp add: cleanPath_def rooted_def)
  next
    case False
    then have "cleanPath p = rooted ?ps \<or> ?ps \<noteq> [] \<and> cleanPath p = rooted ?ps @ ''/''"
      by (auto simp: cleanPath_def Let_def rooted_def)
    with ps that show ?thesis by blast
  qed
qed

lemma cleanPath_idem [simp]: "cleanPath (cleanPath p) = cleanPath p"
  using cleanPath_fixed by (cases p rule: cleanPath_form) simp_all

lemma cleanPath_slash:
  assumes "\<not> HasSuffix (cleanPath p) ''/''"
  shows "cleanPath (cleanPath p @ ''/'') = cleanPath p @ ''/''"
proof (cases p rule: cleanPath_form)
  case (1 ps)
  with assms have "ps \<noteq> []" by (auto simp: rooted_def suffix_def)
  with 1 cleanPath_fixed(2) show ?thesis by simp
qed (use assms in \<open>simp add: suffix_def\<close>)

text \<open>
  Redirects of the mux settle at once: following the redirect of a request that is not a
  \<open>CONNECT\<close> reaches a handler or a 404, never another redirect, so no path sends a client in
  circles.
\<close>

theorem mux_redirect_settles:
  assumes "mux_route routes method path = MuxRedirect url" "method \<noteq> ''CONNECT''"
  shows "mux_route routes method url \<noteq> MuxRedirect url'"
proof (cases "needs_slash routes (cleanPath path)")
  case True
  then have "url = cleanPath path @ ''/''" using assms by (simp add: mux_route_def Let_def)
  moreover from True have "\<not> HasSuffix (cleanPath path) ''/''" by (simp add: needs_slash_def)
  moreover have "\<not> needs_slash routes (cleanPath path @ ''/'')" by (simp add: needs_slash_def suffix_def)
  ultimately show ?thesis
    using assms(2) cleanPath_slash [of path] by (simp add: mux_route_def Let_def split: option.split)
next
  case False
  with assms have "url = cleanPath path"
    by (simp add: mux_route_def Let_def split: if_splits option.splits)
  with False assms(2) show ?thesis by (simp add: mux_route_def Let_def split: option.split)
qed

theorem mux_redirect_settles_witness:
  "mux_route [(''/ui/'', True)] ''GET'' ''/a/..//ui'' = MuxRedirect ''/ui/'' \<and>
   mux_route [(''/ui/'', True)] ''GET'' ''/ui/'' \<noteq> MuxRedirect ''/ui/''"
proof -
  have "mux_route [(''/ui/'', True)] ''GET'' ''/a/..//ui'' = MuxRedirect ''/ui/''" by code_simp
  with mux_redirect_settles [OF this] show ?thesis by simp
qed

end
