(* ===== verification/Control_Api.thy ===== *)
theory Control_Api
  imports Runtime Evidence Http_Mux
begin

text \<open>
  The control listener as a whole (\<^verbatim>\<open>startControl\<close> of \<^verbatim>\<open>src/runtime/server.go\<close>): the CORS wrapper, the mux
  with its routes, and behind each route its handler, the pages of the scenario runner
  (\<^verbatim>\<open>control_ui.go\<close>) included. A request is its method, its path and the bytes of its body;
  what the handlers take from outside, the JSON decoders among it, is in \<open>control_env\<close>. The replies of
  the handlers are the cases of one type.
\<close>

section \<open>The scenario runner's pages (control\_ui.go)\<close>

definition handleScenarioUIRoot :: "Server \<Rightarrow> Server \<times> 'a http_response" where
  "handleScenarioUIRoot s = (s, HttpRedirect 307 ''/ui/scenario-runner.html'')"

definition scenarioUIHandler ::
    "(string \<Rightarrow> 'fs result) \<Rightarrow> ('fs \<Rightarrow> string \<Rightarrow> 'a http_response) \<Rightarrow> string \<Rightarrow> Server \<Rightarrow> Server \<times> 'a http_response" where
  "scenarioUIHandler sub fileServer path s = (s, ui_files sub fileServer path)"

section \<open>Routes and handlers\<close>

datatype control_route =
    CHealthz | CUIRoot | CUI | CState | CHistory | CAudio | CMachineStatus | CLogs | CEvidence | CExport
  | COverlay | CHostsAdd | CHostsRemove | CSecurityMode | CSecurityReload | CPackSummary | CPackOperations
  | CInject | CSessionOpen | CHeartbeat | CSend | CSchedulerStart | CSchedulerStop

definition control_routes :: "(string \<times> control_route) list" where
  "control_routes =
     [(''/healthz'', CHealthz), (''/ui'', CUIRoot), (''/ui/'', CUI), (''/control/state'', CState),
      (''/control/state/history'', CHistory), (''/control/audio'', CAudio),
      (''/control/machine-status'', CMachineStatus), (''/control/logs'', CLogs),
      (''/control/evidence/latest'', CEvidence), (''/control/export'', CExport),
      (''/control/overlay'', COverlay), (''/control/hosts/add'', CHostsAdd),
      (''/control/hosts/remove'', CHostsRemove), (''/control/security/mode'', CSecurityMode),
      (''/control/security/reload'', CSecurityReload), (''/control/pack/summary'', CPackSummary),
      (''/control/pack/operations'', CPackOperations), (''/control/inject-logical-command'', CInject),
      (''/control/outbound/session/open'', CSessionOpen), (''/control/outbound/heartbeat'', CHeartbeat),
      (''/control/outbound/send'', CSend), (''/control/outbound/scheduler/start'', CSchedulerStart),
      (''/control/outbound/scheduler/stop'', CSchedulerStop)]"

record control_request =
  cq_Method :: string
  cq_Path :: string
  cq_Body :: string

record 'fs control_env =
  ce_world :: world
  ce_clk :: clock
  ce_net :: network
  ce_audio :: "string \<Rightarrow> audioControlRequest decoded"
  ce_overlay :: "string \<Rightarrow> MessageOverlay decoded"
  ce_host :: "string \<Rightarrow> hostControlRequest decoded"
  ce_security :: "string \<Rightarrow> securityModeRequest decoded"
  ce_logical :: "string \<Rightarrow> logicalCommandRequest decoded"
  ce_outbound :: "string \<Rightarrow> outboundRequest decoded"
  ce_load_chain :: "string \<Rightarrow> string \<Rightarrow> string list result"
  ce_parse_cert :: "string \<Rightarrow> x509_certificate result"
  ce_has_pem :: "string \<Rightarrow> bool"
  ce_sort :: "dir_entry list \<Rightarrow> dir_entry list"
  ce_readDir :: "string \<Rightarrow> dir_entry list result"
  ce_mkdir :: "string \<Rightarrow> unit result"
  ce_listErr :: "error option"
  ce_writeBundle :: "string \<Rightarrow> (state_view, Config, unit) ExportBundle \<Rightarrow> unit result"
  ce_run_stamp :: string
  ce_sub :: "string \<Rightarrow> 'fs result"
  ce_fileServer :: "'fs \<Rightarrow> string \<Rightarrow> string http_response"

datatype control_reply =
    ReplyHealth string
  | ReplyPage string
  | ReplyState state_view
  | ReplyEvents "Event list"
  | ReplyEvidence latestEvidenceResponse
  | ReplyExport string
  | ReplyOverlay string string
  | ReplyCert CertificateStatus
  | ReplySummary string string nat
  | ReplyOperations "Operation go_map"
  | ReplyInjected injected
  | ReplyOutbound outboundResult
  | ReplyScheduler OutboundSchedulerState

definition replying ::
    "('a \<Rightarrow> control_reply) \<Rightarrow> Server \<times> 'a http_response \<Rightarrow> Server \<times> control_reply http_response" where
  "replying f = map_prod id (map_http_response f)"

fun control_handler ::
    "'fs control_env \<Rightarrow> control_request \<Rightarrow> control_route \<Rightarrow> Server \<Rightarrow> Server \<times> control_reply http_response" where
  "control_handler env r CHealthz s = replying ReplyHealth (handleHealthz s)"
| "control_handler env r CUIRoot s = handleScenarioUIRoot s"
| "control_handler env r CUI s =
     replying ReplyPage (scenarioUIHandler (ce_sub env) (ce_fileServer env) (cq_Path r) s)"
| "control_handler env r CState s = replying ReplyState (handleControlState (cq_Method r) s)"
| "control_handler env r CHistory s = replying ReplyEvents (handleControlStateHistory s)"
| "control_handler env r CAudio s =
     replying ReplyState (handleControlAudio (ce_clk env) (cq_Method r) (ce_audio env (cq_Body r)) s)"
| "control_handler env r CMachineStatus s = replying ReplyState (handleControlMachineStatus (cq_Method r) s)"
| "control_handler env r CLogs s = replying ReplyEvents (handleControlLogs s)"
| "control_handler env r CEvidence s =
     replying ReplyEvidence
       (handleControlEvidenceLatest (ce_world env) (ce_sort env) (ce_readDir env) (cq_Method r) s)"
| "control_handler env r CExport s =
     replying (\<lambda>(path, bundle). ReplyExport path)
       (handleControlExport (ce_world env) (ce_mkdir env) (ce_listErr env) (ce_writeBundle env)
          (ce_clk env 0) (ce_run_stamp env) s)"
| "control_handler env r COverlay s =
     replying (\<lambda>(name, registration). ReplyOverlay name registration)
       (handleControlOverlay (ce_world env) (ce_clk env) (cq_Method r) (ce_overlay env (cq_Body r)) s)"
| "control_handler env r CHostsAdd s =
     replying ReplyState (handleControlHostsAdd (cq_Method r) (ce_host env (cq_Body r)) s)"
| "control_handler env r CHostsRemove s =
     replying ReplyState (handleControlHostsRemove (cq_Method r) (ce_host env (cq_Body r)) s)"
| "control_handler env r CSecurityMode s =
     replying ReplyState (handleControlSecurityMode (cq_Method r) (ce_security env (cq_Body r)) s)"
| "control_handler env r CSecurityReload s =
     replying ReplyCert
       (handleControlSecurityReload (ce_load_chain env) (ce_parse_cert env) (wd_readFile (ce_world env))
          (ce_has_pem env) s)"
| "control_handler env r CPackSummary s =
     replying (\<lambda>(name, version, n). ReplySummary name version n) (handleControlPackSummary s)"
| "control_handler env r CPackOperations s = replying ReplyOperations (handleControlPackOperations s)"
| "control_handler env r CInject s =
     replying ReplyInjected
       (handleControlInjectLogicalCommand (ce_world env) (ce_clk env) (cq_Method r) (ce_logical env (cq_Body r)) s)"
| "control_handler env r CSessionOpen s =
     replying ReplyOutbound
       (handleControlOutboundSessionOpen (ce_world env) (ce_clk env) (ce_net env) (cq_Method r)
          (ce_outbound env (cq_Body r)) s)"
| "control_handler env r CHeartbeat s =
     replying ReplyOutbound
       (handleControlOutboundHeartbeat (ce_world env) (ce_clk env) (ce_net env) (cq_Method r)
          (ce_outbound env (cq_Body r)) s)"
| "control_handler env r CSend s =
     replying ReplyOutbound
       (handleControlOutboundSend (ce_world env) (ce_clk env) (ce_net env) (cq_Method r)
          (ce_outbound env (cq_Body r)) s)"
| "control_handler env r CSchedulerStart s =
     replying ReplyScheduler (handleControlOutboundSchedulerStart (ce_clk env) (cq_Method r) s)"
| "control_handler env r CSchedulerStop s =
     replying ReplyScheduler (handleControlOutboundSchedulerStop (ce_clk env) (cq_Method r) s)"

definition control_mux :: "'fs control_env \<Rightarrow> control_request \<Rightarrow> Server \<Rightarrow> Server \<times> control_reply http_response" where
  "control_mux env r s =
     (case mux_route control_routes (cq_Method r) (cq_Path r) of
        MuxHandler route \<Rightarrow> control_handler env r route s
      | MuxRedirect url \<Rightarrow> (s, HttpRedirect 301 url)
      | MuxNotFound \<Rightarrow> (s, NotFound))"

definition serveControl ::
    "'fs control_env \<Rightarrow> control_request \<Rightarrow> Server \<Rightarrow> Server \<times> control_reply option http_response" where
  "serveControl env r s = withControlCORS (cq_Method r) (control_mux env r) s"

section \<open>Requests are steps\<close>

lemma fst_replying [simp]: "fst (replying f x) = fst x"
  by (simp add: replying_def)

lemma fst_withControlCORS:
  "fst (withControlCORS method next s) = (if method = ''OPTIONS'' then s else fst (next s))"
  by (auto simp: withControlCORS_def split: prod.split http_response.split)

lemma query_reply_frame [frame_simps]: "fst (query_reply flt s) = s"
  by (simp add: query_reply_def split: sum.split)

lemma read_only_handlers [frame_simps]:
  "fst (handleHealthz s) = s" "fst (handleControlState m s) = s" "fst (handleControlStateHistory s) = s"
  "fst (handleControlLogs s) = s" "fst (handleControlMachineStatus m s) = s"
  "fst (handleControlExport w mk le wr t st s) = s"
  "fst (handleControlEvidenceLatest w srt rd m s) = s" "fst (handleControlSecurityReload lc pc rf hp s) = s"
  "fst (handleControlPackSummary s) = s" "fst (handleControlPackOperations s) = s"
  "fst (handleScenarioUIRoot s) = s" "fst (scenarioUIHandler sub fs p s) = s"
  by (simp_all add: handleHealthz_def handleControlState_def handleControlStateHistory_def handleControlLogs_def
      handleControlMachineStatus_def handleControlExport_def handleControlEvidenceLatest_def
      handleControlSecurityReload_def handleControlPackSummary_def handleControlPackOperations_def
      handleScenarioUIRoot_def scenarioUIHandler_def query_reply_frame Let_def case_prod_beta split: sum.split)

lemma post_handlers [frame_simps]:
  assumes "m \<noteq> ''POST''"
  shows "fst (handleControlAudio clk m ac s) = s" "fst (handleControlOverlay w clk m ov s) = s"
    "fst (handleControlHostsAdd m hc s) = s" "fst (handleControlHostsRemove m hc s) = s"
    "fst (handleControlSecurityMode m sm s) = s" "fst (handleControlInjectLogicalCommand w clk m lc s) = s"
    "fst (handleControlOutboundSessionOpen w clk net m oq s) = s"
    "fst (handleControlOutboundHeartbeat w clk net m oq s) = s"
    "fst (handleControlOutboundSend w clk net m oq s) = s"
    "fst (handleControlOutboundSchedulerStart clk m s) = s"
    "fst (handleControlOutboundSchedulerStop clk m s) = s"
  using assms
  by (simp_all add: handleControlAudio_def handleControlOverlay_def handleControlHostsAdd_def
      handleControlHostsRemove_def handleControlSecurityMode_def handleControlInjectLogicalCommand_def
      handleControlOutboundSessionOpen_def handleControlOutboundHeartbeat_def handleOutboundSendLike_def
      handleControlOutboundSend_def handleControlOutboundSchedulerStart_def handleControlOutboundSchedulerStop_def)

lemma control_handler_step:
  "fst (control_handler env r route s) = s \<or> server_step (ce_world env) s (fst (control_handler env r route s))"
  by (cases route) (simp_all add: frame_simps server_step.intros)

lemma control_routes_clean: "list_all (\<lambda>path. cleanPath path = path) (map fst control_routes)"
  by code_simp

lemma control_routes_reached:
  "list_all (\<lambda>(path, route). map_option snd (mux_find control_routes path) = Some route) control_routes"
  by code_simp

lemma control_routes_no_slash: "list_all (\<lambda>path. \<not> needs_slash control_routes path) (map fst control_routes)"
  by (simp add: list_all_iff needs_slash_def)

lemma control_route_served:
  assumes "(path, route) \<in> set control_routes"
  shows "mux_route control_routes method path = MuxHandler route"
proof -
  have "cleanPath path = path" "\<not> needs_slash control_routes path"
    "map_option snd (mux_find control_routes path) = Some route"
    using assms control_routes_clean control_routes_no_slash control_routes_reached
    by (auto simp: list_all_iff simp del: map_option_eq_Some)
  then show ?thesis by (auto simp: mux_route_def Let_def)
qed


end
