(* ===== verification/Vegm_Main.thy ===== *)
theory Vegm_Main
  imports Control_Api
begin

text \<open>
  Start and shutdown of an instance (\<^verbatim>\<open>Start\<close>, \<^verbatim>\<open>Shutdown\<close> and \<^verbatim>\<open>startControl\<close> of
  \<^verbatim>\<open>src/runtime/server.go\<close>) and the command that runs one (\<^verbatim>\<open>src/cmd/vegm/main.go\<close>): load the
  configuration, build the server, open both listeners, start the scheduler and the session
  engine. \<open>listen\<close> opens a TCP listener and returns its address; serving goroutines are the
  steps of \<open>server_step\<close> and the phases of the session engine.
\<close>

section \<open>Start and shutdown (server.go)\<close>

text \<open>\<open>None\<close> is a panic of the mux.\<close>

definition startControl :: "(string \<Rightarrow> 'ln result) \<Rightarrow> Server \<Rightarrow> 'ln result option" where
  "startControl listen s =
     (case register_paths [] (map fst control_routes) of
        None \<Rightarrow> None
      | Some _ \<Rightarrow> Some (listen (co_Bind (c_Control (sv_cfg s)))))"

definition after_listen :: "clock \<Rightarrow> string option \<Rightarrow> string option \<Rightarrow> Server \<Rightarrow> Server" where
  "after_listen clk wireLn controlLn s =
     (let sched = ob_Scheduler (c_Outbound (sv_cfg s));
          s1 = (if os_Enabled sched \<and> os_AutoStart sched then fst (StartOutboundScheduler clk s) else s)
      in server_log (clk 1) ''info'' ''server'' ''VEGM started''
           [(''wire_addr'', JStr (WireAddr wireLn s1)), (''control_addr'', JStr (ControlAddr controlLn s1)),
            (''trust_mode'', JStr (sc_TrustMode (c_Security (sv_cfg s1)))),
            (''storage_backend'', JStr (rs_StorageBackend (sv_state s1)))] s1)"

definition Start :: "world \<Rightarrow> clock \<Rightarrow> (string \<Rightarrow> string result) \<Rightarrow> Server \<Rightarrow> Server \<times> wire_start" where
  "Start w clk listen s =
     (case startControl listen s of
        None \<Rightarrow> (s, WirePanic)
      | Some (Inl e) \<Rightarrow> (s, WireError e)
      | Some (Inr controlLn) \<Rightarrow>
          (case startWire w listen s of
             WirePanic \<Rightarrow> (s, WirePanic)
           | WireError e \<Rightarrow> (s, WireError e)
           | serving \<Rightarrow>
               let wireLn = (case listen (JoinHostPort (li_Host (c_Listen (sv_cfg s)))
                      (show_int (li_Port (c_Listen (sv_cfg s))))) of Inl _ \<Rightarrow> None | Inr addr \<Rightarrow> Some addr)
               in (after_listen clk wireLn (Some controlLn) s, serving)))"

datatype resource = Control_server | Wire_server | Event_index | Event_file

text \<open>What is closed, in order; the two flags tell which HTTP servers were created. What a
  goroutine logs afterwards no longer reaches the event file.\<close>

definition Shutdown :: "clock \<Rightarrow> bool \<Rightarrow> bool \<Rightarrow> Server \<Rightarrow> Server \<times> resource list" where
  "Shutdown clk controlSrv wireSrv s =
     (close_log (StopOutboundScheduler clk s),
      (if controlSrv then [Control_server] else []) @ (if wireSrv then [Wire_server] else []) @
      [Event_index, Event_file])"

section \<open>The command (main.go)\<close>

datatype main_result = Fatal error | Crashed | Serving Server phase wire_start

definition vegm_main ::
    "world \<Rightarrow> clock \<Rightarrow> (string \<Rightarrow> string result) \<Rightarrow> url_parser \<Rightarrow> (string \<Rightarrow> Config result) \<Rightarrow>
     (string \<Rightarrow> string go_map result) \<Rightarrow> (string \<Rightarrow> log_line list result) \<Rightarrow> (Event \<Rightarrow> bool) \<Rightarrow>
     'db driver \<Rightarrow> (string \<Rightarrow> MessagePack result) \<Rightarrow> (string \<Rightarrow> MessageOverlay result) \<Rightarrow> string \<Rightarrow> main_result" where
  "vegm_main w clk listen pu uc mkdir open_events oversize drv up uo configPath =
     (if configPath = [] then Fatal ''-config is required''
      else case LoadConfig (wd_readFile w) uc pu Map.empty configPath of
        (reg, Inl e) \<Rightarrow> Fatal e
      | (reg, Inr cfg) \<Rightarrow>
          (case NewServer w mkdir open_events oversize drv up uo (clk 0) reg cfg of
             Inl e \<Rightarrow> Fatal e
           | Inr s \<Rightarrow>
               (case Start w (\<lambda>i. clk (1 + i)) listen s of
                  (s1, WirePanic) \<Rightarrow> Crashed
                | (s1, WireError e) \<Rightarrow> Fatal e
                | (s1, serving) \<Rightarrow> Serving s1 (StartSessionEngine s1) serving)))"

section \<open>Properties\<close>

lemma control_routes_registered: "startControl listen s = Some (listen (co_Bind (c_Control (sv_cfg s))))"
proof -
  have "register_paths [] (map fst control_routes) \<noteq> None" by code_simp
  then show ?thesis by (auto simp: startControl_def)
qed

lemma NewServer_fresh:
  assumes "NewServer w mkdir oe os drv up uo now reg cfg = Inr s"
  shows "sv_cfg s = cfg" "sv_schedulerCancel s = None"
    "\<not> ss_Running (rs_OutboundScheduler (sv_state s))"
  using assms
  by (auto simp: NewServer_def Let_def initial_state_def initial_scheduler_def split: sum.splits)

lemma LoadConfig_ok:
  assumes "LoadConfig rf uc pu reg path = (reg', Inr cfg)"
  shows "config_ok pu cfg"
proof -
  obtain cfg0 where "ValidateConfig pu reg (Some cfg0) = (reg', Inr cfg)"
    using assms by (auto simp: LoadConfig_def split: sum.splits)
  then have "snd (ValidateConfig pu reg (Some cfg0)) = Inr cfg" by simp
  then show ?thesis
    using completed_defaults_filled [of cfg0]
    by (auto simp: ValidateConfig_accepts config_ok_split checks_ok_def validateEGMEndpoint_Inr)
qed

lemma after_listen_inv: "server_inv s \<Longrightarrow> server_inv (after_listen clk wl cl s)"
  using StartOutboundScheduler_inv [of s clk]
  by (simp add: after_listen_def Let_def core_inv [OF core_log(1)])

lemma after_listen_cfg [frame_simps]: "sv_cfg (after_listen clk wl cl s) = sv_cfg s"
  by (simp add: after_listen_def StartOutboundScheduler_def Let_def frame_simps)

lemma after_listen_running:
  assumes "sv_schedulerCancel s = None" "\<not> ss_Running (rs_OutboundScheduler (sv_state s))"
  shows "ss_Running (rs_OutboundScheduler (sv_state (after_listen clk wl cl s))) =
    (os_Enabled (ob_Scheduler (c_Outbound (sv_cfg s))) \<and> os_AutoStart (ob_Scheduler (c_Outbound (sv_cfg s))) \<and>
     ob_DefaultTargetURL (c_Outbound (sv_cfg s)) \<noteq> [])"
  using assms by (auto simp: after_listen_def StartOutboundScheduler_def Let_def frame_simps)

definition serves :: "wire_start \<Rightarrow> bool" where
  "serves st = (case st of WirePanic \<Rightarrow> False | WireError _ \<Rightarrow> False | _ \<Rightarrow> True)"

lemma Start_serving:
  assumes "Start w clk listen s = (s1, serving)" "serves serving"
  shows "startWire w listen s = serving" "\<exists>wl cl. s1 = after_listen clk wl cl s"
  using assms
  by (auto simp: Start_def control_routes_registered Let_def serves_def split: sum.splits wire_start.splits)

lemma startWire_plain:
  "startWire w listen s = WirePlain ps \<Longrightarrow> sc_TrustMode (c_Security (sv_cfg s)) = ''plaintext_lab''"
  "startWire w listen s = WireTLS ps tls \<Longrightarrow> sc_TrustMode (c_Security (sv_cfg s)) \<noteq> ''plaintext_lab''"
  by (auto simp: startWire_def split: option.splits sum.splits if_splits)

lemma vegm_main_Serving:
  assumes "vegm_main w clk listen pu uc mkdir oe os drv up uo path = Serving s ph wire"
  obtains reg cfg s0 wl cl where "LoadConfig (wd_readFile w) uc pu Map.empty path = (reg, Inr cfg)"
    "NewServer w mkdir oe os drv up uo (clk 0) reg cfg = Inr s0"
    "s = after_listen (\<lambda>i. clk (1 + i)) wl cl s0" "startWire w listen s0 = wire" "ph = StartSessionEngine s"
    "serves wire"
proof -
  from assms obtain reg cfg s0 where 1: "LoadConfig (wd_readFile w) uc pu Map.empty path = (reg, Inr cfg)"
      "NewServer w mkdir oe os drv up uo (clk 0) reg cfg = Inr s0"
      and 2: "Start w (\<lambda>i. clk (1 + i)) listen s0 = (s, wire)" "ph = StartSessionEngine s"
      "serves wire"
    by (auto simp: vegm_main_def serves_def split: if_splits prod.splits sum.splits wire_start.splits)
  from Start_serving [OF 2(1,3)] obtain wl cl where "startWire w listen s0 = wire"
      "s = after_listen (\<lambda>i. clk (1 + i)) wl cl s0" by auto
  with 1 2 that show ?thesis by blast
qed

text \<open>
  C19: when the command serves, everything it stands on is in order: the configuration is
  complete and consistent, the server satisfies its invariant, the wire listener is plaintext
  exactly in \<open>plaintext_lab\<close>, the session engine is connecting exactly when it is enabled with
  auto-start, and the scheduler is running exactly when it is enabled with auto-start and has a
  target.
\<close>

theorem vegm_main_serving:
  "case vegm_main w clk listen pu uc mkdir oe os drv up uo path of
     Serving s ph wire \<Rightarrow>
       config_ok pu (sv_cfg s) \<and> server_inv s \<and>
       (\<exists>ps. wire = WirePlain ps) = (sc_TrustMode (c_Security (sv_cfg s)) = ''plaintext_lab'') \<and>
       ph = (if se_Enabled (c_SessionEngine (sv_cfg s)) \<and> se_AutoStart (c_SessionEngine (sv_cfg s))
             then Connecting else Stopped) \<and>
       ss_Running (rs_OutboundScheduler (sv_state s)) =
         (os_Enabled (ob_Scheduler (c_Outbound (sv_cfg s))) \<and> os_AutoStart (ob_Scheduler (c_Outbound (sv_cfg s))) \<and>
          ob_DefaultTargetURL (c_Outbound (sv_cfg s)) \<noteq> [])
   | _ \<Rightarrow> True"
proof (cases "vegm_main w clk listen pu uc mkdir oe os drv up uo path")
  case (Serving s ph wire)
  then obtain reg cfg s0 wl cl where load: "LoadConfig (wd_readFile w) uc pu Map.empty path = (reg, Inr cfg)"
    and new: "NewServer w mkdir oe os drv up uo (clk 0) reg cfg = Inr s0"
    and s: "s = after_listen (\<lambda>i. clk (1 + i)) wl cl s0" and wire: "startWire w listen s0 = wire"
      "serves wire" and ph: "ph = StartSessionEngine s"
    by (rule vegm_main_Serving)
  note fresh = NewServer_fresh [OF new]
  have "(\<exists>ps. wire = WirePlain ps) = (sc_TrustMode (c_Security cfg) = ''plaintext_lab'')"
    using wire startWire_plain [of w listen s0] fresh(1) by (cases wire) (auto simp: serves_def)
  moreover have "server_inv s" using NewServer_inv [OF new] by (simp add: s after_listen_inv)
  ultimately show ?thesis
    using LoadConfig_ok [OF load] after_listen_running [OF fresh(2,3)]
    by (simp add: Serving s ph frame_simps fresh(1) StartSessionEngine_def)
qed simp_all

lemma StopOutboundScheduler_stops:
  assumes "server_inv s"
  shows "live_contexts (sv_contexts (StopOutboundScheduler clk s)) = {}"
    "\<not> ss_Running (rs_OutboundScheduler (sv_state (StopOutboundScheduler clk s)))"
proof -
  have "sv_schedulerCancel (StopOutboundScheduler clk s) = None"
    by (simp add: StopOutboundScheduler_def Let_def frame_simps split: option.split)
  with StopOutboundScheduler_inv [OF assms, of clk]
  show "live_contexts (sv_contexts (StopOutboundScheduler clk s)) = {}"
    "\<not> ss_Running (rs_OutboundScheduler (sv_state (StopOutboundScheduler clk s)))"
    by (auto simp: server_inv_def scheduler_inv_def)
qed



end
