(* ===== verification/Runtime_Contract.thy ===== *)
theory Runtime_Contract
  imports Runtime
begin

text \<open>
  What a running instance promises, seen from outside: which hosts it admits, its trust mode,
  whether its scheduler runs, and who it is. The promise is an abstract transition of this view per
  operation; the operations of the instance refine it, and what follows from it alone, above all
  that traffic never changes who is admitted, is proved once, in a locale. A second part shows
  that the numbers and enumerated fields of the state stay in their types.
\<close>

section \<open>Operations\<close>

datatype server_op =
    OpWire clock wire_request
  | OpInject clock string "logicalCommandRequest decoded"
  | OpAudio clock string "audioControlRequest decoded"
  | OpOverlay clock string "MessageOverlay decoded"
  | OpHostsAdd string "hostControlRequest decoded"
  | OpHostsRemove string "hostControlRequest decoded"
  | OpSecurityMode string "securityModeRequest decoded"
  | OpSend clock network string "outboundRequest decoded"
  | OpSessionOpen clock network string "outboundRequest decoded"
  | OpHeartbeat clock network string "outboundRequest decoded"
  | OpSchedulerStart clock string
  | OpSchedulerStop clock string
  | OpTickSend clock network outboundRequest
  | OpTickRecord clock string "outboundResult result" OutboundSchedulerConfig
  | OpEngine engine_input phase
  | OpAutoStart clock
  | OpShutdown clock

fun run_server :: "world \<Rightarrow> server_op \<Rightarrow> Server \<Rightarrow> Server" where
  "run_server w (OpWire clk r) s = fst (handleWire w clk r s)"
| "run_server w (OpInject clk m lc) s = fst (handleControlInjectLogicalCommand w clk m lc s)"
| "run_server w (OpAudio clk m ac) s = fst (handleControlAudio clk m ac s)"
| "run_server w (OpOverlay clk m ov) s = fst (handleControlOverlay w clk m ov s)"
| "run_server w (OpHostsAdd m hc) s = fst (handleControlHostsAdd m hc s)"
| "run_server w (OpHostsRemove m hc) s = fst (handleControlHostsRemove m hc s)"
| "run_server w (OpSecurityMode m sm) s = fst (handleControlSecurityMode m sm s)"
| "run_server w (OpSend clk net m oq) s = fst (handleControlOutboundSend w clk net m oq s)"
| "run_server w (OpSessionOpen clk net m oq) s = fst (handleControlOutboundSessionOpen w clk net m oq s)"
| "run_server w (OpHeartbeat clk net m oq) s = fst (handleControlOutboundHeartbeat w clk net m oq s)"
| "run_server w (OpSchedulerStart clk m) s = fst (handleControlOutboundSchedulerStart clk m s)"
| "run_server w (OpSchedulerStop clk m) s = fst (handleControlOutboundSchedulerStop clk m s)"
| "run_server w (OpTickSend clk net oq) s = fst (SendOutbound w clk net oq s)"
| "run_server w (OpTickRecord clk op answer cfg) s = updateSchedulerAfterResult clk op answer cfg s"
| "run_server w (OpEngine i ph) s = snd (sessionEngineLoop_step w i (ph, s))"
| "run_server w (OpAutoStart clk) s = fst (StartOutboundScheduler clk s)"
| "run_server w (OpShutdown clk) s = close_log (StopOutboundScheduler clk s)"

lemma run_server_step: "server_step w s (run_server w op s)"
  by (cases op) (simp_all add: server_step.intros)

lemma server_step_run: "server_step w s s' \<Longrightarrow> \<exists>op. s' = run_server w op s"
  by (erule server_stepE) (metis run_server.simps)+

lemma run_server_steps: "(server_step w)\<^sup>*\<^sup>* s (fold (run_server w) ops s)"
  by (induction ops arbitrary: s) (auto intro: converse_rtranclp_into_rtranclp run_server_step)

section \<open>The promise\<close>

record egm_view =
  eg_identity :: "string \<times> string"
  eg_open :: bool
  eg_registered :: "RegisteredHost list"
  eg_allowed :: "string set"
  eg_trust :: string
  eg_running :: bool

definition admits :: "egm_view \<Rightarrow> string \<Rightarrow> bool" where
  "admits v h \<longleftrightarrow> eg_open v \<or>
     (if eg_registered v \<noteq> [] then registered_host_enabled (eg_registered v) h else h \<in> eg_allowed v)"

text \<open>A \<open>POST\<close> with a host identifier.\<close>

definition names_host :: "string \<Rightarrow> hostControlRequest decoded \<Rightarrow> bool" where
  "names_host m hc \<longleftrightarrow> m = ''POST'' \<and> snd hc = None \<and> hc_HostID (fst hc) \<noteq> []"

fun egm_spec :: "server_op \<Rightarrow> egm_view \<Rightarrow> egm_view \<Rightarrow> bool" where
  "egm_spec (OpHostsAdd m hc) v v' \<longleftrightarrow>
     v' = (if names_host m hc then v\<lparr>eg_allowed := insert (hc_HostID (fst hc)) (eg_allowed v)\<rparr> else v)"
| "egm_spec (OpHostsRemove m hc) v v' \<longleftrightarrow>
     v' = (if names_host m hc then v\<lparr>eg_allowed := eg_allowed v - {hc_HostID (fst hc)}\<rparr> else v)"
| "egm_spec (OpSecurityMode m sm) v v' \<longleftrightarrow>
     v' = (if m = ''POST'' \<and> snd sm = None \<and> sm_TrustMode (fst sm) \<noteq> []
           then v\<lparr>eg_trust := sm_TrustMode (fst sm)\<rparr> else v)"
| "egm_spec (OpOverlay clk m ov) v v' \<longleftrightarrow> v' = v \<or> m = ''POST'' \<and> (\<exists>open_mode. v' = v\<lparr>eg_open := open_mode\<rparr>)"
| "egm_spec (OpSchedulerStart clk m) v v' \<longleftrightarrow> v' = v \<or> m = ''POST'' \<and> v' = v\<lparr>eg_running := True\<rparr>"
| "egm_spec (OpSchedulerStop clk m) v v' \<longleftrightarrow> v' = (if m = ''POST'' then v\<lparr>eg_running := False\<rparr> else v)"
| "egm_spec (OpAutoStart clk) v v' \<longleftrightarrow> v' = v \<or> v' = v\<lparr>eg_running := True\<rparr>"
| "egm_spec (OpShutdown clk) v v' \<longleftrightarrow> v' = v\<lparr>eg_running := False\<rparr>"
| "egm_spec _ v v' \<longleftrightarrow> v' = v"

text \<open>The operations with authority over the admission of a host, and over the trust mode.\<close>

fun rules_on :: "string \<Rightarrow> server_op \<Rightarrow> bool" where
  "rules_on h (OpHostsAdd m hc) \<longleftrightarrow> names_host m hc \<and> hc_HostID (fst hc) = h"
| "rules_on h (OpHostsRemove m hc) \<longleftrightarrow> names_host m hc \<and> hc_HostID (fst hc) = h"
| "rules_on h (OpOverlay clk m ov) \<longleftrightarrow> m = ''POST''"
| "rules_on h _ \<longleftrightarrow> False"

fun sets_trust :: "server_op \<Rightarrow> string option" where
  "sets_trust (OpSecurityMode m sm) =
     (if m = ''POST'' \<and> snd sm = None \<and> sm_TrustMode (fst sm) \<noteq> [] then Some (sm_TrustMode (fst sm)) else None)"
| "sets_trust _ = None"

definition last_trust :: "server_op list \<Rightarrow> string \<Rightarrow> string" where
  "last_trust ops t = (case List.map_filter sets_trust ops of [] \<Rightarrow> t | ts \<Rightarrow> last ts)"

locale egm_contract =
  fixes run :: "server_op \<Rightarrow> 's \<Rightarrow> 's"
    and inv :: "'s \<Rightarrow> bool"
    and view :: "'s \<Rightarrow> egm_view"
  assumes keeps_inv: "inv s \<Longrightarrow> inv (run op s)"
    and refines: "inv s \<Longrightarrow> egm_spec op (view s) (view (run op s))"
begin

lemma keeps_inv_fold: "inv s \<Longrightarrow> inv (fold run ops s)"
  by (induction ops arbitrary: s) (simp_all add: keeps_inv)

lemma admission_step:
  assumes "inv s" "\<not> rules_on h op"
  shows "admits (view (run op s)) h = admits (view s) h"
  using refines [OF assms(1), of op] assms(2) by (cases op) (auto simp: admits_def)

lemma admission_steps:
  assumes "inv s" "list_all (\<lambda>op. \<not> rules_on h op) ops"
  shows "admits (view (fold run ops s)) h = admits (view s) h"
  using assms by (induction ops arbitrary: s) (simp_all add: keeps_inv admission_step)

lemma trust_step:
  assumes "inv s"
  shows "eg_trust (view (run op s)) = (case sets_trust op of None \<Rightarrow> eg_trust (view s) | Some t \<Rightarrow> t)"
  using refines [OF assms, of op] by (cases op) auto

lemma trust_steps:
  assumes "inv s"
  shows "eg_trust (view (fold run ops s)) = last_trust ops (eg_trust (view s))"
  using assms
proof (induction ops arbitrary: s)
  case (Cons op ops)
  then show ?case
    using trust_step [OF Cons.prems, of op]
    by (cases "sets_trust op") (auto simp: keeps_inv last_trust_def List.map_filter_simps split: list.split)
qed (simp add: last_trust_def List.map_filter_simps)

lemma identity_steps:
  assumes "inv s"
  shows "eg_identity (view (fold run ops s)) = eg_identity (view s) \<and>
    eg_registered (view (fold run ops s)) = eg_registered (view s)"
  using assms
proof (induction ops arbitrary: s)
  case (Cons op ops)
  have "eg_identity (view (run op s)) = eg_identity (view s) \<and> eg_registered (view (run op s)) = eg_registered (view s)"
    using refines [OF Cons.prems, of op] by (cases op) auto
  with Cons show ?case by (simp add: keeps_inv)
qed simp

end
section \<open>The view of the instance\<close>

definition egm_view_of :: "Server \<Rightarrow> egm_view" where
  "egm_view_of s =
     \<lparr>eg_identity = (rs_InstanceID (sv_state s), rs_EGMID (sv_state s)),
      eg_open = (rs_RegistrationState (sv_state s) = ''open''),
      eg_registered = rs_RegisteredHosts (sv_state s),
      eg_allowed = set (rs_AllowedHostIDs (sv_state s)),
      eg_trust = rs_TrustMode (sv_state s),
      eg_running = ss_Running (rs_OutboundScheduler (sv_state s))\<rparr>"

lemma view_admits: "server_inv s \<Longrightarrow> admits (egm_view_of s) h = hostAllowedLocked s h"
  by (auto simp: admits_def egm_view_of_def server_inv_def hostAllowedLocked_def registration_state_def)

lemma stable_view: "stable s' = stable s \<Longrightarrow> egm_view_of s' = egm_view_of s"
  by (simp add: stable_def egm_view_of_def)

lemma core_view: "core s' = core s \<Longrightarrow> egm_view_of s' = egm_view_of s"
  by (rule stable_view) (simp add: core_def)

lemma hosts_refine:
  "egm_spec (OpHostsAdd m hc) (egm_view_of s) (egm_view_of (fst (handleControlHostsAdd m hc s)))"
  "egm_spec (OpHostsRemove m hc) (egm_view_of s) (egm_view_of (fst (handleControlHostsRemove m hc s)))"
  by (auto simp: handleControlHostsAdd_def handleControlHostsRemove_def names_host_def egm_view_of_def Let_def
      frame_simps)

lemma security_refines:
  "egm_spec (OpSecurityMode m sm) (egm_view_of s) (egm_view_of (fst (handleControlSecurityMode m sm s)))"
  by (simp add: handleControlSecurityMode_def egm_view_of_def Let_def frame_simps)

lemma overlay_refines:
  "egm_spec (OpOverlay clk m ov) (egm_view_of s) (egm_view_of (fst (handleControlOverlay w clk m ov s)))"
proof (cases "m = ''POST'' \<and> snd ov = None")
  case True
  then show ?thesis
    by (cases "ApplyOverlay (wd_typeErr w) (Some (sv_pack s)) (Some (fst ov))")
      (auto simp: handleControlOverlay_def egm_view_of_def Let_def frame_simps)
next
  case False
  then show ?thesis by (auto simp: handleControlOverlay_def split: option.split)
qed

lemma scheduler_start_refines:
  "egm_spec (OpAutoStart clk) (egm_view_of s) (egm_view_of (fst (StartOutboundScheduler clk s)))"
  by (simp add: StartOutboundScheduler_def egm_view_of_def Let_def frame_simps)

lemma scheduler_stop_refines:
  assumes "server_inv s"
  shows "egm_view_of (StopOutboundScheduler clk s) = (egm_view_of s)\<lparr>eg_running := False\<rparr>"
  using assms
  by (simp add: StopOutboundScheduler_def egm_view_of_def Let_def frame_simps server_inv_def scheduler_inv_def
      split: option.split)

lemma scheduler_handlers_refine:
  assumes "server_inv s"
  shows "egm_spec (OpSchedulerStart clk m) (egm_view_of s) (egm_view_of (fst (handleControlOutboundSchedulerStart clk m s)))"
    "egm_spec (OpSchedulerStop clk m) (egm_view_of s) (egm_view_of (fst (handleControlOutboundSchedulerStop clk m s)))"
  using scheduler_start_refines [of clk s] scheduler_stop_refines [OF assms, of clk]
  by (auto simp: handleControlOutboundSchedulerStart_def handleControlOutboundSchedulerStop_def case_prod_beta Let_def
      split: sum.split)

lemma server_refines:
  assumes "server_inv s"
  shows "egm_spec op (egm_view_of s) (egm_view_of (run_server w op s))"
proof (cases op)
  case OpOverlay then show ?thesis using overlay_refines by simp
next
  case OpHostsAdd then show ?thesis using hosts_refine(1) by simp
next
  case OpHostsRemove then show ?thesis using hosts_refine(2) by simp
next
  case OpSecurityMode then show ?thesis using security_refines by simp
next
  case OpSchedulerStart then show ?thesis using scheduler_handlers_refine(1) [OF assms] by simp
next
  case OpSchedulerStop then show ?thesis using scheduler_handlers_refine(2) [OF assms] by simp
next
  case OpTickRecord then show ?thesis by (simp add: stable_view [OF stable_updateScheduler])
next
  case OpAutoStart then show ?thesis using scheduler_start_refines by simp
next
  case (OpShutdown clk)
  then show ?thesis using scheduler_stop_refines [OF assms] core_view [OF core_close_log] by simp
qed (simp_all add: core_view [OF core_handleWire] core_view [OF core_inject] core_view [OF core_handleControlAudio]
    core_view [OF core_outbound_handlers(1)] core_view [OF core_outbound_wrappers(1)]
    core_view [OF core_outbound_wrappers(2)] core_view [OF SendOutbound_core] core_view [OF core_engine_step])

lemma run_server_inv: "server_inv s \<Longrightarrow> server_inv (run_server w op s)"
  by (rule server_step_inv [OF run_server_step])

interpretation instance_contract: egm_contract "run_server w" server_inv egm_view_of for w
  by unfold_locales (simp_all add: run_server_inv server_refines)

text \<open>
  C3: every operation of the instance refines the abstract promise: requests on the wire, simulated
  commands, outbound messages, scheduler ticks and session-engine phases leave identity, admission,
  trust mode and the running of the scheduler exactly as they are; each administrative operation
  changes only the part it is for, and in the way it is asked.
\<close>

theorem run_server_refines:
  assumes "server_inv s"
  shows "egm_spec op (egm_view_of s) (egm_view_of (run_server w op s))"
  using assms by (rule server_refines)

theorem run_server_refines_witness:
  "egm_view_of (run_server sample_world (OpSecurityMode ''POST'' (\<lparr>sm_TrustMode = ''strict_mtls''\<rparr>, None)) restricted_server) =
     (egm_view_of restricted_server)\<lparr>eg_trust := ''strict_mtls''\<rparr>"
  using run_server_refines [OF restricted_server_inv,
      of "OpSecurityMode ''POST'' (\<lparr>sm_TrustMode = ''strict_mtls''\<rparr>, None)" sample_world] by simp

text \<open>
  C4: who is admitted is decided by administration alone. From any state an instance has reached,
  after any sequence of operations, among them any traffic on the wire, a host is admitted
  exactly if it was before, unless the sequence adds or removes that very host or applies an
  overlay; the trust mode shown is the last one set, and the identity never changes.
\<close>

theorem admission_authority:
  assumes "NewServer w mkdir open_events oversize drv up uo now reg cfg = Inr s0" "(server_step w)\<^sup>*\<^sup>* s0 s"
    and "list_all (\<lambda>op. \<not> rules_on h op) ops"
  shows "hostAllowedLocked (fold (run_server w) ops s) h = hostAllowedLocked s h \<and>
    rs_TrustMode (sv_state (fold (run_server w) ops s)) = last_trust ops (rs_TrustMode (sv_state s)) \<and>
    rs_InstanceID (sv_state (fold (run_server w) ops s)) = rs_InstanceID (sv_state s) \<and>
    rs_EGMID (sv_state (fold (run_server w) ops s)) = rs_EGMID (sv_state s)"
proof -
  have inv: "server_inv s" by (rule reachable_server_inv [OF assms(1,2)])
  note inv' = instance_contract.keeps_inv_fold [OF inv, of w ops]
  have "hostAllowedLocked (fold (run_server w) ops s) h = hostAllowedLocked s h"
    using instance_contract.admission_steps [OF inv assms(3), of w] by (simp add: view_admits inv inv')
  with instance_contract.trust_steps [OF inv, of w ops] instance_contract.identity_steps [OF inv, of w ops]
  show ?thesis by (simp add: egm_view_of_def)
qed

definition traffic :: "server_op list" where
  "traffic = [OpSchedulerStop (\<lambda>i. 4) ''POST'', OpSecurityMode ''POST'' (\<lparr>sm_TrustMode = ''strict_mtls''\<rparr>, None),
     OpHostsRemove ''POST'' (\<lparr>hc_HostID = ''H2''\<rparr>, None)]"

theorem admission_authority_witness:
  "hostAllowedLocked (fold (run_server file_world) traffic running_server) ''H1'' =
     hostAllowedLocked running_server ''H1'' \<and>
   rs_TrustMode (sv_state (fold (run_server file_world) traffic running_server)) = ''strict_mtls''"
proof (rule running_server_reachable)
  fix s0
  assume s0: "started_server = Inr s0" "(server_step file_world)\<^sup>*\<^sup>* s0 running_server"
  have "list_all (\<lambda>op. \<not> rules_on ''H1'' op) traffic" by (simp add: traffic_def)
  from admission_authority [OF s0(1) [unfolded started_server_def] s0(2) this]
  show ?thesis by (simp add: traffic_def last_trust_def List.map_filter_simps)
qed

section \<open>Types of the state\<close>

text \<open>The counters are 64-bit integers, the registration state and the storage backend are one of
  their two values each.\<close>

definition state_typed :: "RuntimeState \<Rightarrow> bool" where
  "state_typed st \<longleftrightarrow>
     (case counters st of (nf, no, nh) \<Rightarrow> int64_range nf \<and> int64_range no \<and> int64_range nh) \<and>
     rs_RegistrationState st \<in> {''open'', ''restricted''} \<and> rs_StorageBackend st \<in> {''noop'', ''sqlite''}"

lemma core_typed: "core s' = core s \<Longrightarrow> state_typed (sv_state s') = state_typed (sv_state s)"
  by (simp add: core_def stable_def state_typed_def)

lemma note_typed:
  "state_typed (st\<lparr>rs_OutboundScheduler := note_attempt t op (rs_OutboundScheduler st)\<rparr>)" if "state_typed st"
  using that wrap64_range by (auto simp: state_typed_def counters_def note_attempt_def Let_def)

lemma updateScheduler_typed:
  assumes "state_typed (sv_state s)"
  shows "state_typed (sv_state (updateSchedulerAfterResult clk op answer cfg s))"
proof -
  have zero: "int64_range 0" by (simp add: int64_range_def)
  show ?thesis
    using note_typed [OF assms, of "clk 0" op] wrap64_range zero
    by (auto simp: updateSchedulerAfterResult_def Let_def frame_simps note_success_def note_failure_def
        state_typed_def counters_def)
qed

lemma NewServer_typed:
  assumes "NewServer w mkdir oe os drv up uo now reg cfg = Inr s"
  shows "state_typed (sv_state s)"
  using assms
  by (auto simp: NewServer_def Let_def initial_state_def initial_scheduler_def state_typed_def counters_def
      int64_range_def registration_state_def NewIndex_def split: sum.splits if_splits)

lemma typed_frame:
  "state_typed (sv_state (fst (handleControlHostsAdd m hc s))) = state_typed (sv_state s)"
  "state_typed (sv_state (fst (handleControlHostsRemove m hc s))) = state_typed (sv_state s)"
  "state_typed (sv_state (fst (handleControlSecurityMode m sm s))) = state_typed (sv_state s)"
  "state_typed (sv_state (fst (StartOutboundScheduler clk s))) = state_typed (sv_state s)"
  "state_typed (sv_state (StopOutboundScheduler clk s)) = state_typed (sv_state s)"
  by (simp_all add: handleControlHostsAdd_def handleControlHostsRemove_def handleControlSecurityMode_def
      StartOutboundScheduler_def StopOutboundScheduler_def Let_def frame_simps state_typed_def counters_def
      split: option.split)

lemma overlay_typed: "state_typed (sv_state s) \<Longrightarrow> state_typed (sv_state (fst (handleControlOverlay w clk m ov s)))"
  by (auto simp: handleControlOverlay_def Let_def frame_simps state_typed_def counters_def registration_state_def
      split: option.split sum.split)

lemma scheduler_handlers_typed:
  "state_typed (sv_state (fst (handleControlOutboundSchedulerStart clk m s))) = state_typed (sv_state s)"
  "state_typed (sv_state (fst (handleControlOutboundSchedulerStop clk m s))) = state_typed (sv_state s)"
  using typed_frame(4,5) [of clk s]
  by (simp_all add: handleControlOutboundSchedulerStart_def handleControlOutboundSchedulerStop_def case_prod_beta
      Let_def split: sum.split)

lemma run_server_typed:
  assumes "state_typed (sv_state s)"
  shows "state_typed (sv_state (run_server w op s))"
  using assms
  by (cases op)
    (simp_all add: typed_frame scheduler_handlers_typed overlay_typed updateScheduler_typed
      core_typed [OF core_close_log] core_typed [OF core_handleWire] core_typed [OF core_inject]
      core_typed [OF core_handleControlAudio] core_typed [OF core_outbound_handlers(1)]
      core_typed [OF core_outbound_wrappers(1)] core_typed [OF core_outbound_wrappers(2)]
      core_typed [OF SendOutbound_core] core_typed [OF core_engine_step])

interpretation typed: step_system "started w drv up uo" "server_step w" "\<lambda>s. state_typed (sv_state s)" for w drv up uo
  by unfold_locales (auto simp: started_def dest!: server_step_run intro: NewServer_typed run_server_typed)



end
