(* ===== verification/Host_Slices.thy ===== *)
theory Host_Slices
  imports Control
begin

text \<open>
  The admission list as the Go slice it is (\<^verbatim>\<open>handleControlHostsAdd\<close> and
  \<^verbatim>\<open>handleControlHostsRemove\<close> of \<^verbatim>\<open>src/runtime/control_restore.go\<close>). The heap is a list of backing arrays, a
  slice a reference to one of them with a length and a capacity. Copying the state, as every
  handler does before it encodes its reply outside the mutex, copies the slice header and shares the
  array. The theory shows that the in-place filter computes the list that the value model keeps,
  and what it does to a copy made before.
\<close>

section \<open>Slices\<close>

type_synonym heap = "string list list"

record slice =
  sl_array :: nat
  sl_len :: nat
  sl_cap :: nat

definition elems :: "heap \<Rightarrow> slice \<Rightarrow> string list" where
  "elems h sl = take (sl_len sl) (h ! sl_array sl)"

definition slice_ok :: "heap \<Rightarrow> slice \<Rightarrow> bool" where
  "slice_ok h sl \<longleftrightarrow> sl_array sl < length h \<and> sl_len sl \<le> sl_cap sl \<and> sl_cap sl = length (h ! sl_array sl)"

text \<open>\<open>append\<close> writes into spare capacity, or else copies into a new array of \<open>grow n\<close> elements.\<close>

definition go_append :: "(nat \<Rightarrow> nat) \<Rightarrow> heap \<Rightarrow> slice \<Rightarrow> string \<Rightarrow> heap \<times> slice" where
  "go_append grow h sl x =
     (if sl_len sl < sl_cap sl
      then (h[sl_array sl := (h ! sl_array sl)[sl_len sl := x]], sl\<lparr>sl_len := Suc (sl_len sl)\<rparr>)
      else let cap = max (Suc (sl_len sl)) (grow (sl_len sl))
           in (h @ [elems h sl @ x # replicate (cap - Suc (sl_len sl)) []],
               \<lparr>sl_array = length h, sl_len = Suc (sl_len sl), sl_cap = cap\<rparr>))"

section \<open>The two updates (control\_restore.go)\<close>

definition hosts_add :: "(nat \<Rightarrow> nat) \<Rightarrow> string \<Rightarrow> heap \<Rightarrow> slice \<Rightarrow> heap \<times> slice" where
  "hosts_add grow host h sl = go_append grow h sl host"

text \<open>The range clause evaluates the slice once and reads each element from the array when its
  turn comes.\<close>

fun remove_loop :: "(nat \<Rightarrow> nat) \<Rightarrow> string \<Rightarrow> slice \<Rightarrow> nat list \<Rightarrow> slice \<Rightarrow> heap \<Rightarrow> heap \<times> slice" where
  "remove_loop grow host rng [] out h = (h, out)"
| "remove_loop grow host rng (i # is) out h =
     (let x = (h ! sl_array rng) ! i
      in if x \<noteq> host
         then (case go_append grow h out x of (h', out') \<Rightarrow> remove_loop grow host rng is out' h')
         else remove_loop grow host rng is out h)"

definition hosts_remove :: "(nat \<Rightarrow> nat) \<Rightarrow> string \<Rightarrow> heap \<Rightarrow> slice \<Rightarrow> heap \<times> slice" where
  "hosts_remove grow host h sl = remove_loop grow host sl [0..<sl_len sl] (sl\<lparr>sl_len := 0\<rparr>) h"

section \<open>What they compute\<close>

lemma hosts_add_elems:
  assumes "slice_ok h sl" "hosts_add grow host h sl = (h', sl')"
  shows "slice_ok h' sl' \<and> elems h' sl' = elems h sl @ [host]"
proof (cases "sl_len sl < sl_cap sl")
  case True
  with assms show ?thesis
    by (auto simp: hosts_add_def go_append_def slice_ok_def elems_def take_Suc_conv_app_nth)
next
  case False
  with assms show ?thesis
    by (auto simp: hosts_add_def go_append_def slice_ok_def elems_def Let_def)
qed

text \<open>The array while the loop runs: what was kept so far, and behind it the old elements.\<close>

definition kept :: "string \<Rightarrow> string list \<Rightarrow> nat \<Rightarrow> string list" where
  "kept host xs i = filter (\<lambda>x. x \<noteq> host) (take i xs)"

definition partly_filtered :: "string \<Rightarrow> string list \<Rightarrow> nat \<Rightarrow> string list" where
  "partly_filtered host xs i = kept host xs i @ drop (length (kept host xs i)) xs"

lemma kept_length: "length (kept host xs i) \<le> i"
  unfolding kept_def by (rule le_trans [OF length_filter_le]) simp

lemma kept_Suc:
  "i < length xs \<Longrightarrow> kept host xs (Suc i) = kept host xs i @ (if xs ! i \<noteq> host then [xs ! i] else [])"
  by (simp add: kept_def take_Suc_conv_app_nth)

lemma partly_filtered_nth: "i < length xs \<Longrightarrow> partly_filtered host xs i ! i = xs ! i"
  using kept_length [of host xs i] by (simp add: partly_filtered_def nth_append)

lemma partly_filtered_write:
  assumes "i < length xs" "xs ! i \<noteq> host"
  shows "(partly_filtered host xs i)[length (kept host xs i) := xs ! i] = partly_filtered host xs (Suc i)"
proof -
  have "length (kept host xs i) < length xs" using assms(1) kept_length [of host xs i] by simp
  from Cons_nth_drop_Suc [OF this, symmetric] assms show ?thesis
    by (simp add: partly_filtered_def kept_Suc list_update_append)
qed

lemma partly_filtered_length: "i \<le> length xs \<Longrightarrow> length (partly_filtered host xs i) = length xs"
  using kept_length [of host xs i] by (simp add: partly_filtered_def)

lemma remove_loop_array:
  assumes "sl_array sl < length h" "i \<le> n" "n \<le> length xs" "sl_cap sl = length xs"
  shows "remove_loop grow host sl [i..<n] (sl\<lparr>sl_len := length (kept host xs i)\<rparr>)
      (h[sl_array sl := partly_filtered host xs i]) =
    (h[sl_array sl := partly_filtered host xs n], sl\<lparr>sl_len := length (kept host xs n)\<rparr>)"
  using assms(2)
proof (induction "n - i" arbitrary: i)
  case 0
  then show ?case by simp
next
  case (Suc k)
  then have i: "i < n" "i < length xs" using assms(3) by auto
  have len: "length (kept host xs i) < length xs" using i(2) kept_length [of host xs i] by simp
  have IH: "remove_loop grow host sl [Suc i..<n] (sl\<lparr>sl_len := length (kept host xs (Suc i))\<rparr>)
      (h[sl_array sl := partly_filtered host xs (Suc i)]) =
    (h[sl_array sl := partly_filtered host xs n], sl\<lparr>sl_len := length (kept host xs n)\<rparr>)"
    using Suc i(1) by simp
  show ?case
  proof (cases "xs ! i = host")
    case True
    then have "kept host xs (Suc i) = kept host xs i" using i(2) by (simp add: kept_Suc)
    moreover from this have "partly_filtered host xs (Suc i) = partly_filtered host xs i"
      by (simp add: partly_filtered_def)
    ultimately show ?thesis
      using IH True i assms(1) by (simp add: upt_conv_Cons partly_filtered_nth)
  next
    case False
    then have "Suc (length (kept host xs i)) = length (kept host xs (Suc i))" using i(2) by (simp add: kept_Suc)
    then show ?thesis
      using IH False i assms(1,4) len partly_filtered_write [OF i(2) False]
      by (simp add: upt_conv_Cons partly_filtered_nth go_append_def)
  qed
qed

lemma hosts_remove_array:
  assumes "slice_ok h sl"
  defines "xs \<equiv> h ! sl_array sl"
  shows "hosts_remove grow host h sl =
    (h[sl_array sl := partly_filtered host xs (sl_len sl)], sl\<lparr>sl_len := length (kept host xs (sl_len sl))\<rparr>)"
  using remove_loop_array [of sl h 0 "sl_len sl" xs grow host] assms
  by (simp add: hosts_remove_def slice_ok_def xs_def kept_def partly_filtered_def)

lemma kept_elems: "kept host (h ! sl_array sl) (sl_len sl) = filter (\<lambda>x. x \<noteq> host) (elems h sl)"
  by (simp add: kept_def elems_def)

lemma hosts_remove_elems:
  assumes "slice_ok h sl" "hosts_remove grow host h sl = (h', sl')"
  shows "slice_ok h' sl' \<and> elems h' sl' = filter (\<lambda>x. x \<noteq> host) (elems h sl)"
proof -
  let ?xs = "h ! sl_array sl"
  have h': "h' = h[sl_array sl := partly_filtered host ?xs (sl_len sl)]"
    "sl' = sl\<lparr>sl_len := length (kept host ?xs (sl_len sl))\<rparr>"
    using assms(2) hosts_remove_array [OF assms(1), of grow host] by simp_all
  have "elems h' sl' = kept host ?xs (sl_len sl)"
    using assms(1) by (simp add: h' elems_def slice_ok_def partly_filtered_def)
  moreover have "slice_ok h' sl'"
    using assms(1) kept_length [of host ?xs "sl_len sl"]
    by (simp add: h' slice_ok_def partly_filtered_length)
  ultimately show ?thesis by (simp add: kept_elems)
qed

text \<open>
  C15: the in-place updates of the admission list compute what the value model of the two handlers
  keeps: if the slice holds the admission list before a request, it holds the new list afterwards,
  whether \<open>append\<close> finds spare capacity or grows the array, and stays a valid slice.
\<close>

theorem hosts_slice_refines:
  assumes "slice_ok h sl" "elems h sl = rs_AllowedHostIDs (sv_state s)" "host \<noteq> []"
  shows "(case hosts_add grow host h sl of (h', sl') \<Rightarrow> slice_ok h' sl' \<and>
      elems h' sl' = rs_AllowedHostIDs (sv_state (fst (handleControlHostsAdd ''POST'' (\<lparr>hc_HostID = host\<rparr>, None) s)))) \<and>
    (case hosts_remove grow host h sl of (h', sl') \<Rightarrow> slice_ok h' sl' \<and>
      elems h' sl' = rs_AllowedHostIDs (sv_state (fst (handleControlHostsRemove ''POST'' (\<lparr>hc_HostID = host\<rparr>, None) s))))"
  using hosts_add_elems [OF assms(1), of grow host] hosts_remove_elems [OF assms(1), of grow host] assms(2,3)
  by (simp add: handleControlHostsAdd_def handleControlHostsRemove_def Let_def frame_simps split: prod.split)

definition two_hosts :: "heap \<times> slice" where
  "two_hosts = ([[''A'', ''B'']], \<lparr>sl_array = 0, sl_len = 2, sl_cap = 2\<rparr>)"

theorem hosts_slice_refines_witness:
  "case hosts_remove Suc ''A'' (fst two_hosts) (snd two_hosts) of (h', sl') \<Rightarrow> elems h' sl' = [''B'']"
  using hosts_slice_refines [of "fst two_hosts" "snd two_hosts"
      "map_state (\<lambda>st. st\<lparr>rs_AllowedHostIDs := [''A'', ''B'']\<rparr>) restricted_server" "''A''" Suc]
  by (simp add: two_hosts_def slice_ok_def elems_def handleControlHostsRemove_def Let_def frame_simps split: prod.splits)

text \<open>
  C39: a copy of the state made before a removal does not keep the list it was made with. Its header
  still has the old length and the shared array has been compacted, so it now reads as the list
  without the host followed by the tail of the old list: the reply of a state request that is
  encoded after a concurrent removal of \<open>A\<close> from \<open>A, B\<close> lists \<open>B\<close> twice, a list that never was the
  admission list.
\<close>

theorem removal_changes_earlier_copies:
  assumes "slice_ok h sl" "hosts_remove grow host h sl = (h', sl')"
  shows "elems h' sl = filter (\<lambda>x. x \<noteq> host) (elems h sl) @
    drop (length (filter (\<lambda>x. x \<noteq> host) (elems h sl))) (elems h sl)"
proof -
  let ?xs = "h ! sl_array sl" and ?n = "sl_len sl"
  have h': "h' = h[sl_array sl := partly_filtered host ?xs ?n]"
    using assms(2) hosts_remove_array [OF assms(1), of grow host] by simp
  have "elems h' sl = kept host ?xs ?n @ take (?n - length (kept host ?xs ?n)) (drop (length (kept host ?xs ?n)) ?xs)"
    using assms(1) kept_length [of host ?xs ?n] by (simp add: h' elems_def slice_ok_def partly_filtered_def)
  then show ?thesis by (simp add: kept_elems) (simp add: elems_def drop_take)
qed

theorem removal_changes_earlier_copies_witness:
  "elems (fst (hosts_remove Suc ''A'' (fst two_hosts) (snd two_hosts))) (snd two_hosts) = [''B'', ''B'']"
  using removal_changes_earlier_copies [of "fst two_hosts" "snd two_hosts" Suc "''A''"]
  by (cases "hosts_remove Suc ''A'' (fst two_hosts) (snd two_hosts)")
    (simp add: two_hosts_def slice_ok_def elems_def)

end
