(* ===== verification/Fleet.thy ===== *)
theory Fleet
  imports Config
begin

text \<open>
  Fleet manifests (\<^verbatim>\<open>src/fleet\<close>): the manifest types, validation, the resolution of instances
  through defaults, profile, group and instance, and the generation of one runtime
  configuration per instance. URL parsing is the parameter \<open>pu\<close>, \<^verbatim>\<open>filepath.Join\<close> the
  parameter \<open>join\<close>; creating the output directory and writing a file are parameters that may
  fail. A missing map key reads as the zero value of its type.
\<close>

section \<open>Types (types.go)\<close>

record Endpoint =
  fe_Scheme :: string
  fe_BindIP :: string
  fe_Host :: string
  fe_Port :: int
  fe_Path :: string

record HostEndpoint =
  fh_URL :: string

record G2SXML =
  fx_Mode :: string
  fx_Namespace :: string
  fx_EGMLocation :: string

record Defaults =
  df_HostID :: string
  df_ListenHost :: string
  df_WirePortBase :: int
  df_ControlPortBase :: int
  df_EGMEndpoint :: Endpoint
  df_HostEndpoint :: HostEndpoint
  df_G2SXML :: G2SXML
  df_TrustMode :: string
  df_PackFile :: string
  df_OverlayFiles :: "string list"
  df_LogRoot :: string
  df_StorageBackend :: string
  df_SQLiteRoot :: string
  df_AdvertisedHost :: string
  df_AdvertisedIP :: string
  df_DNSServers :: "string list"
  df_SubnetMask :: string
  df_Gateway :: string
  df_ServerName :: string
  df_CertFile :: string
  df_KeyFile :: string
  df_CAFile :: string
  df_Heartbeat :: "json go_map"
  df_NormalizedState :: "json go_map"
  df_Faults :: "json go_map"

record Profile =
  pf_Label :: string
  pf_Manufacturer :: string
  pf_PackFile :: string
  pf_OverlayFiles :: "string list"
  pf_LogicalCommands :: "string go_map"
  pf_HostID :: string
  pf_EGMEndpoint :: Endpoint
  pf_HostEndpoint :: HostEndpoint
  pf_G2SXML :: G2SXML
  pf_AdvertisedHost :: string
  pf_AdvertisedIP :: string
  pf_DNSServers :: "string list"
  pf_SubnetMask :: string
  pf_Gateway :: string
  pf_ServerName :: string
  pf_CertFile :: string
  pf_KeyFile :: string
  pf_CAFile :: string
  pf_Heartbeat :: "json go_map"
  pf_NormalizedState :: "json go_map"
  pf_Faults :: "json go_map"

record Group =
  gr_Label :: string
  gr_Profile :: string
  gr_Zone :: string
  gr_Overrides :: "json go_map"

record Instance =
  fi_InstanceID :: string
  fi_EGMID :: string
  fi_HostID :: string
  fi_Group :: string
  fi_WirePort :: int
  fi_ControlPort :: int
  fi_BindHost :: string
  fi_EGMEndpoint :: Endpoint
  fi_HostEndpoint :: HostEndpoint
  fi_G2SXML :: G2SXML
  fi_AdvertisedHost :: string
  fi_AdvertisedIP :: string
  fi_DNSServers :: "string list"
  fi_SubnetMask :: string
  fi_Gateway :: string
  fi_ServerName :: string
  fi_LogDir :: string
  fi_SQLitePath :: string
  fi_CertFile :: string
  fi_KeyFile :: string
  fi_CAFile :: string
  fi_Overrides :: "json go_map"

record Manifest =
  mf_SchemaVersion :: string
  mf_FleetName :: string
  mf_Description :: string
  mf_Defaults :: Defaults
  mf_Profiles :: "Profile go_map"
  mf_Groups :: "Group go_map"
  mf_Instances :: "Instance list"

record EffectiveInstance =
  ef_InstanceID :: string
  ef_EGMID :: string
  ef_HostID :: string
  ef_Group :: string
  ef_Profile :: string
  ef_Manufacturer :: string
  ef_ListenHost :: string
  ef_WirePort :: int
  ef_ControlPort :: int
  ef_EGMEndpoint :: Endpoint
  ef_HostEndpoint :: HostEndpoint
  ef_G2SXML :: G2SXML
  ef_AdvertisedHost :: string
  ef_AdvertisedIP :: string
  ef_DNSServers :: "string list"
  ef_SubnetMask :: string
  ef_Gateway :: string
  ef_ServerName :: string
  ef_TrustMode :: string
  ef_PackFile :: string
  ef_OverlayFiles :: "string list"
  ef_LogDir :: string
  ef_StorageBackend :: string
  ef_SQLitePath :: string
  ef_LogicalCommands :: "string go_map"
  ef_Heartbeat :: "json go_map"
  ef_NormalizedState :: "json go_map"
  ef_Faults :: "json go_map"
  ef_CertFile :: string
  ef_KeyFile :: string
  ef_CAFile :: string

definition no_endpoint :: Endpoint where
  "no_endpoint = \<lparr>fe_Scheme = [], fe_BindIP = [], fe_Host = [], fe_Port = 0, fe_Path = []\<rparr>"

definition no_host_endpoint :: HostEndpoint where
  "no_host_endpoint = \<lparr>fh_URL = []\<rparr>"

definition no_xml :: G2SXML where
  "no_xml = \<lparr>fx_Mode = [], fx_Namespace = [], fx_EGMLocation = []\<rparr>"

definition no_group :: Group where
  "no_group = \<lparr>gr_Label = [], gr_Profile = [], gr_Zone = [], gr_Overrides = []\<rparr>"

definition no_profile :: Profile where
  "no_profile = \<lparr>pf_Label = [], pf_Manufacturer = [], pf_PackFile = [], pf_OverlayFiles = [],
     pf_LogicalCommands = [], pf_HostID = [], pf_EGMEndpoint = no_endpoint,
     pf_HostEndpoint = no_host_endpoint, pf_G2SXML = no_xml, pf_AdvertisedHost = [], pf_AdvertisedIP = [],
     pf_DNSServers = [], pf_SubnetMask = [], pf_Gateway = [], pf_ServerName = [], pf_CertFile = [],
     pf_KeyFile = [], pf_CAFile = [], pf_Heartbeat = [], pf_NormalizedState = [], pf_Faults = []\<rparr>"

definition group_of :: "Manifest \<Rightarrow> Instance \<Rightarrow> Group" where
  "group_of m inst = (case map_of (mf_Groups m) (fi_Group inst) of None \<Rightarrow> no_group | Some g \<Rightarrow> g)"

definition profile_of :: "Manifest \<Rightarrow> Instance \<Rightarrow> Profile" where
  "profile_of m inst =
     (case map_of (mf_Profiles m) (gr_Profile (group_of m inst)) of None \<Rightarrow> no_profile | Some p \<Rightarrow> p)"

section \<open>Validation (validate.go)\<close>

definition ManifestSchemaVersion :: string where
  "ManifestSchemaVersion = ''vegm.fleet-manifest/v1''"

definition validateEndpoint :: "string \<Rightarrow> Endpoint \<Rightarrow> string list" where
  "validateEndpoint label ep =
     (if ep = no_endpoint then []
      else
        err_if (fe_Scheme ep \<noteq> [] \<and> fe_Scheme ep \<noteq> ''http'' \<and> fe_Scheme ep \<noteq> ''https'')
          (label @ ''.scheme must be http or https'') @
        err_if (fe_Port ep < 0 \<or> fe_Port ep > 65535) (label @ ''.port must be between 0 and 65535'') @
        err_if (fe_Path ep \<noteq> [] \<and> \<not> HasPrefix (fe_Path ep) ''/'') (label @ ''.path must start with /''))"

definition fleet_validateHostEndpoint :: "url_parser \<Rightarrow> string \<Rightarrow> HostEndpoint \<Rightarrow> string list" where
  "fleet_validateHostEndpoint pu label ep =
     (if fh_URL ep = [] then []
      else case pu (fh_URL ep) of
        Inl e \<Rightarrow> [label @ ''.url is invalid: '' @ e]
      | Inr u \<Rightarrow>
          err_if (u_Scheme u \<noteq> ''http'' \<and> u_Scheme u \<noteq> ''https'') (label @ ''.url scheme must be http or https'') @
          err_if (u_Host u = []) (label @ ''.url must include host'') @
          err_if (u_Path u = [] \<or> \<not> HasPrefix (u_Path u) ''/'') (label @ ''.url must include path''))"

definition resolvedHostID :: "Manifest \<Rightarrow> Instance \<Rightarrow> string" where
  "resolvedHostID m inst =
     (if fi_HostID inst \<noteq> [] then fi_HostID inst
      else case map_of (mf_Groups m) (fi_Group inst) of
        None \<Rightarrow> df_HostID (mf_Defaults m)
      | Some g \<Rightarrow>
          (case map_of (mf_Profiles m) (gr_Profile g) of
             None \<Rightarrow> df_HostID (mf_Defaults m)
           | Some p \<Rightarrow> if pf_HostID p \<noteq> [] then pf_HostID p else df_HostID (mf_Defaults m)))"

definition profile_errs :: "url_parser \<Rightarrow> string \<Rightarrow> Profile \<Rightarrow> string list" where
  "profile_errs pu name p =
     (if TrimSpace name = [] then [''profiles contains empty key'']
      else
        err_if (TrimSpace (pf_PackFile p) = []) (''profiles.'' @ name @ ''.pack_file is required'') @
        err_if (pf_LogicalCommands p = []) (''profiles.'' @ name @ ''.logical_commands must not be empty'') @
        validateEndpoint (''profiles.'' @ name @ ''.egm_endpoint'') (pf_EGMEndpoint p) @
        fleet_validateHostEndpoint pu (''profiles.'' @ name @ ''.host_endpoint'') (pf_HostEndpoint p))"

definition group_errs :: "Profile go_map \<Rightarrow> string \<Rightarrow> Group \<Rightarrow> string list" where
  "group_errs profiles name g =
     (if TrimSpace name = [] then [''groups contains empty key'']
      else if TrimSpace (gr_Profile g) = [] then [''groups.'' @ name @ ''.profile is required'']
      else err_if (map_of profiles (gr_Profile g) = None)
        (''groups.'' @ name @ ''.profile '' @ go_quote (gr_Profile g) @ '' not found in profiles''))"

text \<open>The maps of identifiers and ports seen so far.\<close>

record seen =
  sn_InstanceIDs :: "string list"
  sn_EGMIDs :: "string list"
  sn_WirePorts :: "(int \<times> string) list"
  sn_ControlPorts :: "(int \<times> string) list"

definition at_instance :: "nat \<Rightarrow> string \<Rightarrow> string" where
  "at_instance i what = ''instances['' @ show_nat i @ ''].'' @ what"

definition id_errs :: "nat \<Rightarrow> string \<Rightarrow> string list \<Rightarrow> string \<Rightarrow> string list" where
  "id_errs i field_name seen_ids v =
     (if TrimSpace v = [] then [at_instance i (field_name @ '' is required'')]
      else err_if (v \<in> set seen_ids) (at_instance i (field_name @ '' '' @ go_quote v @ '' is duplicated'')))"

definition port_errs :: "nat \<Rightarrow> string \<Rightarrow> (int \<times> string) list \<Rightarrow> int \<Rightarrow> string list" where
  "port_errs i field_name seen_ports port =
     (if port > 0 then
        (case map_of seen_ports port of
           None \<Rightarrow> []
         | Some prior \<Rightarrow> [at_instance i (field_name @ '' '' @ show_int port @ '' duplicates instance '' @ go_quote prior)])
      else [])"

definition instance_errs :: "url_parser \<Rightarrow> Manifest \<Rightarrow> nat \<Rightarrow> seen \<Rightarrow> Instance \<Rightarrow> string list" where
  "instance_errs pu m i sn inst =
     id_errs i ''instance_id'' (sn_InstanceIDs sn) (fi_InstanceID inst) @
     id_errs i ''egm_id'' (sn_EGMIDs sn) (fi_EGMID inst) @
     err_if (resolvedHostID m inst = []) (at_instance i ''host_id is required through instance/profile/default'') @
     (if TrimSpace (fi_Group inst) = [] then [at_instance i ''group is required'']
      else err_if (map_of (mf_Groups m) (fi_Group inst) = None)
        (at_instance i (''group '' @ go_quote (fi_Group inst) @ '' not found in groups''))) @
     err_if (fi_WirePort inst < 0) (at_instance i ''wire_port must be >= 0'') @
     err_if (fi_ControlPort inst < 0) (at_instance i ''control_port must be >= 0'') @
     validateEndpoint (at_instance i ''egm_endpoint'') (fi_EGMEndpoint inst) @
     fleet_validateHostEndpoint pu (at_instance i ''host_endpoint'') (fi_HostEndpoint inst) @
     port_errs i ''wire_port'' (sn_WirePorts sn) (fi_WirePort inst) @
     port_errs i ''control_port'' (sn_ControlPorts sn) (fi_ControlPort inst)"

definition add_id :: "string \<Rightarrow> string list \<Rightarrow> string list" where
  "add_id v ids = (if TrimSpace v = [] \<or> v \<in> set ids then ids else v # ids)"

definition add_port :: "int \<Rightarrow> string \<Rightarrow> (int \<times> string) list \<Rightarrow> (int \<times> string) list" where
  "add_port port iid ports = (if port > 0 \<and> map_of ports port = None then (port, iid) # ports else ports)"

definition note_seen :: "Instance \<Rightarrow> seen \<Rightarrow> seen" where
  "note_seen inst sn =
     \<lparr>sn_InstanceIDs = add_id (fi_InstanceID inst) (sn_InstanceIDs sn),
      sn_EGMIDs = add_id (fi_EGMID inst) (sn_EGMIDs sn),
      sn_WirePorts = add_port (fi_WirePort inst) (fi_InstanceID inst) (sn_WirePorts sn),
      sn_ControlPorts = add_port (fi_ControlPort inst) (fi_InstanceID inst) (sn_ControlPorts sn)\<rparr>"

fun instances_errs :: "url_parser \<Rightarrow> Manifest \<Rightarrow> nat \<Rightarrow> seen \<Rightarrow> Instance list \<Rightarrow> string list" where
  "instances_errs pu m i sn [] = []"
| "instances_errs pu m i sn (inst # insts) =
     instance_errs pu m i sn inst @ instances_errs pu m (Suc i) (note_seen inst sn) insts"

definition manifest_errs :: "url_parser \<Rightarrow> Manifest \<Rightarrow> string list" where
  "manifest_errs pu m =
     err_if (mf_SchemaVersion m \<noteq> ManifestSchemaVersion)
       (''schema_version must be '' @ go_quote ManifestSchemaVersion) @
     err_if (TrimSpace (mf_FleetName m) = []) ''fleet_name is required'' @
     err_if (mf_Profiles m = []) ''profiles must not be empty'' @
     err_if (mf_Groups m = []) ''groups must not be empty'' @
     err_if (mf_Instances m = []) ''instances must not be empty'' @
     validateEndpoint ''defaults.egm_endpoint'' (df_EGMEndpoint (mf_Defaults m)) @
     fleet_validateHostEndpoint pu ''defaults.host_endpoint'' (df_HostEndpoint (mf_Defaults m)) @
     concat (map (\<lambda>(name, p). profile_errs pu name p) (mf_Profiles m)) @
     concat (map (\<lambda>(name, g). group_errs (mf_Profiles m) name g) (mf_Groups m)) @
     instances_errs pu m 0 \<lparr>sn_InstanceIDs = [], sn_EGMIDs = [], sn_WirePorts = [], sn_ControlPorts = []\<rparr>
       (mf_Instances m)"

definition ValidateManifest :: "url_parser \<Rightarrow> Manifest option \<Rightarrow> unit result" where
  "ValidateManifest pu mm =
     (case mm of
        None \<Rightarrow> Inl ''manifest is nil''
      | Some m \<Rightarrow> collect_errors ''fleet manifest validation failed:'' (manifest_errs pu m))"

section \<open>Loading (load.go)\<close>

definition LoadManifest ::
    "url_parser \<Rightarrow> (string \<Rightarrow> string result) \<Rightarrow> (string \<Rightarrow> Manifest result) \<Rightarrow> string \<Rightarrow> Manifest result" where
  "LoadManifest pu readFile unmarshal path =
     (case readFile path of
        Inl e \<Rightarrow> Inl (''read manifest '' @ go_quote path @ '': '' @ e)
      | Inr data \<Rightarrow>
     (case unmarshal data of
        Inl e \<Rightarrow> Inl (''decode manifest json: '' @ e)
      | Inr m \<Rightarrow> (case ValidateManifest pu (Some m) of Inl e \<Rightarrow> Inl e | Inr _ \<Rightarrow> Inr m)))"

section \<open>What the validator accepts\<close>

definition endpoint_wf :: "Endpoint \<Rightarrow> bool" where
  "endpoint_wf ep \<longleftrightarrow>
     fe_Scheme ep \<in> {[], ''http'', ''https''} \<and> 0 \<le> fe_Port ep \<and> fe_Port ep \<le> 65535 \<and>
     (fe_Path ep = [] \<or> HasPrefix (fe_Path ep) ''/'')"

text \<open>The same condition on host URLs as the one the runtime configuration checks.\<close>

definition host_endpoint_wf :: "url_parser \<Rightarrow> HostEndpoint \<Rightarrow> bool" where
  "host_endpoint_wf pu ep \<longleftrightarrow> host_url_ok pu \<lparr>he_URL = fh_URL ep\<rparr>"

definition instance_wf :: "url_parser \<Rightarrow> Manifest \<Rightarrow> Instance \<Rightarrow> bool" where
  "instance_wf pu m inst \<longleftrightarrow>
     TrimSpace (fi_InstanceID inst) \<noteq> [] \<and> TrimSpace (fi_EGMID inst) \<noteq> [] \<and> resolvedHostID m inst \<noteq> [] \<and>
     TrimSpace (fi_Group inst) \<noteq> [] \<and> map_of (mf_Groups m) (fi_Group inst) \<noteq> None \<and>
     0 \<le> fi_WirePort inst \<and> 0 \<le> fi_ControlPort inst \<and> endpoint_wf (fi_EGMEndpoint inst) \<and>
     host_endpoint_wf pu (fi_HostEndpoint inst)"

definition profile_wf :: "url_parser \<Rightarrow> string \<Rightarrow> Profile \<Rightarrow> bool" where
  "profile_wf pu name p \<longleftrightarrow>
     TrimSpace name \<noteq> [] \<and> TrimSpace (pf_PackFile p) \<noteq> [] \<and> pf_LogicalCommands p \<noteq> [] \<and>
     endpoint_wf (pf_EGMEndpoint p) \<and> host_endpoint_wf pu (pf_HostEndpoint p)"

definition group_wf :: "Profile go_map \<Rightarrow> string \<Rightarrow> Group \<Rightarrow> bool" where
  "group_wf profiles name g \<longleftrightarrow>
     TrimSpace name \<noteq> [] \<and> TrimSpace (gr_Profile g) \<noteq> [] \<and> map_of profiles (gr_Profile g) \<noteq> None"

abbreviation explicit_ports :: "(Instance \<Rightarrow> int) \<Rightarrow> Instance list \<Rightarrow> int list" where
  "explicit_ports port insts \<equiv> filter (\<lambda>p. p > 0) (map port insts)"

definition manifest_wf :: "url_parser \<Rightarrow> Manifest \<Rightarrow> bool" where
  "manifest_wf pu m \<longleftrightarrow>
     mf_SchemaVersion m = ManifestSchemaVersion \<and> TrimSpace (mf_FleetName m) \<noteq> [] \<and>
     mf_Profiles m \<noteq> [] \<and> mf_Groups m \<noteq> [] \<and> mf_Instances m \<noteq> [] \<and>
     endpoint_wf (df_EGMEndpoint (mf_Defaults m)) \<and> host_endpoint_wf pu (df_HostEndpoint (mf_Defaults m)) \<and>
     (\<forall>(name, p) \<in> set (mf_Profiles m). profile_wf pu name p) \<and>
     (\<forall>(name, g) \<in> set (mf_Groups m). group_wf (mf_Profiles m) name g) \<and>
     (\<forall>inst \<in> set (mf_Instances m). instance_wf pu m inst) \<and>
     distinct (map fi_InstanceID (mf_Instances m)) \<and> distinct (map fi_EGMID (mf_Instances m)) \<and>
     distinct (explicit_ports fi_WirePort (mf_Instances m)) \<and>
     distinct (explicit_ports fi_ControlPort (mf_Instances m))"

lemma validateEndpoint_Nil [err_simps]: "validateEndpoint label ep = [] \<longleftrightarrow> endpoint_wf ep"
  by (cases "ep = no_endpoint")
    (auto simp: validateEndpoint_def endpoint_wf_def no_endpoint_def)

lemma validateHostEndpoint_Nil [err_simps]:
  "fleet_validateHostEndpoint pu label ep = [] \<longleftrightarrow> host_endpoint_wf pu ep"
  by (auto simp: fleet_validateHostEndpoint_def host_endpoint_wf_def host_url_ok_def split: sum.splits)

lemma id_errs_Nil [err_simps]: "id_errs i f ids v = [] \<longleftrightarrow> TrimSpace v \<noteq> [] \<and> v \<notin> set ids"
  by (simp add: id_errs_def)

lemma port_errs_Nil [err_simps]: "port_errs i f ports p = [] \<longleftrightarrow> (p > 0 \<longrightarrow> p \<notin> fst ` set ports)"
  using map_of_eq_None_iff [of ports p] by (auto simp: port_errs_def split: option.split)

lemma group_errs_Nil [err_simps]: "group_errs profiles name g = [] \<longleftrightarrow> group_wf profiles name g"
  by (simp add: group_errs_def group_wf_def)

lemma profile_errs_Nil [err_simps]: "profile_errs pu name p = [] \<longleftrightarrow> profile_wf pu name p"
  by (simp add: profile_errs_def profile_wf_def err_simps)

definition unseen :: "seen \<Rightarrow> Instance \<Rightarrow> bool" where
  "unseen sn inst \<longleftrightarrow>
     fi_InstanceID inst \<notin> set (sn_InstanceIDs sn) \<and> fi_EGMID inst \<notin> set (sn_EGMIDs sn) \<and>
     (fi_WirePort inst > 0 \<longrightarrow> fi_WirePort inst \<notin> fst ` set (sn_WirePorts sn)) \<and>
     (fi_ControlPort inst > 0 \<longrightarrow> fi_ControlPort inst \<notin> fst ` set (sn_ControlPorts sn))"

lemma instance_errs_Nil:
  "instance_errs pu m i sn inst = [] \<longleftrightarrow> instance_wf pu m inst \<and> unseen sn inst"
  by (simp only: instance_errs_def append_is_Nil_conv err_simps) (auto simp: instance_wf_def unseen_def)

lemma note_seen_sets:
  assumes "instance_wf pu m inst" "unseen sn inst"
  shows "set (sn_InstanceIDs (note_seen inst sn)) = insert (fi_InstanceID inst) (set (sn_InstanceIDs sn))"
    "set (sn_EGMIDs (note_seen inst sn)) = insert (fi_EGMID inst) (set (sn_EGMIDs sn))"
    "fst ` set (sn_WirePorts (note_seen inst sn)) =
       (if fi_WirePort inst > 0 then insert (fi_WirePort inst) else id) (fst ` set (sn_WirePorts sn))"
    "fst ` set (sn_ControlPorts (note_seen inst sn)) =
       (if fi_ControlPort inst > 0 then insert (fi_ControlPort inst) else id) (fst ` set (sn_ControlPorts sn))"
  using assms
  by (auto simp: note_seen_def instance_wf_def unseen_def add_id_def add_port_def map_of_eq_None_iff)

lemma unseen_note_seen:
  assumes "instance_wf pu m inst" "unseen sn inst"
  shows "unseen (note_seen inst sn) inst' \<longleftrightarrow> unseen sn inst' \<and>
    fi_InstanceID inst' \<noteq> fi_InstanceID inst \<and> fi_EGMID inst' \<noteq> fi_EGMID inst \<and>
    (fi_WirePort inst' > 0 \<longrightarrow> fi_WirePort inst' \<noteq> fi_WirePort inst) \<and>
    (fi_ControlPort inst' > 0 \<longrightarrow> fi_ControlPort inst' \<noteq> fi_ControlPort inst)"
  unfolding unseen_def note_seen_sets [OF assms] by auto

lemma instances_errs_Nil:
  "instances_errs pu m i sn insts = [] \<longleftrightarrow>
     (\<forall>inst \<in> set insts. instance_wf pu m inst \<and> unseen sn inst) \<and>
     distinct (map fi_InstanceID insts) \<and> distinct (map fi_EGMID insts) \<and>
     distinct (explicit_ports fi_WirePort insts) \<and> distinct (explicit_ports fi_ControlPort insts)"
proof (induction insts arbitrary: i sn)
  case (Cons inst insts)
  show ?case
  proof (cases "instance_wf pu m inst \<and> unseen sn inst")
    case True
    then have "\<forall>inst' \<in> set insts. unseen (note_seen inst sn) inst' \<longleftrightarrow> unseen sn inst' \<and>
        fi_InstanceID inst' \<noteq> fi_InstanceID inst \<and> fi_EGMID inst' \<noteq> fi_EGMID inst \<and>
        (fi_WirePort inst' > 0 \<longrightarrow> fi_WirePort inst' \<noteq> fi_WirePort inst) \<and>
        (fi_ControlPort inst' > 0 \<longrightarrow> fi_ControlPort inst' \<noteq> fi_ControlPort inst)"
      using unseen_note_seen by blast
    with True show ?thesis
      by (simp add: instance_errs_Nil Cons.IH) (auto simp: image_iff)
  next
    case False
    then show ?thesis by (auto simp: instance_errs_Nil)
  qed
qed simp

lemma manifest_errs_Nil: "manifest_errs pu m = [] \<longleftrightarrow> manifest_wf pu m"
  unfolding manifest_errs_def manifest_wf_def
  by (simp only: append_is_Nil_conv err_simps instances_errs_Nil concat_eq_Nil_conv)
    (auto simp: err_simps unseen_def)

interpretation manifest_validator:
  validator "manifest_errs pu" "''fleet manifest validation failed:''" "ValidateManifest pu" "manifest_wf pu" for pu
  by unfold_locales (simp_all add: ValidateManifest_def manifest_errs_Nil)

text \<open>
  \<open>ValidateManifest\<close> accepts exactly the well-formed manifests: known schema, named, with
  profiles, groups that name an existing profile, and instances that are named, belong to an
  existing group, have a host identifier and distinct instance identifiers, machine identifiers and
  explicit ports, with every endpoint and URL in order.
\<close>

theorem ValidateManifest_exact:
  "ValidateManifest pu mm = Inr () \<longleftrightarrow> (\<exists>m. mm = Some m \<and> manifest_wf pu m)"
  by (rule manifest_validator.accepts_iff)

end
