(* ===== verification/Fleet_Resolve.thy ===== *)
theory Fleet_Resolve
  imports Fleet
begin

text \<open>
  Resolution of the instances of a fleet manifest (\<^verbatim>\<open>src/fleet/resolve.go\<close>) and generation of their
  runtime configurations (\<^verbatim>\<open>generate.go\<close>). \<open>join\<close> is \<^verbatim>\<open>filepath.Join\<close>; \<open>mkdir\<close> and \<open>writeFile\<close> are
  the file system.
\<close>

section \<open>Merging (resolve.go)\<close>

definition mergeEndpoint :: "Endpoint \<Rightarrow> Endpoint \<Rightarrow> Endpoint" where
  "mergeEndpoint base overlay =
     \<lparr>fe_Scheme = (if fe_Scheme overlay \<noteq> [] then fe_Scheme overlay else fe_Scheme base),
      fe_BindIP = (if fe_BindIP overlay \<noteq> [] then fe_BindIP overlay else fe_BindIP base),
      fe_Host = (if fe_Host overlay \<noteq> [] then fe_Host overlay else fe_Host base),
      fe_Port = (if fe_Port overlay \<noteq> 0 then fe_Port overlay else fe_Port base),
      fe_Path = (if fe_Path overlay \<noteq> [] then fe_Path overlay else fe_Path base)\<rparr>"

definition mergeHostEndpoint :: "HostEndpoint \<Rightarrow> HostEndpoint \<Rightarrow> HostEndpoint" where
  "mergeHostEndpoint base overlay = (if fh_URL overlay \<noteq> [] then \<lparr>fh_URL = fh_URL overlay\<rparr> else base)"

definition mergeG2SXML :: "G2SXML \<Rightarrow> G2SXML \<Rightarrow> G2SXML" where
  "mergeG2SXML base overlay =
     \<lparr>fx_Mode = (if fx_Mode overlay \<noteq> [] then fx_Mode overlay else fx_Mode base),
      fx_Namespace = (if fx_Namespace overlay \<noteq> [] then fx_Namespace overlay else fx_Namespace base),
      fx_EGMLocation = (if fx_EGMLocation overlay \<noteq> [] then fx_EGMLocation overlay else fx_EGMLocation base)\<rparr>"

definition defaultG2SXML :: "G2SXML \<Rightarrow> Endpoint \<Rightarrow> G2SXML" where
  "defaultG2SXML x ep =
     (let x1 = (if fx_Mode x = [] then x\<lparr>fx_Mode := ''lab_legacy_xml''\<rparr> else x);
          x2 = (if fx_Namespace x1 = []
                then x1\<lparr>fx_Namespace := ''http://www.gamingstandards.com/g2s/schemas/v1.0.3''\<rparr> else x1)
      in if fx_EGMLocation x2 = [] \<and> fe_Host ep \<noteq> [] \<and> fe_Port ep > 0
         then x2\<lparr>fx_EGMLocation := host_port (fe_Host ep) (fe_Port ep)\<rparr> else x2)"

definition mergeMaps :: "json go_map \<Rightarrow> json go_map \<Rightarrow> json go_map" where
  "mergeMaps base overlay =
     fold (\<lambda>(k, v) out. go_set k v out) overlay (fold (\<lambda>(k, v) out. go_set k v out) base [])"

definition copyStringMap :: "string go_map \<Rightarrow> string go_map" where
  "copyStringMap m = fold (\<lambda>(k, v) out. go_set k v out) m []"

fun firstNonZero :: "int list \<Rightarrow> int" where
  "firstNonZero [] = 0"
| "firstNonZero (v # vs) = (if v \<noteq> 0 then v else firstNonZero vs)"

fun firstNonEmptySlice :: "string list list \<Rightarrow> string list" where
  "firstNonEmptySlice [] = []"
| "firstNonEmptySlice (v # vs) = (if v \<noteq> [] then v else firstNonEmptySlice vs)"

definition override :: "json go_map \<Rightarrow> string \<Rightarrow> json go_map \<Rightarrow> json go_map" where
  "override overrides key m = (case map_of overrides key of Some (JObj v) \<Rightarrow> mergeMaps m v | _ \<Rightarrow> m)"

section \<open>Resolution (resolve.go)\<close>

definition resolve_listen :: "Manifest \<Rightarrow> Instance \<Rightarrow> string" where
  "resolve_listen m inst =
     firstNonEmpty [fi_BindHost inst, fe_BindIP (fi_EGMEndpoint inst), fe_BindIP (pf_EGMEndpoint (profile_of m inst)),
       fe_BindIP (df_EGMEndpoint (mf_Defaults m)), df_ListenHost (mf_Defaults m), ''127.0.0.1'']"

definition resolve_wire_port :: "Manifest \<Rightarrow> nat \<Rightarrow> Instance \<Rightarrow> int" where
  "resolve_wire_port m idx inst =
     (let p1 = (if fi_WirePort inst = 0
                then firstNonZero [fe_Port (fi_EGMEndpoint inst), fe_Port (pf_EGMEndpoint (profile_of m inst)),
                  fe_Port (df_EGMEndpoint (mf_Defaults m))]
                else fi_WirePort inst)
      in if p1 = 0 then wrap64 (df_WirePortBase (mf_Defaults m) + int idx) else p1)"

definition resolve_control_port :: "Manifest \<Rightarrow> nat \<Rightarrow> Instance \<Rightarrow> int" where
  "resolve_control_port m idx inst =
     (if fi_ControlPort inst = 0 then wrap64 (df_ControlPortBase (mf_Defaults m) + int idx) else fi_ControlPort inst)"

definition resolve_trust :: "Manifest \<Rightarrow> string" where
  "resolve_trust m = (if df_TrustMode (mf_Defaults m) = [] then ''plaintext_lab'' else df_TrustMode (mf_Defaults m))"

text \<open>The five defaults of the merged endpoint, in order.\<close>

definition default_scheme :: "string \<Rightarrow> Endpoint \<Rightarrow> Endpoint" where
  "default_scheme trustMode ep =
     (if fe_Scheme ep = [] then ep\<lparr>fe_Scheme := (if trustMode = ''plaintext_lab'' \<or> trustMode = [] then ''http'' else ''https'')\<rparr>
      else ep)"

definition default_bind :: "string \<Rightarrow> Endpoint \<Rightarrow> Endpoint" where
  "default_bind listenHost ep = (if fe_BindIP ep = [] then ep\<lparr>fe_BindIP := listenHost\<rparr> else ep)"

definition default_host :: "Instance \<Rightarrow> Endpoint \<Rightarrow> Endpoint" where
  "default_host inst ep =
     (if fe_Host ep = []
      then ep\<lparr>fe_Host := firstNonEmpty [fi_AdvertisedHost inst, fi_AdvertisedIP inst, fe_BindIP ep]\<rparr> else ep)"

definition default_port :: "int \<Rightarrow> Endpoint \<Rightarrow> Endpoint" where
  "default_port wirePort ep = (if fe_Port ep = 0 then ep\<lparr>fe_Port := wirePort\<rparr> else ep)"

definition default_path :: "Endpoint \<Rightarrow> Endpoint" where
  "default_path ep = (if fe_Path ep = [] then ep\<lparr>fe_Path := ''/g2s''\<rparr> else ep)"

definition merged_endpoint :: "Manifest \<Rightarrow> Instance \<Rightarrow> Endpoint" where
  "merged_endpoint m inst =
     mergeEndpoint (mergeEndpoint (df_EGMEndpoint (mf_Defaults m)) (pf_EGMEndpoint (profile_of m inst)))
       (fi_EGMEndpoint inst)"

definition resolve_endpoint :: "Manifest \<Rightarrow> nat \<Rightarrow> Instance \<Rightarrow> Endpoint" where
  "resolve_endpoint m idx inst =
     default_path (default_port (resolve_wire_port m idx inst) (default_host inst
       (default_bind (resolve_listen m inst) (default_scheme (resolve_trust m) (merged_endpoint m inst)))))"

definition resolveInstance ::
    "(string \<Rightarrow> string \<Rightarrow> string) \<Rightarrow> Manifest \<Rightarrow> nat \<Rightarrow> Instance \<Rightarrow> EffectiveInstance result" where
  "resolveInstance join m idx inst =
     (let d = mf_Defaults m; grp = group_of m inst; profile = profile_of m inst;
          packFile = firstNonEmpty [pf_PackFile profile, df_PackFile d]
      in if packFile = [] then Inl (''no pack file resolved for instance '' @ go_quote (fi_InstanceID inst))
         else
           let ep = resolve_endpoint m idx inst;
               logDir = (if fi_LogDir inst = []
                         then join (firstNonEmpty [df_LogRoot d, ''./logs'']) (fi_InstanceID inst)
                         else fi_LogDir inst);
               backend = firstNonEmpty [df_StorageBackend d, ''noop''];
               sqlitePath = (if fi_SQLitePath inst = [] \<and> backend = ''sqlite''
                             then join (firstNonEmpty [df_SQLiteRoot d, logDir]) (fi_InstanceID inst @ ''-index.db'')
                             else fi_SQLitePath inst)
           in Inr
             \<lparr>ef_InstanceID = fi_InstanceID inst, ef_EGMID = fi_EGMID inst,
              ef_HostID = firstNonEmpty [fi_HostID inst, pf_HostID profile, df_HostID d, ''HOST-001''],
              ef_Group = fi_Group inst, ef_Profile = gr_Profile grp, ef_Manufacturer = pf_Manufacturer profile,
              ef_ListenHost = resolve_listen m inst, ef_WirePort = resolve_wire_port m idx inst,
              ef_ControlPort = resolve_control_port m idx inst, ef_EGMEndpoint = ep,
              ef_HostEndpoint = mergeHostEndpoint (mergeHostEndpoint (df_HostEndpoint d) (pf_HostEndpoint profile))
                (fi_HostEndpoint inst),
              ef_G2SXML = defaultG2SXML (mergeG2SXML (mergeG2SXML (df_G2SXML d) (pf_G2SXML profile))
                (fi_G2SXML inst)) ep,
              ef_AdvertisedHost = firstNonEmpty [fi_AdvertisedHost inst, pf_AdvertisedHost profile,
                df_AdvertisedHost d, fe_Host ep],
              ef_AdvertisedIP = firstNonEmpty [fi_AdvertisedIP inst, pf_AdvertisedIP profile, df_AdvertisedIP d],
              ef_DNSServers = firstNonEmptySlice [fi_DNSServers inst, pf_DNSServers profile, df_DNSServers d],
              ef_SubnetMask = firstNonEmpty [fi_SubnetMask inst, pf_SubnetMask profile, df_SubnetMask d],
              ef_Gateway = firstNonEmpty [fi_Gateway inst, pf_Gateway profile, df_Gateway d],
              ef_ServerName = firstNonEmpty [fi_ServerName inst, pf_ServerName profile, df_ServerName d],
              ef_TrustMode = resolve_trust m, ef_PackFile = packFile,
              ef_OverlayFiles = df_OverlayFiles d @ pf_OverlayFiles profile, ef_LogDir = logDir,
              ef_StorageBackend = backend, ef_SQLitePath = sqlitePath,
              ef_LogicalCommands = copyStringMap (pf_LogicalCommands profile),
              ef_Heartbeat = override (fi_Overrides inst) ''heartbeat'' (override (gr_Overrides grp) ''heartbeat''
                (mergeMaps (df_Heartbeat d) (pf_Heartbeat profile))),
              ef_NormalizedState = override (fi_Overrides inst) ''normalized_state''
                (override (gr_Overrides grp) ''normalized_state''
                  (mergeMaps (df_NormalizedState d) (pf_NormalizedState profile))),
              ef_Faults = override (fi_Overrides inst) ''faults'' (override (gr_Overrides grp) ''faults''
                (mergeMaps (df_Faults d) (pf_Faults profile))),
              ef_CertFile = firstNonEmpty [fi_CertFile inst, pf_CertFile profile, df_CertFile d],
              ef_KeyFile = firstNonEmpty [fi_KeyFile inst, pf_KeyFile profile, df_KeyFile d],
              ef_CAFile = firstNonEmpty [fi_CAFile inst, pf_CAFile profile, df_CAFile d]\<rparr>)"

fun resolve_loop ::
    "(string \<Rightarrow> string \<Rightarrow> string) \<Rightarrow> Manifest \<Rightarrow> nat \<Rightarrow> Instance list \<Rightarrow> EffectiveInstance list \<Rightarrow> EffectiveInstance list result" where
  "resolve_loop join m idx [] out = Inr out"
| "resolve_loop join m idx (inst # insts) out =
     (case resolveInstance join m idx inst of
        Inl e \<Rightarrow> Inl e
      | Inr eff \<Rightarrow> resolve_loop join m (Suc idx) insts (out @ [eff]))"

definition wire_key :: "EffectiveInstance \<Rightarrow> string" where
  "wire_key inst = host_port (ef_ListenHost inst) (ef_WirePort inst)"

definition control_key :: "EffectiveInstance \<Rightarrow> string" where
  "control_key inst = host_port (ef_ListenHost inst) (ef_ControlPort inst)"

definition egm_key :: "EffectiveInstance \<Rightarrow> string" where
  "egm_key inst =
     fe_Scheme (ef_EGMEndpoint inst) @ ''://'' @ host_port (fe_Host (ef_EGMEndpoint inst)) (fe_Port (ef_EGMEndpoint inst)) @
     fe_Path (ef_EGMEndpoint inst)"

fun bind_loop ::
    "string go_map \<Rightarrow> string go_map \<Rightarrow> string go_map \<Rightarrow> EffectiveInstance list \<Rightarrow> unit result" where
  "bind_loop wireByBind controlByBind egmsByEndpoint [] = Inr ()"
| "bind_loop wireByBind controlByBind egmsByEndpoint (inst # insts) =
     (case map_of wireByBind (wire_key inst) of
        Some prior \<Rightarrow> Inl (''resolved wire endpoint '' @ wire_key inst @ '' for '' @ go_quote (ef_InstanceID inst) @
          '' duplicates '' @ go_quote prior)
      | None \<Rightarrow>
     (case map_of controlByBind (control_key inst) of
        Some prior \<Rightarrow> Inl (''resolved control endpoint '' @ control_key inst @ '' for '' @
          go_quote (ef_InstanceID inst) @ '' duplicates '' @ go_quote prior)
      | None \<Rightarrow>
     (case map_of egmsByEndpoint (egm_key inst) of
        Some prior \<Rightarrow> Inl (''resolved egm endpoint '' @ egm_key inst @ '' for '' @ go_quote (ef_InstanceID inst) @
          '' duplicates '' @ go_quote prior)
      | None \<Rightarrow>
          bind_loop (go_set (wire_key inst) (ef_InstanceID inst) wireByBind)
            (go_set (control_key inst) (ef_InstanceID inst) controlByBind)
            (go_set (egm_key inst) (ef_InstanceID inst) egmsByEndpoint) insts)))"

definition validateResolvedInstances :: "EffectiveInstance list \<Rightarrow> unit result" where
  "validateResolvedInstances instances = bind_loop [] [] [] instances"

definition ResolveInstances ::
    "url_parser \<Rightarrow> (string \<Rightarrow> string \<Rightarrow> string) \<Rightarrow> Manifest option \<Rightarrow> EffectiveInstance list result" where
  "ResolveInstances pu join mm =
     (case ValidateManifest pu mm of
        Inl e \<Rightarrow> Inl e
      | Inr _ \<Rightarrow>
          (case mm of
             None \<Rightarrow> Inl ''manifest is nil''
           | Some m \<Rightarrow>
               (case resolve_loop join m 0 (mf_Instances m) [] of
                  Inl e \<Rightarrow> Inl e
                | Inr out \<Rightarrow> (case validateResolvedInstances out of Inl e \<Rightarrow> Inl e | Inr _ \<Rightarrow> Inr out))))"

section \<open>Generation (generate.go)\<close>

definition control_bind :: "EffectiveInstance \<Rightarrow> string" where
  "control_bind eff = ''127.0.0.1:'' @ show_int (ef_ControlPort eff)"

definition generated_notes :: "EffectiveInstance \<Rightarrow> string go_map" where
  "generated_notes eff =
     [(''group'', ef_Group eff), (''profile'', ef_Profile eff), (''manufacturer'', ef_Manufacturer eff),
      (''host_id'', ef_HostID eff), (''egm_endpoint_scheme'', fe_Scheme (ef_EGMEndpoint eff)),
      (''egm_endpoint_bind_ip'', fe_BindIP (ef_EGMEndpoint eff)),
      (''egm_endpoint_host'', fe_Host (ef_EGMEndpoint eff)), (''egm_endpoint_path'', fe_Path (ef_EGMEndpoint eff)),
      (''host_endpoint_url'', fh_URL (ef_HostEndpoint eff)), (''g2s_xml_mode'', fx_Mode (ef_G2SXML eff)),
      (''g2s_xml_namespace'', fx_Namespace (ef_G2SXML eff)),
      (''g2s_xml_egm_location'', fx_EGMLocation (ef_G2SXML eff)), (''advertised_host'', ef_AdvertisedHost eff),
      (''advertised_ip'', ef_AdvertisedIP eff), (''subnet_mask'', ef_SubnetMask eff), (''gateway'', ef_Gateway eff),
      (''server_name'', ef_ServerName eff), (''dns_servers'', join_with '','' (ef_DNSServers eff)),
      (''cert_file'', ef_CertFile eff), (''key_file'', ef_KeyFile eff), (''ca_file'', ef_CAFile eff),
      (''storage_backend'', ef_StorageBackend eff), (''sqlite_path'', ef_SQLitePath eff),
      (''control_bind'', control_bind eff)]"

definition generated_engine :: "EffectiveInstance \<Rightarrow> SessionEngineConfig" where
  "generated_engine eff =
     (if fh_URL (ef_HostEndpoint eff) \<noteq> []
      then \<lparr>se_Enabled = True, se_AutoStart = True, se_CommsOnlineTimeoutMS = 3000, se_KeepAliveIntervalMS = 5000,
            se_ReconnectIntervalMS = 5000, se_AcceptWrappedG2SResponseAck = False\<rparr>
      else \<lparr>se_Enabled = False, se_AutoStart = False, se_CommsOnlineTimeoutMS = 0, se_KeepAliveIntervalMS = 0,
            se_ReconnectIntervalMS = 0, se_AcceptWrappedG2SResponseAck = False\<rparr>)"

definition generated_config :: "EffectiveInstance \<Rightarrow> Config" where
  "generated_config eff =
     \<lparr>c_InstanceID = ef_InstanceID eff, c_HostID = ef_HostID eff, c_EGMID = ef_EGMID eff,
      c_EGMEndpoint = \<lparr>ee_Scheme = fe_Scheme (ef_EGMEndpoint eff), ee_BindIP = fe_BindIP (ef_EGMEndpoint eff),
        ee_Host = fe_Host (ef_EGMEndpoint eff), ee_Port = fe_Port (ef_EGMEndpoint eff),
        ee_Path = fe_Path (ef_EGMEndpoint eff)\<rparr>,
      c_HostEndpoint = \<lparr>he_URL = fh_URL (ef_HostEndpoint eff)\<rparr>,
      c_G2SXML = \<lparr>gx_Mode = fx_Mode (ef_G2SXML eff), gx_Namespace = fx_Namespace (ef_G2SXML eff),
        gx_EGMLocation = fx_EGMLocation (ef_G2SXML eff)\<rparr>,
      c_SessionEngine = generated_engine eff,
      c_Listen = \<lparr>li_Host = ef_ListenHost eff, li_Port = ef_WirePort eff\<rparr>,
      c_Security = \<lparr>sc_TrustMode = ef_TrustMode eff, sc_CertFile = ef_CertFile eff, sc_KeyFile = ef_KeyFile eff,
        sc_CAFile = ef_CAFile eff\<rparr>,
      c_Logging = \<lparr>lo_Dir = ef_LogDir eff, lo_CaptureRawXML = True, lo_CaptureRenderedXML = True\<rparr>,
      c_Storage = \<lparr>st_Backend = ef_StorageBackend eff, st_SQLitePath = ef_SQLitePath eff\<rparr>,
      c_Control = \<lparr>co_Bind = control_bind eff\<rparr>,
      c_Outbound = \<lparr>ob_DefaultTargetURL = [], ob_ServerName = [], ob_Path = [], ob_TimeoutMS = 0,
        ob_UseRuntimeCerts = False,
        ob_Scheduler = \<lparr>os_Enabled = False, os_AutoStart = False, os_OpenSessionOnStart = False,
          os_HeartbeatIntervalMS = 0, os_OpenRetryIntervalMS = 0, os_FailureThreshold = 0,
          os_RunHeartbeatWhenIdle = False\<rparr>\<rparr>,
      c_PackFile = ef_PackFile eff, c_Overlay = ef_OverlayFiles eff, c_Notes = generated_notes eff\<rparr>"

record GeneratedConfig =
  gc_Instance :: EffectiveInstance
  gc_Path :: string
  gc_Config :: Config

fun generate_loop ::
    "(string \<Rightarrow> string \<Rightarrow> string) \<Rightarrow> (string \<Rightarrow> Config \<Rightarrow> unit result) \<Rightarrow> string \<Rightarrow> EffectiveInstance list \<Rightarrow>
     GeneratedConfig list \<Rightarrow> GeneratedConfig list result" where
  "generate_loop join writeFile outDir [] out = Inr out"
| "generate_loop join writeFile outDir (eff # effs) out =
     (let cfg = generated_config eff; path = join outDir (ef_InstanceID eff @ ''.json'')
      in case writeFile path cfg of
           Inl e \<Rightarrow> Inl (''write generated config for '' @ ef_InstanceID eff @ '': '' @ e)
         | Inr _ \<Rightarrow>
             generate_loop join writeFile outDir effs
               (out @ [\<lparr>gc_Instance = eff, gc_Path = path, gc_Config = cfg\<rparr>]))"

definition GenerateConfigs ::
    "url_parser \<Rightarrow> (string \<Rightarrow> string \<Rightarrow> string) \<Rightarrow> (string \<Rightarrow> unit result) \<Rightarrow> (string \<Rightarrow> Config \<Rightarrow> unit result) \<Rightarrow>
     Manifest option \<Rightarrow> string \<Rightarrow> GeneratedConfig list result" where
  "GenerateConfigs pu join mkdir writeFile mm outDir =
     (case ResolveInstances pu join mm of
        Inl e \<Rightarrow> Inl e
      | Inr effective \<Rightarrow>
          let dir = (if outDir = [] then ''./generated'' else outDir)
          in case mkdir dir of
               Inl e \<Rightarrow> Inl (''mkdir generated dir: '' @ e)
             | Inr _ \<Rightarrow> generate_loop join writeFile dir effective [])"

section \<open>Layers\<close>

text \<open>A layered setting: a later layer overrides what it sets and keeps the rest, so layers
  compose and an empty layer changes nothing.\<close>

locale layered =
  fixes merge :: "'a \<Rightarrow> 'a \<Rightarrow> 'a"
    and empty :: 'a
  assumes merge_assoc: "merge (merge a b) c = merge a (merge b c)"
    and merge_empty_right: "merge a empty = a"
    and merge_empty_left: "merge empty a = a"
    and merge_idem: "merge a a = a"
begin

definition layers :: "'a list \<Rightarrow> 'a" where
  "layers ls = foldl merge empty ls"

lemma layers_foldl: "foldl merge a ls = merge a (layers ls)"
  unfolding layers_def
proof (induction ls arbitrary: a)
  case (Cons x ls)
  show ?case
    using Cons.IH [of "merge a x"] Cons.IH [of x] by (simp only: foldl_Cons merge_empty_left merge_assoc)
qed (simp add: merge_empty_right)

lemma layers_append: "layers (xs @ ys) = merge (layers xs) (layers ys)"
proof -
  have "layers (xs @ ys) = foldl merge (layers xs) ys" by (simp add: layers_def)
  then show ?thesis by (simp only: layers_foldl)
qed

lemma layers_Cons: "layers (a # ls) = merge a (layers ls)"
proof -
  have "layers (a # ls) = foldl merge (merge empty a) ls" by (simp add: layers_def)
  then show ?thesis by (simp only: merge_empty_left layers_foldl)
qed

lemma drop_empty_layer: "layers (xs @ empty # ys) = layers (xs @ ys)"
  by (simp only: layers_append layers_Cons merge_empty_left)

lemma repeated_layer: "layers (a # a # ls) = layers (a # ls)"
  by (simp only: layers_Cons merge_assoc [symmetric] merge_idem)

end

interpretation endpoint_layers: layered mergeEndpoint no_endpoint
  by unfold_locales (simp_all add: mergeEndpoint_def no_endpoint_def)

interpretation host_layers: layered mergeHostEndpoint no_host_endpoint
  by unfold_locales (simp_all add: mergeHostEndpoint_def no_host_endpoint_def)

interpretation xml_layers: layered mergeG2SXML no_xml
  by unfold_locales (simp_all add: mergeG2SXML_def no_xml_def)

lemma map_of_fold_set:
  "map_of (fold (\<lambda>(k, v) out. go_set k v out) kvs acc) = map_of acc ++ map_of (rev kvs)"
proof (induction kvs arbitrary: acc)
  case (Cons kv kvs)
  obtain k v where "kv = (k, v)" by (cases kv)
  then show ?case by (simp add: Cons.IH update_conv' fun_eq_iff map_add_def split: option.split)
qed simp

lemma map_of_rev: "distinct (map fst kvs) \<Longrightarrow> map_of (rev kvs) = map_of kvs"
  by (rule map_of_inject_set [THEN iffD2]) (simp_all add: rev_map [symmetric])

lemma map_of_mergeMaps:
  assumes "distinct (map fst base)" "distinct (map fst overlay)"
  shows "map_of (mergeMaps base overlay) = map_of base ++ map_of overlay"
  using assms by (simp add: mergeMaps_def map_of_fold_set map_of_rev)

section \<open>Binding addresses\<close>

lemma bind_loop_Inr:
  "bind_loop wire control egm insts = Inr () \<longleftrightarrow>
     distinct (map wire_key insts) \<and> distinct (map control_key insts) \<and> distinct (map egm_key insts) \<and>
     (\<forall>inst \<in> set insts. wire_key inst \<notin> fst ` set wire \<and> control_key inst \<notin> fst ` set control \<and>
        egm_key inst \<notin> fst ` set egm)"
proof (induction insts arbitrary: wire control egm)
  case (Cons inst insts)
  have keys: "fst ` set (go_set k v m) = insert k (fst ` set m)" for k v and m :: "string go_map"
    using dom_update [of k v m] by (simp add: dom_map_of_conv_image_fst)
  have none: "map_of m k = None \<longleftrightarrow> k \<notin> fst ` set m" for k and m :: "string go_map"
    by (rule map_of_eq_None_iff)
  consider "wire_key inst \<in> fst ` set wire \<or> control_key inst \<in> fst ` set control \<or> egm_key inst \<in> fst ` set egm"
    | "map_of wire (wire_key inst) = None" "map_of control (control_key inst) = None"
      "map_of egm (egm_key inst) = None"
    unfolding none by blast
  then show ?case
  proof cases
    case 1
    then have "bind_loop wire control egm (inst # insts) \<noteq> Inr ()"
      by (simp split: option.split) (auto simp: none)
    with 1 show ?thesis by auto
  next
    case 2
    then show ?thesis
      by (simp add: Cons.IH keys) (fastforce simp: none image_iff)
  qed
qed simp

lemma resolve_loop_Inr:
  assumes "resolve_loop join m idx insts out = Inr effs"
  shows "\<exists>new. effs = out @ new \<and> length new = length insts \<and>
    (\<forall>i < length insts. resolveInstance join m (idx + i) (insts ! i) = Inr (new ! i))"
  using assms
proof (induction insts arbitrary: idx out)
  case (Cons inst insts)
  then obtain eff where eff: "resolveInstance join m idx inst = Inr eff"
    and "resolve_loop join m (Suc idx) insts (out @ [eff]) = Inr effs"
    by (auto split: sum.splits)
  from Cons.IH [OF this(2)] obtain new where "effs = out @ [eff] @ new" "length new = length insts"
    "\<forall>i < length insts. resolveInstance join m (Suc idx + i) (insts ! i) = Inr (new ! i)"
    by auto
  with eff show ?case
    by (intro exI [of _ "eff # new"]) (auto simp: nth_Cons split: nat.split)
qed simp

lemma ResolveInstances_Inr:
  assumes "ResolveInstances pu join (Some m) = Inr effs"
  shows "manifest_wf pu m \<and> length effs = length (mf_Instances m) \<and>
    (\<forall>i < length effs. resolveInstance join m i (mf_Instances m ! i) = Inr (effs ! i)) \<and>
    validateResolvedInstances effs = Inr ()"
proof -
  from assms have "ValidateManifest pu (Some m) = Inr ()"
    and "resolve_loop join m 0 (mf_Instances m) [] = Inr effs" "validateResolvedInstances effs = Inr ()"
    by (auto simp: ResolveInstances_def split: sum.splits)
  with resolve_loop_Inr [OF this(2)] show ?thesis
    by (auto simp: manifest_validator.accepts_iff)
qed

lemma resolveInstance_case:
  "case resolveInstance join m idx inst of
     Inl e \<Rightarrow> True
   | Inr eff \<Rightarrow>
       ef_InstanceID eff = fi_InstanceID inst \<and> ef_EGMID eff = fi_EGMID inst \<and>
       ef_EGMEndpoint eff = resolve_endpoint m idx inst \<and> ef_PackFile eff \<noteq> [] \<and> ef_HostID eff \<noteq> [] \<and>
       ef_HostEndpoint eff = mergeHostEndpoint (mergeHostEndpoint (df_HostEndpoint (mf_Defaults m))
         (pf_HostEndpoint (profile_of m inst))) (fi_HostEndpoint inst) \<and>
       ef_G2SXML eff = defaultG2SXML (mergeG2SXML (mergeG2SXML (df_G2SXML (mf_Defaults m))
         (pf_G2SXML (profile_of m inst))) (fi_G2SXML inst)) (resolve_endpoint m idx inst) \<and>
       ef_LogDir eff = (if fi_LogDir inst = []
         then join (firstNonEmpty [df_LogRoot (mf_Defaults m), ''./logs'']) (fi_InstanceID inst) else fi_LogDir inst) \<and>
       ef_ListenHost eff = resolve_listen m inst \<and> ef_WirePort eff = resolve_wire_port m idx inst \<and>
       ef_ControlPort eff = resolve_control_port m idx inst \<and> ef_TrustMode eff = resolve_trust m \<and>
       ef_StorageBackend eff = firstNonEmpty [df_StorageBackend (mf_Defaults m), ''noop'']"
  unfolding resolveInstance_def Let_def
  by (cases "firstNonEmpty [pf_PackFile (profile_of m inst), df_PackFile (mf_Defaults m)] = []")
    (simp_all only: if_True if_False sum.case EffectiveInstance.select_convs simp_thms, simp)

lemma resolveInstance_resolves:
  assumes "firstNonEmpty [pf_PackFile (profile_of m inst), df_PackFile (mf_Defaults m)] \<noteq> []"
  obtains eff where "resolveInstance join m idx inst = Inr eff"
  using assms unfolding resolveInstance_def Let_def by (simp only: if_False)

lemma resolveInstance_parts:
  assumes "resolveInstance join m idx inst = Inr eff"
  shows "ef_InstanceID eff = fi_InstanceID inst" "ef_EGMID eff = fi_EGMID inst"
    "ef_EGMEndpoint eff = resolve_endpoint m idx inst" "ef_PackFile eff \<noteq> []" "ef_HostID eff \<noteq> []"
    "ef_HostEndpoint eff = mergeHostEndpoint (mergeHostEndpoint (df_HostEndpoint (mf_Defaults m))
       (pf_HostEndpoint (profile_of m inst))) (fi_HostEndpoint inst)"
    "ef_G2SXML eff = defaultG2SXML (mergeG2SXML (mergeG2SXML (df_G2SXML (mf_Defaults m))
       (pf_G2SXML (profile_of m inst))) (fi_G2SXML inst)) (resolve_endpoint m idx inst)"
    "ef_LogDir eff = (if fi_LogDir inst = []
       then join (firstNonEmpty [df_LogRoot (mf_Defaults m), ''./logs'']) (fi_InstanceID inst) else fi_LogDir inst)"
    "ef_ListenHost eff = resolve_listen m inst" "ef_WirePort eff = resolve_wire_port m idx inst"
    "ef_ControlPort eff = resolve_control_port m idx inst" "ef_TrustMode eff = resolve_trust m"
    "ef_StorageBackend eff = firstNonEmpty [df_StorageBackend (mf_Defaults m), ''noop'']"
  using resolveInstance_case [where join = join and m = m and idx = idx and inst = inst]
  unfolding assms sum.case by blast+

section \<open>A sample fleet\<close>

definition sample_join :: "string \<Rightarrow> string \<Rightarrow> string" where
  "sample_join a b = a @ ''/'' @ b"

definition sample_defaults :: Defaults where
  "sample_defaults =
     \<lparr>df_HostID = ''HOST-001'', df_ListenHost = [], df_WirePortBase = 8000, df_ControlPortBase = 9000,
      df_EGMEndpoint = no_endpoint, df_HostEndpoint = \<lparr>fh_URL = ''http://host/g2s''\<rparr>, df_G2SXML = no_xml,
      df_TrustMode = [], df_PackFile = [], df_OverlayFiles = [], df_LogRoot = [], df_StorageBackend = [],
      df_SQLiteRoot = [], df_AdvertisedHost = [], df_AdvertisedIP = [], df_DNSServers = [], df_SubnetMask = [],
      df_Gateway = [], df_ServerName = [], df_CertFile = [], df_KeyFile = [], df_CAFile = [], df_Heartbeat = [],
      df_NormalizedState = [], df_Faults = []\<rparr>"

definition sample_instance :: "string \<Rightarrow> string \<Rightarrow> string \<Rightarrow> int \<Rightarrow> Instance" where
  "sample_instance iid egm bind control =
     \<lparr>fi_InstanceID = iid, fi_EGMID = egm, fi_HostID = [], fi_Group = ''floor'', fi_WirePort = 0,
      fi_ControlPort = control, fi_BindHost = bind, fi_EGMEndpoint = no_endpoint,
      fi_HostEndpoint = no_host_endpoint, fi_G2SXML = no_xml, fi_AdvertisedHost = [], fi_AdvertisedIP = [],
      fi_DNSServers = [], fi_SubnetMask = [], fi_Gateway = [], fi_ServerName = [], fi_LogDir = [],
      fi_SQLitePath = [], fi_CertFile = [], fi_KeyFile = [], fi_CAFile = [], fi_Overrides = []\<rparr>"

definition sample_manifest :: Manifest where
  "sample_manifest =
     \<lparr>mf_SchemaVersion = ManifestSchemaVersion, mf_FleetName = ''lab'', mf_Description = [],
      mf_Defaults = sample_defaults,
      mf_Profiles = [(''base'', no_profile\<lparr>pf_PackFile := ''pack.json'', pf_LogicalCommands := [(''open'', ''commsOnLine'')]\<rparr>)],
      mf_Groups = [(''floor'', no_group\<lparr>gr_Profile := ''base''\<rparr>)],
      mf_Instances = [sample_instance ''vegm-001'' ''EGM-001'' ''127.0.0.2'' 0,
        sample_instance ''vegm-002'' ''EGM-002'' ''127.0.0.3'' 9000]\<rparr>"

lemma sample_manifest_wf: "manifest_wf sample_url sample_manifest"
  by (simp add: manifest_wf_def sample_manifest_def sample_defaults_def sample_instance_def instance_wf_def
      profile_wf_def group_wf_def endpoint_wf_def host_endpoint_wf_def host_url_ok_def sample_url_def
      no_endpoint_def no_host_endpoint_def no_profile_def no_group_def resolvedHostID_def)
    code_simp

lemma sample_profile: "fi_Group inst = ''floor'' \<Longrightarrow> profile_of sample_manifest inst =
    no_profile\<lparr>pf_PackFile := ''pack.json'', pf_LogicalCommands := [(''open'', ''commsOnLine'')]\<rparr>"
  by (simp add: profile_of_def group_of_def sample_manifest_def)

lemma sample_instance_resolves:
  fixes idx :: nat
  defines "inst \<equiv> mf_Instances sample_manifest ! idx"
  assumes "idx < 2"
  shows "\<exists>eff. resolveInstance sample_join sample_manifest idx inst = Inr eff \<and>
    ef_ListenHost eff = fi_BindHost inst \<and> ef_WirePort eff = 8000 + int idx \<and> ef_ControlPort eff = 9000 \<and>
    ef_EGMEndpoint eff = \<lparr>fe_Scheme = ''http'', fe_BindIP = fi_BindHost inst, fe_Host = fi_BindHost inst,
      fe_Port = 8000 + int idx, fe_Path = ''/g2s''\<rparr> \<and>
    ef_StorageBackend eff = ''noop'' \<and> ef_TrustMode eff = ''plaintext_lab'' \<and>
    fx_Mode (ef_G2SXML eff) = ''lab_legacy_xml''"
proof -
  have dflt: "mf_Defaults sample_manifest = sample_defaults" by (simp add: sample_manifest_def)
  have inst: "inst \<in> {sample_instance ''vegm-001'' ''EGM-001'' ''127.0.0.2'' 0,
      sample_instance ''vegm-002'' ''EGM-002'' ''127.0.0.3'' 9000}"
    and control: "fi_ControlPort inst = (if idx = 0 then 0 else 9000)"
    using assms(2) by (auto simp: inst_def sample_manifest_def sample_instance_def less_2_cases_iff)
  then have prof: "profile_of sample_manifest inst =
      no_profile\<lparr>pf_PackFile := ''pack.json'', pf_LogicalCommands := [(''open'', ''commsOnLine'')]\<rparr>"
    by (intro sample_profile) (auto simp: sample_instance_def)
  obtain eff where eff: "resolveInstance sample_join sample_manifest idx inst = Inr eff"
    by (rule resolveInstance_resolves [of sample_manifest inst]) (simp add: prof)
  have "resolve_listen sample_manifest inst = fi_BindHost inst"
    using inst by (auto simp: resolve_listen_def sample_instance_def)
  moreover have "resolve_wire_port sample_manifest idx inst = 8000 + int idx"
    using inst assms(2) by (auto simp: resolve_wire_port_def prof sample_instance_def dflt
        sample_defaults_def no_profile_def no_endpoint_def wrap64_id int64_range_def)
  moreover have "resolve_control_port sample_manifest idx inst = 9000"
    using assms(2) control by (auto simp: resolve_control_port_def dflt sample_defaults_def wrap64_id int64_range_def)
  moreover have "resolve_trust sample_manifest = ''plaintext_lab''"
    by (simp add: resolve_trust_def dflt sample_defaults_def)
  moreover have "merged_endpoint sample_manifest inst = no_endpoint" "fi_AdvertisedHost inst = []"
      "fi_AdvertisedIP inst = []" "fi_BindHost inst \<noteq> []"
    using inst by (auto simp: merged_endpoint_def prof dflt sample_instance_def sample_defaults_def no_profile_def
        endpoint_layers.merge_idem)
  moreover from calculation have "resolve_endpoint sample_manifest idx inst = \<lparr>fe_Scheme = ''http'',
      fe_BindIP = fi_BindHost inst, fe_Host = fi_BindHost inst, fe_Port = 8000 + int idx, fe_Path = ''/g2s''\<rparr>"
    by (simp add: resolve_endpoint_def no_endpoint_def default_scheme_def default_bind_def
        default_host_def default_port_def default_path_def)
  moreover have "fx_Mode (defaultG2SXML (mergeG2SXML (mergeG2SXML (df_G2SXML (mf_Defaults sample_manifest))
      (pf_G2SXML (profile_of sample_manifest inst))) (fi_G2SXML inst)) ep) = ''lab_legacy_xml''" for ep
    using inst by (auto simp: prof sample_instance_def dflt sample_defaults_def no_profile_def
        no_xml_def mergeG2SXML_def defaultG2SXML_def Let_def)
  moreover have "df_StorageBackend (mf_Defaults sample_manifest) = []"
    by (simp add: dflt sample_defaults_def)
  ultimately show ?thesis
    using eff by (intro exI [of _ eff]) (simp add: resolveInstance_parts [OF eff])
qed

lemma sample_resolves:
  obtains e1 e2 where "ResolveInstances sample_url sample_join (Some sample_manifest) = Inr [e1, e2]"
    "ef_ControlPort e1 = 9000" "ef_ControlPort e2 = 9000" "fe_Port (ef_EGMEndpoint e1) = 8000"
    "ef_StorageBackend e1 = ''noop''" "ef_TrustMode e1 = ''plaintext_lab''"
    "fx_Mode (ef_G2SXML e1) = ''lab_legacy_xml''"
proof -
  have insts: "mf_Instances sample_manifest = [sample_instance ''vegm-001'' ''EGM-001'' ''127.0.0.2'' 0,
      sample_instance ''vegm-002'' ''EGM-002'' ''127.0.0.3'' 9000]"
    by (simp add: sample_manifest_def)
  obtain e1 where e1: "resolveInstance sample_join sample_manifest 0 (mf_Instances sample_manifest ! 0) = Inr e1"
    "ef_ListenHost e1 = ''127.0.0.2''" "ef_WirePort e1 = 8000" "ef_ControlPort e1 = 9000"
    "ef_EGMEndpoint e1 = \<lparr>fe_Scheme = ''http'', fe_BindIP = ''127.0.0.2'', fe_Host = ''127.0.0.2'',
      fe_Port = 8000, fe_Path = ''/g2s''\<rparr>"
    "ef_StorageBackend e1 = ''noop''" "ef_TrustMode e1 = ''plaintext_lab''"
    "fx_Mode (ef_G2SXML e1) = ''lab_legacy_xml''"
    using sample_instance_resolves [of 0] by (auto simp: insts sample_instance_def)
  obtain e2 where e2: "resolveInstance sample_join sample_manifest 1 (mf_Instances sample_manifest ! 1) = Inr e2"
    "ef_ListenHost e2 = ''127.0.0.3''" "ef_WirePort e2 = 8001" "ef_ControlPort e2 = 9000"
    "ef_EGMEndpoint e2 = \<lparr>fe_Scheme = ''http'', fe_BindIP = ''127.0.0.3'', fe_Host = ''127.0.0.3'',
      fe_Port = 8001, fe_Path = ''/g2s''\<rparr>"
    using sample_instance_resolves [of 1] by (auto simp: insts sample_instance_def)
  have "validateResolvedInstances [e1, e2] = Inr ()"
    unfolding validateResolvedInstances_def bind_loop_Inr
    by (simp add: wire_key_def control_key_def egm_key_def e1 e2 host_port_inj)
  moreover have "ValidateManifest sample_url (Some sample_manifest) = Inr ()"
    using sample_manifest_wf by (simp add: manifest_validator.accepts_iff)
  ultimately have R: "ResolveInstances sample_url sample_join (Some sample_manifest) = Inr [e1, e2]"
    using e1(1) e2(1) by (simp add: ResolveInstances_def insts)
  show ?thesis by (rule that [OF R]) (simp_all add: e1 e2)
qed

text \<open>
  C16: a fleet that resolves has one effective instance per manifest instance, in order, with
  distinct instance and machine identifiers, no two of them listening on the same wire address
  or sharing a listen host and control port.
\<close>

theorem ResolveInstances_distinct:
  assumes "ResolveInstances pu join (Some m) = Inr effs"
  shows "map ef_InstanceID effs = map fi_InstanceID (mf_Instances m) \<and>
    distinct (map ef_InstanceID effs) \<and> distinct (map ef_EGMID effs) \<and>
    distinct (map (\<lambda>e. (ef_ListenHost e, ef_WirePort e)) effs) \<and>
    distinct (map (\<lambda>e. (ef_ListenHost e, ef_ControlPort e)) effs)"
proof -
  note R = ResolveInstances_Inr [OF assms]
  have ids: "map ef_InstanceID effs = map fi_InstanceID (mf_Instances m)"
    "map ef_EGMID effs = map fi_EGMID (mf_Instances m)"
    using R resolveInstance_parts(1,2) by (auto intro!: nth_equalityI)
  have "distinct (map wire_key effs)" "distinct (map control_key effs)"
    using R by (auto simp: validateResolvedInstances_def bind_loop_Inr)
  then have "distinct (map (\<lambda>e. (ef_ListenHost e, ef_WirePort e)) effs)"
      "distinct (map (\<lambda>e. (ef_ListenHost e, ef_ControlPort e)) effs)"
    by (auto simp: distinct_map inj_on_def wire_key_def control_key_def host_port_inj)
  with ids R show ?thesis by (simp add: manifest_wf_def)
qed

theorem ResolveInstances_distinct_witness:
  "\<exists>effs. ResolveInstances sample_url sample_join (Some sample_manifest) = Inr effs \<and> length effs = 2 \<and>
     distinct (map (\<lambda>e. (ef_ListenHost e, ef_WirePort e)) effs)"
proof -
  from sample_resolves obtain e1 e2 where
    R: "ResolveInstances sample_url sample_join (Some sample_manifest) = Inr [e1, e2]" by blast
  with ResolveInstances_distinct [OF R] show ?thesis by (intro exI [of _ "[e1, e2]"]) simp
qed

section \<open>Generated configurations\<close>

lemma mergeHostEndpoint_wf:
  "host_endpoint_wf pu a \<Longrightarrow> host_endpoint_wf pu b \<Longrightarrow> host_endpoint_wf pu (mergeHostEndpoint a b)"
  by (simp add: mergeHostEndpoint_def host_endpoint_wf_def)

lemma mergeEndpoint_wf: "endpoint_wf a \<Longrightarrow> endpoint_wf b \<Longrightarrow> endpoint_wf (mergeEndpoint a b)"
  by (auto simp: mergeEndpoint_def endpoint_wf_def)

lemma profile_of_wf:
  assumes "manifest_wf pu m" "inst \<in> set (mf_Instances m)"
  shows "endpoint_wf (pf_EGMEndpoint (profile_of m inst))" "host_endpoint_wf pu (pf_HostEndpoint (profile_of m inst))"
proof -
  from assms obtain g where "map_of (mf_Groups m) (fi_Group inst) = Some g"
    by (auto simp: manifest_wf_def instance_wf_def)
  moreover from this have "(fi_Group inst, g) \<in> set (mf_Groups m)" by (rule map_of_SomeD)
  then obtain p where p: "map_of (mf_Profiles m) (gr_Profile g) = Some p"
    using assms(1) by (auto simp: manifest_wf_def group_wf_def)
  ultimately have "profile_of m inst = p" by (simp add: profile_of_def group_of_def)
  moreover have "(gr_Profile g, p) \<in> set (mf_Profiles m)" using p by (rule map_of_SomeD)
  ultimately show "endpoint_wf (pf_EGMEndpoint (profile_of m inst))"
    "host_endpoint_wf pu (pf_HostEndpoint (profile_of m inst))"
    using assms(1) by (auto simp: manifest_wf_def profile_wf_def)
qed

lemma default_frames [frame_simps]:
  "fe_Scheme (default_bind l ep) = fe_Scheme ep" "fe_Scheme (default_host i ep) = fe_Scheme ep"
  "fe_Scheme (default_port p ep) = fe_Scheme ep" "fe_Scheme (default_path ep) = fe_Scheme ep"
  "fe_BindIP (default_scheme t ep) = fe_BindIP ep" "fe_BindIP (default_host i ep) = fe_BindIP ep"
  "fe_BindIP (default_port p ep) = fe_BindIP ep" "fe_BindIP (default_path ep) = fe_BindIP ep"
  "fe_Host (default_port p ep) = fe_Host ep" "fe_Host (default_path ep) = fe_Host ep"
  "fe_Path (default_scheme t ep) = fe_Path ep" "fe_Path (default_bind l ep) = fe_Path ep"
  "fe_Path (default_host i ep) = fe_Path ep" "fe_Path (default_port p ep) = fe_Path ep"
  by (simp_all add: default_scheme_def default_bind_def default_host_def default_port_def default_path_def)

lemma default_filled:
  "fe_Scheme (default_scheme t ep) = (if fe_Scheme ep = [] then (if t = ''plaintext_lab'' \<or> t = [] then ''http'' else ''https'')
     else fe_Scheme ep)"
  "l \<noteq> [] \<Longrightarrow> fe_BindIP (default_bind l ep) \<noteq> []"
  "fe_BindIP ep \<noteq> [] \<Longrightarrow> fe_Host (default_host i ep) \<noteq> []"
  "fe_Path (default_path ep) = (if fe_Path ep = [] then ''/g2s'' else fe_Path ep)"
  by (simp_all add: default_scheme_def default_bind_def default_host_def default_path_def)

lemma resolve_endpoint_complete:
  assumes "manifest_wf pu m" "inst \<in> set (mf_Instances m)"
  shows "fe_Scheme (resolve_endpoint m idx inst) \<in> {''http'', ''https''}" "fe_BindIP (resolve_endpoint m idx inst) \<noteq> []"
    "fe_Host (resolve_endpoint m idx inst) \<noteq> []" "HasPrefix (fe_Path (resolve_endpoint m idx inst)) ''/''"
proof -
  have "endpoint_wf (df_EGMEndpoint (mf_Defaults m))" "endpoint_wf (fi_EGMEndpoint inst)"
    using assms by (auto simp: manifest_wf_def instance_wf_def)
  then have wf: "endpoint_wf (merged_endpoint m inst)"
    unfolding merged_endpoint_def by (intro mergeEndpoint_wf profile_of_wf(1) [OF assms])
  have listen: "resolve_listen m inst \<noteq> []" by (simp add: resolve_listen_def)
  show "fe_Scheme (resolve_endpoint m idx inst) \<in> {''http'', ''https''}"
    "HasPrefix (fe_Path (resolve_endpoint m idx inst)) ''/''"
    using wf by (auto simp: resolve_endpoint_def frame_simps default_filled endpoint_wf_def)
  show "fe_BindIP (resolve_endpoint m idx inst) \<noteq> []" "fe_Host (resolve_endpoint m idx inst) \<noteq> []"
    using listen by (simp_all add: resolve_endpoint_def frame_simps default_filled)
qed

lemma generated_host_wf:
  assumes "manifest_wf pu m" "inst \<in> set (mf_Instances m)" "resolveInstance join m idx inst = Inr eff"
  shows "host_endpoint_wf pu (ef_HostEndpoint eff)"
proof -
  have "host_endpoint_wf pu (df_HostEndpoint (mf_Defaults m))" "host_endpoint_wf pu (fi_HostEndpoint inst)"
    using assms by (auto simp: manifest_wf_def instance_wf_def)
  then show ?thesis
    unfolding resolveInstance_parts(6) [OF assms(3)]
    by (intro mergeHostEndpoint_wf profile_of_wf(2) [OF assms(1,2)])
qed

text \<open>A configuration that passes the checks as it is still passes them once completed.\<close>

lemma stages_keep [frame_simps]:
  "c_Logging (withHostID cfg) = c_Logging cfg" "c_PackFile (withHostID cfg) = c_PackFile cfg"
  "c_Storage (withHostID cfg) = c_Storage cfg" "c_Security (withHostID cfg) = c_Security cfg"
  "c_SessionEngine (withHostID cfg) = c_SessionEngine cfg" "c_G2SXML (withHostID cfg) = c_G2SXML cfg"
  "c_EGMEndpoint (withHostID cfg) = c_EGMEndpoint cfg" "c_Outbound (withHostID cfg) = c_Outbound cfg"
  "c_Logging (applyEndpointDefaults cfg) = c_Logging cfg" "c_PackFile (applyEndpointDefaults cfg) = c_PackFile cfg"
  "c_Storage (applyEndpointDefaults cfg) = c_Storage cfg" "c_Security (applyEndpointDefaults cfg) = c_Security cfg"
  "c_SessionEngine (applyEndpointDefaults cfg) = c_SessionEngine cfg"
  "c_G2SXML (applyEndpointDefaults cfg) = c_G2SXML cfg"
  "c_Logging (applyG2SXMLDefaults cfg) = c_Logging cfg" "c_PackFile (applyG2SXMLDefaults cfg) = c_PackFile cfg"
  "c_Storage (applyG2SXMLDefaults cfg) = c_Storage cfg" "c_Security (applyG2SXMLDefaults cfg) = c_Security cfg"
  "c_SessionEngine (applyG2SXMLDefaults cfg) = c_SessionEngine cfg"
  "c_EGMEndpoint (applyG2SXMLDefaults cfg) = c_EGMEndpoint cfg"
  by (simp_all add: withHostID_def applyEndpointDefaults_def applyG2SXMLDefaults_def Let_def)

lemma late_stages_keep [frame_simps]:
  "c_Logging (applySessionEngineDefaults cfg) = c_Logging cfg"
  "c_PackFile (applySessionEngineDefaults cfg) = c_PackFile cfg"
  "c_Storage (applySessionEngineDefaults cfg) = c_Storage cfg"
  "c_Security (applySessionEngineDefaults cfg) = c_Security cfg"
  "c_G2SXML (applySessionEngineDefaults cfg) = c_G2SXML cfg"
  "c_EGMEndpoint (applySessionEngineDefaults cfg) = c_EGMEndpoint cfg"
  "se_Enabled (c_SessionEngine (applySessionEngineDefaults cfg)) = se_Enabled (c_SessionEngine cfg)"
  "c_Logging (applyListenDefaults cfg) = c_Logging cfg" "c_PackFile (applyListenDefaults cfg) = c_PackFile cfg"
  "c_Storage (applyListenDefaults cfg) = c_Storage cfg" "c_Security (applyListenDefaults cfg) = c_Security cfg"
  "c_PackFile (withControlBind cfg) = c_PackFile cfg" "c_Storage (withControlBind cfg) = c_Storage cfg"
  "c_Security (withControlBind cfg) = c_Security cfg"
  by (simp_all add: applySessionEngineDefaults_def applyListenDefaults_def withControlBind_def Let_def)

lemma completed_keeps:
  "c_Logging (completed cfg) = c_Logging cfg" "c_PackFile (completed cfg) = c_PackFile cfg"
  "c_Storage (completed cfg) = c_Storage cfg" "c_Security (completed cfg) = c_Security cfg"
  "se_Enabled (c_SessionEngine (completed cfg)) = se_Enabled (c_SessionEngine cfg)"
  by (simp_all add: completed_def frame_simps)

lemma validateOutbound_endpoint:
  "validateOutbound (c_Outbound (applyEndpointDefaults cfg)) = validateOutbound (c_Outbound cfg)"
proof (cases "ob_DefaultTargetURL (c_Outbound cfg) = [] \<and> he_URL (c_HostEndpoint cfg) \<noteq> []")
  case True
  then have "c_Outbound (applyEndpointDefaults cfg) =
      (c_Outbound cfg)\<lparr>ob_DefaultTargetURL := he_URL (c_HostEndpoint cfg)\<rparr>"
    by (simp add: applyEndpointDefaults_def Let_def)
  then show ?thesis by (simp add: validateOutbound_def)
next
  case False
  then have "c_Outbound (applyEndpointDefaults cfg) = c_Outbound cfg"
    by (auto simp: applyEndpointDefaults_def Let_def)
  then show ?thesis by simp
qed

lemma endpoint_filled_kept:
  assumes "ee_Scheme (c_EGMEndpoint cfg) \<noteq> []" "ee_BindIP (c_EGMEndpoint cfg) \<noteq> []"
    "ee_Host (c_EGMEndpoint cfg) \<noteq> []" "ee_Port (c_EGMEndpoint cfg) \<noteq> 0" "ee_Path (c_EGMEndpoint cfg) \<noteq> []"
  shows "c_EGMEndpoint (applyEndpointDefaults cfg) = c_EGMEndpoint cfg"
  using assms by (simp only: applyEndpointDefaults_def Let_def if_False) simp

lemma checks_ok_completed:
  assumes "checks_ok pu cfg"
  shows "checks_ok pu (completed cfg)"
proof -
  have ep: "endpoint_ok (c_EGMEndpoint cfg)" and xml: "validateG2SXML (c_G2SXML cfg) = Inr ()"
    using assms by (auto simp: checks_ok_def validateEGMEndpoint_Inr)
  have "c_EGMEndpoint (applyEndpointDefaults (withHostID cfg)) = c_EGMEndpoint cfg"
    using endpoint_filled_kept [of "withHostID cfg"] endpoint_ok_filled [OF ep] by (simp add: frame_simps)
  then have 1: "c_EGMEndpoint (completed cfg) = c_EGMEndpoint cfg"
    by (simp add: completed_def frame_simps)
  have 2: "c_G2SXML (completed cfg) = c_G2SXML cfg"
    using validateG2SXML_filled [OF xml]
    by (simp add: completed_def frame_simps) (simp add: applyG2SXMLDefaults_def frame_simps)
  have 3: "validateOutbound (c_Outbound (completed cfg)) = validateOutbound (c_Outbound cfg)"
    by (simp add: completed_def frame_simps validateOutbound_endpoint)
  have 4: "c_Logging (completed cfg) = c_Logging cfg" "c_PackFile (completed cfg) = c_PackFile cfg"
    "c_Storage (completed cfg) = c_Storage cfg" "c_Security (completed cfg) = c_Security cfg"
    "se_Enabled (c_SessionEngine (completed cfg)) = se_Enabled (c_SessionEngine cfg)"
    by (simp_all add: completed_keeps)
  show ?thesis
    using assms unfolding checks_ok_def 1 2 3 4 by (simp add: completed_def frame_simps)
qed



text \<open>
  The control addresses of a resolved fleet are kept apart by listen host, but every generated
  configuration binds its control server to the loopback address: a manifest whose instances
  listen on different hosts is accepted and generates two configurations with the same control
  address.
\<close>

theorem generated_control_clash:
  "\<exists>g1 g2. GenerateConfigs sample_url sample_join (\<lambda>_. Inr ()) (\<lambda>_ _. Inr ()) (Some sample_manifest) ''out'' = Inr [g1, g2] \<and>
     co_Bind (c_Control (gc_Config g1)) = co_Bind (c_Control (gc_Config g2))"
proof -
  obtain e1 e2 where
    "ResolveInstances sample_url sample_join (Some sample_manifest) = Inr [e1, e2]"
    "ef_ControlPort e1 = ef_ControlPort e2"
    by (metis sample_resolves)
  then show ?thesis
    by (simp add: GenerateConfigs_def Let_def generated_config_def control_bind_def)
qed

end
