(* ===== verification/Supervisor_Process.thy ===== *)
theory Supervisor_Process
  imports Control Fleet_Resolve
begin

text \<open>
  The processes of the fleet supervisor (\<^verbatim>\<open>src/cmd/vegm-supervisor\<close>): launching an instance
  (\<^verbatim>\<open>scale_launcher.go\<close>, \<^verbatim>\<open>launch.go\<close>), starting and stopping it (\<^verbatim>\<open>server.go\<close>) and the restart policy
  (\<^verbatim>\<open>restart_policy.go\<close>). Every process ever started is an element of \<open>su_children\<close>; \<open>su_cmds\<close> maps an
  instance to the one the supervisor holds, as \<^verbatim>\<open>cmds\<close> does to its \<^verbatim>\<open>exec.Cmd\<close>. A process is alive until
  it ends by itself (\<open>child_ends\<close>), by exit or by a signal, or is killed. \<open>su_monitors\<close> are the running
  \<^verbatim>\<open>monitorChild\<close> goroutines; \<open>monitor_iteration\<close> is one round of one of them, which holds the mutex
  throughout. The operating system is the record \<open>sup_env\<close>; writing the manifest file gives its content
  afterwards, whether or not the write succeeds.
\<close>

section \<open>State\<close>

record sup_env =
  env_pu :: url_parser
  env_join :: "string \<Rightarrow> string \<Rightarrow> string"
  env_dir :: "string \<Rightarrow> string"
  env_base :: "string \<Rightarrow> string"
  env_mkdir :: "string \<Rightarrow> unit result"
  env_openAppend :: "string \<Rightarrow> unit result"
  env_childBinary :: string
  env_executable :: "string result"
  env_windows :: bool
  env_isFile :: "string \<Rightarrow> bool"
  env_lookPath :: "string \<Rightarrow> string result"
  env_exec :: "string list \<Rightarrow> unit result"
  env_writeConfig :: "string \<Rightarrow> Config \<Rightarrow> unit result"
  env_readErr :: "error option"
  env_unmarshal :: "string \<Rightarrow> Manifest result"
  env_marshal :: "Manifest \<Rightarrow> string"
  env_writeManifest :: "string \<Rightarrow> string \<Rightarrow> string \<times> unit result"

datatype process_state = Alive | Exited string | Signalled string

record child =
  ch_Instance :: string
  ch_Argv :: "string list"
  ch_State :: process_state
  ch_Killed :: bool

record restartMeta =
  rm_Desired :: bool
  rm_RestartCount :: int
  rm_LastExit :: string

record supervisorServer =
  su_manifestPath :: string
  su_generatedDir :: string
  su_generated :: "GeneratedConfig list"
  su_cmds :: "nat go_map"
  su_restart :: "restartMeta go_map"
  su_cancelled :: bool
  su_children :: "child list"
  su_monitors :: "string list"
  su_manifestFile :: string

definition newSupervisorServer :: "string \<Rightarrow> string \<Rightarrow> GeneratedConfig list \<Rightarrow> string \<Rightarrow> supervisorServer" where
  "newSupervisorServer manifestPath generatedDir generated manifestFile =
     \<lparr>su_manifestPath = manifestPath, su_generatedDir = generatedDir, su_generated = generated, su_cmds = [],
      su_restart = [], su_cancelled = False, su_children = [], su_monitors = [], su_manifestFile = manifestFile\<rparr>"

definition generatedByID :: "supervisorServer \<Rightarrow> string \<Rightarrow> GeneratedConfig option" where
  "generatedByID s instanceID = find (\<lambda>gen. ef_InstanceID (gc_Instance gen) = instanceID) (su_generated s)"

definition cmd_of :: "supervisorServer \<Rightarrow> string \<Rightarrow> child option" where
  "cmd_of s instanceID = map_option (nth (su_children s)) (map_of (su_cmds s) instanceID)"

section \<open>Launching (scale_launcher.go, launch.go)\<close>

definition siblingVEGMBinary :: "sup_env \<Rightarrow> string" where
  "siblingVEGMBinary env =
     (case env_executable env of
        Inl _ \<Rightarrow> []
      | Inr exe \<Rightarrow>
          let name = (if env_windows env then ''vegm.exe'' else ''vegm'');
              beside = env_join env (env_dir env exe) name;
              in_bin = env_join env (env_join env (env_dir env exe) ''bin'') name
          in if env_isFile env beside then beside else if env_isFile env in_bin then in_bin else [])"

definition buildVEGMCommand :: "sup_env \<Rightarrow> string \<Rightarrow> string list" where
  "buildVEGMCommand env configPath =
     (if env_childBinary env \<noteq> [] then [env_childBinary env, ''-config'', configPath]
      else let bin = siblingVEGMBinary env
           in if bin \<noteq> [] then [bin, ''-config'', configPath]
              else [''go'', ''run'', ''./cmd/vegm'', ''-config'', configPath])"

text \<open>A command of a cancelled context does not start.\<close>

definition start_command :: "sup_env \<Rightarrow> bool \<Rightarrow> string list \<Rightarrow> string list result" where
  "start_command env cancelled argv =
     (if cancelled then Inl ''context canceled''
      else case env_exec env argv of Inl e \<Rightarrow> Inl e | Inr _ \<Rightarrow> Inr argv)"

definition startVEGMProcessForScale :: "sup_env \<Rightarrow> bool \<Rightarrow> string \<Rightarrow> string \<Rightarrow> string list result" where
  "startVEGMProcessForScale env cancelled configPath logDir0 =
     (let logDir = (if logDir0 = [] then env_join env ''logs'' ''supervisor-child'' else logDir0)
      in case env_mkdir env logDir of
           Inl e \<Rightarrow> Inl (''mkdir child log dir: '' @ e)
         | Inr _ \<Rightarrow>
        (case env_openAppend env (env_join env logDir ''process.stdout.log'') of
           Inl e \<Rightarrow> Inl (''open child stdout log: '' @ e)
         | Inr _ \<Rightarrow>
        (case env_openAppend env (env_join env logDir ''process.stderr.log'') of
           Inl e \<Rightarrow> Inl (''open child stderr log: '' @ e)
         | Inr _ \<Rightarrow> start_command env cancelled (buildVEGMCommand env configPath))))"

definition startVEGMProcess :: "sup_env \<Rightarrow> bool \<Rightarrow> string \<Rightarrow> string list result" where
  "startVEGMProcess env cancelled configPath =
     (case env_lookPath env ''go'' of
        Inl e \<Rightarrow> Inl (''find go executable: '' @ e)
      | Inr goExe \<Rightarrow>
          let logPath = env_join env (env_dir env configPath) (env_base env configPath @ ''.process.log'')
          in case env_openAppend env logPath of
               Inl e \<Rightarrow> Inl (''open process log '' @ go_quote logPath @ '': '' @ e)
             | Inr _ \<Rightarrow>
            (case start_command env cancelled [goExe, ''run'', ''./cmd/vegm'', ''-config'', configPath] of
               Inl e \<Rightarrow> Inl (''start VEGM for config '' @ go_quote configPath @ '': '' @ e)
             | Inr argv \<Rightarrow> Inr argv))"

fun launchFleet :: "sup_env \<Rightarrow> bool \<Rightarrow> GeneratedConfig list \<Rightarrow> string list list result" where
  "launchFleet env cancelled [] = Inr []"
| "launchFleet env cancelled (gen # gens) =
     (case startVEGMProcess env cancelled (gc_Path gen) of
        Inl e \<Rightarrow> Inl e
      | Inr cmd \<Rightarrow> (case launchFleet env cancelled gens of Inl e \<Rightarrow> Inl e | Inr cmds \<Rightarrow> Inr (cmd # cmds)))"

text \<open>
  Waiting for the fleet: each round of the loop looks at the clock and, when the deadline has not
  passed, probes the instance at hand; \<open>obs\<close> is what the rounds see. \<open>None\<close> is still waiting after
  these rounds.
\<close>

definition health_url :: "GeneratedConfig \<Rightarrow> string" where
  "health_url gen = ''http://'' @ host_port (ef_ListenHost (gc_Instance gen)) (ef_ControlPort (gc_Instance gen)) @ ''/healthz''"

text \<open>\<open>get\<close> is the status an HTTP GET returns.\<close>

definition isHealthy :: "(string \<Rightarrow> int result) \<Rightarrow> string \<Rightarrow> bool result" where
  "isHealthy get url =
     (case get url of
        Inl e \<Rightarrow> Inl e
      | Inr status \<Rightarrow> if status \<noteq> 200 then Inl (''unexpected status '' @ show_int status) else Inr True)"

fun waitForFleetHealthy :: "time \<Rightarrow> GeneratedConfig list \<Rightarrow> (time \<times> (string \<Rightarrow> int result)) list \<Rightarrow> unit result option" where
  "waitForFleetHealthy deadline [] obs = Some (Inr ())"
| "waitForFleetHealthy deadline (gen # gens) [] = None"
| "waitForFleetHealthy deadline (gen # gens) ((now, get) # obs) =
     (if deadline < now
      then Some (Inl (''timed out waiting for '' @ ef_InstanceID (gc_Instance gen) @ '' to become healthy at '' @ health_url gen))
      else if isHealthy get (health_url gen) = Inr True then waitForFleetHealthy deadline gens obs
      else waitForFleetHealthy deadline (gen # gens) obs)"

section \<open>Start, stop and restart (server.go, restart_policy.go)\<close>

definition maxSupervisorRestarts :: int where
  "maxSupervisorRestarts = 3"

definition exited :: "child \<Rightarrow> bool" where
  "exited c = (case ch_State c of Exited _ \<Rightarrow> True | _ \<Rightarrow> False)"

definition processRunning :: "child option \<Rightarrow> bool" where
  "processRunning cmd = (case cmd of None \<Rightarrow> False | Some c \<Rightarrow> \<not> exited c)"

definition restart_meta :: "supervisorServer \<Rightarrow> string \<Rightarrow> restartMeta" where
  "restart_meta s instanceID =
     (case map_of (su_restart s) instanceID of
        None \<Rightarrow> \<lparr>rm_Desired = False, rm_RestartCount = 0, rm_LastExit = []\<rparr>
      | Some meta \<Rightarrow> meta)"

definition set_meta :: "string \<Rightarrow> restartMeta \<Rightarrow> supervisorServer \<Rightarrow> supervisorServer" where
  "set_meta instanceID meta s = s\<lparr>su_restart := go_set instanceID meta (su_restart s)\<rparr>"

definition markDesired :: "string \<Rightarrow> bool \<Rightarrow> supervisorServer \<Rightarrow> supervisorServer" where
  "markDesired instanceID desired s =
     (let meta = (restart_meta s instanceID)\<lparr>rm_Desired := desired\<rparr>
      in set_meta instanceID (if \<not> desired then meta\<lparr>rm_RestartCount := 0\<rparr> else meta) s)"

definition drop_cmd :: "string \<Rightarrow> supervisorServer \<Rightarrow> supervisorServer" where
  "drop_cmd instanceID s = s\<lparr>su_cmds := go_delete instanceID (su_cmds s)\<rparr>"

definition spawn :: "string \<Rightarrow> string list \<Rightarrow> supervisorServer \<Rightarrow> supervisorServer" where
  "spawn instanceID argv s =
     s\<lparr>su_cmds := go_set instanceID (length (su_children s)) (su_cmds s),
       su_children := su_children s @ [\<lparr>ch_Instance = instanceID, ch_Argv = argv, ch_State = Alive, ch_Killed = False\<rparr>]\<rparr>"

definition kill :: "nat \<Rightarrow> supervisorServer \<Rightarrow> supervisorServer" where
  "kill i s = s\<lparr>su_children := (su_children s)[i := (su_children s ! i)\<lparr>ch_Killed := True\<rparr>]\<rparr>"

definition startOne :: "sup_env \<Rightarrow> string \<Rightarrow> supervisorServer \<Rightarrow> supervisorServer \<times> bool result" where
  "startOne env instanceID s =
     (if processRunning (cmd_of s instanceID) then (s, Inr False)
      else
        let s1 = drop_cmd instanceID s
        in case generatedByID s1 instanceID of
             None \<Rightarrow> (s1, Inl (''instance '' @ go_quote instanceID @ '' not found''))
           | Some gen \<Rightarrow>
               (case startVEGMProcessForScale env (su_cancelled s1) (gc_Path gen) (ef_LogDir (gc_Instance gen)) of
                  Inl e \<Rightarrow> (s1, Inl e)
                | Inr argv \<Rightarrow>
                    let s2 = markDesired instanceID True (spawn instanceID argv s1)
                    in (s2\<lparr>su_monitors := su_monitors s2 @ [instanceID]\<rparr>, Inr True)))"

definition stopOne :: "string \<Rightarrow> supervisorServer \<Rightarrow> supervisorServer \<times> bool" where
  "stopOne instanceID s =
     (let s1 = markDesired instanceID False s
      in case map_of (su_cmds s1) instanceID of
           None \<Rightarrow> (drop_cmd instanceID s1, False)
         | Some i \<Rightarrow> (drop_cmd instanceID (kill i s1), True))"

definition exit_text :: "child \<Rightarrow> string" where
  "exit_text c = (case ch_State c of Alive \<Rightarrow> [] | Exited t \<Rightarrow> t | Signalled t \<Rightarrow> t)"

text \<open>Starting the child again, and one round of \<^verbatim>\<open>monitorChild\<close>; the flag tells whether the loop
  goes on.\<close>

definition restart_child :: "sup_env \<Rightarrow> string \<Rightarrow> restartMeta \<Rightarrow> supervisorServer \<Rightarrow> supervisorServer \<times> bool" where
  "restart_child env instanceID meta s =
     (case generatedByID s instanceID of
        None \<Rightarrow> (drop_cmd instanceID s, False)
      | Some gen \<Rightarrow>
          (case startVEGMProcessForScale env (su_cancelled s) (gc_Path gen) (ef_LogDir (gc_Instance gen)) of
             Inl e \<Rightarrow> (drop_cmd instanceID (set_meta instanceID (meta\<lparr>rm_LastExit := ''restart failed: '' @ e\<rparr>) s), False)
           | Inr argv \<Rightarrow> (spawn instanceID argv s, True)))"

definition monitor_iteration :: "sup_env \<Rightarrow> string \<Rightarrow> supervisorServer \<Rightarrow> supervisorServer \<times> bool" where
  "monitor_iteration env instanceID s =
     (let meta = restart_meta s instanceID
      in if \<not> rm_Desired meta then (s, False)
         else case cmd_of s instanceID of
           None \<Rightarrow> (s, False)
         | Some cmd \<Rightarrow>
             if \<not> exited cmd then (s, True)
             else
               let meta1 = meta\<lparr>rm_LastExit := exit_text cmd\<rparr>
               in if rm_RestartCount meta1 \<ge> maxSupervisorRestarts
                  then (drop_cmd instanceID (set_meta instanceID (meta1\<lparr>rm_Desired := False\<rparr>) s), False)
                  else
                    let meta2 = meta1\<lparr>rm_RestartCount := wrap64 (rm_RestartCount meta1 + 1)\<rparr>
                    in restart_child env instanceID meta2 (set_meta instanceID meta2 s))"

definition run_monitor :: "sup_env \<Rightarrow> string \<Rightarrow> supervisorServer \<Rightarrow> supervisorServer" where
  "run_monitor env instanceID s =
     (case monitor_iteration env instanceID s of
        (s1, goes_on) \<Rightarrow> if goes_on then s1 else s1\<lparr>su_monitors := remove1 instanceID (su_monitors s1)\<rparr>)"

text \<open>A process ends by itself, once.\<close>

definition child_ends :: "nat \<Rightarrow> process_state \<Rightarrow> supervisorServer \<Rightarrow> supervisorServer" where
  "child_ends i st s =
     (if i < length (su_children s) \<and> ch_State (su_children s ! i) = Alive
      then s\<lparr>su_children := (su_children s)[i := (su_children s ! i)\<lparr>ch_State := st\<rparr>]\<rparr> else s)"

text \<open>Cancelling the context kills every process started under it.\<close>

definition cancel :: "supervisorServer \<Rightarrow> supervisorServer" where
  "cancel s = s\<lparr>su_cancelled := True, su_children := map (\<lambda>c. c\<lparr>ch_Killed := True\<rparr>) (su_children s)\<rparr>"

definition shutdown_one :: "string \<times> nat \<Rightarrow> supervisorServer \<Rightarrow> supervisorServer" where
  "shutdown_one cmd s =
     (let s1 = set_meta (fst cmd) ((restart_meta s (fst cmd))\<lparr>rm_Desired := False\<rparr>) s
      in drop_cmd (fst cmd) (kill (snd cmd) s1))"

definition shutdown :: "supervisorServer \<Rightarrow> supervisorServer" where
  "shutdown s = fold shutdown_one (su_cmds s) (cancel s)"

section \<open>The process invariant\<close>

definition alive :: "child \<Rightarrow> bool" where
  "alive c \<longleftrightarrow> ch_State c = Alive \<and> \<not> ch_Killed c"

definition tracked :: "nat go_map \<Rightarrow> child list \<Rightarrow> bool" where
  "tracked cmds children \<longleftrightarrow> distinct (map fst cmds) \<and>
     (\<forall>iid i. map_of cmds iid = Some i \<longrightarrow> i < length children \<and> ch_Instance (children ! i) = iid) \<and>
     (\<forall>i < length children. alive (children ! i) \<longrightarrow> map_of cmds (ch_Instance (children ! i)) = Some i)"

definition counted :: "restartMeta go_map \<Rightarrow> bool" where
  "counted restart \<longleftrightarrow>
     (\<forall>iid meta. map_of restart iid = Some meta \<longrightarrow>
        0 \<le> rm_RestartCount meta \<and> rm_RestartCount meta \<le> maxSupervisorRestarts)"

definition sup_inv :: "supervisorServer \<Rightarrow> bool" where
  "sup_inv s \<longleftrightarrow> tracked (su_cmds s) (su_children s) \<and> counted (su_restart s) \<and>
     (su_cancelled s \<longrightarrow> (\<forall>c \<in> set (su_children s). \<not> alive c))"

lemma alive_exited: "exited c \<Longrightarrow> \<not> alive c"
  by (auto simp: exited_def alive_def split: process_state.splits)

lemma map_of_delete: "map_of (go_delete k m) = (map_of m)(k := None)"
  by (simp add: delete_conv')

lemma tracked_drop:
  assumes "tracked cmds children" "\<And>i. map_of cmds iid = Some i \<Longrightarrow> \<not> alive (children ! i)"
  shows "tracked (go_delete iid cmds) children"
  unfolding tracked_def
proof (intro conjI allI impI)
  show "distinct (map fst (go_delete iid cmds))"
    using assms(1) by (simp add: tracked_def distinct_delete)
next
  fix k i
  assume "map_of (go_delete iid cmds) k = Some i"
  then have "map_of cmds k = Some i" by (simp add: map_of_delete split: if_splits)
  with assms(1) show "i < length children" "ch_Instance (children ! i) = k" by (simp_all add: tracked_def)
next
  fix i
  assume i: "i < length children" "alive (children ! i)"
  with assms(1) have m: "map_of cmds (ch_Instance (children ! i)) = Some i" by (simp add: tracked_def)
  with assms(2) [of i] i(2) have "ch_Instance (children ! i) \<noteq> iid" by metis
  with m show "map_of (go_delete iid cmds) (ch_Instance (children ! i)) = Some i" by (simp add: map_of_delete)
qed

lemma tracked_spawn:
  assumes "tracked cmds children" "\<And>i. map_of cmds (ch_Instance c) = Some i \<Longrightarrow> \<not> alive (children ! i)"
  shows "tracked (go_set (ch_Instance c) (length children) cmds) (children @ [c])"
  unfolding tracked_def
proof (intro conjI allI impI)
  show "distinct (map fst (go_set (ch_Instance c) (length children) cmds))"
    using assms(1) by (simp add: tracked_def distinct_update)
next
  fix iid i
  assume "map_of (go_set (ch_Instance c) (length children) cmds) iid = Some i"
  then show "i < length (children @ [c])" "ch_Instance ((children @ [c]) ! i) = iid"
    using assms(1) by (auto simp: tracked_def update_conv' nth_append less_SucI split: if_splits)
next
  fix i
  assume i: "i < length (children @ [c])" "alive ((children @ [c]) ! i)"
  show "map_of (go_set (ch_Instance c) (length children) cmds) (ch_Instance ((children @ [c]) ! i)) = Some i"
  proof (cases "i < length children")
    case True
    with i(2) have a: "alive (children ! i)" by (simp add: nth_append)
    with assms(1) True have m: "map_of cmds (ch_Instance (children ! i)) = Some i" by (simp add: tracked_def)
    with assms(2) [of i] a have "ch_Instance (children ! i) \<noteq> ch_Instance c" by metis
    with m True show ?thesis by (simp add: update_conv' nth_append)
  next
    case False
    with i(1) have "i = length children" by simp
    then show ?thesis by (simp add: update_conv')
  qed
qed

lemma tracked_update:
  assumes "tracked cmds children" "ch_Instance c = ch_Instance (children ! i)" "alive c \<Longrightarrow> alive (children ! i)"
    "i < length children"
  shows "tracked cmds (children[i := c])"
  unfolding tracked_def
proof (intro conjI allI impI)
  show "distinct (map fst cmds)" using assms(1) by (simp add: tracked_def)
next
  fix iid j
  assume "map_of cmds iid = Some j"
  with assms show "j < length (children[i := c])" "ch_Instance (children[i := c] ! j) = iid"
    by (auto simp: tracked_def nth_list_update)
next
  fix j
  assume "j < length (children[i := c])" "alive (children[i := c] ! j)"
  with assms show "map_of cmds (ch_Instance (children[i := c] ! j)) = Some j"
    by (cases "i = j") (auto simp: tracked_def)
qed

lemma counted_set:
  assumes "counted restart" "0 \<le> rm_RestartCount meta" "rm_RestartCount meta \<le> maxSupervisorRestarts"
  shows "counted (go_set iid meta restart)"
  using assms by (auto simp: counted_def update_conv')

lemma restart_meta_counted:
  assumes "counted (su_restart s)"
  shows "0 \<le> rm_RestartCount (restart_meta s iid)" "rm_RestartCount (restart_meta s iid) \<le> maxSupervisorRestarts"
  using assms by (auto simp: counted_def restart_meta_def maxSupervisorRestarts_def split: option.split)

lemma sup_inv_set_meta:
  assumes "sup_inv s" "0 \<le> rm_RestartCount meta" "rm_RestartCount meta \<le> maxSupervisorRestarts"
  shows "sup_inv (set_meta iid meta s)"
  using assms by (simp add: sup_inv_def set_meta_def counted_set)

lemma sup_inv_markDesired: "sup_inv s \<Longrightarrow> sup_inv (markDesired iid desired s)"
  unfolding markDesired_def Let_def
  by (rule sup_inv_set_meta)
    (simp_all add: sup_inv_def restart_meta_counted maxSupervisorRestarts_def [symmetric], simp add: maxSupervisorRestarts_def)

lemma sup_inv_drop:
  assumes "sup_inv s" "\<And>i. map_of (su_cmds s) iid = Some i \<Longrightarrow> \<not> alive (su_children s ! i)"
  shows "sup_inv (drop_cmd iid s)"
  using assms by (auto simp: sup_inv_def drop_cmd_def intro: tracked_drop)

lemma sup_inv_spawn:
  assumes "sup_inv s" "\<not> su_cancelled s" "\<And>i. map_of (su_cmds s) iid = Some i \<Longrightarrow> \<not> alive (su_children s ! i)"
  shows "sup_inv (spawn iid argv s)"
  using assms tracked_spawn [of "su_cmds s" "su_children s" "\<lparr>ch_Instance = iid, ch_Argv = argv, ch_State = Alive, ch_Killed = False\<rparr>"]
  by (simp add: sup_inv_def spawn_def)

lemma sup_inv_child:
  assumes "sup_inv s" "ch_Instance c = ch_Instance (su_children s ! i)" "alive c \<Longrightarrow> alive (su_children s ! i)"
    "i < length (su_children s)"
  shows "sup_inv (s\<lparr>su_children := (su_children s)[i := c]\<rparr>)"
  using assms tracked_update by (auto simp: sup_inv_def dest!: set_update_subset_insert [THEN subsetD] intro: nth_mem)

lemma not_running_dead:
  assumes "\<not> processRunning (cmd_of s iid)" "map_of (su_cmds s) iid = Some i"
  shows "\<not> alive (su_children s ! i)"
  using assms by (auto simp: processRunning_def cmd_of_def dest: alive_exited)

lemma launch_not_cancelled: "startVEGMProcessForScale env cancelled path dir = Inr argv \<Longrightarrow> \<not> cancelled"
  by (auto simp: startVEGMProcessForScale_def start_command_def Let_def split: sum.splits if_splits)

lemma supervisor_frames [frame_simps]:
  "su_cmds (set_meta iid meta s) = su_cmds s" "su_children (set_meta iid meta s) = su_children s"
  "su_cancelled (set_meta iid meta s) = su_cancelled s" "su_generated (set_meta iid meta s) = su_generated s"
  "su_monitors (set_meta iid meta s) = su_monitors s" "su_manifestFile (set_meta iid meta s) = su_manifestFile s"
  "su_cmds (markDesired iid b s) = su_cmds s" "su_children (markDesired iid b s) = su_children s"
  "su_cancelled (markDesired iid b s) = su_cancelled s" "su_generated (markDesired iid b s) = su_generated s"
  "su_monitors (markDesired iid b s) = su_monitors s" "su_manifestFile (markDesired iid b s) = su_manifestFile s"
  "su_children (drop_cmd iid s) = su_children s" "su_cancelled (drop_cmd iid s) = su_cancelled s"
  "su_generated (drop_cmd iid s) = su_generated s" "su_restart (drop_cmd iid s) = su_restart s"
  "su_cmds (drop_cmd iid s) = go_delete iid (su_cmds s)"
  "su_monitors (drop_cmd iid s) = su_monitors s" "su_manifestFile (drop_cmd iid s) = su_manifestFile s"
  "su_restart (spawn iid argv s) = su_restart s" "su_cancelled (spawn iid argv s) = su_cancelled s"
  "su_generated (spawn iid argv s) = su_generated s" "su_monitors (spawn iid argv s) = su_monitors s"
  "su_manifestFile (spawn iid argv s) = su_manifestFile s"
  "su_cmds (kill i s) = su_cmds s" "su_restart (kill i s) = su_restart s" "su_generated (kill i s) = su_generated s"
  "su_manifestFile (kill i s) = su_manifestFile s" "su_cancelled (kill i s) = su_cancelled s"
  "su_monitors (kill i s) = su_monitors s"
  by (simp_all add: set_meta_def markDesired_def drop_cmd_def spawn_def kill_def Let_def)

lemma sup_inv_monitors [simp]: "sup_inv (s\<lparr>su_monitors := ms\<rparr>) = sup_inv s"
  by (simp add: sup_inv_def)

lemma startOne_inv:
  assumes "sup_inv s"
  shows "sup_inv (fst (startOne env iid s))"
proof (cases "processRunning (cmd_of s iid)")
  case False
  have "sup_inv (drop_cmd iid s)"
    using assms not_running_dead [OF False] by (rule sup_inv_drop)
  moreover have "map_of (su_cmds (drop_cmd iid s)) iid = None" by (simp add: frame_simps map_of_delete)
  ultimately show ?thesis
    using False
    by (auto simp: startOne_def Let_def frame_simps split: option.split sum.split
        intro!: sup_inv_markDesired sup_inv_spawn dest: launch_not_cancelled)
qed (simp add: startOne_def assms)

lemma kill_inv:
  assumes "sup_inv s" "i < length (su_children s)"
  shows "sup_inv (kill i s)"
  unfolding kill_def using assms by (intro sup_inv_child) (simp_all add: alive_def)

lemma stopOne_inv:
  assumes "sup_inv s"
  shows "sup_inv (fst (stopOne iid s))"
proof -
  have m: "sup_inv (markDesired iid False s)" using assms by (rule sup_inv_markDesired)
  show ?thesis
  proof (cases "map_of (su_cmds s) iid")
    case None
    then show ?thesis using m by (auto simp: stopOne_def Let_def frame_simps intro: sup_inv_drop)
  next
    case (Some i)
    then have i: "i < length (su_children s)" using assms by (simp add: sup_inv_def tracked_def)
    then have "sup_inv (kill i (markDesired iid False s))" using m by (intro kill_inv) (simp_all add: frame_simps)
    then have "sup_inv (drop_cmd iid (kill i (markDesired iid False s)))"
      using Some i by (rule_tac sup_inv_drop) (auto simp: frame_simps kill_def alive_def)
    with Some show ?thesis by (simp add: stopOne_def Let_def frame_simps)
  qed
qed

lemma restart_child_inv:
  assumes "sup_inv s" "\<And>i. map_of (su_cmds s) iid = Some i \<Longrightarrow> \<not> alive (su_children s ! i)"
    and "0 \<le> rm_RestartCount meta" "rm_RestartCount meta \<le> maxSupervisorRestarts"
  shows "sup_inv (fst (restart_child env iid meta s))"
  using assms
  by (auto simp: restart_child_def frame_simps split: option.split sum.split
      intro!: sup_inv_drop sup_inv_set_meta sup_inv_spawn dest: launch_not_cancelled)

lemma monitor_inv:
  assumes "sup_inv s"
  shows "sup_inv (fst (monitor_iteration env iid s))"
proof (cases "\<exists>cmd. cmd_of s iid = Some cmd \<and> exited cmd")
  case True
  then have "\<not> processRunning (cmd_of s iid)" by (auto simp: processRunning_def)
  then have dead: "map_of (su_cmds s) iid = Some i \<Longrightarrow> \<not> alive (su_children s ! i)" for i
    by (rule not_running_dead)
  have count: "0 \<le> rm_RestartCount (restart_meta s iid)" "rm_RestartCount (restart_meta s iid) \<le> maxSupervisorRestarts"
    using assms restart_meta_counted by (auto simp: sup_inv_def)
  then have "wrap64 (rm_RestartCount (restart_meta s iid) + 1) = rm_RestartCount (restart_meta s iid) + 1"
    by (intro wrap64_id) (simp add: int64_range_def maxSupervisorRestarts_def)
  with assms True dead count show ?thesis
    by (auto simp: monitor_iteration_def Let_def frame_simps intro!: restart_child_inv sup_inv_drop sup_inv_set_meta)
qed (auto simp: monitor_iteration_def Let_def assms split: option.split)

lemma run_monitor_inv: "sup_inv s \<Longrightarrow> sup_inv (run_monitor env iid s)"
  using monitor_inv [of s env iid] by (simp add: run_monitor_def case_prod_beta)

lemma child_ends_inv:
  assumes "sup_inv s" "st \<noteq> Alive"
  shows "sup_inv (child_ends i st s)"
  unfolding child_ends_def using assms by (auto simp: alive_def intro!: sup_inv_child)

lemma cancel_inv: "sup_inv s \<Longrightarrow> sup_inv (cancel s)"
  by (auto simp: sup_inv_def cancel_def tracked_def alive_def)

lemma shutdown_one_facts:
  "su_cancelled (shutdown_one cmd s) = su_cancelled s"
  "length (su_children (shutdown_one cmd s)) = length (su_children s)"
  "su_cmds (shutdown_one cmd s) = go_delete (fst cmd) (su_cmds s)"
  "su_monitors (shutdown_one cmd s) = su_monitors s"
  by (simp_all add: shutdown_one_def Let_def frame_simps) (simp add: kill_def frame_simps)

lemma shutdown_one_inv:
  assumes "sup_inv s" "su_cancelled s" "snd cmd < length (su_children s)"
  shows "sup_inv (shutdown_one cmd s)"
proof -
  have count: "counted (su_restart s)" using assms(1) by (simp add: sup_inv_def)
  let ?s1 = "set_meta (fst cmd) ((restart_meta s (fst cmd))\<lparr>rm_Desired := False\<rparr>) s"
  have "sup_inv (kill (snd cmd) ?s1)"
    using assms restart_meta_counted [OF count] by (intro kill_inv sup_inv_set_meta) (simp_all add: frame_simps)
  moreover from this have "map_of (su_cmds s) (fst cmd) = Some i \<Longrightarrow> \<not> alive (su_children (kill (snd cmd) ?s1) ! i)" for i
    using assms(2) nth_mem [of i "su_children (kill (snd cmd) ?s1)"] by (auto simp: sup_inv_def tracked_def frame_simps)
  ultimately show ?thesis unfolding shutdown_one_def Let_def by (intro sup_inv_drop) (simp_all add: frame_simps)
qed

lemma shutdown_fold:
  assumes "sup_inv s" "su_cancelled s" "\<forall>cmd \<in> set cmds. snd cmd < length (su_children s)"
  shows "sup_inv (fold shutdown_one cmds s) \<and> su_cancelled (fold shutdown_one cmds s) \<and>
    map_of (su_cmds (fold shutdown_one cmds s)) = map_of (su_cmds s) |` (- fst ` set cmds) \<and>
    su_monitors (fold shutdown_one cmds s) = su_monitors s"
  using assms
proof (induction cmds arbitrary: s)
  case (Cons cmd cmds)
  then have "sup_inv (shutdown_one cmd s)" by (intro shutdown_one_inv) simp_all
  with Cons show ?case
    by (simp add: shutdown_one_facts map_of_delete) (auto simp: restrict_map_def fun_eq_iff)
qed (simp add: restrict_map_def fun_eq_iff)

section \<open>The restart policy\<close>

text \<open>The child of an instance exits, and the monitor comes round.\<close>

definition crash :: "sup_env \<Rightarrow> string \<Rightarrow> string \<Rightarrow> supervisorServer \<Rightarrow> supervisorServer" where
  "crash env iid text s =
     fst (monitor_iteration env iid
       (case map_of (su_cmds s) iid of None \<Rightarrow> s | Some i \<Rightarrow> child_ends i (Exited text) s))"

definition up :: "string \<Rightarrow> GeneratedConfig \<Rightarrow> int \<Rightarrow> supervisorServer \<Rightarrow> bool" where
  "up iid gen k s \<longleftrightarrow>
     rm_Desired (restart_meta s iid) \<and> rm_RestartCount (restart_meta s iid) = k \<and> \<not> su_cancelled s \<and>
     generatedByID s iid = Some gen \<and>
     (\<exists>i < length (su_children s). map_of (su_cmds s) iid = Some i \<and> ch_State (su_children s ! i) = Alive)"

definition down :: "string \<Rightarrow> supervisorServer \<Rightarrow> bool" where
  "down iid s \<longleftrightarrow> \<not> rm_Desired (restart_meta s iid) \<and> rm_RestartCount (restart_meta s iid) = maxSupervisorRestarts \<and>
     map_of (su_cmds s) iid = None"

lemma restart_meta_set: "restart_meta (set_meta iid meta s) iid = meta"
  by (simp add: restart_meta_def set_meta_def update_conv')

lemma generatedByID_cong: "su_generated s' = su_generated s \<Longrightarrow> generatedByID s' iid = generatedByID s iid"
  by (simp add: generatedByID_def)

lemma child_ends_facts:
  assumes "i < length (su_children s)" "ch_State (su_children s ! i) = Alive" "map_of (su_cmds s) iid = Some i"
  shows "restart_meta (child_ends i st s) = restart_meta s" "su_cancelled (child_ends i st s) = su_cancelled s"
    "su_generated (child_ends i st s) = su_generated s" "su_cmds (child_ends i st s) = su_cmds s"
    "length (su_children (child_ends i st s)) = length (su_children s)"
    "cmd_of (child_ends i st s) iid = Some ((su_children s ! i)\<lparr>ch_State := st\<rparr>)"
  using assms by (simp_all add: child_ends_def restart_meta_def cmd_of_def fun_eq_iff)

lemma crash_up:
  assumes "up iid gen k s" "0 \<le> k" "k < maxSupervisorRestarts"
    and "startVEGMProcessForScale env False (gc_Path gen) (ef_LogDir (gc_Instance gen)) = Inr argv"
  shows "up iid gen (k + 1) (crash env iid text s)"
    "length (su_children (crash env iid text s)) = length (su_children s) + 1"
proof -
  from assms(1) obtain i where i: "i < length (su_children s)" "map_of (su_cmds s) iid = Some i"
      "ch_State (su_children s ! i) = Alive" and s: "rm_Desired (restart_meta s iid)"
      "rm_RestartCount (restart_meta s iid) = k" "\<not> su_cancelled s" "generatedByID s iid = Some gen"
    by (auto simp: up_def)
  note facts = child_ends_facts [OF i(1,3,2), where st = "Exited text"]
  let ?s1 = "child_ends i (Exited text) s"
  let ?m = "(restart_meta s iid)\<lparr>rm_LastExit := text, rm_RestartCount := k + 1\<rparr>"
  have "wrap64 (k + 1) = k + 1"
    using assms(2,3) by (intro wrap64_id) (simp add: int64_range_def maxSupervisorRestarts_def)
  moreover have "generatedByID ?s1 iid = Some gen" using generatedByID_cong [OF facts(3)] s(4) by simp
  ultimately have "crash env iid text s = spawn iid argv (set_meta iid ?m ?s1)"
    using s assms(3,4)
    by (simp add: crash_def i(2) monitor_iteration_def facts(1,2,6) exited_def exit_text_def restart_child_def Let_def
        frame_simps generatedByID_def)
  then show "up iid gen (k + 1) (crash env iid text s)"
    "length (su_children (crash env iid text s)) = length (su_children s) + 1"
    using s facts(2,3,5)
    by (simp_all add: up_def restart_meta_def set_meta_def spawn_def update_conv' generatedByID_def nth_append)
qed

lemma crash_last:
  assumes "up iid gen maxSupervisorRestarts s"
  shows "down iid (crash env iid text s)" "length (su_children (crash env iid text s)) = length (su_children s)"
proof -
  from assms obtain i where i: "i < length (su_children s)" "map_of (su_cmds s) iid = Some i"
      "ch_State (su_children s ! i) = Alive" and s: "rm_Desired (restart_meta s iid)"
      "rm_RestartCount (restart_meta s iid) = maxSupervisorRestarts"
    by (auto simp: up_def)
  note facts = child_ends_facts [OF i(1,3,2), where st = "Exited text"]
  have "crash env iid text s = drop_cmd iid (set_meta iid
      ((restart_meta s iid)\<lparr>rm_LastExit := text, rm_Desired := False\<rparr>) (child_ends i (Exited text) s))"
    using s by (simp add: crash_def i(2) monitor_iteration_def facts(1,2,6) exited_def exit_text_def Let_def)
  then show "down iid (crash env iid text s)" "length (su_children (crash env iid text s)) = length (su_children s)"
    using s facts(5)
    by (simp_all add: down_def restart_meta_def drop_cmd_def set_meta_def update_conv' map_of_delete)
qed

lemma crash_down: "down iid s \<Longrightarrow> crash env iid text s = s"
  by (simp add: down_def crash_def monitor_iteration_def Let_def)

lemma crashes_up:
  assumes "up iid gen 0 s" "length ts \<le> 3"
    and "startVEGMProcessForScale env False (gc_Path gen) (ef_LogDir (gc_Instance gen)) = Inr argv"
  shows "up iid gen (int (length ts)) (fold (crash env iid) ts s) \<and>
    length (su_children (fold (crash env iid) ts s)) = length (su_children s) + length ts"
  using assms(2)
proof (induction ts rule: rev_induct)
  case (snoc t ts)
  then have "int (length ts) < maxSupervisorRestarts" by (simp add: maxSupervisorRestarts_def)
  with snoc crash_up [OF _ _ _ assms(3), of iid "int (length ts)" "fold (crash env iid) ts s" t] show ?case
    by (simp add: add.commute)
qed (use assms(1) in simp)

lemma crashes_down: "down iid s \<Longrightarrow> fold (crash env iid) ts s = s"
  by (induction ts) (simp_all add: crash_down)

lemma up_running: "up iid gen k s \<Longrightarrow> processRunning (cmd_of s iid)"
  by (auto simp: up_def processRunning_def cmd_of_def exited_def)

lemma down_stopped: "down iid s \<Longrightarrow> cmd_of s iid = None"
  by (simp add: down_def cmd_of_def)

section \<open>A sample supervisor\<close>

definition sample_env :: sup_env where
  "sample_env = \<lparr>env_pu = sample_url, env_join = sample_join, env_dir = (\<lambda>p. p), env_base = (\<lambda>p. p),
     env_mkdir = (\<lambda>d. Inr ()), env_openAppend = (\<lambda>f. Inr ()), env_childBinary = ''/opt/vegm'',
     env_executable = Inl ''unknown'', env_windows = False, env_isFile = (\<lambda>f. False),
     env_lookPath = (\<lambda>x. Inl ''not found''), env_exec = (\<lambda>argv. Inr ()), env_writeConfig = (\<lambda>p c. Inr ()),
     env_readErr = None, env_unmarshal = (\<lambda>t. if t = ''{}'' then Inr sample_manifest else Inl ''not a manifest''),
     env_marshal = (\<lambda>m. ''{}''), env_writeManifest = (\<lambda>old new. (new, Inr ()))\<rparr>"

definition sample_effective :: "string \<Rightarrow> EffectiveInstance" where
  "sample_effective iid =
     \<lparr>ef_InstanceID = iid, ef_EGMID = ''EGM-001'', ef_HostID = ''HOST-001'', ef_Group = ''floor'', ef_Profile = ''base'',
      ef_Manufacturer = [], ef_ListenHost = ''127.0.0.1'', ef_WirePort = 8000, ef_ControlPort = 9000,
      ef_EGMEndpoint = no_endpoint, ef_HostEndpoint = no_host_endpoint, ef_G2SXML = no_xml, ef_AdvertisedHost = [],
      ef_AdvertisedIP = [], ef_DNSServers = [], ef_SubnetMask = [], ef_Gateway = [], ef_ServerName = [],
      ef_TrustMode = ''plaintext_lab'', ef_PackFile = ''pack.json'', ef_OverlayFiles = [], ef_LogDir = ''logs'',
      ef_StorageBackend = ''noop'', ef_SQLitePath = [], ef_LogicalCommands = [], ef_Heartbeat = [],
      ef_NormalizedState = [], ef_Faults = [], ef_CertFile = [], ef_KeyFile = [], ef_CAFile = []\<rparr>"

definition sample_gen :: GeneratedConfig where
  "sample_gen = \<lparr>gc_Instance = sample_effective ''vegm-001'', gc_Path = ''generated/vegm-001.json'',
     gc_Config = generated_config (sample_effective ''vegm-001'')\<rparr>"

definition sample_supervisor :: supervisorServer where
  "sample_supervisor = fst (startOne sample_env ''vegm-001'' (newSupervisorServer ''fleet.json'' ''generated'' [sample_gen] ''{}''))"

lemma sample_launch:
  "startVEGMProcessForScale sample_env False path dir = Inr [''/opt/vegm'', ''-config'', path]"
  by (simp add: startVEGMProcessForScale_def sample_env_def start_command_def buildVEGMCommand_def Let_def)

lemma sample_supervisor_facts:
  "su_cmds sample_supervisor = [(''vegm-001'', 0)]" "length (su_children sample_supervisor) = 1"
  "su_restart sample_supervisor = [(''vegm-001'', \<lparr>rm_Desired = True, rm_RestartCount = 0, rm_LastExit = []\<rparr>)]"
  "\<not> su_cancelled sample_supervisor" "su_generated sample_supervisor = [sample_gen]"
  "ch_State (su_children sample_supervisor ! 0) = Alive"
  by (simp_all add: sample_supervisor_def newSupervisorServer_def startOne_def cmd_of_def processRunning_def
      drop_cmd_def generatedByID_def sample_gen_def sample_effective_def sample_launch spawn_def markDesired_def
      restart_meta_def set_meta_def Let_def)

lemma sample_supervisor_up: "up ''vegm-001'' sample_gen 0 sample_supervisor"
  by (simp add: up_def sample_supervisor_facts restart_meta_def generatedByID_def)
    (simp add: sample_gen_def sample_effective_def)

text \<open>
  C11: the restart budget: a wanted child that can always be started again is replaced on each of
  its first three exits, and given up on the fourth for good: the count is the number of exits
  up to three, exactly that many processes are started, and the instance is running and wanted
  exactly while there have been at most three exits.
\<close>

theorem restart_budget_exact:
  assumes "up iid gen 0 s"
    and "startVEGMProcessForScale env False (gc_Path gen) (ef_LogDir (gc_Instance gen)) = Inr argv"
    and "s' = fold (crash env iid) exits s"
  shows "rm_RestartCount (restart_meta s' iid) = min (int (length exits)) maxSupervisorRestarts \<and>
    length (su_children s') = length (su_children s) + min (length exits) 3 \<and>
    processRunning (cmd_of s' iid) = (length exits \<le> 3) \<and> rm_Desired (restart_meta s' iid) = (length exits \<le> 3)"
proof (cases "length exits \<le> 3")
  case True
  with crashes_up [OF assms(1) _ assms(2)] assms(3) have "up iid gen (int (length exits)) s'"
      "length (su_children s') = length (su_children s) + length exits" by simp_all
  with True show ?thesis using up_running by (auto simp: up_def maxSupervisorRestarts_def)
next
  case False
  then obtain t where ex: "exits = take 3 exits @ t # drop 4 exits"
    using id_take_nth_drop [of 3 exits] by auto
  let ?s3 = "fold (crash env iid) (take 3 exits) s"
  have 3: "up iid gen maxSupervisorRestarts ?s3" "length (su_children ?s3) = length (su_children s) + 3"
    using crashes_up [OF assms(1) _ assms(2), of "take 3 exits"] False by (simp_all add: maxSupervisorRestarts_def)
  have "s' = fold (crash env iid) (drop 4 exits) (crash env iid t ?s3)"
    unfolding assms(3) by (subst ex) simp
  then have "s' = crash env iid t ?s3" using crash_last(1) [OF 3(1)] by (simp add: crashes_down)
  then show ?thesis
    using crash_last [OF 3(1), of env t] 3(2) False
    by (auto simp: down_def processRunning_def cmd_of_def maxSupervisorRestarts_def)
qed

theorem restart_budget_exact_witness:
  "up ''vegm-001'' sample_gen 0 sample_supervisor \<and>
   \<not> processRunning (cmd_of (fold (crash sample_env ''vegm-001'') [''e1'', ''e2'', ''e3'', ''e4''] sample_supervisor) ''vegm-001'')"
  using restart_budget_exact [OF sample_supervisor_up sample_launch refl, of "[''e1'', ''e2'', ''e3'', ''e4'']"]
    sample_supervisor_up by simp

text \<open>
  C37: a child ended by a signal counts as running: starting the instance does nothing and the
  monitor waits on without changing anything, so it is neither restarted nor startable until it
  is stopped.
\<close>

theorem signalled_child_stuck:
  assumes "map_of (su_cmds s) iid = Some i" "ch_State (su_children s ! i) = Signalled text"
  shows "startOne env iid s = (s, Inr False) \<and>
    monitor_iteration env iid s = (s, rm_Desired (restart_meta s iid)) \<and> processRunning (cmd_of s iid)"
  using assms by (simp add: startOne_def monitor_iteration_def processRunning_def cmd_of_def exited_def Let_def)

theorem signalled_child_stuck_witness:
  "startOne sample_env ''vegm-001'' (child_ends 0 (Signalled ''signal: killed'') sample_supervisor) =
     (child_ends 0 (Signalled ''signal: killed'') sample_supervisor, Inr False)"
  by (rule signalled_child_stuck [where i = 0, THEN conjunct1])
    (simp_all add: child_ends_def sample_supervisor_facts)

section \<open>Waiting for the fleet\<close>

lemma wait_pending: "waitForFleetHealthy deadline gens obs = None \<Longrightarrow> \<forall>(now, get) \<in> set obs. now \<le> deadline"
  by (induction deadline gens obs rule: waitForFleetHealthy.induct) (auto split: if_splits)

lemma wait_healthy:
  "waitForFleetHealthy deadline gens obs = Some (Inr ()) \<Longrightarrow> gen \<in> set gens \<Longrightarrow>
     \<exists>(now, get) \<in> set obs. now \<le> deadline \<and> get (health_url gen) = Inr 200"
proof (induction deadline gens obs rule: waitForFleetHealthy.induct)
  case (3 deadline g gens now get obs)
  have healthy: "isHealthy get url = Inr True \<Longrightarrow> get url = Inr 200" for url
    by (auto simp: isHealthy_def split: sum.splits if_splits)
  from 3 show ?case by (auto split: if_splits dest: healthy)
qed simp_all


definition silent_rounds :: "(time \<times> (string \<Rightarrow> int result)) list" where
  "silent_rounds = [(0, \<lambda>u. Inl ''refused''), (1000000000, \<lambda>u. Inl ''refused''), (2000000000, \<lambda>u. Inl ''refused''),
     (3000000000, \<lambda>u. Inl ''refused'')]"


end
