(* ===== verification/Supervisor.thy ===== *)
theory Supervisor
  imports Supervisor_Process Http_Mux
begin

text \<open>
  The lifecycle API of the fleet supervisor (\<^verbatim>\<open>src/cmd/vegm-supervisor\<close>): editing the fleet
  (\<^verbatim>\<open>fleet_edit.go\<close>), instance settings (\<^verbatim>\<open>settings.go\<close>), instance views and bulk operations
  (\<^verbatim>\<open>server.go\<close>), instance actions (\<^verbatim>\<open>instance_actions.go\<close>) and the fleet export (\<^verbatim>\<open>export.go\<close>). Probes of the
  children and their certificates are parameters.
\<close>

section \<open>Editing the fleet (fleet_edit.go)\<close>

definition load_manifest :: "sup_env \<Rightarrow> supervisorServer \<Rightarrow> Manifest result" where
  "load_manifest env s =
     LoadManifest (env_pu env)
       (\<lambda>path. case env_readErr env of Some e \<Rightarrow> Inl e | None \<Rightarrow> Inr (su_manifestFile s))
       (env_unmarshal env) (su_manifestPath s)"

definition validateAndGenerateFleet :: "sup_env \<Rightarrow> Manifest \<Rightarrow> string \<Rightarrow> GeneratedConfig list result" where
  "validateAndGenerateFleet env m generatedDir =
     (case ResolveInstances (env_pu env) (env_join env) (Some m) of
        Inl e \<Rightarrow> Inl e
      | Inr _ \<Rightarrow>
          GenerateConfigs (env_pu env) (env_join env) (env_mkdir env) (env_writeConfig env) (Some m) generatedDir)"

definition writeManifest :: "sup_env \<Rightarrow> Manifest \<Rightarrow> supervisorServer \<Rightarrow> supervisorServer \<times> unit result" where
  "writeManifest env m s =
     (case env_writeManifest env (su_manifestFile s) (env_marshal env m) of
        (content, outcome) \<Rightarrow> (s\<lparr>su_manifestFile := content\<rparr>, outcome))"

fun existing_conflict :: "Instance \<Rightarrow> Instance list \<Rightarrow> error option" where
  "existing_conflict inst [] = None"
| "existing_conflict inst (existing # rest) =
     (if fi_InstanceID existing = fi_InstanceID inst
      then Some (''instance_id '' @ go_quote (fi_InstanceID inst) @ '' already exists'')
      else if fi_EGMID existing = fi_EGMID inst
      then Some (''egm_id '' @ go_quote (fi_EGMID inst) @ '' already exists'')
      else existing_conflict inst rest)"

text \<open>Generating and writing an edited manifest, and taking over the result.\<close>

definition commit_manifest :: "sup_env \<Rightarrow> Manifest \<Rightarrow> supervisorServer \<Rightarrow> supervisorServer \<times> unit result" where
  "commit_manifest env m s =
     (case validateAndGenerateFleet env m (su_generatedDir s) of
        Inl e \<Rightarrow> (s, Inl e)
      | Inr generated \<Rightarrow>
          (case writeManifest env m s of
             (s1, Inl e) \<Rightarrow> (s1, Inl e)
           | (s1, Inr _) \<Rightarrow> (s1\<lparr>su_generated := generated\<rparr>, Inr ())))"

definition addFleetInstance :: "sup_env \<Rightarrow> Instance \<Rightarrow> supervisorServer \<Rightarrow> supervisorServer \<times> unit result" where
  "addFleetInstance env inst s =
     (case load_manifest env s of
        Inl e \<Rightarrow> (s, Inl e)
      | Inr m \<Rightarrow>
     (case existing_conflict inst (mf_Instances m) of
        Some e \<Rightarrow> (s, Inl e)
      | None \<Rightarrow>
          if map_of (mf_Groups m) (fi_Group inst) = None
          then (s, Inl (''group '' @ go_quote (fi_Group inst) @ '' not found''))
          else commit_manifest env (m\<lparr>mf_Instances := mf_Instances m @ [inst]\<rparr>) s))"

text \<open>The part of a removal under the mutex, after the instance was stopped.\<close>

definition remove_commit :: "sup_env \<Rightarrow> string \<Rightarrow> supervisorServer \<Rightarrow> supervisorServer \<times> unit result" where
  "remove_commit env instanceID s =
     (case load_manifest env s of
        Inl e \<Rightarrow> (s, Inl e)
      | Inr m \<Rightarrow>
          let out = filter (\<lambda>inst. fi_InstanceID inst \<noteq> instanceID) (mf_Instances m)
          in if \<not> list_ex (\<lambda>inst. fi_InstanceID inst = instanceID) (mf_Instances m)
             then (s, Inl (''instance '' @ go_quote instanceID @ '' not found''))
             else case commit_manifest env (m\<lparr>mf_Instances := out\<rparr>) s of
               (s1, Inl e) \<Rightarrow> (s1, Inl e)
             | (s1, Inr _) \<Rightarrow>
                 ((drop_cmd instanceID s1)\<lparr>su_restart := go_delete instanceID (su_restart s1)\<rparr>, Inr ()))"

definition removeFleetInstance :: "sup_env \<Rightarrow> string \<Rightarrow> supervisorServer \<Rightarrow> supervisorServer \<times> unit result" where
  "removeFleetInstance env instanceID s = remove_commit env instanceID (fst (stopOne instanceID s))"

definition defaultFleetG2SXML :: "G2SXML \<Rightarrow> Endpoint \<Rightarrow> G2SXML" where
  "defaultFleetG2SXML x ep =
     (let x1 = (if fx_Mode x = [] then x\<lparr>fx_Mode := ''lab_legacy_xml''\<rparr> else x);
          x2 = (if fx_Namespace x1 = []
                then x1\<lparr>fx_Namespace := ''http://www.gamingstandards.com/g2s/schemas/v1.0.3''\<rparr> else x1)
      in if fx_EGMLocation x2 = [] \<and> fe_Host ep \<noteq> [] \<and> fe_Port ep > 0
         then x2\<lparr>fx_EGMLocation := host_port (fe_Host ep) (fe_Port ep)\<rparr> else x2)"

record addInstanceRequest =
  ai_Remove :: bool
  ai_InstanceID :: string
  ai_EGMID :: string
  ai_HostID :: string
  ai_Group :: string
  ai_WirePort :: int
  ai_ControlPort :: int
  ai_BindHost :: string
  ai_EGMEndpoint :: Endpoint
  ai_HostEndpoint :: HostEndpoint
  ai_G2SXML :: G2SXML
  ai_AdvertisedHost :: string
  ai_AdvertisedIP :: string

record removeInstanceRequest =
  ri_InstanceID :: string

definition requested_instance :: "addInstanceRequest \<Rightarrow> Instance" where
  "requested_instance req =
     \<lparr>fi_InstanceID = TrimSpace (ai_InstanceID req), fi_EGMID = TrimSpace (ai_EGMID req),
      fi_HostID = TrimSpace (ai_HostID req), fi_Group = TrimSpace (ai_Group req), fi_WirePort = ai_WirePort req,
      fi_ControlPort = ai_ControlPort req, fi_BindHost = TrimSpace (ai_BindHost req),
      fi_EGMEndpoint = ai_EGMEndpoint req, fi_HostEndpoint = ai_HostEndpoint req,
      fi_G2SXML = defaultFleetG2SXML (ai_G2SXML req) (ai_EGMEndpoint req),
      fi_AdvertisedHost = TrimSpace (ai_AdvertisedHost req), fi_AdvertisedIP = TrimSpace (ai_AdvertisedIP req),
      fi_DNSServers = [], fi_SubnetMask = [], fi_Gateway = [], fi_ServerName = [], fi_LogDir = [], fi_SQLitePath = [],
      fi_CertFile = [], fi_KeyFile = [], fi_CAFile = [], fi_Overrides = []\<rparr>"

section \<open>Settings (settings.go)\<close>

record instanceSettings =
  is_InstanceID :: string
  is_HostID :: string
  is_EGMEndpoint :: Endpoint
  is_HostEndpoint :: HostEndpoint
  is_G2SXML :: G2SXMLConfig
  is_ListenHost :: string
  is_WirePort :: int
  is_ControlPort :: int
  is_AdvertisedHost :: string
  is_AdvertisedIP :: string
  is_DNSServers :: "string list"
  is_SubnetMask :: string
  is_Gateway :: string
  is_ServerName :: string
  is_TrustMode :: string
  is_CertFile :: string
  is_KeyFile :: string
  is_CAFile :: string

definition sup_defaultG2SXML :: "G2SXMLConfig \<Rightarrow> Endpoint \<Rightarrow> G2SXMLConfig" where
  "sup_defaultG2SXML x ep =
     (let x1 = (if gx_Mode x = [] then x\<lparr>gx_Mode := ''lab_legacy_xml''\<rparr> else x);
          x2 = (if gx_Namespace x1 = []
                then x1\<lparr>gx_Namespace := ''http://www.gamingstandards.com/g2s/schemas/v1.0.3''\<rparr> else x1)
      in if gx_EGMLocation x2 = [] \<and> fe_Host ep \<noteq> [] \<and> fe_Port ep > 0
         then x2\<lparr>gx_EGMLocation := host_port (fe_Host ep) (fe_Port ep)\<rparr> else x2)"

definition settings_view :: "EffectiveInstance \<Rightarrow> G2SXMLConfig \<Rightarrow> instanceSettings" where
  "settings_view inst xml =
     \<lparr>is_InstanceID = ef_InstanceID inst, is_HostID = ef_HostID inst, is_EGMEndpoint = ef_EGMEndpoint inst,
      is_HostEndpoint = ef_HostEndpoint inst, is_G2SXML = xml, is_ListenHost = ef_ListenHost inst,
      is_WirePort = ef_WirePort inst, is_ControlPort = ef_ControlPort inst,
      is_AdvertisedHost = ef_AdvertisedHost inst, is_AdvertisedIP = ef_AdvertisedIP inst,
      is_DNSServers = ef_DNSServers inst, is_SubnetMask = ef_SubnetMask inst, is_Gateway = ef_Gateway inst,
      is_ServerName = ef_ServerName inst, is_TrustMode = ef_TrustMode inst, is_CertFile = ef_CertFile inst,
      is_KeyFile = ef_KeyFile inst, is_CAFile = ef_CAFile inst\<rparr>"

definition getInstanceSettings :: "supervisorServer \<Rightarrow> string \<Rightarrow> instanceSettings result" where
  "getInstanceSettings s iid =
     (case generatedByID s iid of
        None \<Rightarrow> Inl (''instance '' @ go_quote iid @ '' not found'')
      | Some gen \<Rightarrow> Inr (settings_view (gc_Instance gen)
          (sup_defaultG2SXML (c_G2SXML (gc_Config gen)) (ef_EGMEndpoint (gc_Instance gen)))))"

definition settings_instance :: "instanceSettings \<Rightarrow> EffectiveInstance \<Rightarrow> EffectiveInstance" where
  "settings_instance inp inst =
     inst\<lparr>ef_HostID := is_HostID inp, ef_EGMEndpoint := is_EGMEndpoint inp, ef_HostEndpoint := is_HostEndpoint inp,
       ef_ListenHost := is_ListenHost inp, ef_WirePort := is_WirePort inp, ef_ControlPort := is_ControlPort inp,
       ef_AdvertisedHost := is_AdvertisedHost inp, ef_AdvertisedIP := is_AdvertisedIP inp,
       ef_DNSServers := is_DNSServers inp, ef_SubnetMask := is_SubnetMask inp, ef_Gateway := is_Gateway inp,
       ef_ServerName := is_ServerName inp, ef_TrustMode := is_TrustMode inp, ef_CertFile := is_CertFile inp,
       ef_KeyFile := is_KeyFile inp, ef_CAFile := is_CAFile inp\<rparr>"

definition settings_notes :: "instanceSettings \<Rightarrow> string go_map" where
  "settings_notes inp =
     [(''host_id'', is_HostID inp), (''egm_endpoint_scheme'', fe_Scheme (is_EGMEndpoint inp)),
      (''egm_endpoint_bind_ip'', fe_BindIP (is_EGMEndpoint inp)), (''egm_endpoint_host'', fe_Host (is_EGMEndpoint inp)),
      (''egm_endpoint_path'', fe_Path (is_EGMEndpoint inp)), (''host_endpoint_url'', fh_URL (is_HostEndpoint inp)),
      (''g2s_xml_mode'', gx_Mode (is_G2SXML inp)), (''g2s_xml_namespace'', gx_Namespace (is_G2SXML inp)),
      (''g2s_xml_egm_location'', gx_EGMLocation (is_G2SXML inp)), (''advertised_host'', is_AdvertisedHost inp),
      (''advertised_ip'', is_AdvertisedIP inp), (''dns_servers'', join_with '','' (is_DNSServers inp)),
      (''subnet_mask'', is_SubnetMask inp), (''gateway'', is_Gateway inp), (''server_name'', is_ServerName inp),
      (''cert_file'', is_CertFile inp), (''key_file'', is_KeyFile inp), (''ca_file'', is_CAFile inp)]"

definition settings_config :: "instanceSettings \<Rightarrow> Config \<Rightarrow> Config" where
  "settings_config inp cfg =
     cfg\<lparr>c_HostID := is_HostID inp,
       c_EGMEndpoint := \<lparr>ee_Scheme = fe_Scheme (is_EGMEndpoint inp), ee_BindIP = fe_BindIP (is_EGMEndpoint inp),
         ee_Host = fe_Host (is_EGMEndpoint inp), ee_Port = fe_Port (is_EGMEndpoint inp),
         ee_Path = fe_Path (is_EGMEndpoint inp)\<rparr>,
       c_HostEndpoint := \<lparr>he_URL = fh_URL (is_HostEndpoint inp)\<rparr>, c_G2SXML := is_G2SXML inp,
       c_Listen := \<lparr>li_Host = is_ListenHost inp, li_Port = is_WirePort inp\<rparr>,
       c_Control := \<lparr>co_Bind = host_port (is_ListenHost inp) (is_ControlPort inp)\<rparr>,
       c_Security := \<lparr>sc_TrustMode = is_TrustMode inp, sc_CertFile = is_CertFile inp, sc_KeyFile = is_KeyFile inp,
         sc_CAFile = is_CAFile inp\<rparr>,
       c_Notes := fold (\<lambda>(k, v) notes. go_set k v notes) (settings_notes inp) (c_Notes cfg)\<rparr>"

definition settings_gen :: "instanceSettings \<Rightarrow> GeneratedConfig \<Rightarrow> GeneratedConfig" where
  "settings_gen inp gen =
     gen\<lparr>gc_Instance := settings_instance inp (gc_Instance gen), gc_Config := settings_config inp (gc_Config gen)\<rparr>"

fun update_first :: "('a \<Rightarrow> bool) \<Rightarrow> ('a \<Rightarrow> 'a) \<Rightarrow> 'a list \<Rightarrow> 'a list" where
  "update_first P f [] = []"
| "update_first P f (x # xs) = (if P x then f x # xs else x # update_first P f xs)"

definition updateInstanceSettings ::
    "sup_env \<Rightarrow> string \<Rightarrow> instanceSettings \<Rightarrow> supervisorServer \<Rightarrow> supervisorServer \<times> instanceSettings result" where
  "updateInstanceSettings env iid inp0 s =
     (case generatedByID s iid of
        None \<Rightarrow> (s, Inl (''instance '' @ go_quote iid @ '' not found''))
      | Some gen \<Rightarrow>
          let inp = inp0\<lparr>is_G2SXML := sup_defaultG2SXML (is_G2SXML inp0) (is_EGMEndpoint inp0)\<rparr>;
              gen' = settings_gen inp gen;
              s1 = s\<lparr>su_generated := update_first (\<lambda>g. ef_InstanceID (gc_Instance g) = iid) (settings_gen inp) (su_generated s)\<rparr>
          in case env_writeConfig env (gc_Path gen') (gc_Config gen') of
               Inl e \<Rightarrow> (s1, Inl e)
             | Inr _ \<Rightarrow> (s1, Inr (settings_view (gc_Instance gen') (c_G2SXML (gc_Config gen')))))"

section \<open>Instance views (server.go, settings.go)\<close>

record childIndicators =
  ci_SessionState :: string
  ci_HeartbeatState :: string
  ci_ConnectionState :: string
  ci_AudioState :: string
  ci_HoldState :: string
  ci_LockState :: string
  ci_MachineState :: string
  ci_LastCommandType :: string
  ci_LastCommsOnlineAt :: string
  ci_LastKeepAliveAt :: string
  ci_LastAckAt :: string

definition no_indicators :: childIndicators where
  "no_indicators = \<lparr>ci_SessionState = [], ci_HeartbeatState = [], ci_ConnectionState = [], ci_AudioState = [],
     ci_HoldState = [], ci_LockState = [], ci_MachineState = [], ci_LastCommandType = [], ci_LastCommsOnlineAt = [],
     ci_LastKeepAliveAt = [], ci_LastAckAt = []\<rparr>"

text \<open>What the children and their certificates look like: the status of a GET, the status and decoded
  body of a GET of a child's state, and the certificate check of a configuration.\<close>

record probes =
  pb_get :: "string \<Rightarrow> int result"
  pb_state :: "string \<Rightarrow> (int \<times> childIndicators result) result"
  pb_cert :: "SecurityConfig \<Rightarrow> CertificateStatus"

definition fetchChildIndicators :: "probes \<Rightarrow> string \<Rightarrow> childIndicators result" where
  "fetchChildIndicators pb controlBase =
     (case pb_state pb (controlBase @ ''/control/state'') of
        Inl e \<Rightarrow> Inl e
      | Inr (status, body) \<Rightarrow>
          if status \<noteq> 200 then Inl (''unexpected status '' @ show_int status)
          else body)"

text \<open>\<^verbatim>\<open>net.SplitHostPort\<close>: the last colon separates the port; a bracketed host must end right before
  it; other hosts have no colon, and there are no stray brackets.\<close>

definition before_last :: "char \<Rightarrow> string \<Rightarrow> string" where
  "before_last c s = rev (tl (dropWhile (\<lambda>x. x \<noteq> c) (rev s)))"

definition after_last :: "char \<Rightarrow> string \<Rightarrow> string" where
  "after_last c s = rev (takeWhile (\<lambda>x. x \<noteq> c) (rev s))"

definition SplitHostPort :: "string \<Rightarrow> (string \<times> string) option" where
  "SplitHostPort hostport =
     (if CHR '':'' \<notin> set hostport then None
      else
        let before = before_last (CHR '':'') hostport; port = after_last (CHR '':'') hostport
        in if hostport \<noteq> [] \<and> hd hostport = CHR ''['' then
             (let host = takeWhile (\<lambda>c. c \<noteq> CHR '']'') (tl hostport)
              in if CHR '']'' \<notin> set hostport \<or> before \<noteq> ''['' @ host @ '']'' then None
                 else if CHR ''['' \<in> set (tl hostport) \<or> CHR '']'' \<in> set port then None
                 else Some (host, port))
           else if CHR '':'' \<in> set before \<or> CHR ''['' \<in> set hostport \<or> CHR '']'' \<in> set hostport then None
           else Some (before, port))"

definition controlURLForConfig :: "string \<Rightarrow> int \<Rightarrow> string" where
  "controlURLForConfig bind fallbackPort =
     (case SplitHostPort bind of
        None \<Rightarrow> ''http://127.0.0.1:'' @ show_int fallbackPort
      | Some (host, port) \<Rightarrow>
          if port = [] then ''http://127.0.0.1:'' @ show_int fallbackPort
          else ''http://'' @ (if host \<in> {[], ''0.0.0.0'', ''::'', ''[::]''} then ''127.0.0.1'' else host) @ '':'' @ port)"

record instanceView =
  iv_InstanceID :: string
  iv_EGMID :: string
  iv_HostID :: string
  iv_Group :: string
  iv_Profile :: string
  iv_Manufacturer :: string
  iv_EGMEndpoint :: Endpoint
  iv_HostEndpoint :: HostEndpoint
  iv_G2SXML :: G2SXMLConfig
  iv_WireURL :: string
  iv_ControlURL :: string
  iv_UIURL :: string
  iv_ConfigPath :: string
  iv_Running :: bool
  iv_Healthy :: bool
  iv_RestartDesired :: bool
  iv_RestartCount :: int
  iv_LastExit :: string
  iv_LogDir :: string
  iv_ListenHost :: string
  iv_WirePort :: int
  iv_ControlPort :: int
  iv_AdvertisedHost :: string
  iv_AdvertisedIP :: string
  iv_DNSServers :: "string list"
  iv_SubnetMask :: string
  iv_Gateway :: string
  iv_ServerName :: string
  iv_TrustMode :: string
  iv_CertFile :: string
  iv_KeyFile :: string
  iv_CAFile :: string
  iv_CertificateStatus :: CertificateStatus
  iv_SessionState :: string
  iv_HeartbeatState :: string
  iv_ConnectionState :: string
  iv_AudioState :: string
  iv_HoldState :: string
  iv_LockState :: string
  iv_MachineState :: string
  iv_LastCommandType :: string

definition instance_view :: "probes \<Rightarrow> supervisorServer \<Rightarrow> GeneratedConfig \<Rightarrow> instanceView" where
  "instance_view pb s gen =
     (let inst = gc_Instance gen; ep = ef_EGMEndpoint inst;
          controlURL = controlURLForConfig (co_Bind (c_Control (gc_Config gen))) (ef_ControlPort inst);
          running = processRunning (cmd_of s (ef_InstanceID inst));
          meta = restart_meta s (ef_InstanceID inst);
          healthy = (running \<and> isHealthy (pb_get pb) (controlURL @ ''/healthz'') = Inr True);
          ind = (if healthy then (case fetchChildIndicators pb controlURL of Inl _ \<Rightarrow> no_indicators | Inr i \<Rightarrow> i)
                 else no_indicators)
      in \<lparr>iv_InstanceID = ef_InstanceID inst, iv_EGMID = ef_EGMID inst, iv_HostID = ef_HostID inst,
          iv_Group = ef_Group inst, iv_Profile = ef_Profile inst, iv_Manufacturer = ef_Manufacturer inst,
          iv_EGMEndpoint = ep, iv_HostEndpoint = ef_HostEndpoint inst, iv_G2SXML = c_G2SXML (gc_Config gen),
          iv_WireURL = fe_Scheme ep @ ''://'' @ host_port (fe_Host ep) (ef_WirePort inst) @ fe_Path ep,
          iv_ControlURL = controlURL, iv_UIURL = controlURL @ ''/ui/scenario-runner.html'',
          iv_ConfigPath = gc_Path gen, iv_Running = running, iv_Healthy = healthy,
          iv_RestartDesired = rm_Desired meta, iv_RestartCount = rm_RestartCount meta,
          iv_LastExit = rm_LastExit meta, iv_LogDir = ef_LogDir inst, iv_ListenHost = ef_ListenHost inst,
          iv_WirePort = ef_WirePort inst, iv_ControlPort = ef_ControlPort inst,
          iv_AdvertisedHost = ef_AdvertisedHost inst, iv_AdvertisedIP = ef_AdvertisedIP inst,
          iv_DNSServers = ef_DNSServers inst, iv_SubnetMask = ef_SubnetMask inst, iv_Gateway = ef_Gateway inst,
          iv_ServerName = ef_ServerName inst, iv_TrustMode = ef_TrustMode inst, iv_CertFile = ef_CertFile inst,
          iv_KeyFile = ef_KeyFile inst, iv_CAFile = ef_CAFile inst,
          iv_CertificateStatus = pb_cert pb (c_Security (gc_Config gen)),
          iv_SessionState = ci_SessionState ind, iv_HeartbeatState = ci_HeartbeatState ind,
          iv_ConnectionState = ci_ConnectionState ind, iv_AudioState = ci_AudioState ind,
          iv_HoldState = ci_HoldState ind, iv_LockState = ci_LockState ind, iv_MachineState = ci_MachineState ind,
          iv_LastCommandType = ci_LastCommandType ind\<rparr>)"

definition instanceViews :: "probes \<Rightarrow> supervisorServer \<Rightarrow> instanceView list" where
  "instanceViews pb s = map (instance_view pb s) (su_generated s)"

section \<open>Handlers\<close>

definition withSupervisorCORS ::
    "string \<Rightarrow> (supervisorServer \<Rightarrow> supervisorServer \<times> 'a http_response) \<Rightarrow> supervisorServer \<Rightarrow>
     supervisorServer \<times> 'a option http_response" where
  "withSupervisorCORS method next s =
     (if method = ''OPTIONS'' then (s, HttpReply 204 None)
      else case next s of
        (s', HttpError code msg) \<Rightarrow> (s', HttpError code msg)
      | (s', HttpReply code x) \<Rightarrow> (s', HttpReply code (Some x))
      | (s', HttpRedirect code url) \<Rightarrow> (s', HttpRedirect code url)
      | (s', HttpPanic) \<Rightarrow> (s', HttpPanic))"

definition supervisor_handleHealthz :: "supervisorServer \<Rightarrow> supervisorServer \<times> nat http_response" where
  "supervisor_handleHealthz s = (s, HttpReply 200 (length (su_generated s)))"

definition handleInstances :: "probes \<Rightarrow> string \<Rightarrow> supervisorServer \<Rightarrow> supervisorServer \<times> instanceView list http_response" where
  "handleInstances pb method s =
     (if method \<noteq> ''GET'' then (s, HttpError 405 ''method not allowed'') else (s, HttpReply 200 (instanceViews pb s)))"

fun start_all :: "sup_env \<Rightarrow> GeneratedConfig list \<Rightarrow> string list \<Rightarrow> supervisorServer \<Rightarrow> supervisorServer \<times> string list result" where
  "start_all env [] started s = (s, Inr started)"
| "start_all env (gen # gens) started s =
     (case startOne env (ef_InstanceID (gc_Instance gen)) s of
        (s1, Inl e) \<Rightarrow> (s1, Inl e)
      | (s1, Inr ok) \<Rightarrow>
          start_all env gens (if ok then started @ [ef_InstanceID (gc_Instance gen)] else started) s1)"

definition handleStartAll ::
    "sup_env \<Rightarrow> probes \<Rightarrow> string \<Rightarrow> supervisorServer \<Rightarrow> supervisorServer \<times> (string list \<times> instanceView list) http_response" where
  "handleStartAll env pb method s =
     (if method \<noteq> ''POST'' then (s, HttpError 405 ''method not allowed'')
      else case start_all env (su_generated s) [] s of
        (s1, Inl e) \<Rightarrow> (s1, HttpError 500 e)
      | (s1, Inr started) \<Rightarrow> (s1, HttpReply 200 (started, instanceViews pb s1)))"

fun stop_all :: "GeneratedConfig list \<Rightarrow> string list \<Rightarrow> supervisorServer \<Rightarrow> supervisorServer \<times> string list" where
  "stop_all [] stopped s = (s, stopped)"
| "stop_all (gen # gens) stopped s =
     (case stopOne (ef_InstanceID (gc_Instance gen)) s of
        (s1, changed) \<Rightarrow> stop_all gens (if changed then stopped @ [ef_InstanceID (gc_Instance gen)] else stopped) s1)"

definition handleStopAll ::
    "probes \<Rightarrow> string \<Rightarrow> supervisorServer \<Rightarrow> supervisorServer \<times> (string list \<times> instanceView list) http_response" where
  "handleStopAll pb method s =
     (if method \<noteq> ''POST'' then (s, HttpError 405 ''method not allowed'')
      else case stop_all (su_generated s) [] s of
        (s1, stopped) \<Rightarrow> (s1, HttpReply 200 (stopped, instanceViews pb s1)))"

definition trim_slashes :: "string \<Rightarrow> string" where
  "trim_slashes s = rev (dropWhile (\<lambda>c. c = CHR ''/'') (rev (dropWhile (\<lambda>c. c = CHR ''/'') s)))"

definition handleInstanceAction ::
    "sup_env \<Rightarrow> probes \<Rightarrow> string \<Rightarrow> string \<Rightarrow> supervisorServer \<Rightarrow>
     supervisorServer \<times> (string \<times> string \<times> bool \<times> instanceView list) http_response" where
  "handleInstanceAction env pb method path s =
     (if method \<noteq> ''POST'' then (s, HttpError 405 ''method not allowed'')
      else
        let parts = split_slash (trim_slashes (TrimPrefix path ''/api/instances/''))
        in if length parts \<noteq> 2 \<or> parts ! 0 = [] \<or> parts ! 1 = []
           then (s, HttpError 400 ''expected /api/instances/{instance_id}/{action}'')
           else
             let iid = parts ! 0; action = parts ! 1;
                 outcome =
                   (if action = ''start'' then Some (startOne env iid s)
                    else if action = ''stop'' then (case stopOne iid s of (s1, changed) \<Rightarrow> Some (s1, Inr changed))
                    else if action = ''restart'' then Some (startOne env iid (fst (stopOne iid s)))
                    else None)
             in case outcome of
                  None \<Rightarrow> (s, HttpError 400 (''unsupported action '' @ go_quote action))
                | Some (s1, Inl e) \<Rightarrow> (s1, HttpError 500 e)
                | Some (s1, Inr changed) \<Rightarrow> (s1, HttpReply 200 (iid, action, changed, instanceViews pb s1)))"

datatype settings_reply = Settings instanceSettings | Updated instanceSettings

definition handleInstanceSettings ::
    "sup_env \<Rightarrow> string \<Rightarrow> string \<Rightarrow> instanceSettings decoded \<Rightarrow> supervisorServer \<Rightarrow>
     supervisorServer \<times> settings_reply http_response" where
  "handleInstanceSettings env method path body s =
     (let iid = trim_slashes (TrimPrefix path ''/api/instance-settings/'')
      in if iid = [] then (s, HttpError 404 ''404 page not found'')
         else if method = ''GET'' then
           (case getInstanceSettings s iid of
              Inl e \<Rightarrow> (s, HttpError 404 e)
            | Inr settings \<Rightarrow> (s, HttpReply 200 (Settings settings)))
         else if method = ''POST'' then
           (case snd body of
              Some e \<Rightarrow> (s, HttpError 400 e)
            | None \<Rightarrow>
                (case updateInstanceSettings env iid (fst body) s of
                   (s1, Inl e) \<Rightarrow> (s1, HttpError 400 e)
                 | (s1, Inr updated) \<Rightarrow> (s1, HttpReply 200 (Updated updated))))
         else (s, HttpError 405 ''method not allowed''))"

definition remove_reply ::
    "sup_env \<Rightarrow> probes \<Rightarrow> string \<Rightarrow> supervisorServer \<Rightarrow> supervisorServer \<times> (string \<times> instanceView list) http_response" where
  "remove_reply env pb instanceID s =
     (let iid = TrimSpace instanceID
      in if iid = [] then (s, HttpError 400 ''instance_id is required'')
         else case removeFleetInstance env iid s of
           (s1, Inl e) \<Rightarrow> (s1, HttpError 400 e)
         | (s1, Inr _) \<Rightarrow> (s1, HttpReply 200 (iid, instanceViews pb s1)))"

definition handleFleetInstancesAdd ::
    "sup_env \<Rightarrow> probes \<Rightarrow> string \<Rightarrow> addInstanceRequest decoded \<Rightarrow> supervisorServer \<Rightarrow>
     supervisorServer \<times> (string \<times> instanceView list) http_response" where
  "handleFleetInstancesAdd env pb method body s =
     (if method \<noteq> ''POST'' then (s, HttpError 405 ''method not allowed'')
      else case snd body of
        Some e \<Rightarrow> (s, HttpError 400 e)
      | None \<Rightarrow>
          if ai_Remove (fst body) then remove_reply env pb (ai_InstanceID (fst body)) s
          else
            let inst = requested_instance (fst body)
            in if fi_InstanceID inst = [] \<or> fi_EGMID inst = [] \<or> fi_Group inst = []
               then (s, HttpError 400 ''instance_id, egm_id, and group are required'')
               else case addFleetInstance env inst s of
                 (s1, Inl e) \<Rightarrow> (s1, HttpError 400 e)
               | (s1, Inr _) \<Rightarrow> (s1, HttpReply 200 (fi_InstanceID inst, instanceViews pb s1)))"

definition handleFleetInstancesRemove ::
    "sup_env \<Rightarrow> probes \<Rightarrow> string \<Rightarrow> removeInstanceRequest decoded \<Rightarrow> supervisorServer \<Rightarrow>
     supervisorServer \<times> (string \<times> instanceView list) http_response" where
  "handleFleetInstancesRemove env pb method body s =
     (if method \<noteq> ''POST'' then (s, HttpError 405 ''method not allowed'')
      else case snd body of
        Some e \<Rightarrow> (s, HttpError 400 e)
      | None \<Rightarrow> remove_reply env pb (ri_InstanceID (fst body)) s)"

section \<open>Export (export.go)\<close>

record configRef =
  cr_InstanceID :: string
  cr_EGMID :: string
  cr_HostID :: string
  cr_Path :: string

record fleetExport =
  fx_GeneratedAt :: time
  fx_RunID :: string
  fx_ManifestPath :: string
  fx_GeneratedDir :: string
  fx_Instances :: "instanceView list"
  fx_Configs :: "configRef list"

text \<open>\<open>stamp\<close> is the current time as a run identifier, \<open>writeExport\<close> writes the bundle.\<close>

definition handleFleetExport ::
    "sup_env \<Rightarrow> probes \<Rightarrow> (string \<Rightarrow> fleetExport \<Rightarrow> unit result) \<Rightarrow> string \<Rightarrow> time \<Rightarrow> string \<Rightarrow> string \<Rightarrow> supervisorServer \<Rightarrow>
     supervisorServer \<times> (string \<times> string \<times> nat) http_response" where
  "handleFleetExport env pb writeExport stamp now method run_id s =
     (if method \<noteq> ''GET'' then (s, HttpError 405 ''method not allowed'')
      else
        let runID = (if run_id = [] then stamp else run_id);
            outDir = env_join env (if su_generatedDir s = [] then ''generated'' else su_generatedDir s) ''exports''
        in case env_mkdir env outDir of
             Inl e \<Rightarrow> (s, HttpError 500 e)
           | Inr _ \<Rightarrow>
               let exp = \<lparr>fx_GeneratedAt = now, fx_RunID = runID, fx_ManifestPath = su_manifestPath s,
                     fx_GeneratedDir = su_generatedDir s, fx_Instances = instanceViews pb s,
                     fx_Configs = map (\<lambda>gen. \<lparr>cr_InstanceID = ef_InstanceID (gc_Instance gen),
                       cr_EGMID = ef_EGMID (gc_Instance gen), cr_HostID = ef_HostID (gc_Instance gen),
                       cr_Path = gc_Path gen\<rparr>) (su_generated s)\<rparr>;
                   path = env_join env outDir (runID @ ''_fleet_bundle.json'')
               in case writeExport path exp of
                    Inl e \<Rightarrow> (s, HttpError 500 e)
                  | Inr _ \<Rightarrow> (s, HttpReply 200 (runID, path, length (fx_Instances exp))))"

section \<open>Steps\<close>

text \<open>
  The operations of the supervisor in any order: what the API calls under the mutex, rounds of the
  monitors, ends of children and the shutdown. A removal stops the instance and commits in one
  step here; what happens when a start of the same instance falls between the two is shown in
  the theory \<open>Fleet_Edit\<close>.
\<close>

inductive sup_step :: "sup_env \<Rightarrow> supervisorServer \<Rightarrow> supervisorServer \<Rightarrow> bool" for env where
  start: "sup_step env s (fst (startOne env iid s))"
| stop: "sup_step env s (fst (stopOne iid s))"
| monitor: "iid \<in> set (su_monitors s) \<Longrightarrow> sup_step env s (run_monitor env iid s)"
| ends: "st \<noteq> Alive \<Longrightarrow> sup_step env s (child_ends i st s)"
| add: "sup_step env s (fst (addFleetInstance env inst s))"
| remove: "sup_step env s (fst (removeFleetInstance env iid s))"
| settings: "sup_step env s (fst (updateInstanceSettings env iid inp s))"
| shut: "sup_step env s (shutdown s)"

inductive_cases sup_stepE: "sup_step env s s'"

lemma commit_frame:
  "su_cmds (fst (commit_manifest env m s)) = su_cmds s" "su_children (fst (commit_manifest env m s)) = su_children s"
  "su_restart (fst (commit_manifest env m s)) = su_restart s" "su_cancelled (fst (commit_manifest env m s)) = su_cancelled s"
  "su_monitors (fst (commit_manifest env m s)) = su_monitors s"
  by (simp_all add: commit_manifest_def writeManifest_def case_prod_beta split: sum.split)

lemma commit_inv: "sup_inv (fst (commit_manifest env m s)) = sup_inv s"
  by (simp add: sup_inv_def commit_frame)

lemma add_inv: "sup_inv s \<Longrightarrow> sup_inv (fst (addFleetInstance env inst s))"
  by (simp add: addFleetInstance_def commit_inv split: sum.split option.split)

lemma counted_delete: "counted restart \<Longrightarrow> counted (go_delete iid restart)"
  by (auto simp: counted_def map_of_delete)

lemma remove_commit_inv:
  assumes "sup_inv s" "map_of (su_cmds s) iid = None"
  shows "sup_inv (fst (remove_commit env iid s))"
proof (cases "load_manifest env s")
  case (Inr m)
  let ?m = "m\<lparr>mf_Instances := filter (\<lambda>inst. fi_InstanceID inst \<noteq> iid) (mf_Instances m)\<rparr>"
  let ?s1 = "fst (commit_manifest env ?m s)"
  have s1: "sup_inv ?s1" using assms(1) by (simp add: commit_inv)
  then have "sup_inv (drop_cmd iid ?s1)" using assms(2) by (intro sup_inv_drop) (simp_all add: commit_frame)
  then have "sup_inv ((drop_cmd iid ?s1)\<lparr>su_restart := go_delete iid (su_restart ?s1)\<rparr>)"
    using counted_delete by (simp add: sup_inv_def frame_simps)
  with s1 assms(1) Inr show ?thesis
    by (simp add: remove_commit_def Let_def case_prod_beta split: sum.split)
qed (simp add: remove_commit_def assms(1))

lemma stopOne_untracks: "map_of (su_cmds (fst (stopOne iid s))) iid = None"
  by (simp add: stopOne_def Let_def frame_simps map_of_delete split: option.split)

lemma remove_inv: "sup_inv s \<Longrightarrow> sup_inv (fst (removeFleetInstance env iid s))"
  unfolding removeFleetInstance_def by (intro remove_commit_inv stopOne_inv stopOne_untracks)

lemma settings_frame:
  "su_cmds (fst (updateInstanceSettings env iid inp s)) = su_cmds s"
  "su_children (fst (updateInstanceSettings env iid inp s)) = su_children s"
  "su_restart (fst (updateInstanceSettings env iid inp s)) = su_restart s"
  "su_cancelled (fst (updateInstanceSettings env iid inp s)) = su_cancelled s"
  "su_manifestFile (fst (updateInstanceSettings env iid inp s)) = su_manifestFile s"
  "su_manifestPath (fst (updateInstanceSettings env iid inp s)) = su_manifestPath s"
  "su_generatedDir (fst (updateInstanceSettings env iid inp s)) = su_generatedDir s"
  by (simp_all add: updateInstanceSettings_def Let_def split: option.split sum.split)

lemma settings_inv: "sup_inv s \<Longrightarrow> sup_inv (fst (updateInstanceSettings env iid inp s))"
  by (simp add: sup_inv_def settings_frame)

lemma shutdown_facts:
  assumes "sup_inv s"
  shows "sup_inv (shutdown s)" "su_cancelled (shutdown s)" "map_of (su_cmds (shutdown s)) = Map.empty"
proof -
  have "sup_inv (cancel s)" "su_cancelled (cancel s)" using assms by (simp_all add: cancel_inv) (simp add: cancel_def)
  moreover have "\<forall>cmd \<in> set (su_cmds s). snd cmd < length (su_children (cancel s))"
    using assms by (fastforce simp: sup_inv_def tracked_def cancel_def)
  ultimately show "sup_inv (shutdown s)" "su_cancelled (shutdown s)" "map_of (su_cmds (shutdown s)) = Map.empty"
    using shutdown_fold [of "cancel s" "su_cmds s"]
    by (auto simp: shutdown_def cancel_def restrict_map_def fun_eq_iff map_of_eq_None_iff)
qed

lemma sup_step_inv: "sup_step env s s' \<Longrightarrow> sup_inv s \<Longrightarrow> sup_inv s'"
  by (induction rule: sup_step.induct)
    (simp_all add: startOne_inv stopOne_inv run_monitor_inv child_ends_inv add_inv remove_inv settings_inv shutdown_facts)

lemma new_supervisor_inv: "sup_inv (newSupervisorServer mp gd gens file)"
  by (simp add: sup_inv_def newSupervisorServer_def tracked_def counted_def)

interpretation supervisor: step_system "\<lambda>s. \<exists>mp gd gens file. s = newSupervisorServer mp gd gens file" "sup_step env" sup_inv for env
  by unfold_locales (auto simp: new_supervisor_inv intro: sup_step_inv)

text \<open>The handlers of the API are made of these steps.\<close>

lemma start_all_steps: "(sup_step env)\<^sup>*\<^sup>* s (fst (start_all env gens started s))"
proof (induction gens arbitrary: s started)
  case (Cons gen gens)
  have "sup_step env s (fst (startOne env (ef_InstanceID (gc_Instance gen)) s))" by (rule start)
  with Cons.IH show ?case
    by (auto simp: case_prod_beta split: sum.split intro: converse_rtranclp_into_rtranclp)
qed simp

lemma stop_all_steps: "(sup_step env)\<^sup>*\<^sup>* s (fst (stop_all gens stopped s))"
proof (induction gens arbitrary: s stopped)
  case (Cons gen gens)
  have "sup_step env s (fst (stopOne (ef_InstanceID (gc_Instance gen)) s))" by (rule stop)
  with Cons.IH show ?case by (simp add: case_prod_beta) (meson converse_rtranclp_into_rtranclp)
qed simp

lemma handler_steps:
  "(sup_step env)\<^sup>*\<^sup>* s (fst (handleStartAll env pb method s))"
  "(sup_step env)\<^sup>*\<^sup>* s (fst (handleStopAll pb method s))"
  "(sup_step env)\<^sup>*\<^sup>* s (fst (handleInstanceSettings env method path body s))"
  "(sup_step env)\<^sup>*\<^sup>* s (fst (handleFleetInstancesAdd env pb method areq s))"
  "(sup_step env)\<^sup>*\<^sup>* s (fst (handleFleetInstancesRemove env pb method rreq s))"
proof -
  have remove: "(sup_step env)\<^sup>*\<^sup>* s (fst (remove_reply env pb iid s))" for iid
    using sup_step.remove [of env s "TrimSpace iid"]
    by (simp add: remove_reply_def Let_def case_prod_beta split: sum.split) (meson r_into_rtranclp)
  show "(sup_step env)\<^sup>*\<^sup>* s (fst (handleStartAll env pb method s))"
    using start_all_steps [of env s "su_generated s" "[]"]
    by (simp add: handleStartAll_def case_prod_beta split: sum.split)
  show "(sup_step env)\<^sup>*\<^sup>* s (fst (handleStopAll pb method s))"
    using stop_all_steps [of env s "su_generated s" "[]"] by (simp add: handleStopAll_def case_prod_beta)
  show "(sup_step env)\<^sup>*\<^sup>* s (fst (handleInstanceSettings env method path body s))"
    using settings [of env s "trim_slashes (TrimPrefix path ''/api/instance-settings/'')" "fst body"]
    by (simp add: handleInstanceSettings_def Let_def case_prod_beta split: sum.split option.split)
      (meson r_into_rtranclp)
  show "(sup_step env)\<^sup>*\<^sup>* s (fst (handleFleetInstancesAdd env pb method areq s))"
    using add [of env s "requested_instance (fst areq)"] remove [of "ai_InstanceID (fst areq)"]
    by (simp add: handleFleetInstancesAdd_def Let_def case_prod_beta split: sum.split option.split)
      (meson r_into_rtranclp)
  show "(sup_step env)\<^sup>*\<^sup>* s (fst (handleFleetInstancesRemove env pb method rreq s))"
    using remove by (simp add: handleFleetInstancesRemove_def split: option.split)
qed

lemma action_steps: "(sup_step env)\<^sup>*\<^sup>* s (fst (handleInstanceAction env pb method path s))"
proof -
  have restart: "(sup_step env)\<^sup>*\<^sup>* s (fst (startOne env iid (fst (stopOne iid s))))" for iid
    using stop [of env s iid] start [of env "fst (stopOne iid s)" iid]
    by (meson converse_rtranclp_into_rtranclp r_into_rtranclp)
  show ?thesis
    using restart start [of env s] stop [of env s]
    by (simp add: handleInstanceAction_def Let_def case_prod_beta split: sum.split) (meson r_into_rtranclp)
qed

lemma sample_reachable:
  "(sup_step sample_env)\<^sup>*\<^sup>* (newSupervisorServer ''fleet.json'' ''generated'' [sample_gen] ''{}'') sample_supervisor"
  unfolding sample_supervisor_def by (rule r_into_rtranclp) (rule start)

end
