(* ===== verification/Fleet_Edit.thy ===== *)
theory Fleet_Edit
  imports Supervisor
begin

text \<open>
  Properties of the edits a running supervisor takes (\<^verbatim>\<open>settings.go\<close> and \<^verbatim>\<open>fleet_edit.go\<close> under
  \<^verbatim>\<open>src/cmd/vegm-supervisor\<close>): what an update of an instance's settings leaves, that adding and
  removing an instance are inverse, that instances stay addressable by their identifier, and two
  ways in which edits lose track of something.
\<close>

section \<open>Replacing one element\<close>

abbreviation gen_id :: "GeneratedConfig \<Rightarrow> string" where
  "gen_id g \<equiv> ef_InstanceID (gc_Instance g)"

lemma find_update_first:
  assumes "find P xs = Some x" "P (f x)"
  shows "find P (update_first P f xs) = Some (f x)"
  using assms by (induction xs) (auto split: if_splits)

lemma find_update_first_other:
  assumes "\<And>x. P x \<Longrightarrow> \<not> Q x \<and> \<not> Q (f x)"
  shows "find Q (update_first P f xs) = find Q xs"
  using assms by (induction xs) auto

lemma map_update_first:
  assumes "\<And>x. g (f x) = g x"
  shows "map g (update_first P f xs) = map g xs"
  using assms by (induction xs) auto

section \<open>Settings\<close>

lemma settings_gen_id [simp]: "gen_id (settings_gen inp g) = gen_id g"
  by (simp add: settings_gen_def settings_instance_def)

lemma sup_defaultG2SXML_fields:
  "gx_Mode (sup_defaultG2SXML x ep) = (if gx_Mode x = [] then ''lab_legacy_xml'' else gx_Mode x)"
  "gx_Namespace (sup_defaultG2SXML x ep) =
     (if gx_Namespace x = [] then ''http://www.gamingstandards.com/g2s/schemas/v1.0.3'' else gx_Namespace x)"
  "gx_EGMLocation (sup_defaultG2SXML x ep) =
     (if gx_EGMLocation x = [] \<and> fe_Host ep \<noteq> [] \<and> fe_Port ep > 0 then host_port (fe_Host ep) (fe_Port ep)
      else gx_EGMLocation x)"
  by (simp_all add: sup_defaultG2SXML_def Let_def)

lemma sup_defaultG2SXML_idem [simp]: "sup_defaultG2SXML (sup_defaultG2SXML x ep) ep = sup_defaultG2SXML x ep"
  by (rule G2SXMLConfig.equality) (simp_all add: sup_defaultG2SXML_fields)

lemma settings_view_gen:
  "settings_view (gc_Instance (settings_gen inp g)) xml = inp\<lparr>is_InstanceID := gen_id g, is_G2SXML := xml\<rparr>"
  by (simp add: settings_view_def settings_gen_def settings_instance_def)

lemma settings_gen_parts [simp]:
  "c_G2SXML (gc_Config (settings_gen inp g)) = is_G2SXML inp"
  "ef_EGMEndpoint (gc_Instance (settings_gen inp g)) = is_EGMEndpoint inp"
  "gc_Path (settings_gen inp g) = gc_Path g"
  by (simp_all add: settings_gen_def settings_config_def settings_instance_def)

text \<open>The settings an update asks for, completed the way the code completes them.\<close>

definition asked_settings :: "string \<Rightarrow> instanceSettings \<Rightarrow> instanceSettings" where
  "asked_settings iid inp =
     inp\<lparr>is_InstanceID := iid, is_G2SXML := sup_defaultG2SXML (is_G2SXML inp) (is_EGMEndpoint inp)\<rparr>"

lemma updateInstanceSettings_case:
  assumes "generatedByID s iid = Some gen"
  shows "su_generated (fst (updateInstanceSettings env iid inp s)) =
      update_first (\<lambda>g. gen_id g = iid) (settings_gen (inp\<lparr>is_G2SXML := sup_defaultG2SXML (is_G2SXML inp) (is_EGMEndpoint inp)\<rparr>))
        (su_generated s)"
    and "snd (updateInstanceSettings env iid inp s) \<in> insert (Inr (asked_settings iid inp)) (range Inl)"
proof -
  have "gen_id gen = iid" using assms by (auto simp: generatedByID_def find_Some_iff)
  then show "snd (updateInstanceSettings env iid inp s) \<in> insert (Inr (asked_settings iid inp)) (range Inl)"
    by (simp add: updateInstanceSettings_def assms Let_def settings_view_gen asked_settings_def split: sum.split)
qed (simp add: updateInstanceSettings_def assms Let_def split: sum.split)

text \<open>
  C23: updating the settings of an instance and reading them back gives what was asked for, with
  the XML settings completed, also when the update reports that the configuration file could not
  be written; the reply of a successful update is the same; no other instance changes.
\<close>

theorem settings_roundtrip:
  assumes "generatedByID s iid \<noteq> None" "updateInstanceSettings env iid inp s = (s', outcome)"
  shows "getInstanceSettings s' iid = Inr (asked_settings iid inp) \<and>
    (outcome = Inr (asked_settings iid inp) \<or> (\<exists>e. outcome = Inl e)) \<and>
    (\<forall>other. other \<noteq> iid \<longrightarrow> getInstanceSettings s' other = getInstanceSettings s other)"
proof -
  from assms(1) obtain gen where gen: "generatedByID s iid = Some gen" by blast
  then have id: "gen_id gen = iid" by (auto simp: generatedByID_def find_Some_iff)
  let ?inp = "inp\<lparr>is_G2SXML := sup_defaultG2SXML (is_G2SXML inp) (is_EGMEndpoint inp)\<rparr>"
  note upd = updateInstanceSettings_case [OF gen, of env inp, unfolded assms(2) fst_conv snd_conv]
  have "generatedByID s' iid = Some (settings_gen ?inp gen)"
    unfolding generatedByID_def upd(1)
    by (rule find_update_first) (use gen id in \<open>simp_all add: generatedByID_def\<close>)
  moreover have "generatedByID s' other = generatedByID s other" if "other \<noteq> iid" for other
    unfolding generatedByID_def upd(1) by (rule find_update_first_other) (use that in simp)
  ultimately show ?thesis
    using upd(2) id by (auto simp: getInstanceSettings_def settings_view_gen asked_settings_def)
qed

theorem settings_roundtrip_witness:
  "let s' = fst (updateInstanceSettings sample_env ''vegm-001''
       ((settings_view (sample_effective ''vegm-001'') (c_G2SXML (gc_Config sample_gen)))\<lparr>is_HostID := ''HOST-9''\<rparr>) sample_supervisor)
   in \<exists>settings. getInstanceSettings s' ''vegm-001'' = Inr settings \<and> is_HostID settings = ''HOST-9''"
proof -
  have "generatedByID sample_supervisor ''vegm-001'' \<noteq> None"
    by (simp add: generatedByID_def sample_supervisor_facts) (simp add: sample_gen_def sample_effective_def)
  from settings_roundtrip [OF this surjective_pairing] show ?thesis
    by (simp add: Let_def asked_settings_def settings_view_def)
qed

section \<open>Identifiers of the generated instances\<close>

lemma generate_loop_ids:
  "generate_loop join writeFile dir effs out = Inr gens \<Longrightarrow> map gen_id gens = map gen_id out @ map ef_InstanceID effs"
  by (induction effs arbitrary: out) (auto simp: Let_def split: sum.splits)

lemma GenerateConfigs_ids:
  assumes "GenerateConfigs pu join mkdir writeFile (Some m) dir = Inr gens"
  shows "map gen_id gens = map fi_InstanceID (mf_Instances m)" "distinct (map gen_id gens)"
proof -
  from assms obtain effs where effs: "ResolveInstances pu join (Some m) = Inr effs"
    and "\<exists>d. generate_loop join writeFile d effs [] = Inr gens"
    by (auto simp: GenerateConfigs_def Let_def split: sum.splits)
  then have "map gen_id gens = map ef_InstanceID effs" using generate_loop_ids by fastforce
  also have "\<dots> = map fi_InstanceID (mf_Instances m)"
    using ResolveInstances_Inr [OF effs] resolveInstance_parts(1) by (auto intro!: nth_equalityI)
  finally show "map gen_id gens = map fi_InstanceID (mf_Instances m)" .
  then show "distinct (map gen_id gens)" using ResolveInstances_Inr [OF effs] by (simp add: manifest_wf_def)
qed

lemma validateAndGenerate_ids:
  assumes "validateAndGenerateFleet env m dir = Inr gens"
  shows "map gen_id gens = map fi_InstanceID (mf_Instances m)" "distinct (map gen_id gens)"
  using assms GenerateConfigs_ids by (auto simp: validateAndGenerateFleet_def split: sum.splits)

definition addressable :: "supervisorServer \<Rightarrow> bool" where
  "addressable s \<longleftrightarrow> distinct (map gen_id (su_generated s))"

lemma commit_addressable: "addressable s \<Longrightarrow> addressable (fst (commit_manifest env m s))"
  using validateAndGenerate_ids
  by (fastforce simp: addressable_def commit_manifest_def writeManifest_def case_prod_beta split: sum.split)

lemma edits_addressable:
  assumes "addressable s"
  shows "addressable (fst (addFleetInstance env inst s))" "addressable (fst (remove_commit env iid s))"
    "addressable (fst (updateInstanceSettings env iid inp s))"
proof -
  show "addressable (fst (addFleetInstance env inst s))"
    using assms by (simp add: addFleetInstance_def commit_addressable split: sum.split option.split)
  show "addressable (fst (remove_commit env iid s))"
  proof (cases "load_manifest env s")
    case (Inr m)
    with assms commit_addressable [OF assms, of env "m\<lparr>mf_Instances := filter (\<lambda>inst. fi_InstanceID inst \<noteq> iid) (mf_Instances m)\<rparr>"]
    show ?thesis
      by (simp add: remove_commit_def Let_def case_prod_beta addressable_def frame_simps split: sum.split)
  qed (simp add: remove_commit_def assms)
  show "addressable (fst (updateInstanceSettings env iid inp s))"
    using assms updateInstanceSettings_case(1) [of s iid _ env inp]
    by (cases "generatedByID s iid") (simp_all add: addressable_def map_update_first updateInstanceSettings_def)
qed

lemma processes_keep_generated [frame_simps]:
  "su_generated (fst (startOne env iid s)) = su_generated s" "su_generated (fst (stopOne iid s)) = su_generated s"
  "su_generated (run_monitor env iid s) = su_generated s" "su_generated (child_ends i st s) = su_generated s"
  "su_generated (shutdown_one cmd s) = su_generated s" "su_generated (shutdown s) = su_generated s"
proof -
  show "su_generated (fst (startOne env iid s)) = su_generated s"
    by (simp add: startOne_def Let_def frame_simps split: option.split sum.split)
  show "su_generated (fst (stopOne iid s)) = su_generated s"
    by (simp add: stopOne_def Let_def frame_simps split: option.split)
  show "su_generated (run_monitor env iid s) = su_generated s"
    by (simp add: run_monitor_def monitor_iteration_def restart_child_def Let_def frame_simps case_prod_beta
        split: option.split sum.split)
  show "su_generated (child_ends i st s) = su_generated s" by (simp add: child_ends_def)
  have one: "su_generated (shutdown_one cmd s) = su_generated s" for cmd s
    by (simp add: shutdown_one_def Let_def frame_simps)
  then show "su_generated (shutdown_one cmd s) = su_generated s" .
  have "su_generated (fold shutdown_one cmds s) = su_generated s" for cmds s
    by (induction cmds arbitrary: s) (simp_all add: one)
  then show "su_generated (shutdown s) = su_generated s" by (simp add: shutdown_def cancel_def)
qed

lemma sup_step_addressable: "sup_step env s s' \<Longrightarrow> addressable s \<Longrightarrow> addressable s'"
  by (induction rule: sup_step.induct)
    (simp_all add: edits_addressable removeFleetInstance_def, simp_all add: addressable_def frame_simps
      edits_addressable [unfolded addressable_def])

interpretation addressing: step_system addressable "sup_step env" addressable for env
  by unfold_locales (auto intro: sup_step_addressable)

lemma find_distinct:
  assumes "distinct (map f xs)" "x \<in> set xs"
  shows "find (\<lambda>y. f y = f x) xs = Some x"
  using assms by (induction xs) auto

text \<open>
  C21: a supervisor started on the configurations generated for a manifest keeps its instances
  addressable: in every reachable state, whatever was added, removed or changed meanwhile, the
  identifiers of the generated instances are distinct and looking one up finds that instance.
\<close>

theorem fleet_addressable:
  assumes "GenerateConfigs pu join mkdir writeFile (Some m) dir = Inr gens"
    "(sup_step env)\<^sup>*\<^sup>* (newSupervisorServer mp gd gens file) s"
  shows "distinct (map (\<lambda>g. ef_InstanceID (gc_Instance g)) (su_generated s)) \<and>
    (\<forall>gen \<in> set (su_generated s). generatedByID s (ef_InstanceID (gc_Instance gen)) = Some gen)"
proof -
  have "addressable (newSupervisorServer mp gd gens file)"
    using GenerateConfigs_ids [OF assms(1)] by (simp add: addressable_def newSupervisorServer_def)
  then have "addressable s" by (rule addressing.reachable_inv [OF _ assms(2)])
  then show ?thesis by (simp add: addressable_def generatedByID_def find_distinct [where f = gen_id])
qed

section \<open>Committing an edit\<close>

lemma commit_Inr:
  "commit_manifest env m s = (s', Inr ()) \<longleftrightarrow>
     (\<exists>gens content. validateAndGenerateFleet env m (su_generatedDir s) = Inr gens \<and>
        env_writeManifest env (su_manifestFile s) (env_marshal env m) = (content, Inr ()) \<and>
        s' = s\<lparr>su_manifestFile := content, su_generated := gens\<rparr>)"
  by (auto simp: commit_manifest_def writeManifest_def split: sum.splits prod.splits)

lemma add_Inr:
  assumes "load_manifest env s = Inr m"
  shows "addFleetInstance env inst s = (s', Inr ()) \<longleftrightarrow>
    existing_conflict inst (mf_Instances m) = None \<and> map_of (mf_Groups m) (fi_Group inst) \<noteq> None \<and>
    commit_manifest env (m\<lparr>mf_Instances := mf_Instances m @ [inst]\<rparr>) s = (s', Inr ())"
  using assms by (auto simp: addFleetInstance_def split: option.split)

lemma remove_commit_Inr:
  assumes "load_manifest env s = Inr m"
  shows "remove_commit env iid s = (s', Inr ()) \<longleftrightarrow>
    list_ex (\<lambda>inst. fi_InstanceID inst = iid) (mf_Instances m) \<and>
    (\<exists>s1. commit_manifest env (m\<lparr>mf_Instances := filter (\<lambda>inst. fi_InstanceID inst \<noteq> iid) (mf_Instances m)\<rparr>) s = (s1, Inr ()) \<and>
       s' = (drop_cmd iid s1)\<lparr>su_restart := go_delete iid (su_restart s1)\<rparr>)"
  using assms by (auto simp: remove_commit_def Let_def split: prod.split sum.splits)

lemma no_conflict_new:
  "existing_conflict inst insts = None \<Longrightarrow> filter (\<lambda>x. fi_InstanceID x \<noteq> fi_InstanceID inst) insts = insts"
  by (induction insts) (auto split: if_splits)

lemma load_manifest_file:
  "load_manifest env s = Inr m \<longleftrightarrow>
     env_readErr env = None \<and> env_unmarshal env (su_manifestFile s) = Inr m \<and> ValidateManifest (env_pu env) (Some m) = Inr ()"
  by (auto simp: load_manifest_def LoadManifest_def split: option.splits sum.splits)

lemma commit_valid:
  assumes "commit_manifest env m s = (s', Inr ())"
  shows "ValidateManifest (env_pu env) (Some m) = Inr ()"
  using assms by (auto simp: commit_Inr validateAndGenerateFleet_def ResolveInstances_def split: sum.splits)

lemma stopOne_files [frame_simps]:
  "su_manifestFile (fst (stopOne iid s)) = su_manifestFile s" "su_generatedDir (fst (stopOne iid s)) = su_generatedDir s"
  by (simp_all add: stopOne_def Let_def markDesired_def set_meta_def kill_def drop_cmd_def split: option.split)

text \<open>
  C22: removing an instance that was just added gives back the manifest as it was, and the
  generated configurations of that manifest, provided the manifest's JSON text decodes to the
  manifest it encodes and a successful write leaves the file with what was written.
\<close>

theorem add_remove_roundtrip:
  assumes load: "load_manifest env s = Inr m"
    and add: "addFleetInstance env inst s = (s1, Inr ())"
    and remove: "removeFleetInstance env (fi_InstanceID inst) s1 = (s2, Inr ())"
    and json: "\<And>insts. insts \<in> {mf_Instances m, mf_Instances m @ [inst]} \<Longrightarrow>
      env_unmarshal env (env_marshal env (m\<lparr>mf_Instances := insts\<rparr>)) = Inr (m\<lparr>mf_Instances := insts\<rparr>)"
    and writes: "\<And>old new content. env_writeManifest env old new = (content, Inr ()) \<Longrightarrow> content = new"
  shows "load_manifest env s2 = Inr m \<and>
    validateAndGenerateFleet env m (su_generatedDir s) = Inr (su_generated s2)"
proof -
  let ?m1 = "m\<lparr>mf_Instances := mf_Instances m @ [inst]\<rparr>"
  from add load have new: "existing_conflict inst (mf_Instances m) = None"
    and c1: "commit_manifest env ?m1 s = (s1, Inr ())" by (simp_all add: add_Inr)
  then have s1: "su_manifestFile s1 = env_marshal env ?m1" "su_generatedDir s1 = su_generatedDir s"
    using writes by (auto simp: commit_Inr)
  have read: "env_readErr env = None" "ValidateManifest (env_pu env) (Some m) = Inr ()"
    using load by (simp_all add: load_manifest_file)
  have "load_manifest env (fst (stopOne (fi_InstanceID inst) s1)) = Inr ?m1"
    using json [of "mf_Instances m @ [inst]"] commit_valid [OF c1] read by (simp add: load_manifest_file frame_simps s1)
  with remove new obtain s3 where c2: "commit_manifest env m (fst (stopOne (fi_InstanceID inst) s1)) = (s3, Inr ())"
    and s2: "su_manifestFile s2 = su_manifestFile s3" "su_generated s2 = su_generated s3"
    by (auto simp: removeFleetInstance_def remove_commit_Inr no_conflict_new frame_simps)
  from c2 writes have "su_manifestFile s3 = env_marshal env m"
    "validateAndGenerateFleet env m (su_generatedDir s) = Inr (su_generated s3)"
    by (auto simp: commit_Inr frame_simps s1)
  with s2 json [of "mf_Instances m"] read show ?thesis by (simp add: load_manifest_file)
qed

text \<open>
  C40: settings are written to the generated configuration only, never to the manifest, and every
  edit of the fleet generates all configurations again: adding an instance after an update of any
  settings gives exactly the state that adding it without the update gives, so the update is lost.
\<close>

theorem settings_lost_on_edit:
  assumes "addFleetInstance env inst s = (s1, Inr ())"
  shows "addFleetInstance env inst (fst (updateInstanceSettings env iid inp s)) = (s1, Inr ())"
proof -
  let ?s = "fst (updateInstanceSettings env iid inp s)"
  have load: "load_manifest env ?s = load_manifest env s"
    by (simp add: load_manifest_def LoadManifest_def settings_frame split: option.split)
  obtain gens where "?s = s\<lparr>su_generated := gens\<rparr>"
    by (rule that [of "su_generated ?s"])
      (simp add: updateInstanceSettings_def Let_def split: option.split sum.split)
  then have "commit_manifest env m ?s = (s1, Inr ()) \<longleftrightarrow> commit_manifest env m s = (s1, Inr ())" for m
    by (simp add: commit_Inr)
  with assms load show ?thesis
    by (cases "load_manifest env s") (simp add: addFleetInstance_def, simp add: add_Inr)
qed

text \<open>
  C38: a removal stops the instance and commits in two separate critical sections. When the
  instance is started in between, the commit forgets the new process: it stays alive, is held by
  no entry, and neither another stop nor a removal of that instance ends it.
\<close>

theorem remove_race_orphans_child:
  assumes "startOne env iid (fst (stopOne iid s)) = (s1, Inr True)" "remove_commit env iid s1 = (s2, Inr ())"
  shows "\<exists>i < length (su_children s2). alive (su_children s2 ! i) \<and> ch_Instance (su_children s2 ! i) = iid \<and>
    map_of (su_cmds s2) iid = None \<and> alive (su_children (fst (stopOne iid s2)) ! i)"
proof -
  let ?s0 = "fst (stopOne iid s)"
  let ?c = "\<lambda>argv. \<lparr>ch_Instance = iid, ch_Argv = argv, ch_State = Alive, ch_Killed = False\<rparr>"
  from assms(1) obtain argv where s1: "su_children s1 = su_children ?s0 @ [?c argv]"
    by (auto simp: startOne_def Let_def frame_simps spawn_def markDesired_def set_meta_def drop_cmd_def
        split: option.splits sum.splits if_splits)
  from assms(2) obtain m where "load_manifest env s1 = Inr m"
    by (auto simp: remove_commit_def split: sum.splits)
  with assms(2) obtain m' s3 where "commit_manifest env m' s1 = (s3, Inr ())"
    and s2: "s2 = (drop_cmd iid s3)\<lparr>su_restart := go_delete iid (su_restart s3)\<rparr>"
    by (auto simp: remove_commit_Inr)
  then have children: "su_children s2 = su_children ?s0 @ [?c argv]" "map_of (su_cmds s2) iid = None"
    using commit_frame(2) [of env m' s1] s1 by (simp_all add: frame_simps map_of_delete)
  then have "su_children (fst (stopOne iid s2)) = su_children s2" by (simp add: stopOne_def Let_def frame_simps)
  with children show ?thesis
    by (intro exI [of _ "length (su_children ?s0)"]) (simp add: alive_def)
qed

section \<open>A sample edit\<close>

definition one_manifest :: Manifest where
  "one_manifest = sample_manifest\<lparr>mf_Instances := [sample_instance ''vegm-001'' ''EGM-001'' ''127.0.0.2'' 0]\<rparr>"

definition second_instance :: Instance where
  "second_instance = sample_instance ''vegm-002'' ''EGM-002'' ''127.0.0.3'' 9000"

text \<open>The two manifests are kept in files with the texts 1 and 2.\<close>

definition edit_env :: sup_env where
  "edit_env = sample_env\<lparr>
     env_unmarshal := (\<lambda>t. if t = ''1'' then Inr one_manifest else if t = ''2'' then Inr sample_manifest else Inl ''not a manifest''),
     env_marshal := (\<lambda>m. if length (mf_Instances m) = 1 then ''1'' else ''2'')\<rparr>"

definition edit_supervisor :: "string \<Rightarrow> supervisorServer" where
  "edit_supervisor file = newSupervisorServer ''fleet.json'' ''generated'' [sample_gen] file"

lemma sample_edits:
  "one_manifest\<lparr>mf_Instances := mf_Instances one_manifest @ [second_instance]\<rparr> = sample_manifest"
  "filter (\<lambda>inst. fi_InstanceID inst \<noteq> ''vegm-002'') (mf_Instances sample_manifest) = mf_Instances one_manifest"
  "sample_manifest\<lparr>mf_Instances := mf_Instances one_manifest\<rparr> = one_manifest"
  "list_ex (\<lambda>inst. fi_InstanceID inst = ''vegm-002'') (mf_Instances sample_manifest)"
  "length (mf_Instances one_manifest) = 1" "length (mf_Instances sample_manifest) = 2"
  "existing_conflict second_instance (mf_Instances one_manifest) = None"
  "map_of (mf_Groups one_manifest) (fi_Group second_instance) \<noteq> None"
  "fi_InstanceID second_instance = ''vegm-002''"
  by (simp_all add: one_manifest_def sample_manifest_def second_instance_def sample_instance_def)

lemma resolveInstance_instances [simp]:
  "resolveInstance join (m\<lparr>mf_Instances := insts\<rparr>) idx inst = resolveInstance join m idx inst"
proof -
  have parts: "profile_of (m\<lparr>mf_Instances := insts\<rparr>) inst = profile_of m inst"
    "group_of (m\<lparr>mf_Instances := insts\<rparr>) inst = group_of m inst"
    "mf_Defaults (m\<lparr>mf_Instances := insts\<rparr>) = mf_Defaults m"
    by (simp_all add: profile_of_def group_of_def)
  then have "resolve_listen (m\<lparr>mf_Instances := insts\<rparr>) inst = resolve_listen m inst"
    "resolve_wire_port (m\<lparr>mf_Instances := insts\<rparr>) idx inst = resolve_wire_port m idx inst"
    "resolve_control_port (m\<lparr>mf_Instances := insts\<rparr>) idx inst = resolve_control_port m idx inst"
    "resolve_trust (m\<lparr>mf_Instances := insts\<rparr>) = resolve_trust m"
    "merged_endpoint (m\<lparr>mf_Instances := insts\<rparr>) inst = merged_endpoint m inst"
    by (simp_all add: resolve_listen_def resolve_wire_port_def resolve_control_port_def resolve_trust_def merged_endpoint_def)
  with parts show ?thesis by (simp only: resolveInstance_def resolve_endpoint_def)
qed

lemma one_manifest_wf: "manifest_wf sample_url one_manifest"
  by (simp add: manifest_wf_def one_manifest_def sample_manifest_def sample_defaults_def sample_instance_def
      instance_wf_def profile_wf_def group_wf_def endpoint_wf_def host_endpoint_wf_def host_url_ok_def sample_url_def
      no_endpoint_def no_host_endpoint_def no_profile_def no_group_def resolvedHostID_def)
    code_simp

lemma edit_loads:
  "load_manifest edit_env (edit_supervisor ''1'') = Inr one_manifest"
  "load_manifest edit_env (edit_supervisor ''2'') = Inr sample_manifest"
proof -
  have "ValidateManifest sample_url (Some one_manifest) = Inr ()" "ValidateManifest sample_url (Some sample_manifest) = Inr ()"
    using one_manifest_wf sample_manifest_wf by (simp_all add: manifest_validator.accepts_iff)
  then show "load_manifest edit_env (edit_supervisor ''1'') = Inr one_manifest"
    "load_manifest edit_env (edit_supervisor ''2'') = Inr sample_manifest"
    by (simp_all add: load_manifest_def edit_env_def sample_env_def edit_supervisor_def newSupervisorServer_def LoadManifest_def)
qed

lemma one_resolves: obtains e where "ResolveInstances sample_url sample_join (Some one_manifest) = Inr [e]"
proof -
  obtain e where e: "resolveInstance sample_join sample_manifest 0 (mf_Instances sample_manifest ! 0) = Inr e"
    using sample_instance_resolves [of 0] by auto
  have "validateResolvedInstances [e] = Inr ()" by (simp add: validateResolvedInstances_def)
  moreover have "ValidateManifest sample_url (Some one_manifest) = Inr ()"
    using one_manifest_wf by (simp add: manifest_validator.accepts_iff)
  ultimately have "ResolveInstances sample_url sample_join (Some one_manifest) = Inr [e]"
    using e by (simp add: ResolveInstances_def one_manifest_def) (simp add: sample_manifest_def)
  then show ?thesis by (rule that)
qed

lemma edit_generates:
  "\<exists>gens. validateAndGenerateFleet edit_env one_manifest dir = Inr gens"
  "\<exists>gens. validateAndGenerateFleet edit_env sample_manifest dir = Inr gens"
proof -
  from one_resolves obtain e where "ResolveInstances sample_url sample_join (Some one_manifest) = Inr [e]" by blast
  then show "\<exists>gens. validateAndGenerateFleet edit_env one_manifest dir = Inr gens"
    by (simp add: validateAndGenerateFleet_def GenerateConfigs_def edit_env_def sample_env_def Let_def)
  from sample_resolves obtain e1 e2 where "ResolveInstances sample_url sample_join (Some sample_manifest) = Inr [e1, e2]"
    by blast
  then show "\<exists>gens. validateAndGenerateFleet edit_env sample_manifest dir = Inr gens"
    by (simp add: validateAndGenerateFleet_def GenerateConfigs_def edit_env_def sample_env_def Let_def)
qed

lemma edit_loads_file:
  "su_manifestFile s = ''1'' \<Longrightarrow> load_manifest edit_env s = Inr one_manifest"
  "su_manifestFile s = ''2'' \<Longrightarrow> load_manifest edit_env s = Inr sample_manifest"
  using edit_loads by (simp_all add: load_manifest_file edit_supervisor_def newSupervisorServer_def)

lemma edit_env_simps [simp]:
  "env_writeManifest edit_env = (\<lambda>old new. (new, Inr ()))" "env_marshal edit_env one_manifest = ''1''"
  "env_marshal edit_env sample_manifest = ''2''" "env_unmarshal edit_env ''1'' = Inr one_manifest"
  "env_unmarshal edit_env ''2'' = Inr sample_manifest"
  by (simp_all add: edit_env_def sample_env_def sample_edits)

lemma edit_adds:
  assumes "su_manifestFile s = ''1''"
  obtains gens where "addFleetInstance edit_env second_instance s = (s\<lparr>su_manifestFile := ''2'', su_generated := gens\<rparr>, Inr ())"
proof -
  from edit_generates(2) obtain gens where "validateAndGenerateFleet edit_env sample_manifest (su_generatedDir s) = Inr gens"
    by blast
  then have "addFleetInstance edit_env second_instance s = (s\<lparr>su_manifestFile := ''2'', su_generated := gens\<rparr>, Inr ())"
    using edit_loads_file(1) [OF assms] by (simp add: add_Inr sample_edits commit_Inr)
  then show ?thesis by (rule that)
qed

lemma edit_removes:
  assumes "su_manifestFile s = ''2''"
  obtains s' where "remove_commit edit_env ''vegm-002'' s = (s', Inr ())"
proof -
  from edit_generates(1) obtain gens where "validateAndGenerateFleet edit_env one_manifest (su_generatedDir s) = Inr gens"
    by blast
  then have "\<exists>s'. remove_commit edit_env ''vegm-002'' s = (s', Inr ())"
    using edit_loads_file(2) [OF assms] by (simp add: remove_commit_Inr sample_edits commit_Inr)
  then show ?thesis using that by blast
qed

theorem settings_lost_on_edit_witness:
  "\<exists>s1. addFleetInstance edit_env second_instance (edit_supervisor ''1'') = (s1, Inr ()) \<and>
     addFleetInstance edit_env second_instance (fst (updateInstanceSettings edit_env ''vegm-001''
       (settings_view (sample_effective ''vegm-009'') (c_G2SXML (gc_Config sample_gen))) (edit_supervisor ''1''))) = (s1, Inr ())"
proof -
  obtain gens where "addFleetInstance edit_env second_instance (edit_supervisor ''1'') =
      ((edit_supervisor ''1'')\<lparr>su_manifestFile := ''2'', su_generated := gens\<rparr>, Inr ())"
    by (rule edit_adds [of "edit_supervisor ''1''"]) (simp_all add: edit_supervisor_def newSupervisorServer_def)
  with settings_lost_on_edit [OF this] show ?thesis by blast
qed

theorem add_remove_roundtrip_witness:
  "\<exists>s1 s2. addFleetInstance edit_env second_instance (edit_supervisor ''1'') = (s1, Inr ()) \<and>
     removeFleetInstance edit_env ''vegm-002'' s1 = (s2, Inr ()) \<and> load_manifest edit_env s2 = Inr one_manifest"
proof -
  obtain gens where add: "addFleetInstance edit_env second_instance (edit_supervisor ''1'') =
      ((edit_supervisor ''1'')\<lparr>su_manifestFile := ''2'', su_generated := gens\<rparr>, Inr ())" (is "_ = (?s1, _)")
    by (rule edit_adds [of "edit_supervisor ''1''"]) (simp_all add: edit_supervisor_def newSupervisorServer_def)
  obtain s2 where remove: "removeFleetInstance edit_env ''vegm-002'' ?s1 = (s2, Inr ())"
    unfolding removeFleetInstance_def by (rule edit_removes [of "fst (stopOne ''vegm-002'' ?s1)"]) (simp_all add: frame_simps)
  have "load_manifest edit_env s2 = Inr one_manifest \<and>
      validateAndGenerateFleet edit_env one_manifest (su_generatedDir (edit_supervisor ''1'')) = Inr (su_generated s2)"
  proof (rule add_remove_roundtrip [OF edit_loads(1) add])
    show "removeFleetInstance edit_env (fi_InstanceID second_instance) ?s1 = (s2, Inr ())"
      using remove by (simp add: sample_edits)
  qed (auto simp: sample_edits)
  with add remove show ?thesis by blast
qed

theorem remove_race_orphans_child_witness:
  "\<exists>s s1 s2. startOne edit_env ''vegm-002'' (fst (stopOne ''vegm-002'' s)) = (s1, Inr True) \<and>
     remove_commit edit_env ''vegm-002'' s1 = (s2, Inr ()) \<and> map_of (su_cmds s2) ''vegm-002'' = None \<and>
     (\<exists>i < length (su_children s2). alive (su_children s2 ! i) \<and> ch_Instance (su_children s2 ! i) = ''vegm-002'')"
proof -
  let ?s = "(edit_supervisor ''2'')\<lparr>su_generated := [sample_gen\<lparr>gc_Instance := sample_effective ''vegm-002''\<rparr>]\<rparr>"
  have launch: "startVEGMProcessForScale edit_env False path dir = Inr [''/opt/vegm'', ''-config'', path]" for path dir
    by (simp add: startVEGMProcessForScale_def edit_env_def sample_env_def start_command_def buildVEGMCommand_def Let_def)
  have s: "su_cmds ?s = []" "\<not> su_cancelled ?s" "su_manifestFile ?s = ''2''"
    "generatedByID ?s ''vegm-002'' = Some (sample_gen\<lparr>gc_Instance := sample_effective ''vegm-002''\<rparr>)"
    by (simp_all add: edit_supervisor_def newSupervisorServer_def generatedByID_def sample_effective_def)
  obtain s1 where s1: "startOne edit_env ''vegm-002'' (fst (stopOne ''vegm-002'' ?s)) = (s1, Inr True)" "su_manifestFile s1 = ''2''"
    using s by (auto simp: stopOne_def startOne_def launch cmd_of_def processRunning_def generatedByID_def
        frame_simps Let_def)
  obtain s2 where s2: "remove_commit edit_env ''vegm-002'' s1 = (s2, Inr ())" by (rule edit_removes [OF s1(2)])
  from remove_race_orphans_child [OF s1(1) this] s1(1) s2 show ?thesis
    by (intro exI [of _ ?s] exI [of _ s1] exI [of _ s2]) blast
qed

theorem fleet_addressable_witness:
  "\<exists>gens. GenerateConfigs sample_url sample_join (\<lambda>_. Inr ()) (\<lambda>_ _. Inr ()) (Some sample_manifest) ''out'' = Inr gens \<and>
     length gens = 2 \<and> (\<forall>gen \<in> set gens. generatedByID
       (fst (startOne edit_env ''vegm-001'' (newSupervisorServer ''fleet.json'' ''out'' gens ''2''))) (gen_id gen) = Some gen)"
proof -
  obtain e1 e2 where "ResolveInstances sample_url sample_join (Some sample_manifest) = Inr [e1, e2]"
    using sample_resolves by blast
  then obtain gens where gens: "GenerateConfigs sample_url sample_join (\<lambda>_. Inr ()) (\<lambda>_ _. Inr ()) (Some sample_manifest) ''out'' = Inr gens"
    "length gens = 2"
    by (auto simp: GenerateConfigs_def Let_def)
  have "(sup_step edit_env)\<^sup>*\<^sup>* (newSupervisorServer ''fleet.json'' ''out'' gens ''2'')
      (fst (startOne edit_env ''vegm-001'' (newSupervisorServer ''fleet.json'' ''out'' gens ''2'')))"
    by (rule r_into_rtranclp) (rule start)
  from fleet_addressable [OF gens(1) this] gens show ?thesis
    by (simp add: frame_simps newSupervisorServer_def)
qed

end
