(* ===== verification/Supervisor_Api.thy ===== *)
theory Supervisor_Api
  imports Fleet_Edit
begin

text \<open>
  The supervisor's HTTP server as a whole (\<^verbatim>\<open>routes\<close> of \<^verbatim>\<open>src/cmd/vegm-supervisor/server.go\<close>): the CORS
  wrapper, the mux with its routes, and behind each route its handler, the pages of the web UI
  included. A request is its method, its path, the bytes of its body and the run identifier of its
  query. What the handlers take from outside is in \<open>sup_api\<close>; their replies are the cases of one type.
\<close>

section \<open>The pages (server.go)\<close>

definition handleUIRoot :: "supervisorServer \<Rightarrow> supervisorServer \<times> 'a http_response" where
  "handleUIRoot s = (s, HttpRedirect 307 ''/ui/supervisor.html'')"

definition uiHandler ::
    "(string \<Rightarrow> 'fs result) \<Rightarrow> ('fs \<Rightarrow> string \<Rightarrow> 'a http_response) \<Rightarrow> string \<Rightarrow> supervisorServer \<Rightarrow>
     supervisorServer \<times> 'a http_response" where
  "uiHandler sub fileServer path s = (s, ui_files sub fileServer path)"

section \<open>Routes (server.go)\<close>

datatype sup_route =
  RHealthz | RUIRoot | RUI | RInstances | RStartAll | RStopAll | RInstanceAction | RInstanceSettings | RFleetAdd | RFleetExport

definition sup_routes :: "(string \<times> sup_route) list" where
  "sup_routes =
     [(''/healthz'', RHealthz), (''/ui'', RUIRoot), (''/ui/'', RUI), (''/api/instances'', RInstances),
      (''/api/instances/start-all'', RStartAll), (''/api/instances/stop-all'', RStopAll),
      (''/api/instances/'', RInstanceAction), (''/api/instance-settings/'', RInstanceSettings),
      (''/api/fleet/instances/add'', RFleetAdd), (''/api/export/fleet'', RFleetExport)]"

record sup_request =
  sq_Method :: string
  sq_Path :: string
  sq_Body :: string
  sq_RunID :: string

record 'fs sup_api =
  sa_env :: sup_env
  sa_probes :: probes
  sa_settings :: "string \<Rightarrow> instanceSettings decoded"
  sa_add :: "string \<Rightarrow> addInstanceRequest decoded"
  sa_writeExport :: "string \<Rightarrow> fleetExport \<Rightarrow> unit result"
  sa_stamp :: string
  sa_now :: time
  sa_sub :: "string \<Rightarrow> 'fs result"
  sa_fileServer :: "'fs \<Rightarrow> string \<Rightarrow> string http_response"

datatype sup_reply =
    SupHealth nat
  | SupPage string
  | SupInstances "instanceView list"
  | SupBulk "string list" "instanceView list"
  | SupAction string string bool "instanceView list"
  | SupSettings settings_reply
  | SupFleet string "instanceView list"
  | SupExport string string nat

definition sup_replying ::
    "('a \<Rightarrow> sup_reply) \<Rightarrow> supervisorServer \<times> 'a http_response \<Rightarrow> supervisorServer \<times> sup_reply http_response" where
  "sup_replying f = map_prod id (map_http_response f)"

fun sup_handler ::
    "'fs sup_api \<Rightarrow> sup_request \<Rightarrow> sup_route \<Rightarrow> supervisorServer \<Rightarrow> supervisorServer \<times> sup_reply http_response" where
  "sup_handler api r RHealthz s = sup_replying SupHealth (supervisor_handleHealthz s)"
| "sup_handler api r RUIRoot s = handleUIRoot s"
| "sup_handler api r RUI s = sup_replying SupPage (uiHandler (sa_sub api) (sa_fileServer api) (sq_Path r) s)"
| "sup_handler api r RInstances s =
     sup_replying SupInstances (handleInstances (sa_probes api) (sq_Method r) s)"
| "sup_handler api r RStartAll s =
     sup_replying (\<lambda>(ids, views). SupBulk ids views) (handleStartAll (sa_env api) (sa_probes api) (sq_Method r) s)"
| "sup_handler api r RStopAll s =
     sup_replying (\<lambda>(ids, views). SupBulk ids views) (handleStopAll (sa_probes api) (sq_Method r) s)"
| "sup_handler api r RInstanceAction s =
     sup_replying (\<lambda>(iid, action, changed, views). SupAction iid action changed views)
       (handleInstanceAction (sa_env api) (sa_probes api) (sq_Method r) (sq_Path r) s)"
| "sup_handler api r RInstanceSettings s =
     sup_replying SupSettings
       (handleInstanceSettings (sa_env api) (sq_Method r) (sq_Path r) (sa_settings api (sq_Body r)) s)"
| "sup_handler api r RFleetAdd s =
     sup_replying (\<lambda>(iid, views). SupFleet iid views)
       (handleFleetInstancesAdd (sa_env api) (sa_probes api) (sq_Method r) (sa_add api (sq_Body r)) s)"
| "sup_handler api r RFleetExport s =
     sup_replying (\<lambda>(runID, path, n). SupExport runID path n)
       (handleFleetExport (sa_env api) (sa_probes api) (sa_writeExport api) (sa_stamp api) (sa_now api)
          (sq_Method r) (sq_RunID r) s)"

definition sup_mux ::
    "'fs sup_api \<Rightarrow> sup_request \<Rightarrow> supervisorServer \<Rightarrow> supervisorServer \<times> sup_reply http_response" where
  "sup_mux api r s =
     (case mux_route sup_routes (sq_Method r) (sq_Path r) of
        MuxHandler route \<Rightarrow> sup_handler api r route s
      | MuxRedirect url \<Rightarrow> (s, HttpRedirect 301 url)
      | MuxNotFound \<Rightarrow> (s, NotFound))"

text \<open>What \<open>routes\<close> returns, applied to a request.\<close>

definition routes ::
    "'fs sup_api \<Rightarrow> sup_request \<Rightarrow> supervisorServer \<Rightarrow> supervisorServer \<times> sup_reply option http_response" where
  "routes api r s = withSupervisorCORS (sq_Method r) (sup_mux api r) s"

section \<open>Requests are runs of steps\<close>

lemma fst_sup_replying [simp]: "fst (sup_replying f x) = fst x"
  by (simp add: sup_replying_def)

lemma fst_withSupervisorCORS:
  "fst (withSupervisorCORS method next s) = (if method = ''OPTIONS'' then s else fst (next s))"
  by (auto simp: withSupervisorCORS_def split: prod.split http_response.split)

lemma sup_read_only [frame_simps]:
  "fst (supervisor_handleHealthz s) = s" "fst (handleUIRoot s) = s" "fst (uiHandler sub fs p s) = s"
  "fst (handleInstances pb m s) = s" "fst (handleFleetExport env pb wx st t m rid s) = s"
  by (simp_all add: supervisor_handleHealthz_def handleUIRoot_def uiHandler_def handleInstances_def
      handleFleetExport_def Let_def split: sum.split)

lemma sup_post_handlers [frame_simps]:
  assumes "m \<noteq> ''POST''"
  shows "fst (handleStartAll env pb m s) = s" "fst (handleStopAll pb m s) = s"
    "fst (handleInstanceAction env pb m p s) = s" "fst (handleInstanceSettings env m p b s) = s"
    "fst (handleFleetInstancesAdd env pb m ab s) = s"
  using assms
  by (simp_all add: handleStartAll_def handleStopAll_def handleInstanceAction_def handleInstanceSettings_def
      handleFleetInstancesAdd_def Let_def split: sum.split)

lemma sup_handler_steps: "(sup_step (sa_env api))\<^sup>*\<^sup>* s (fst (sup_handler api r route s))"
  by (cases route) (simp_all add: frame_simps handler_steps action_steps)


section \<open>An action reaches its instance\<close>

lemma trim_slashes_id:
  assumes "a \<noteq> []" "CHR ''/'' \<notin> set a" "b \<noteq> []" "CHR ''/'' \<notin> set b"
  shows "trim_slashes (a @ c @ b) = a @ c @ b"
proof -
  have keep: "dropWhile (\<lambda>c. c = CHR ''/'') (x @ y) = x @ y" if "x \<noteq> []" "CHR ''/'' \<notin> set x" for x y :: string
    using that by (cases x) auto
  show ?thesis
    using keep [of a "c @ b"] keep [of "rev b" "rev (a @ c)"] assms by (simp add: trim_slashes_def)
qed

lemma action_path_clean:
  assumes "path_part iid" "path_part action"
  shows "cleanPath (''/api/instances/'' @ iid @ ''/'' @ action) = ''/api/instances/'' @ iid @ ''/'' @ action"
proof -
  have "list_all path_part [''api'', ''instances'', iid, action]" using assms by (simp add: path_part_def)
  from cleanPath_fixed(1) [OF this] show ?thesis by (simp add: rooted_def)
qed

lemma sup_slash_patterns:
  "p @ ''/'' \<in> set (map fst sup_routes) \<Longrightarrow> p \<in> {''/ui'', ''/api/instances'', ''/api/instance-settings''}"
  by (auto simp: sup_routes_def snoc_eq_iff_butlast)

lemma action_find:
  assumes "CHR ''/'' \<in> set rest"
  shows "map_option snd (mux_find sup_routes (''/api/instances/'' @ rest)) = Some RInstanceAction"
proof -
  let ?path = "''/api/instances/'' @ rest"
  have "mux_matches ''/api/instances/'' ?path" by (simp add: mux_matches_def suffix_def)
  moreover have "(''/api/instances/'', RInstanceAction) \<in> set sup_routes" by (simp add: sup_routes_def)
  ultimately obtain best where best: "mux_find sup_routes ?path = Some best" "length ''/api/instances/'' \<le> length (fst best)"
    using mux_find_longest by fastforce
  then have "best \<in> set sup_routes" "mux_matches (fst best) ?path" using mux_find_Some by blast+
  with best(2) assms have "snd best = RInstanceAction"
    by (auto simp: sup_routes_def mux_matches_def suffix_def)
  with best(1) show ?thesis by simp
qed

lemma action_route:
  assumes "path_part iid" "path_part action"
  shows "mux_route sup_routes method (''/api/instances/'' @ iid @ ''/'' @ action) = MuxHandler RInstanceAction"
proof -
  let ?path = "''/api/instances/'' @ iid @ ''/'' @ action"
  have "\<not> needs_slash sup_routes ?path"
    using sup_slash_patterns [of ?path] by (auto simp: needs_slash_def)
  moreover obtain r where "mux_find sup_routes ?path = Some r" "snd r = RInstanceAction"
    using action_find [of "iid @ ''/'' @ action"] by auto
  ultimately show ?thesis
    using action_path_clean [OF assms] by (simp add: mux_route_def Let_def)
qed

text \<open>
  An action of the API reaches the instance it names. For an identifier that is one element of a
  path, the request to start, stop or restart it goes through the mux to the action handler, never
  to one of the bulk operations, and the handler does that to that instance.
\<close>

theorem action_reaches_instance:
  assumes "path_part iid" "action \<in> {''start'', ''stop'', ''restart''}"
  shows "fst (routes api \<lparr>sq_Method = ''POST'', sq_Path = ''/api/instances/'' @ iid @ ''/'' @ action,
      sq_Body = body, sq_RunID = run\<rparr> s) =
    (if action = ''start'' then fst (startOne (sa_env api) iid s)
     else if action = ''stop'' then fst (stopOne iid s)
     else fst (startOne (sa_env api) iid (fst (stopOne iid s))))"
proof -
  have action: "path_part action" "action \<noteq> []" "CHR ''/'' \<notin> set action"
    using assms(2) by (auto simp: path_part_def)
  have iid: "iid \<noteq> []" "CHR ''/'' \<notin> set iid" using assms(1) by (simp_all add: path_part_def)
  have "TrimPrefix (''/api/instances/'' @ iid @ ''/'' @ action) ''/api/instances/'' = iid @ ''/'' @ action"
    by (simp add: TrimPrefix_def)
  moreover have "split_slash (trim_slashes (iid @ ''/'' @ action)) = [iid, action]"
    using split_slash_append [OF iid(2), of action] trim_slashes_id [OF iid action(2,3), of "''/''"]
    by (simp add: split_slash_plain [OF action(3)])
  ultimately have "fst (handleInstanceAction env pb ''POST'' (''/api/instances/'' @ iid @ ''/'' @ action) s) =
      (if action = ''start'' then fst (startOne env iid s)
       else if action = ''stop'' then fst (stopOne iid s)
       else fst (startOne env iid (fst (stopOne iid s))))" for env pb
    using assms iid action by (simp only: handleInstanceAction_def Let_def)
      (auto simp: case_prod_beta split: sum.split)
  then show ?thesis
    using action_route [OF assms(1) action(1), of "''POST''"]
    by (simp add: routes_def fst_withSupervisorCORS sup_mux_def)
qed

definition silent_probes :: probes where
  "silent_probes = \<lparr>pb_get = (\<lambda>url. Inl ''refused''), pb_state = (\<lambda>url. Inl ''refused''),
     pb_cert = BuildCertificateStatus (\<lambda>_ _. Inl ''no file'') (\<lambda>_. Inl ''no file'') (\<lambda>_. Inl ''no file'') (\<lambda>_. False)\<rparr>"

definition sample_api :: "unit sup_api" where
  "sample_api = \<lparr>sa_env = sample_env, sa_probes = silent_probes,
     sa_settings = (\<lambda>_. (undefined, Some ''EOF'')), sa_add = (\<lambda>_. (undefined, Some ''EOF'')),
     sa_writeExport = (\<lambda>_ _. Inr ()), sa_stamp = ''run'', sa_now = 1, sa_sub = (\<lambda>_. Inr ()),
     sa_fileServer = (\<lambda>_ p. HttpReply 200 p)\<rparr>"

theorem action_reaches_instance_witness:
  "fst (routes sample_api \<lparr>sq_Method = ''POST'', sq_Path = ''/api/instances/vegm-001/stop'',
     sq_Body = [], sq_RunID = []\<rparr> sample_supervisor) = fst (stopOne ''vegm-001'' sample_supervisor)"
  using action_reaches_instance [of "''vegm-001''" "''stop''" sample_api "[]" "[]" sample_supervisor]
  by (simp add: path_part_def)

end
