(* ===== verification/Supervisor_Main.thy ===== *)
theory Supervisor_Main
  imports Supervisor_Api
begin

text \<open>
  The supervisor command (\<^verbatim>\<open>main\<close> and \<^verbatim>\<open>serveSupervisor\<close>). Flags are a record with the values after parsing, standard output is the text printed, and the JSON encoder
  of the \<^verbatim>\<open>json\<close> output mode and the listener are arguments. The content of the manifest file is an
  argument of the command, as it is part of the state of the server.
\<close>

section \<open>The command (main.go, server.go)\<close>

record sup_flags =
  fl_manifest :: string
  fl_output :: string
  fl_generateDir :: string
  fl_generate :: bool
  fl_serve :: bool
  fl_bind :: string

definition serveSupervisor :: "(string \<Rightarrow> unit result) \<Rightarrow> string \<Rightarrow> unit result" where
  "serveSupervisor listen bind = listen bind"

text \<open>How the command ends, with what it printed before.\<close>

datatype sup_end = SupFatal string error | SupDone string | SupServing string supervisorServer

definition println :: "string \<Rightarrow> string" where
  "println t = t @ [CHR 0x0A]"

definition instance_lines :: "EffectiveInstance \<Rightarrow> string" where
  "instance_lines inst =
     println (''- '' @ ef_InstanceID inst @ '' ('' @ ef_EGMID inst @ '')'') @
     println (''  group='' @ ef_Group inst @ '' profile='' @ ef_Profile inst @ '' manufacturer='' @ ef_Manufacturer inst) @
     println (''  wire='' @ host_port (ef_ListenHost inst) (ef_WirePort inst) @ '' control='' @
       host_port (ef_ListenHost inst) (ef_ControlPort inst)) @
     println (''  trust='' @ ef_TrustMode inst @ '' pack='' @ ef_PackFile inst) @
     println (''  log_dir='' @ ef_LogDir inst) @
     (if ef_StorageBackend inst = ''sqlite'' then println (''  sqlite='' @ ef_SQLitePath inst) else []) @
     println (''  ui=http://'' @ host_port (ef_ListenHost inst) (ef_ControlPort inst) @ ''/ui/scenario-runner.html'') @
     println []"

definition summary_text :: "sup_flags \<Rightarrow> Manifest \<Rightarrow> EffectiveInstance list \<Rightarrow> GeneratedConfig list \<Rightarrow> string" where
  "summary_text fl m effective generated =
     println (''Fleet: '' @ mf_FleetName m) @
     (if mf_Description m \<noteq> [] then println (''Description: '' @ mf_Description m) else []) @
     println (''Instances: '' @ show_nat (length effective)) @
     (if length generated > 0 then println (''Generated configs: '' @ fl_generateDir fl) else []) @
     (if fl_serve fl then println (''Supervisor UI: http://'' @ fl_bind fl @ ''/ui/supervisor.html'') else []) @
     println [] @ concat (map instance_lines effective)"

definition main_output ::
    "(string \<Rightarrow> EffectiveInstance list \<Rightarrow> string result) \<Rightarrow> sup_flags \<Rightarrow> Manifest \<Rightarrow> EffectiveInstance list \<Rightarrow>
     GeneratedConfig list \<Rightarrow> string result" where
  "main_output encode fl m effective generated =
     (if fl_output fl = ''summary'' then Inr (summary_text fl m effective generated)
      else if fl_output fl = ''json'' then encode (mf_FleetName m) effective
      else Inl (''unsupported output mode '' @ go_quote (fl_output fl)))"

definition main_generate :: "sup_env \<Rightarrow> sup_flags \<Rightarrow> Manifest \<Rightarrow> GeneratedConfig list result" where
  "main_generate env fl m =
     (if fl_generate fl \<or> fl_serve fl
      then GenerateConfigs (env_pu env) (env_join env) (env_mkdir env) (env_writeConfig env) (Some m) (fl_generateDir fl)
      else Inr [])"

definition supervisor_main ::
    "sup_env \<Rightarrow> (string \<Rightarrow> EffectiveInstance list \<Rightarrow> string result) \<Rightarrow> (string \<Rightarrow> unit result) \<Rightarrow> sup_flags \<Rightarrow> string \<Rightarrow> sup_end" where
  "supervisor_main env encode listen fl file =
     (case LoadManifest (env_pu env) (\<lambda>path. case env_readErr env of Some e \<Rightarrow> Inl e | None \<Rightarrow> Inr file)
             (env_unmarshal env) (fl_manifest fl) of
        Inl e \<Rightarrow> SupFatal [] e
      | Inr m \<Rightarrow>
     (case ResolveInstances (env_pu env) (env_join env) (Some m) of
        Inl e \<Rightarrow> SupFatal [] e
      | Inr effective \<Rightarrow>
     (case main_generate env fl m of
        Inl e \<Rightarrow> SupFatal [] e
      | Inr generated \<Rightarrow>
     (case main_output encode fl m effective generated of
        Inl e \<Rightarrow> SupFatal [] e
      | Inr out \<Rightarrow>
          if fl_serve fl
          then (case serveSupervisor listen (fl_bind fl) of
                  Inl e \<Rightarrow> SupFatal out e
                | Inr _ \<Rightarrow> SupServing out (newSupervisorServer (fl_manifest fl) (fl_generateDir fl) generated file))
          else SupDone out))))"

section \<open>Properties\<close>

text \<open>
  C20: when the supervisor command serves, it was asked to, the manifest is valid, the server holds
  one generated configuration per instance of the manifest, in order, with distinct identifiers, it
  holds no process yet and satisfies the process invariant. Without the flag it never serves, and an
  unknown output mode always ends it with an error.
\<close>

theorem supervisor_main_outcome:
  "case supervisor_main env encode listen fl file of
     SupServing out s \<Rightarrow>
       fl_serve fl \<and> sup_inv s \<and> su_children s = [] \<and> addressable s \<and>
       (\<exists>m. load_manifest env s = Inr m \<and> manifest_wf (env_pu env) m \<and>
          map (\<lambda>g. ef_InstanceID (gc_Instance g)) (su_generated s) = map fi_InstanceID (mf_Instances m))
   | SupDone out \<Rightarrow> \<not> fl_serve fl \<and> fl_output fl \<in> {''summary'', ''json''}
   | SupFatal out e \<Rightarrow> True"
proof (cases "supervisor_main env encode listen fl file")
  case (SupServing out s)
  then obtain m effective generated where
    load: "LoadManifest (env_pu env) (\<lambda>path. case env_readErr env of Some e \<Rightarrow> Inl e | None \<Rightarrow> Inr file)
      (env_unmarshal env) (fl_manifest fl) = Inr m"
    and gen: "main_generate env fl m = Inr generated" and serve: "fl_serve fl"
    and s: "s = newSupervisorServer (fl_manifest fl) (fl_generateDir fl) generated file"
    by (auto simp: supervisor_main_def split: sum.splits if_splits)
  have "load_manifest env s = Inr m" using load by (auto simp: load_manifest_file s newSupervisorServer_def LoadManifest_def split: option.splits sum.splits)
  moreover have "manifest_wf (env_pu env) m"
    using calculation by (simp add: load_manifest_file manifest_validator.accepts_iff)
  moreover have "map gen_id generated = map fi_InstanceID (mf_Instances m)" "distinct (map gen_id generated)"
    using gen serve GenerateConfigs_ids by (simp_all add: main_generate_def)
  ultimately show ?thesis
    using SupServing serve new_supervisor_inv by (simp add: s addressable_def) (simp add: newSupervisorServer_def)
next
  case (SupDone out)
  then show ?thesis
    by (auto simp: supervisor_main_def main_output_def split: sum.splits if_splits)
qed simp

end
