(* ===== verification/Supervisor_Contract.thy ===== *)
theory Supervisor_Contract
  imports Supervisor
begin

text \<open>
  What the supervisor promises about its instances, seen from outside: which instances are wanted
  and which count as running. The promise is an abstract transition of these two sets per
  operation; the operations of the supervisor refine it, and what follows from it alone is proved
  once, in a locale.
\<close>

section \<open>Operations\<close>

datatype sup_op =
  OpStart string
| OpStop string
| OpMonitor string
| OpEnds nat process_state
| OpAdd Instance
| OpRemove string
| OpSettings string instanceSettings
| OpShutdown

fun run_op :: "sup_env \<Rightarrow> sup_op \<Rightarrow> supervisorServer \<Rightarrow> supervisorServer" where
  "run_op env (OpStart iid) s = fst (startOne env iid s)"
| "run_op env (OpStop iid) s = fst (stopOne iid s)"
| "run_op env (OpMonitor iid) s = (if iid \<in> set (su_monitors s) then run_monitor env iid s else s)"
| "run_op env (OpEnds i st) s = (if st = Alive then s else child_ends i st s)"
| "run_op env (OpAdd inst) s = fst (addFleetInstance env inst s)"
| "run_op env (OpRemove iid) s = fst (removeFleetInstance env iid s)"
| "run_op env (OpSettings iid inp) s = fst (updateInstanceSettings env iid inp s)"
| "run_op env OpShutdown s = shutdown s"

lemma sup_step_run_op: "sup_step env s s' \<Longrightarrow> \<exists>op. s' = run_op env op s"
proof (induction rule: sup_step.induct)
  case (start s iid) show ?case by (rule exI [of _ "OpStart iid"]) simp
next
  case (stop s iid) show ?case by (rule exI [of _ "OpStop iid"]) simp
next
  case (monitor iid s) then show ?case by (intro exI [of _ "OpMonitor iid"]) simp
next
  case (ends st s i) then show ?case by (intro exI [of _ "OpEnds i st"]) simp
next
  case (add s inst) show ?case by (rule exI [of _ "OpAdd inst"]) simp
next
  case (remove s iid) show ?case by (rule exI [of _ "OpRemove iid"]) simp
next
  case (settings s iid inp) show ?case by (rule exI [of _ "OpSettings iid inp"]) simp
next
  case (shut s) show ?case by (rule exI [of _ OpShutdown]) simp
qed

lemma run_op_inv: "sup_inv s \<Longrightarrow> sup_inv (run_op env op s)"
  by (cases op) (simp_all add: startOne_inv stopOne_inv run_monitor_inv child_ends_inv add_inv remove_inv settings_inv
      shutdown_facts)

section \<open>The promise\<close>

record fleet_view =
  fv_wanted :: "string set"
  fv_running :: "string set"

fun fleet_spec :: "sup_op \<Rightarrow> fleet_view \<Rightarrow> fleet_view \<Rightarrow> bool" where
  "fleet_spec (OpStart iid) v v' \<longleftrightarrow>
     v' = v \<or> v' = \<lparr>fv_wanted = insert iid (fv_wanted v), fv_running = insert iid (fv_running v)\<rparr>"
| "fleet_spec (OpStop iid) v v' \<longleftrightarrow> v' = \<lparr>fv_wanted = fv_wanted v - {iid}, fv_running = fv_running v - {iid}\<rparr>"
| "fleet_spec (OpMonitor iid) v v' \<longleftrightarrow>
     v' = v \<or> iid \<in> fv_wanted v \<and> iid \<notin> fv_running v \<and>
       (v' = v\<lparr>fv_running := insert iid (fv_running v)\<rparr> \<or> v' = v\<lparr>fv_wanted := fv_wanted v - {iid}\<rparr>)"
| "fleet_spec (OpEnds i st) v v' \<longleftrightarrow> v' = v \<or> (\<exists>iid. v' = v\<lparr>fv_running := fv_running v - {iid}\<rparr>)"
| "fleet_spec (OpAdd inst) v v' \<longleftrightarrow> v' = v"
| "fleet_spec (OpRemove iid) v v' \<longleftrightarrow> v' = \<lparr>fv_wanted = fv_wanted v - {iid}, fv_running = fv_running v - {iid}\<rparr>"
| "fleet_spec (OpSettings iid inp) v v' \<longleftrightarrow> v' = v"
| "fleet_spec OpShutdown v v' \<longleftrightarrow> fv_wanted v' \<subseteq> fv_wanted v \<and> fv_running v' = {}"

text \<open>Anything that keeps the promise, and what follows from it.\<close>

locale fleet_contract =
  fixes run :: "sup_op \<Rightarrow> 's \<Rightarrow> 's"
    and inv :: "'s \<Rightarrow> bool"
    and view :: "'s \<Rightarrow> fleet_view"
  assumes keeps_inv: "inv s \<Longrightarrow> inv (run op s)"
    and refines: "inv s \<Longrightarrow> fleet_spec op (view s) (view (run op s))"
begin

lemma keeps_inv_fold: "inv s \<Longrightarrow> inv (fold run ops s)"
  by (induction ops arbitrary: s) (simp_all add: keeps_inv)

definition off :: "string \<Rightarrow> 's \<Rightarrow> bool" where
  "off iid s \<longleftrightarrow> iid \<notin> fv_wanted (view s) \<and> iid \<notin> fv_running (view s)"

lemma off_step:
  assumes "inv s" "off iid s" "op \<noteq> OpStart iid"
  shows "off iid (run op s)"
  using refines [OF assms(1), of op] assms(2,3) by (cases op) (auto simp: off_def)

lemma off_steps:
  assumes "inv s" "off iid s" "OpStart iid \<notin> set ops"
  shows "off iid (fold run ops s)"
  using assms
proof (induction ops arbitrary: s)
  case (Cons op ops)
  then show ?case using Cons.IH [OF keeps_inv off_step, of s op] by auto
qed simp

lemma stop_off: "inv s \<Longrightarrow> off iid (run (OpStop iid) s)" "inv s \<Longrightarrow> off iid (run (OpRemove iid) s)"
  using refines [of s "OpStop iid"] refines [of s "OpRemove iid"] by (auto simp: off_def)

lemma wanted_only_by_start:
  assumes "inv s" "iid \<in> fv_wanted (view (fold run ops s))" "iid \<notin> fv_wanted (view s)"
  shows "OpStart iid \<in> set ops"
proof (rule ccontr)
  assume "OpStart iid \<notin> set ops"
  with assms(1,3) have "iid \<notin> fv_wanted (view (fold run ops s))"
  proof (induction ops arbitrary: s)
    case (Cons op ops)
    then have "iid \<notin> fv_wanted (view (run op s))"
      using refines [OF Cons.prems(1), of op] by (cases op) auto
    with Cons show ?case by (auto intro: keeps_inv)
  qed simp
  with assms(2) show False by simp
qed

end

section \<open>The view of the supervisor\<close>

definition wanted :: "supervisorServer \<Rightarrow> string set" where
  "wanted s = {iid. rm_Desired (restart_meta s iid)}"

definition running :: "supervisorServer \<Rightarrow> string set" where
  "running s = {iid. processRunning (cmd_of s iid)}"

definition fleet_view_of :: "supervisorServer \<Rightarrow> fleet_view" where
  "fleet_view_of s = \<lparr>fv_wanted = wanted s, fv_running = running s\<rparr>"

named_theorems view_simps

lemma wanted_cong: "su_restart s' = su_restart s \<Longrightarrow> wanted s' = wanted s"
  by (simp add: wanted_def restart_meta_def)

lemma running_cong: "su_cmds s' = su_cmds s \<Longrightarrow> su_children s' = su_children s \<Longrightarrow> running s' = running s"
  by (simp add: running_def cmd_of_def)

lemma view_cong:
  "su_restart s' = su_restart s \<Longrightarrow> su_cmds s' = su_cmds s \<Longrightarrow> su_children s' = su_children s \<Longrightarrow>
   fleet_view_of s' = fleet_view_of s"
  using wanted_cong [of s' s] running_cong [of s' s] by (simp add: fleet_view_of_def)

lemma wanted_simps [view_simps]:
  "wanted (set_meta iid meta s) = (if rm_Desired meta then insert iid (wanted s) else wanted s - {iid})"
  "wanted (drop_cmd iid s) = wanted s" "wanted (spawn iid argv s) = wanted s" "wanted (kill i s) = wanted s"
  "wanted (markDesired iid b s) = (if b then insert iid (wanted s) else wanted s - {iid})"
  "wanted (s\<lparr>su_monitors := ms\<rparr>) = wanted s"
  by (auto simp: wanted_def restart_meta_def set_meta_def drop_cmd_def spawn_def kill_def markDesired_def Let_def
      update_conv' split: if_splits)

lemma running_simps [view_simps]:
  "running (set_meta iid meta s) = running s" "running (markDesired iid b s) = running s"
  "running (drop_cmd iid s) = running s - {iid}" "running (kill i s) = running s"
  "running (s\<lparr>su_monitors := ms\<rparr>) = running s"
proof -
  have "ch_State ((su_children s)[i := (su_children s ! i)\<lparr>ch_Killed := True\<rparr>] ! j) = ch_State (su_children s ! j)" for j
    by (cases "i < length (su_children s)") (simp_all add: nth_list_update list_update_beyond)
  then show "running (kill i s) = running s"
    by (simp add: running_def cmd_of_def kill_def processRunning_def exited_def option.case_eq_if option.map_sel)
  show "running (drop_cmd iid s) = running s - {iid}"
    by (auto simp: running_def cmd_of_def drop_cmd_def processRunning_def map_of_delete)
qed (rule running_cong; simp add: frame_simps)+

lemma running_spawn:
  assumes "sup_inv s"
  shows "running (spawn iid argv s) = insert iid (running s)"
proof -
  have "i < length (su_children s)" if "map_of (su_cmds s) j = Some i" for i j
    using assms that by (auto simp: sup_inv_def tracked_def)
  then show ?thesis
    by (auto simp: running_def cmd_of_def spawn_def processRunning_def exited_def update_conv' nth_append
        split: option.splits if_splits)
qed

lemma start_refines:
  assumes "sup_inv s"
  shows "fleet_spec (OpStart iid) (fleet_view_of s) (fleet_view_of (fst (startOne env iid s)))"
proof (cases "processRunning (cmd_of s iid)")
  case False
  then have idle: "running s - {iid} = running s" by (simp add: running_def)
  have "sup_inv (drop_cmd iid s)" using assms False not_running_dead by (intro sup_inv_drop) auto
  then show ?thesis
    using False idle
    by (simp add: startOne_def Let_def fleet_view_of_def view_simps running_spawn split: option.split sum.split)
qed (simp add: startOne_def)

lemma monitor_refines:
  assumes "sup_inv s"
  shows "fleet_spec (OpMonitor iid) (fleet_view_of s) (fleet_view_of (run_monitor env iid s))"
proof (cases "cmd_of s iid")
  case (Some cmd)
  show ?thesis
  proof (cases "rm_Desired (restart_meta s iid) \<and> exited cmd")
    case True
    then have "iid \<in> wanted s" "iid \<notin> running s" using Some by (simp_all add: wanted_def running_def processRunning_def)
    moreover from calculation have "insert iid (wanted s) = wanted s" "running s - {iid} = running s" by auto
    moreover have "sup_inv (set_meta iid meta s)" if "0 \<le> rm_RestartCount meta" "rm_RestartCount meta \<le> maxSupervisorRestarts" for meta
      using assms that by (rule sup_inv_set_meta)
    moreover have "running (spawn iid argv (set_meta iid meta s)) = insert iid (running s)" for argv meta
      using running_spawn [OF assms, of iid argv] by (simp add: running_def cmd_of_def spawn_def set_meta_def)
    ultimately show ?thesis
      using True Some
      by (simp add: run_monitor_def monitor_iteration_def restart_child_def Let_def fleet_view_of_def view_simps
          case_prod_beta split: option.split sum.split)
  qed (use Some in \<open>auto simp: run_monitor_def monitor_iteration_def Let_def fleet_view_of_def view_simps\<close>)
qed (auto simp: run_monitor_def monitor_iteration_def Let_def fleet_view_of_def view_simps)

lemma ends_refines:
  assumes "sup_inv s"
  shows "fleet_spec (OpEnds i st) (fleet_view_of s) (fleet_view_of (child_ends i st s))"
proof (cases "i < length (su_children s) \<and> ch_State (su_children s ! i) = Alive")
  case True
  let ?c = "(su_children s ! i)\<lparr>ch_State := st\<rparr>" and ?iid = "ch_Instance (su_children s ! i)"
  have other: "j \<noteq> i" if "map_of (su_cmds s) iid = Some j" "iid \<noteq> ?iid" for iid j
    using assms that by (auto simp: sup_inv_def tracked_def)
  have "cmd_of (child_ends i st s) iid = cmd_of s iid" if "iid \<noteq> ?iid" for iid
    using other [OF _ that] True by (cases "map_of (su_cmds s) iid") (auto simp: cmd_of_def child_ends_def nth_list_update)
  then have "running (child_ends i st s) - {?iid} = running s - {?iid}" by (auto simp: running_def)
  moreover have "running (child_ends i st s) \<subseteq> running s"
  proof (cases "map_of (su_cmds s) ?iid = Some i")
    case True
    then have "?iid \<in> running s"
      using \<open>i < length (su_children s) \<and> ch_State (su_children s ! i) = Alive\<close>
      by (simp add: running_def cmd_of_def processRunning_def exited_def)
    with calculation show ?thesis by auto
  next
    case False
    then have "map_of (su_cmds s) iid \<noteq> Some i" for iid
      using assms by (auto simp: sup_inv_def tracked_def)
    then have "cmd_of (child_ends i st s) iid = cmd_of s iid" for iid
      by (cases "map_of (su_cmds s) iid") (auto simp: cmd_of_def child_ends_def nth_list_update)
    then show ?thesis by (simp add: running_def)
  qed
  moreover have "wanted (child_ends i st s) = wanted s" by (rule wanted_cong) (simp add: child_ends_def)
  ultimately have "wanted (child_ends i st s) = wanted s"
    "running (child_ends i st s) = running s \<or> running (child_ends i st s) = running s - {?iid}" by auto
  then show ?thesis by (auto simp: fleet_view_of_def)
qed (auto simp: child_ends_def)

lemma stop_refines: "fleet_spec (OpStop iid) (fleet_view_of s) (fleet_view_of (fst (stopOne iid s)))"
  by (simp add: stopOne_def Let_def fleet_view_of_def view_simps split: option.split)

lemma edits_refine:
  "fleet_view_of (fst (addFleetInstance env inst s)) = fleet_view_of s"
  "fleet_view_of (fst (updateInstanceSettings env iid inp s)) = fleet_view_of s"
  "fleet_view_of (fst (commit_manifest env m s)) = fleet_view_of s"
proof -
  have commit: "fleet_view_of (fst (commit_manifest env m s)) = fleet_view_of s" for m
    by (rule view_cong) (simp_all add: commit_frame)
  then show "fleet_view_of (fst (commit_manifest env m s)) = fleet_view_of s" .
  show "fleet_view_of (fst (addFleetInstance env inst s)) = fleet_view_of s"
    by (simp add: addFleetInstance_def commit split: sum.split option.split)
  show "fleet_view_of (fst (updateInstanceSettings env iid inp s)) = fleet_view_of s"
    by (rule view_cong) (simp_all add: settings_frame)
qed

lemma remove_refines: "fleet_spec (OpRemove iid) (fleet_view_of s) (fleet_view_of (fst (removeFleetInstance env iid s)))"
proof -
  let ?s = "fst (stopOne iid s)"
  have stopped: "fleet_view_of ?s = \<lparr>fv_wanted = wanted s - {iid}, fv_running = running s - {iid}\<rparr>"
    using stop_refines [of iid s] by (simp add: fleet_view_of_def)
  have forget: "wanted (t\<lparr>su_restart := go_delete iid (su_restart t)\<rparr>) = wanted t - {iid}" for t
    by (auto simp: wanted_def restart_meta_def map_of_delete split: if_splits)
  have same: "running (t\<lparr>su_restart := r\<rparr>) = running t" for t r by (rule running_cong) simp_all
  have "fleet_view_of (fst (remove_commit env iid ?s)) = fleet_view_of ?s"
  proof (cases "load_manifest env ?s")
    case (Inr m)
    let ?t = "fst (commit_manifest env (m\<lparr>mf_Instances := filter (\<lambda>inst. fi_InstanceID inst \<noteq> iid) (mf_Instances m)\<rparr>) ?s)"
    have t: "wanted ?t = wanted s - {iid}" "running ?t = running s - {iid}"
      using edits_refine(3) [of env _ ?s] stopped by (simp_all add: fleet_view_of_def)
    have "fleet_view_of ((drop_cmd iid ?t)\<lparr>su_restart := go_delete iid (su_restart ?t)\<rparr>) = fleet_view_of ?s"
      using t stopped forget [of "drop_cmd iid ?t"] same [where t = "drop_cmd iid ?t"]
      by (simp add: fleet_view_of_def view_simps frame_simps)
    with Inr edits_refine(3) [of env _ ?s] show ?thesis
      by (simp add: remove_commit_def Let_def case_prod_beta split: sum.split)
  qed (simp add: remove_commit_def)
  then show ?thesis by (simp add: removeFleetInstance_def stopped) (simp add: fleet_view_of_def)
qed

lemma shutdown_wanted: "wanted (fold shutdown_one cmds s) \<subseteq> wanted s"
proof (induction cmds arbitrary: s)
  case (Cons cmd cmds)
  have "wanted (shutdown_one cmd s) \<subseteq> wanted s" by (auto simp: shutdown_one_def Let_def view_simps)
  with Cons.IH [of "shutdown_one cmd s"] show ?case by auto
qed simp

lemma shutdown_refines:
  assumes "sup_inv s"
  shows "fleet_spec OpShutdown (fleet_view_of s) (fleet_view_of (shutdown s))"
proof -
  have "wanted (shutdown s) \<subseteq> wanted s"
    using shutdown_wanted [of "su_cmds s" "cancel s"] wanted_cong [of "cancel s" s] by (simp add: shutdown_def cancel_def)
  moreover have "running (shutdown s) = {}"
    using shutdown_facts(3) [OF assms] by (simp add: running_def cmd_of_def processRunning_def)
  ultimately show ?thesis by (simp add: fleet_view_of_def)
qed

lemma run_op_refines:
  assumes "sup_inv s"
  shows "fleet_spec op (fleet_view_of s) (fleet_view_of (run_op env op s))"
proof (cases op)
  case (OpStart iid) then show ?thesis using start_refines [OF assms] by simp
next
  case (OpStop iid) then show ?thesis using stop_refines by simp
next
  case (OpMonitor iid) then show ?thesis using monitor_refines [OF assms] by simp
next
  case (OpEnds i st) then show ?thesis using ends_refines [OF assms] by simp
next
  case (OpRemove iid) then show ?thesis using remove_refines by simp
next
  case OpShutdown then show ?thesis using shutdown_refines [OF assms] by simp
qed (simp_all add: edits_refine)

interpretation contract: fleet_contract "run_op env" sup_inv fleet_view_of for env
  by unfold_locales (simp_all add: run_op_inv run_op_refines)

section \<open>Properties\<close>

lemma alive_running:
  assumes "sup_inv s" "c \<in> set (su_children s)" "alive c"
  shows "ch_Instance c \<in> running s"
proof -
  from assms(2) obtain i where i: "i < length (su_children s)" "su_children s ! i = c" by (auto simp: in_set_conv_nth)
  with assms(1,3) have "map_of (su_cmds s) (ch_Instance c) = Some i" by (auto simp: sup_inv_def tracked_def)
  with i(2) assms(3) show ?thesis
    by (auto simp: running_def cmd_of_def processRunning_def dest: alive_exited)
qed

text \<open>
  C6: in every reachable state, every operation of the supervisor does to the sets of wanted and
  running instances what the promise allows: a start adds the instance to both or changes
  nothing, a stop or a removal takes it out of both, a monitor round changes something only for a
  wanted instance that is not running, which it starts again or gives up, edits of the fleet and of
  settings change neither, and a shutdown leaves nothing running.
\<close>

theorem supervisor_refines:
  assumes "(sup_step env)\<^sup>*\<^sup>* (newSupervisorServer mp gd gens file) s"
  shows "fleet_spec op (fleet_view_of s) (fleet_view_of (run_op env op s))"
proof -
  have "sup_inv s" by (rule supervisor.reachable_inv [OF _ assms]) blast
  then show ?thesis by (rule contract.refines)
qed

theorem supervisor_refines_witness:
  "fleet_view_of (run_op sample_env (OpStop ''vegm-001'') sample_supervisor) =
     \<lparr>fv_wanted = fv_wanted (fleet_view_of sample_supervisor) - {''vegm-001''},
      fv_running = fv_running (fleet_view_of sample_supervisor) - {''vegm-001''}\<rparr>"
  using supervisor_refines [OF sample_reachable, of "OpStop ''vegm-001''"] by simp

text \<open>
  C7: an instance that was stopped stays stopped. Whatever happens afterwards, in whatever order,
  as long as nobody starts that instance again it is not running and none of its processes is
  alive: no monitor left over from an earlier start brings it back.
\<close>

theorem stopped_stays_stopped:
  assumes "(sup_step env)\<^sup>*\<^sup>* (newSupervisorServer mp gd gens file) s" "OpStart iid \<notin> set ops"
    and "s' = fold (run_op env) ops (fst (stopOne iid s))"
  shows "\<not> processRunning (cmd_of s' iid) \<and> (\<forall>c \<in> set (su_children s'). ch_Instance c = iid \<longrightarrow> \<not> alive c)"
proof -
  have inv: "sup_inv s" by (rule supervisor.reachable_inv [OF _ assms(1)]) blast
  then have inv0: "sup_inv (fst (stopOne iid s))" by (rule stopOne_inv)
  have "contract.off iid (fst (stopOne iid s))" using contract.stop_off(1) [OF inv, where env = env] by simp
  from contract.off_steps [OF inv0 this assms(2), of env] have "iid \<notin> running s'"
    by (simp add: assms(3) contract.off_def fleet_view_of_def)
  moreover have "sup_inv s'" unfolding assms(3) by (rule contract.keeps_inv_fold [OF inv0])
  ultimately show ?thesis using alive_running by (auto simp: running_def)
qed

theorem stopped_stays_stopped_witness:
  "\<not> processRunning (cmd_of (fold (run_op sample_env) [OpMonitor ''vegm-001'', OpStart ''vegm-002'', OpMonitor ''vegm-001'']
     (fst (stopOne ''vegm-001'' sample_supervisor))) ''vegm-001'')"
  using stopped_stays_stopped [OF sample_reachable _ refl, of "''vegm-001''"
    "[OpMonitor ''vegm-001'', OpStart ''vegm-002'', OpMonitor ''vegm-001'']"] by simp

end
