(* ===== verification/Supervisor_Races.thy ===== *)
theory Supervisor_Races
  imports Supervisor_Contract
begin

text \<open>
  The supervisor at the grain of its mutex. A removal takes the mutex twice, once to stop the
  instance and once to commit the smaller fleet, and a shutdown cancels the context of the children
  before it takes the mutex; other requests and monitors run in between. The relation below lets
  them, and keeps the removals that are under way. It leaves out one thing: a start of an instance
  whose removal is under way, which the code does not prevent and which loses a process.
\<close>

section \<open>Steps between two locks\<close>

inductive fine_step ::
    "sup_env \<Rightarrow> supervisorServer \<times> string list \<Rightarrow> supervisorServer \<times> string list \<Rightarrow> bool" for env where
  whole: "\<forall>iid. op \<noteq> OpRemove iid \<Longrightarrow> \<forall>iid \<in> set P. op \<noteq> OpStart iid \<Longrightarrow> fine_step env (s, P) (run_op env op s, P)"
| begins: "fine_step env (s, P) (fst (stopOne iid s), iid # P)"
| commits: "iid \<in> set P \<Longrightarrow> fine_step env (s, P) (fst (remove_commit env iid s), remove1 iid P)"
| cancels: "fine_step env (s, P) (cancel s, P)"

inductive_cases fine_stepE: "fine_step env c c'"

text \<open>An instance between the two halves of its removal is neither held nor wanted.\<close>

definition held :: "supervisorServer \<Rightarrow> string set" where
  "held s = dom (map_of (su_cmds s))"

definition gone :: "string \<Rightarrow> supervisorServer \<Rightarrow> bool" where
  "gone iid s \<longleftrightarrow> iid \<notin> held s \<and> iid \<notin> wanted s"

definition fine_inv :: "supervisorServer \<times> string list \<Rightarrow> bool" where
  "fine_inv c \<longleftrightarrow> sup_inv (fst c) \<and> (\<forall>iid \<in> set (snd c). gone iid (fst c))"

lemma held_cong: "su_cmds s' = su_cmds s \<Longrightarrow> held s' = held s"
  by (simp add: held_def)

lemma gone_cong: "su_cmds s' = su_cmds s \<Longrightarrow> su_restart s' = su_restart s \<Longrightarrow> gone iid s' = gone iid s"
  using wanted_cong [of s' s] held_cong [of s' s] by (simp add: gone_def)

lemma held_simps [view_simps]:
  "held (set_meta iid meta s) = held s" "held (markDesired iid b s) = held s" "held (kill i s) = held s"
  "held (s\<lparr>su_monitors := ms\<rparr>) = held s" "held (s\<lparr>su_restart := r\<rparr>) = held s"
  "held (drop_cmd iid s) = held s - {iid}" "held (spawn iid argv s) = insert iid (held s)"
  by (auto simp: held_def set_meta_def markDesired_def kill_def Let_def drop_cmd_def spawn_def map_of_delete update_conv'
      split: if_splits)

lemma start_gone: "gone iid s \<Longrightarrow> iid \<noteq> jid \<Longrightarrow> gone iid (fst (startOne env jid s))"
  by (simp add: startOne_def Let_def gone_def view_simps split: option.split sum.split)

lemma stop_gone: "gone iid (fst (stopOne iid s))" "gone iid s \<Longrightarrow> gone iid (fst (stopOne jid s))"
  by (simp_all add: stopOne_def Let_def gone_def view_simps split: option.split)

lemma monitor_gone:
  assumes "gone iid s"
  shows "gone iid (run_monitor env jid s)"
proof (cases "rm_Desired (restart_meta s jid)")
  case True
  with assms have "iid \<noteq> jid" by (auto simp: gone_def wanted_def)
  with assms show ?thesis
    by (simp add: run_monitor_def monitor_iteration_def restart_child_def Let_def gone_def view_simps case_prod_beta
        split: option.split sum.split)
qed (use assms in \<open>simp add: run_monitor_def monitor_iteration_def Let_def gone_def view_simps\<close>)

lemma cancel_gone: "gone iid (cancel s) = gone iid s"
  by (rule gone_cong) (simp_all add: cancel_def)

lemma shutdown_gone:
  assumes "gone iid s"
  shows "gone iid (shutdown s)"
proof -
  have "gone iid (fold shutdown_one cmds t)" if "gone iid t" for cmds t
    using that by (induction cmds arbitrary: t) (simp_all add: shutdown_one_def Let_def gone_def view_simps)
  with assms show ?thesis by (simp add: shutdown_def cancel_gone)
qed

lemma edits_gone:
  "gone iid (fst (addFleetInstance env inst s)) = gone iid s"
  "gone iid (fst (updateInstanceSettings env jid inp s)) = gone iid s"
  "gone iid (fst (commit_manifest env m s)) = gone iid s"
proof -
  have commit: "gone iid (fst (commit_manifest env m s)) = gone iid s" for m
    by (rule gone_cong) (simp_all add: commit_frame)
  then show "gone iid (fst (commit_manifest env m s)) = gone iid s" .
  show "gone iid (fst (addFleetInstance env inst s)) = gone iid s"
    by (simp add: addFleetInstance_def commit split: sum.split option.split)
  show "gone iid (fst (updateInstanceSettings env jid inp s)) = gone iid s"
    by (rule gone_cong) (simp_all add: settings_frame)
qed

lemma wanted_forget: "wanted ((drop_cmd iid s)\<lparr>su_restart := go_delete iid (su_restart s)\<rparr>) = wanted s - {iid}"
  by (auto simp: wanted_def restart_meta_def map_of_delete split: if_splits)

lemma remove_gone:
  assumes "gone iid s"
  shows "gone iid (fst (remove_commit env jid s))"
proof (cases "load_manifest env s")
  case (Inr m)
  have "gone iid (fst (commit_manifest env m' s))" for m' using assms by (simp add: edits_gone)
  then have "gone iid ((drop_cmd jid t)\<lparr>su_restart := go_delete jid (su_restart t)\<rparr>)"
    if "t = fst (commit_manifest env m' s)" for t m'
    using that by (simp add: gone_def view_simps wanted_forget)
  with assms Inr edits_gone(3) [of iid env _ s] show ?thesis
    by (simp add: remove_commit_def Let_def case_prod_beta split: sum.split)
qed (simp add: remove_commit_def assms)

lemma ends_gone: "gone iid (child_ends i st s) = gone iid s"
  by (rule gone_cong) (simp_all add: child_ends_def)

lemmas gone_steps = start_gone stop_gone monitor_gone edits_gone shutdown_gone ends_gone cancel_gone remove_gone

lemma whole_gone:
  assumes "gone iid s" "op \<noteq> OpStart iid" "\<forall>jid. op \<noteq> OpRemove jid"
  shows "gone iid (run_op env op s)"
  using assms by (cases op) (simp_all add: gone_steps)

section \<open>The invariant at this grain\<close>

lemma fine_step_inv: "fine_step env c c' \<Longrightarrow> fine_inv c \<Longrightarrow> fine_inv c'"
proof (induction rule: fine_step.induct)
  case (whole op P s)
  then show ?case by (auto simp: fine_inv_def run_op_inv intro: whole_gone)
next
  case (begins s P iid)
  then show ?case by (simp add: fine_inv_def stopOne_inv gone_steps)
next
  case (commits iid P s)
  then have "map_of (su_cmds s) iid = None" by (auto simp: fine_inv_def gone_def held_def)
  with commits show ?case
    by (auto simp: fine_inv_def gone_steps intro: remove_commit_inv dest: set_remove1_subset [THEN subsetD])
next
  case (cancels s P)
  then show ?case by (simp add: fine_inv_def cancel_inv gone_steps)
qed

interpretation fine: step_system "\<lambda>c. \<exists>mp gd gens file. c = (newSupervisorServer mp gd gens file, [])" "fine_step env" fine_inv
  for env
proof unfold_locales
  fix c :: "supervisorServer \<times> string list"
  assume "\<exists>mp gd gens file. c = (newSupervisorServer mp gd gens file, [])"
  then show "fine_inv c" by (auto simp: fine_inv_def new_supervisor_inv)
qed (rule fine_step_inv)

text \<open>The steps that take a removal as a whole are runs of the finer ones.\<close>

lemma run_op_fine: "(fine_step env)\<^sup>*\<^sup>* (s, []) (run_op env op s, [])"
proof (cases "\<exists>iid. op = OpRemove iid")
  case True
  then obtain iid where op: "op = OpRemove iid" by blast
  have "fine_step env (s, []) (fst (stopOne iid s), [iid])" by (rule begins)
  moreover have "fine_step env (fst (stopOne iid s), [iid]) (run_op env op s, [])"
    using commits [of iid "[iid]" env "fst (stopOne iid s)"] by (simp add: op removeFleetInstance_def)
  ultimately show ?thesis by (rule converse_rtranclp_into_rtranclp [OF _ r_into_rtranclp])
next
  case False
  then show ?thesis by (intro r_into_rtranclp whole) auto
qed

lemma sup_steps_fine: "(sup_step env)\<^sup>*\<^sup>* s s' \<Longrightarrow> (fine_step env)\<^sup>*\<^sup>* (s, []) (s', [])"
proof (induction rule: rtranclp_induct)
  case (step t u)
  from sup_step_run_op [OF step.hyps(2)] obtain op where "u = run_op env op t" by blast
  with step.IH run_op_fine [of env t op] show ?case by auto
qed simp

lemma children_held:
  assumes "sup_inv s"
  shows "\<forall>i < length (su_children s). alive (su_children s ! i) \<longrightarrow>
      map_of (su_cmds s) (ch_Instance (su_children s ! i)) = Some i"
    and "\<forall>i < length (su_children s). \<forall>j < length (su_children s).
      alive (su_children s ! i) \<and> alive (su_children s ! j) \<and>
      ch_Instance (su_children s ! i) = ch_Instance (su_children s ! j) \<longrightarrow> i = j"
proof -
  show held: "\<forall>i < length (su_children s). alive (su_children s ! i) \<longrightarrow>
      map_of (su_cmds s) (ch_Instance (su_children s ! i)) = Some i"
    using assms by (simp add: sup_inv_def tracked_def)
  then show "\<forall>i < length (su_children s). \<forall>j < length (su_children s).
      alive (su_children s ! i) \<and> alive (su_children s ! j) \<and>
      ch_Instance (su_children s ! i) = ch_Instance (su_children s ! j) \<longrightarrow> i = j"
    by (metis option.inject)
qed

lemma gone_dead:
  assumes "sup_inv s" "gone iid s"
  shows "cmd_of s iid = None \<and> (\<forall>c \<in> set (su_children s). ch_Instance c = iid \<longrightarrow> \<not> alive c)"
proof -
  have cmd: "cmd_of s iid = None" using assms(2) by (auto simp: gone_def held_def cmd_of_def)
  then have "iid \<notin> running s" by (simp add: running_def processRunning_def)
  with cmd alive_running [OF assms(1)] show ?thesis by blast
qed

section \<open>Properties\<close>



end
