(* ===== verification/Spec2Isabelle.thy ===== *)
theory Spec2Isabelle
  imports Vegm_Main Runtime_Contract Host_Slices Supervisor_Main Supervisor_Races
begin

text \<open>
  A verification of VEGM, a virtual electronic gaming machine that speaks G2S over SOAP to a host
  system, and of the supervisor that runs a fleet of them. This theory joins the theories of the
  development; the properties stand in the theory of the component they are about.

  \<^bold>\<open>The program.\<close> One \<^verbatim>\<open>vegm\<close> process (\<^verbatim>\<open>src/cmd/vegm\<close>) is one machine. It loads a configuration
  (\<^verbatim>\<open>src/runtime/config.go\<close>) and a message pack with overlays (\<^verbatim>\<open>src/pack\<close>), and runs a server
  (\<^verbatim>\<open>src/runtime/server.go\<close>) with two listeners: the wire endpoint, where the host sends G2S messages,
  and the control API, where an operator looks at and changes the machine. The server owns the runtime
  state under one mutex. Three other activities change that state: requests the machine itself sends
  (\<^verbatim>\<open>outbound.go\<close>), the scheduler that sends them on a ticker (\<^verbatim>\<open>scheduler.go\<close>), and the session engine,
  which opens a session with the host and keeps it alive (\<^verbatim>\<open>session_*.go\<close>). Everything is recorded in an
  event log (\<^verbatim>\<open>logger.go\<close>) with an index (\<^verbatim>\<open>src/storage\<close>). A fleet manifest (\<^verbatim>\<open>src/fleet\<close>) describes many
  machines; the supervisor (\<^verbatim>\<open>src/cmd/vegm-supervisor\<close>) generates one configuration per machine, starts and
  restarts their processes, and edits the fleet while it runs.

  \<^bold>\<open>Theories.\<close> In the order in which they build on each other:
    \<^item> \<open>Go_Prelude\<close>: what the sources use of Go: strings, integers with wrap-around, maps as association
      lists, errors as sums, and the locales \<open>validator\<close> and \<open>step_system\<close>.
    \<^item> \<open>Pack\<close> (\<^verbatim>\<open>src/pack\<close>): types, validators, overlays. Validators accept exactly the well-formed
      values; applying an overlay is exactly described.
    \<^item> \<open>Config\<close> (\<^verbatim>\<open>config.go\<close>, \<^verbatim>\<open>xml_mode_registry.go\<close>): defaults and checks; what is accepted is complete and
      consistent.
    \<^item> \<open>Soap\<close> (\<^verbatim>\<open>soap_parser.go\<close>, \<^verbatim>\<open>xmlutil.go\<close>, \<^verbatim>\<open>ack_resolver.go\<close>) and \<open>Render\<close> (\<^verbatim>\<open>render.go\<close>,
      \<^verbatim>\<open>g2s_xsd_renderer.go\<close>): reading and writing messages; soundness of the parser, a round trip, and
      rendering as simultaneous substitution.
    \<^item> \<open>Event_Log\<close> (\<^verbatim>\<open>logger.go\<close>) and \<open>Storage\<close> (\<^verbatim>\<open>src/storage\<close>): logging, queries, payload files, export
      bundles, the index and its SQL.
    \<^item> \<open>Server\<close> (\<^verbatim>\<open>server.go\<close>, \<^verbatim>\<open>session_timestamps.go\<close>, \<^verbatim>\<open>session_parse_evidence.go\<close>): the server record, its
      construction, listeners, state updates and the invariant \<open>server_inv\<close>.
    \<^item> \<open>Wire\<close> (\<^verbatim>\<open>wire_restore.go\<close>, \<^verbatim>\<open>binding.go\<close>), \<open>Outbound\<close> (\<^verbatim>\<open>outbound.go\<close>), \<open>Scheduler\<close> (\<^verbatim>\<open>scheduler.go\<close>),
      \<open>Control\<close> (\<^verbatim>\<open>control_restore.go\<close>, \<^verbatim>\<open>control_ui.go\<close>, \<^verbatim>\<open>cert_status.go\<close>), \<open>Session_Engine\<close>
      (\<^verbatim>\<open>session_engine.go\<close>, \<^verbatim>\<open>session_keepalive.go\<close>, \<^verbatim>\<open>session_startup_exchange.go\<close>), \<open>Evidence\<close>
      (\<^verbatim>\<open>evidence_latest.go\<close>): one definition per handler or step, with exact descriptions of what each
      does on every branch.
    \<^item> \<open>Host_Slices\<close> (\<^verbatim>\<open>control_restore.go\<close>): the admission list as the slice it is, with its shared array;
      the in-place updates compute what \<open>Control\<close> keeps as a value, and change copies made before.
    \<^item> \<open>Runtime\<close>: all of these as one step relation in which requests, ticks and session phases interleave;
      what holds in every reachable state.
    \<^item> \<open>Runtime_Contract\<close>: an abstract promise about identity, admission, trust mode and scheduler, that every
      operation of an instance refines it, what follows from it, and the types of the state.
    \<^item> \<open>Http_Mux\<close> and \<open>Control_Api\<close> (\<^verbatim>\<open>startControl\<close> of \<^verbatim>\<open>server.go\<close>, \<^verbatim>\<open>control_ui.go\<close>): routing by
      \<^verbatim>\<open>http.ServeMux\<close>, and the control listener as a whole; every request is at most one step.
    \<^item> \<open>Vegm_Main\<close> (\<^verbatim>\<open>server.go\<close>, \<^verbatim>\<open>cmd/vegm/main.go\<close>): start, shutdown and the command.
    \<^item> \<open>Fleet\<close> and \<open>Fleet_Resolve\<close> (\<^verbatim>\<open>src/fleet\<close>): manifests, their validation, the resolution of instances
      through layers of settings, and the generated configurations, which \<open>Config\<close> accepts.
    \<^item> \<open>Supervisor_Process\<close> (\<^verbatim>\<open>restart_policy.go\<close>, \<^verbatim>\<open>launch.go\<close>, \<^verbatim>\<open>scale_launcher.go\<close>, \<^verbatim>\<open>server.go\<close>): processes,
      monitors and the restart budget.
    \<^item> \<open>Supervisor\<close> (\<^verbatim>\<open>server.go\<close>, \<^verbatim>\<open>settings.go\<close>, \<^verbatim>\<open>fleet_edit.go\<close>, \<^verbatim>\<open>instance_actions.go\<close>, \<^verbatim>\<open>export.go\<close>): the
      API and its step relation, with the process invariant every step keeps.
    \<^item> \<open>Supervisor_Contract\<close>: an abstract promise about wanted and running instances, and that the
      supervisor refines it.
    \<^item> \<open>Supervisor_Races\<close>: the steps of the supervisor at the grain of its mutex, of which \<open>sup_step\<close> is a
      coarser view, and what holds of processes in every state reachable by them.
    \<^item> \<open>Fleet_Edit\<close>: round trips of edits and settings, and where edits lose something.
    \<^item> \<open>Supervisor_Api\<close> (\<^verbatim>\<open>routes\<close> of \<^verbatim>\<open>server.go\<close>): the supervisor's HTTP server as a whole; every request is a
      run of \<open>sup_step\<close>.
    \<^item> \<open>Supervisor_Main\<close> (\<^verbatim>\<open>main.go\<close>, \<^verbatim>\<open>server.go\<close>): the supervisor command.

  \<^bold>\<open>State.\<close> A Go struct is a record with the same fields under a short prefix, a map an association list
  whose order stands for the iteration order, a nil pointer an option. An operation takes the state and
  returns it changed, with its result; an error is the left of a sum, with the text the code gives it;
  a panic of the HTTP multiplexer is a value of its own. Integers that the code computes with are
  wrapped to 64 bits.

  \<^bold>\<open>The outside.\<close> What is not in the repository is an argument: JSON and XML decoders, \<^verbatim>\<open>url.Parse\<close>, files
  and certificates (records \<open>world\<close> and \<open>sup_env\<close>), the network, the SQL driver, the operating system's
  processes, and the clock, a sequence of readings. Decoders give the struct they leave and an error,
  as the code goes on with a partly decoded body in places. Hypotheses about an argument are in the
  theorem that needs them, and its witness instantiates the argument.

  \<^bold>\<open>Concurrency.\<close> A step of \<open>server_step\<close> or \<open>sup_step\<close> is what the code does under one hold of the mutex,
  or changes fields no other step writes. A scheduler tick is two steps, before and after the network; a
  supervisor monitor is a list entry whose rounds are steps. A removal from the fleet is one step of
  \<open>sup_step\<close> although the code releases the mutex between its stop and its commit; \<open>fine_step\<close> of
  \<open>Supervisor_Races\<close> has the two halves, and the cancellation before a shutdown, as steps of their own and
  lets everything but a start of the same instance come between. The effect of such a start is stated in
  \<open>Fleet_Edit\<close>.

  \<^bold>\<open>Termination.\<close> All definitions are total. The session engine's endless loop is a step function over
  phases and a fold over the inputs of its rounds; waiting for a fleet consumes one observation per round
  and gives \<open>None\<close> when they run out, and it is shown that it returns once its timeout and one round per
  instance have passed. No fuel is used.

  \<^bold>\<open>Not modelled.\<close> The embedded files of the web UI (\<^verbatim>\<open>src/webui\<close>) and the file server that hands them out:
  they are parameters of the handlers that use them. Flag parsing and the line the \<^verbatim>\<open>vegm\<close> command
  prints. Bytes of JSON replies: a handler returns the value it encodes. HTTP header fields other than
  those the code decides on, and timeouts of HTTP clients, which are part of the network argument.
  \<^verbatim>\<open>http.ServeMux\<close> is modelled for plain patterns and request paths without percent escapes. Replies are
  encoded from the state under the mutex; that the code encodes a copy of it later matters only for
  the shared array of the admission list, which is the subject of \<open>Host_Slices\<close>.
\<close>

end
